(* ===== verification/Prelude.thy ===== *)
theory Prelude
  imports Main "HOL-Library.Word"
begin

text \<open>
  The vocabulary the component theories share.

  \<^item> Machine types: \<open>byte\<close>, \<open>bytes\<close> (a Go \<^verbatim>\<open>[]byte\<close>), \<open>uint32\<close>, \<open>uint64\<close>.
  \<^item> \<open>result\<close>: how a Go call ends. It returns a value (\<open>Ok\<close>), it returns a non-nil error
    (\<open>Err\<close>), it panics (\<open>Panic\<close>, for instance a nil dereference or an index out of range; the
    HTTP server recovers the panic, the state it leaves behind stays), or it never returns
    (\<open>Blocked\<close>: it waits for a lock nobody will release or a receiver that is gone).
  \<^item> State passing: an action maps a state to a result and the next state. \<open>andThen\<close> is
    sequencing with early return on error, \<open>mapErr\<close> is wrapping an error on the way out, and
    \<open>onErr\<close> is handling it.
  \<^item> Byte strings, hexadecimal text (\<^verbatim>\<open>encoding/hex\<close>), ASCII case mapping and trimming
    (\<^verbatim>\<open>strings.ToLower\<close>, \<^verbatim>\<open>ToUpper\<close>, \<^verbatim>\<open>TrimSpace\<close>), decimal parsing (\<^verbatim>\<open>strconv.ParseUint\<close>).
    Strings are ASCII throughout the development.
\<close>

named_theorems act_simps \<open>unfolding of the state-passing combinators\<close>
named_theorems mode_simps \<open>constants of the enumerations the code switches on\<close>

section \<open>Machine types\<close>

type_synonym byte = "8 word"
type_synonym bytes = "byte list"
type_synonym uint32 = "32 word"
type_synonym uint64 = "64 word"

section \<open>How a call ends, and sequencing\<close>

datatype ('e, 'a) result = Ok 'a | Err 'e | Panic | Blocked

type_synonym ('s, 'e, 'a) act = "'s \<Rightarrow> ('e, 'a) result \<times> 's"

definition ret :: "'a \<Rightarrow> ('s, 'e, 'a) act" where
  "ret a s = (Ok a, s)"

definition throw :: "'e \<Rightarrow> ('s, 'e, 'a) act" where
  "throw e s = (Err e, s)"

definition panic :: "('s, 'e, 'a) act" where
  "panic s = (Panic, s)"

definition block :: "('s, 'e, 'a) act" where
  "block s = (Blocked, s)"

definition modify :: "('s \<Rightarrow> 's) \<Rightarrow> ('s, 'e, unit) act" where
  "modify f s = (Ok (), f s)"

definition andThen :: "('s, 'e, 'a) act \<Rightarrow> ('a \<Rightarrow> ('s, 'e, 'b) act) \<Rightarrow> ('s, 'e, 'b) act" where
  "andThen m f s =
     (case m s of
        (Ok a, s') \<Rightarrow> f a s'
      | (Err e, s') \<Rightarrow> (Err e, s')
      | (Panic, s') \<Rightarrow> (Panic, s')
      | (Blocked, s') \<Rightarrow> (Blocked, s'))"

definition onErr :: "('s, 'e, 'a) act \<Rightarrow> ('e \<Rightarrow> ('s, 'e, 'a) act) \<Rightarrow> ('s, 'e, 'a) act" where
  "onErr m h s =
     (case m s of
        (Ok a, s') \<Rightarrow> (Ok a, s')
      | (Err e, s') \<Rightarrow> h e s'
      | (Panic, s') \<Rightarrow> (Panic, s')
      | (Blocked, s') \<Rightarrow> (Blocked, s'))"

text \<open>Running an action to look at its error, as \<^verbatim>\<open>x, err := f()\<close> does.\<close>

definition attempt :: "('s, 'e, 'a) act \<Rightarrow> ('s, 'e, 'e + 'a) act" where
  "attempt m s =
     (case m s of
        (Ok a, s') \<Rightarrow> (Ok (Inr a), s')
      | (Err e, s') \<Rightarrow> (Ok (Inl e), s')
      | (Panic, s') \<Rightarrow> (Panic, s')
      | (Blocked, s') \<Rightarrow> (Blocked, s'))"

definition mapErr :: "('e \<Rightarrow> 'e) \<Rightarrow> ('s, 'e, 'a) act \<Rightarrow> ('s, 'e, 'a) act" where
  "mapErr g m s =
     (case m s of
        (Ok a, s') \<Rightarrow> (Ok a, s')
      | (Err e, s') \<Rightarrow> (Err (g e), s')
      | (Panic, s') \<Rightarrow> (Panic, s')
      | (Blocked, s') \<Rightarrow> (Blocked, s'))"

text \<open>A list of actions run from left to right, with the list of their values.\<close>

fun sequence :: "('s, 'e, 'a) act list \<Rightarrow> ('s, 'e, 'a list) act" where
  "sequence [] = ret []"
| "sequence (m # ms) = andThen m (\<lambda>a. andThen (sequence ms) (\<lambda>as. ret (a # as)))"

text \<open>Sequencing of pure steps, for code that changes no state.\<close>

fun bindR :: "('e, 'a) result \<Rightarrow> ('a \<Rightarrow> ('e, 'b) result) \<Rightarrow> ('e, 'b) result" where
  "bindR (Ok a) f = f a"
| "bindR (Err e) f = Err e"
| "bindR Panic f = Panic"
| "bindR Blocked f = Blocked"

fun mapErrR :: "('e \<Rightarrow> 'e) \<Rightarrow> ('e, 'a) result \<Rightarrow> ('e, 'a) result" where
  "mapErrR g (Ok a) = Ok a"
| "mapErrR g (Err e) = Err (g e)"
| "mapErrR g Panic = Panic"
| "mapErrR g Blocked = Blocked"

definition liftR :: "('e, 'a) result \<Rightarrow> ('s, 'e, 'a) act" where
  "liftR r s = (r, s)"

text \<open>A call of a function that either returns a value or an error.\<close>

fun fromSum :: "'e + 'a \<Rightarrow> ('e, 'a) result" where
  "fromSum (Inl e) = Err e"
| "fromSum (Inr a) = Ok a"

lemmas act_defs [act_simps] =
  ret_def throw_def panic_def block_def modify_def liftR_def andThen_def onErr_def mapErr_def attempt_def

lemma fromSum_iff [simp]:
  "fromSum r = Ok a \<longleftrightarrow> r = Inr a" "fromSum r = Err e \<longleftrightarrow> r = Inl e"
  "fromSum r \<noteq> Panic" "fromSum r \<noteq> Blocked" "Panic \<noteq> fromSum r" "Blocked \<noteq> fromSum r"
  by (cases r; auto)+

lemma andThen_Ok [simp]: "m s = (Ok a, s') \<Longrightarrow> andThen m f s = f a s'"
  by (simp add: andThen_def)

lemma andThen_Err [simp]: "m s = (Err e, s') \<Longrightarrow> andThen m f s = (Err e, s')"
  by (simp add: andThen_def)

lemma andThen_Panic [simp]: "m s = (Panic, s') \<Longrightarrow> andThen m f s = (Panic, s')"
  by (simp add: andThen_def)

lemma andThen_eq_Ok:
  "andThen m f s = (Ok b, s'') \<longleftrightarrow> (\<exists>a s'. m s = (Ok a, s') \<and> f a s' = (Ok b, s''))"
  by (auto simp: andThen_def split: prod.splits result.splits)

lemma mapErr_eq_Ok: "mapErr g m s = (Ok a, s') \<longleftrightarrow> m s = (Ok a, s')"
  by (auto simp: mapErr_def split: prod.splits result.splits)

lemma attempt_eq_Ok:
  "attempt m s = (Ok r, s') \<longleftrightarrow>
     (\<exists>a. m s = (Ok a, s') \<and> r = Inr a) \<or> (\<exists>e. m s = (Err e, s') \<and> r = Inl e)"
  by (auto simp: attempt_def split: prod.splits result.splits)

lemma attempt_not_Err [simp]: "attempt m s \<noteq> (Err e, s')"
  by (auto simp: attempt_def split: prod.splits result.splits)

lemma liftR_eq: "liftR r s = (r', s') \<longleftrightarrow> r = r' \<and> s' = s"
  by (auto simp: liftR_def)

lemma ret_eq_Ok: "ret a s = (Ok b, s') \<longleftrightarrow> a = b \<and> s' = s"
  by (auto simp: ret_def)

lemma never_Ok [simp]:
  "throw e s \<noteq> (Ok b, s')" "panic s \<noteq> (Ok b, s')" "block s \<noteq> (Ok b, s')"
  by (simp_all add: act_simps)

lemmas run_Ok = andThen_eq_Ok mapErr_eq_Ok attempt_eq_Ok liftR_eq ret_eq_Ok

lemma bindR_eq_Ok: "bindR r f = Ok b \<longleftrightarrow> (\<exists>a. r = Ok a \<and> f a = Ok b)"
  by (cases r) auto

lemma bindR_eq_Err: "bindR r f = Err e \<longleftrightarrow> r = Err e \<or> (\<exists>a. r = Ok a \<and> f a = Err e)"
  by (cases r) auto

lemma bindR_eq_Panic: "bindR r f = Panic \<longleftrightarrow> r = Panic \<or> (\<exists>a. r = Ok a \<and> f a = Panic)"
  by (cases r) auto

lemma mapErrR_eq_Ok [simp]: "mapErrR g r = Ok a \<longleftrightarrow> r = Ok a"
  by (cases r) auto

lemma mapErrR_eq_Panic [simp]: "mapErrR g r = Panic \<longleftrightarrow> r = Panic"
  by (cases r) auto

lemma mapErrR_eq_Err: "mapErrR g r = Err e \<longleftrightarrow> (\<exists>e'. r = Err e' \<and> e = g e')"
  by (cases r) auto

section \<open>Hexadecimal text\<close>

text \<open>
  \<^verbatim>\<open>hex.EncodeToString\<close> writes two lower-case digits per byte; \<^verbatim>\<open>hex.DecodeString\<close> accepts both
  cases and fails on a character that is no hexadecimal digit and on an odd length.
\<close>

definition hexdigit :: "nat \<Rightarrow> char" where
  "hexdigit n = (''0123456789abcdef'' ! n)"

definition unhex :: "char \<Rightarrow> nat option" where
  "unhex c =
     (let n = of_char c :: nat in
      if 48 \<le> n \<and> n \<le> 57 then Some (n - 48)
      else if 97 \<le> n \<and> n \<le> 102 then Some (n - 87)
      else if 65 \<le> n \<and> n \<le> 70 then Some (n - 55)
      else None)"

definition byte_hex :: "byte \<Rightarrow> string" where
  "byte_hex b = [hexdigit (unat b div 16), hexdigit (unat b mod 16)]"

definition hex_EncodeToString :: "bytes \<Rightarrow> string" where
  "hex_EncodeToString bs = concat (map byte_hex bs)"

fun hex_DecodeString :: "string \<Rightarrow> bytes option" where
  "hex_DecodeString [] = Some []"
| "hex_DecodeString [c] = None"
| "hex_DecodeString (c # d # cs) =
     (case (unhex c, unhex d, hex_DecodeString cs) of
        (Some h, Some l, Some bs) \<Rightarrow> Some (word_of_nat (16 * h + l) # bs)
      | _ \<Rightarrow> None)"

lemma hexdigit_cases: "n < 16 \<Longrightarrow> n \<in> {0,1,2,3,4,5,6,7,8,9,10,11,12,13,14,15::nat}"
  by (simp, presburger)

lemma unhex_hexdigit [simp]: "n < 16 \<Longrightarrow> unhex (hexdigit n) = Some n"
  by (drule hexdigit_cases) (auto simp: hexdigit_def unhex_def)

lemma unat_byte_bound: "unat (b :: byte) < 256"
  using unsigned_less [of b, where 'a = nat] by simp

lemma byte_split: "word_of_nat (16 * (unat b div 16) + unat b mod 16) = (b :: byte)"
  by simp

lemma hex_roundtrip [simp]: "hex_DecodeString (hex_EncodeToString bs) = Some bs"
proof (induction bs)
  case Nil
  then show ?case by (simp add: hex_EncodeToString_def)
next
  case (Cons b bs)
  have "unat b div 16 < 16" using unat_byte_bound [of b] by simp
  then show ?case
    using Cons by (simp add: hex_EncodeToString_def byte_hex_def byte_split)
qed

lemma length_hex_EncodeToString [simp]: "length (hex_EncodeToString bs) = 2 * length bs"
  by (induction bs) (auto simp: hex_EncodeToString_def byte_hex_def)

lemma hex_EncodeToString_Cons:
  "hex_EncodeToString (b # bs) = byte_hex b @ hex_EncodeToString bs"
  by (simp add: hex_EncodeToString_def)

lemma hex_DecodeString_length: "hex_DecodeString s = Some bs \<Longrightarrow> length s = 2 * length bs"
  by (induction s arbitrary: bs rule: hex_DecodeString.induct) (auto split: option.splits)

lemma hex_inj: "hex_EncodeToString a = hex_EncodeToString b \<longleftrightarrow> a = b"
  by (metis hex_roundtrip option.inject)

section \<open>Text\<close>

text \<open>
  ASCII case mapping and trimming. \<^verbatim>\<open>strings.TrimSpace\<close> removes leading and trailing tab, line
  feed, vertical tab, form feed, carriage return and space.
\<close>

definition is_space :: "char \<Rightarrow> bool" where
  "is_space c = ((of_char c :: nat) \<in> {9, 10, 11, 12, 13, 32})"

definition char_lower :: "char \<Rightarrow> char" where
  "char_lower c = (let n = of_char c :: nat in if 65 \<le> n \<and> n \<le> 90 then char_of (n + 32) else c)"

definition char_upper :: "char \<Rightarrow> char" where
  "char_upper c = (let n = of_char c :: nat in if 97 \<le> n \<and> n \<le> 122 then char_of (n - 32) else c)"

definition strings_ToLower :: "string \<Rightarrow> string" where
  "strings_ToLower s = map char_lower s"

definition strings_ToUpper :: "string \<Rightarrow> string" where
  "strings_ToUpper s = map char_upper s"

definition strings_TrimSpace :: "string \<Rightarrow> string" where
  "strings_TrimSpace s = rev (dropWhile is_space (rev (dropWhile is_space s)))"

text \<open>
  \<^verbatim>\<open>strconv.ParseUint(s, 10, 64)\<close>: decimal digits only, at least one, and a value that fits in
  64 bits; anything else is an error.
\<close>

definition digit_val :: "char \<Rightarrow> nat option" where
  "digit_val c = (let n = of_char c :: nat in if 48 \<le> n \<and> n \<le> 57 then Some (n - 48) else None)"

fun parse_digits :: "nat \<Rightarrow> string \<Rightarrow> nat option" where
  "parse_digits acc [] = Some acc"
| "parse_digits acc (c # cs) =
     (case digit_val c of None \<Rightarrow> None | Some d \<Rightarrow> parse_digits (10 * acc + d) cs)"

definition strconv_ParseUint :: "string \<Rightarrow> uint64 option" where
  "strconv_ParseUint s =
     (if s = [] then None
      else case parse_digits 0 s of
             None \<Rightarrow> None
           | Some n \<Rightarrow> if n < 2 ^ 64 then Some (word_of_nat n) else None)"

text \<open>Decimal printing, the inverse of the parser above (\<^verbatim>\<open>%d\<close>, \<^verbatim>\<open>strconv.Itoa\<close>).\<close>

fun decimal :: "nat \<Rightarrow> string" where
  "decimal n = (if n < 10 then [char_of (48 + n)] else decimal (n div 10) @ [char_of (48 + n mod 10)])"

declare decimal.simps [simp del]

text \<open>Binary printing (\<^verbatim>\<open>%b\<close>).\<close>

fun binary :: "nat \<Rightarrow> string" where
  "binary n = (if n < 2 then [char_of (48 + n)] else binary (n div 2) @ [char_of (48 + n mod 2)])"

declare binary.simps [simp del]

lemma parse_digits_append:
  "parse_digits acc (s @ t) =
     (case parse_digits acc s of None \<Rightarrow> None | Some a \<Rightarrow> parse_digits a t)"
  by (induction s arbitrary: acc) (auto split: option.splits)

lemma digit_val_char [simp]: "d < 10 \<Longrightarrow> digit_val (char_of (48 + d)) = Some d"
  by (simp add: digit_val_def)

lemma parse_digits_decimal: "parse_digits 0 (decimal n) = Some n"
proof (induction n rule: decimal.induct)
  case (1 n)
  show ?case
  proof (cases "n < 10")
    case True
    then show ?thesis by (simp add: decimal.simps [of n])
  next
    case False
    with 1 show ?thesis
      by (simp add: decimal.simps [of n] parse_digits_append)
  qed
qed

lemma decimal_nonempty [simp]: "decimal n \<noteq> []"
  by (subst decimal.simps) simp

lemma strconv_ParseUint_decimal:
  "strconv_ParseUint (decimal (unat w)) = Some w"
  using unsigned_less [of w, where 'a = nat]
  by (simp add: strconv_ParseUint_def parse_digits_decimal)

lemma strconv_ParseUint_empty [simp]: "strconv_ParseUint [] = None"
  by (simp add: strconv_ParseUint_def)

end
