(* ===== verification/Go_Errors.thy ===== *)
theory Go_Errors
  imports Prelude
begin

text \<open>
  The error values of the proxy and their classification (\<^verbatim>\<open>common/proxyerrors\<close>,
  \<^verbatim>\<open>store/secondary/s3/errors.go\<close>, \<^verbatim>\<open>store/generated_key/eigenda/verify/errors.go\<close>,
  \<^verbatim>\<open>store/generated_key/v2/errors.go\<close>).

  A Go error is a chain: \<^verbatim>\<open>fmt.Errorf\<close> with a \<^verbatim>\<open>%w\<close> verb adds a layer that unwraps to its argument
  (\<open>WrapError\<close>), and \<^verbatim>\<open>errors.Is\<close> and \<^verbatim>\<open>errors.As\<close> walk the chain. The error structs of the proxy
  hold an inner error only for their message: they have no \<^verbatim>\<open>Unwrap\<close> method, so the walk stops
  there. An error of a third-party package is \<open>ExternalError\<close>: an opaque value carrying what the
  proxy can observe of it, namely its message, the \<^verbatim>\<open>*verification.CertVerificationFailedError\<close>
  that \<^verbatim>\<open>errors.As\<close> finds in it, whether it matches \<^verbatim>\<open>&api.ErrorFailover{}\<close> under \<^verbatim>\<open>errors.Is\<close>,
  and the gRPC status code it carries.

  Two functions of third-party packages are arguments where they are needed:
  \<open>fromError\<close> is \<^verbatim>\<open>status.FromError\<close> of gRPC (the code of the status found, if any), and
  \<open>newErrorFailover\<close> is \<^verbatim>\<open>api.NewErrorFailover\<close>.
\<close>

section \<open>Definitions\<close>

datatype grpc_code = InvalidArgument | ResourceExhausted | OtherCode nat

datatype go_error =
    ErrorString string
  | WrapError string go_error
  | ParsingError go_error
  | CertHexDecodingError string go_error
  | L1InclusionBlockNumberParsingError string go_error
  | ReadRequestBodyError int go_error
  | UnmarshalJSONError go_error
  | ErrProxyOversizedBlob
  | InvalidBackendError string
  | Keccak256KeyValueMismatchError string string
  | ErrKeccakKeyNotFound
  | BatchMetadataHashMismatchError bytes bytes
  | CertVerificationFailedError nat string
  | ExternalError string "(nat \<times> string) option" bool "grpc_code option"

type_synonym 'a go = "(go_error, 'a) result"
type_synonym ('s, 'a) goact = "('s, go_error, 'a) act"

text \<open>The walk of \<^verbatim>\<open>errors.Is\<close> and \<^verbatim>\<open>errors.As\<close>: does some layer of the chain satisfy the test?\<close>

fun errors_any :: "(go_error \<Rightarrow> bool) \<Rightarrow> go_error \<Rightarrow> bool" where
  "errors_any p (WrapError m e) = (p (WrapError m e) \<or> errors_any p e)"
| "errors_any p e = p e"

definition errors_Is :: "go_error \<Rightarrow> go_error \<Rightarrow> bool" where
  "errors_Is err target = errors_any (\<lambda>e. e = target) err"

fun as_ParsingError :: "go_error \<Rightarrow> bool" where
  "as_ParsingError (ParsingError _) = True"
| "as_ParsingError _ = False"

fun as_CertHexDecodingError :: "go_error \<Rightarrow> bool" where
  "as_CertHexDecodingError (CertHexDecodingError _ _) = True"
| "as_CertHexDecodingError _ = False"

fun as_InvalidBackendError :: "go_error \<Rightarrow> bool" where
  "as_InvalidBackendError (InvalidBackendError _) = True"
| "as_InvalidBackendError _ = False"

fun as_UnmarshalJSONError :: "go_error \<Rightarrow> bool" where
  "as_UnmarshalJSONError (UnmarshalJSONError _) = True"
| "as_UnmarshalJSONError _ = False"

fun as_L1InclusionBlockNumberParsingError :: "go_error \<Rightarrow> bool" where
  "as_L1InclusionBlockNumberParsingError (L1InclusionBlockNumberParsingError _ _) = True"
| "as_L1InclusionBlockNumberParsingError _ = False"

fun as_ReadRequestBodyError :: "go_error \<Rightarrow> bool" where
  "as_ReadRequestBodyError (ReadRequestBodyError _ _) = True"
| "as_ReadRequestBodyError _ = False"

fun as_Keccak256KeyValueMismatchError :: "go_error \<Rightarrow> bool" where
  "as_Keccak256KeyValueMismatchError (Keccak256KeyValueMismatchError _ _) = True"
| "as_Keccak256KeyValueMismatchError _ = False"

text \<open>
  \<^verbatim>\<open>errors.Is(err, verify.ErrBatchMetadataHashMismatch)\<close> compares the type only, by the \<^verbatim>\<open>Is\<close>
  method of the error.
\<close>

fun is_BatchMetadataHashMismatch :: "go_error \<Rightarrow> bool" where
  "is_BatchMetadataHashMismatch (BatchMetadataHashMismatchError _ _) = True"
| "is_BatchMetadataHashMismatch _ = False"

text \<open>\<^verbatim>\<open>errors.As(err, &certVerificationFailedErr)\<close>: the first one of the chain.\<close>

fun as_CertVerificationFailed :: "go_error \<Rightarrow> (nat \<times> string) option" where
  "as_CertVerificationFailed (WrapError _ e) = as_CertVerificationFailed e"
| "as_CertVerificationFailed (CertVerificationFailedError c m) = Some (c, m)"
| "as_CertVerificationFailed (ExternalError _ cvf _ _) = cvf"
| "as_CertVerificationFailed _ = None"

fun is_ErrorFailover :: "go_error \<Rightarrow> bool" where
  "is_ErrorFailover (ExternalError _ _ failover _) = failover"
| "is_ErrorFailover _ = False"

definition Is400 :: "go_error \<Rightarrow> bool" where
  "Is400 err =
     (errors_Is err ErrProxyOversizedBlob \<or>
      errors_any as_ParsingError err \<or>
      errors_any as_CertHexDecodingError err \<or>
      errors_any as_InvalidBackendError err \<or>
      errors_any as_UnmarshalJSONError err \<or>
      errors_any as_L1InclusionBlockNumberParsingError err \<or>
      errors_any as_ReadRequestBodyError err \<or>
      errors_any as_Keccak256KeyValueMismatchError err \<or>
      errors_Is err ErrKeccakKeyNotFound)"

definition Is418 :: "go_error \<Rightarrow> bool" where
  "Is418 err = (as_CertVerificationFailed err \<noteq> None)"

definition Is429 :: "(go_error \<Rightarrow> grpc_code option) \<Rightarrow> go_error \<Rightarrow> bool" where
  "Is429 fromError err = (fromError err = Some ResourceExhausted)"

definition Is503 :: "go_error \<Rightarrow> bool" where
  "Is503 err = errors_any is_ErrorFailover err"

text \<open>
  The status code the error middleware writes (the \<^verbatim>\<open>switch\<close> of \<^verbatim>\<open>withErrorHandling\<close>): the first
  case that applies.
\<close>

definition error_status :: "(go_error \<Rightarrow> grpc_code option) \<Rightarrow> go_error \<Rightarrow> nat" where
  "error_status fromError err =
     (if Is400 err then 400
      else if Is418 err then 418
      else if Is429 fromError err then 429
      else if Is503 err then 503
      else 500)"

text \<open>
  The constructors of \<^verbatim>\<open>store/generated_key/v2/errors.go\<close>: the two status codes reserved for
  reasons that do not come from the verifier contract. The messages' numerals and hex text are
  the only arguments of the formatted text.
\<close>

definition StatusRBNRecencyCheckFailed :: nat where
  "StatusRBNRecencyCheckFailed = 255"

definition StatusCertParsingFailed :: nat where
  "StatusCertParsingFailed = 255 - 1"

definition NewRBNRecencyCheckFailedError :: "uint64 \<Rightarrow> uint64 \<Rightarrow> uint64 \<Rightarrow> go_error" where
  "NewRBNRecencyCheckFailedError certRBN certL1IBN rbnRecencyWindowSize =
     CertVerificationFailedError StatusRBNRecencyCheckFailed
       (''RBN recency check failed: certL1InclusionBlockNumber ('' @ decimal (unat certL1IBN) @
        '') > cert.RBN ('' @ decimal (unat certRBN) @
        '') + RBNRecencyWindowSize ('' @ decimal (unat rbnRecencyWindowSize) @ '')'')"

definition NewCertParsingFailedError :: "string \<Rightarrow> string \<Rightarrow> go_error" where
  "NewCertParsingFailedError serializedCertHex err =
     CertVerificationFailedError StatusCertParsingFailed
       (''cert parsing failed for cert '' @ serializedCertHex @ '': '' @ err)"

section \<open>Classification and wrapping\<close>

text \<open>
  What the proxy relies on in \<^verbatim>\<open>status.FromError\<close>: a wrapped error has the status of what it
  wraps, and an error struct of the proxy carries none.
\<close>

definition fromError_documented :: "(go_error \<Rightarrow> grpc_code option) \<Rightarrow> bool" where
  "fromError_documented fromError \<longleftrightarrow>
     (\<forall>m e. fromError (WrapError m e) = fromError e) \<and>
     (\<forall>s. fromError (ErrorString s) = None) \<and>
     (\<forall>m cvf fo code. fromError (ExternalError m cvf fo code) = code)"

fun chain_code :: "go_error \<Rightarrow> grpc_code option" where
  "chain_code (WrapError m e) = chain_code e"
| "chain_code (ExternalError m cvf fo code) = code"
| "chain_code _ = None"

lemma chain_code_documented [simp]: "fromError_documented chain_code"
  by (simp add: fromError_documented_def)

lemma fromError_wrap [simp]:
  "fromError_documented f \<Longrightarrow> f (WrapError m e) = f e"
  by (simp add: fromError_documented_def)

lemma fromError_string [simp]: "fromError_documented f \<Longrightarrow> f (ErrorString s) = None"
  by (simp add: fromError_documented_def)

lemma errors_any_wrap:
  "\<not> p (WrapError m e) \<Longrightarrow> errors_any p (WrapError m e) = errors_any p e"
  by simp

lemma Is400_wrap [simp]: "Is400 (WrapError m e) = Is400 e"
  by (simp add: Is400_def errors_Is_def)

lemma Is418_wrap [simp]: "Is418 (WrapError m e) = Is418 e"
  by (simp add: Is418_def)

lemma Is503_wrap [simp]: "Is503 (WrapError m e) = Is503 e"
  by (simp add: Is503_def)

lemma Is429_wrap [simp]: "fromError_documented f \<Longrightarrow> Is429 f (WrapError m e) = Is429 f e"
  by (simp add: Is429_def)

lemma Is400_leaves [simp]:
  "\<not> Is400 (ErrorString s)"
  "Is400 (ParsingError e)"
  "Is400 (CertHexDecodingError s e)"
  "Is400 (L1InclusionBlockNumberParsingError s e)"
  "Is400 (ReadRequestBodyError n e)"
  "Is400 (UnmarshalJSONError e)"
  "Is400 ErrProxyOversizedBlob"
  "Is400 (InvalidBackendError s)"
  "Is400 (Keccak256KeyValueMismatchError s t)"
  "Is400 ErrKeccakKeyNotFound"
  "\<not> Is400 (BatchMetadataHashMismatchError a b)"
  "\<not> Is400 (CertVerificationFailedError c m)"
  "\<not> Is400 (ExternalError m cvf fo code)"
  by (simp_all add: Is400_def errors_Is_def)

lemma Is418_leaves [simp]:
  "\<not> Is418 (ErrorString s)"
  "Is418 (CertVerificationFailedError c m)"
  "Is418 (ExternalError m cvf fo code) = (cvf \<noteq> None)"
  "\<not> Is418 (BatchMetadataHashMismatchError a b)"
  by (simp_all add: Is418_def)

lemma Is503_leaves [simp]:
  "\<not> Is503 (ErrorString s)"
  "Is503 (ExternalError m cvf fo code) = fo"
  "\<not> Is503 (CertVerificationFailedError c msg)"
  by (simp_all add: Is503_def)

lemma error_status_range:
  "error_status f e \<in> {400, 418, 429, 503, 500}"
  by (simp add: error_status_def)

lemma error_status_wrap [simp]:
  "fromError_documented f \<Longrightarrow> error_status f (WrapError m e) = error_status f e"
  by (simp add: error_status_def)

lemma error_status_string [simp]:
  "fromError_documented f \<Longrightarrow> error_status f (ErrorString s) = 500"
  by (simp add: error_status_def Is429_def)

lemma error_status_Is400 [simp]: "Is400 e \<Longrightarrow> error_status f e = 400"
  by (simp add: error_status_def)

lemma error_status_CertVerificationFailed [simp]:
  "error_status f (CertVerificationFailedError c m) = 418"
  by (simp add: error_status_def)

lemma NewCertParsingFailedError_418 [simp]:
  "error_status f (NewCertParsingFailedError h m) = 418"
  by (simp add: NewCertParsingFailedError_def)

lemma NewRBNRecencyCheckFailedError_418 [simp]:
  "error_status f (NewRBNRecencyCheckFailedError a b c) = 418"
  by (simp add: NewRBNRecencyCheckFailedError_def)

text \<open>
  Context added on the way out: any number of \<open>WrapError\<close> layers.
\<close>

fun wrap_all :: "string list \<Rightarrow> go_error \<Rightarrow> go_error" where
  "wrap_all [] e = e"
| "wrap_all (m # ms) e = WrapError m (wrap_all ms e)"

lemma error_status_wrap_all:
  "fromError_documented f \<Longrightarrow> error_status f (wrap_all ms e) = error_status f e"
  by (induction ms) auto

end
