(* ===== verification/Commitments.thy ===== *)
theory Commitments
  imports Go_Errors
begin

text \<open>
  Versioned certificates (\<^verbatim>\<open>common/types/certs/eigenda.go\<close>) and the commitments returned to clients
  (\<^verbatim>\<open>common/types/commitments\<close>). A commitment is the header bytes of its mode followed by the
  version byte and the serialized certificate; keccak commitments have the header byte only.
  \<^verbatim>\<open>crypto.Keccak256\<close> is the argument \<open>keccak\<close>.
\<close>

section \<open>Versioned certificates\<close>

definition V0VersionByte :: byte where [mode_simps]: "V0VersionByte = 0"
definition V1VersionByte :: byte where [mode_simps]: "V1VersionByte = 1"
definition V2VersionByte :: byte where [mode_simps]: "V2VersionByte = 2"

definition ByteToVersion :: "byte \<Rightarrow> byte go" where
  "ByteToVersion b =
     (if b = V0VersionByte then Ok V0VersionByte
      else if b = V1VersionByte then Ok V1VersionByte
      else if b = V2VersionByte then Ok V2VersionByte
      else Err (ErrorString (''unknown EigenDA cert version: '' @ decimal (unat b))))"

record VersionedCert =
  Version :: byte
  SerializedCert :: bytes

definition NewVersionedCert :: "bytes \<Rightarrow> byte \<Rightarrow> VersionedCert" where
  "NewVersionedCert serializedCert certVersion =
     \<lparr>Version = certVersion, SerializedCert = serializedCert\<rparr>"

definition VersionedCert_Encode :: "VersionedCert \<Rightarrow> bytes" where
  "VersionedCert_Encode c = [Version c] @ SerializedCert c"

datatype CertificateVersion = VersionTwoCert | VersionThreeCert | OtherCertVersion nat

text \<open>The Go function returns a value and an error together; the value counts only without error.\<close>

definition ToCoreCertType :: "VersionedCert \<Rightarrow> CertificateVersion go" where
  "ToCoreCertType c =
     (if Version c = V0VersionByte
        then Err (ErrorString ''EigenDA V1 certs are not supported in coretypes'')
      else if Version c = V1VersionByte then Ok VersionTwoCert
      else if Version c = V2VersionByte then Ok VersionThreeCert
      else Err (ErrorString (''unsupported version byte '' @ decimal (unat (Version c)))))"

section \<open>Commitment modes and encodings\<close>

type_synonym CommitmentMode = string

definition OptimismKeccakCommitmentMode :: CommitmentMode where
  [mode_simps]: "OptimismKeccakCommitmentMode = ''optimism_keccak256''"

definition OptimismGenericCommitmentMode :: CommitmentMode where
  [mode_simps]: "OptimismGenericCommitmentMode = ''optimism_generic''"

definition StandardCommitmentMode :: CommitmentMode where
  [mode_simps]: "StandardCommitmentMode = ''standard''"

definition OPKeccak256CommitmentByte :: byte where "OPKeccak256CommitmentByte = 0"
definition OPGenericCommitmentByte :: byte where "OPGenericCommitmentByte = 1"
definition EigenDALayerByte :: byte where "EigenDALayerByte = 0"

definition NewOPKeccak256Commitment :: "(bytes \<Rightarrow> bytes) \<Rightarrow> bytes \<Rightarrow> bytes" where
  "NewOPKeccak256Commitment keccak input = keccak input"

definition OPKeccak256Commitment_Encode :: "bytes \<Rightarrow> bytes" where
  "OPKeccak256Commitment_Encode c = [OPKeccak256CommitmentByte] @ c"

definition OPEigenDAGenericCommitment_Encode :: "VersionedCert \<Rightarrow> bytes" where
  "OPEigenDAGenericCommitment_Encode c =
     [OPGenericCommitmentByte, EigenDALayerByte] @ VersionedCert_Encode c"

definition StandardCommitment_Encode :: "VersionedCert \<Rightarrow> bytes" where
  "StandardCommitment_Encode c = VersionedCert_Encode c"

definition EncodeCommitment :: "VersionedCert \<Rightarrow> CommitmentMode \<Rightarrow> bytes go" where
  "EncodeCommitment versionedCert commitmentMode =
     (if commitmentMode = OptimismKeccakCommitmentMode
        then Ok (OPKeccak256Commitment_Encode (SerializedCert versionedCert))
      else if commitmentMode = OptimismGenericCommitmentMode
        then Ok (OPEigenDAGenericCommitment_Encode versionedCert)
      else if commitmentMode = StandardCommitmentMode
        then Ok (StandardCommitment_Encode versionedCert)
      else Err (ErrorString ''unknown commitment mode''))"

section \<open>Lemmas\<close>

lemma mode_distinct [simp]:
  "OptimismKeccakCommitmentMode \<noteq> OptimismGenericCommitmentMode"
  "OptimismGenericCommitmentMode \<noteq> OptimismKeccakCommitmentMode"
  "StandardCommitmentMode \<noteq> OptimismKeccakCommitmentMode"
  "OptimismKeccakCommitmentMode \<noteq> StandardCommitmentMode"
  "StandardCommitmentMode \<noteq> OptimismGenericCommitmentMode"
  "OptimismGenericCommitmentMode \<noteq> StandardCommitmentMode"
  by (simp_all add: mode_simps)

lemma version_distinct [simp]:
  "V0VersionByte \<noteq> V1VersionByte" "V1VersionByte \<noteq> V0VersionByte"
  "V0VersionByte \<noteq> V2VersionByte" "V2VersionByte \<noteq> V0VersionByte"
  "V1VersionByte \<noteq> V2VersionByte" "V2VersionByte \<noteq> V1VersionByte"
  by (simp_all add: mode_simps)

definition known_version :: "byte \<Rightarrow> bool" where
  "known_version b \<longleftrightarrow> b \<in> {V0VersionByte, V1VersionByte, V2VersionByte}"

lemma known_version_simps [simp]:
  "known_version V0VersionByte" "known_version V1VersionByte" "known_version V2VersionByte"
  by (simp_all add: known_version_def)

lemma ByteToVersion_known [simp]: "known_version b \<Longrightarrow> ByteToVersion b = Ok b"
  by (auto simp: ByteToVersion_def known_version_def)

lemma ByteToVersion_Ok_iff: "ByteToVersion b = Ok v \<longleftrightarrow> known_version b \<and> v = b"
  by (auto simp: ByteToVersion_def known_version_def)

lemma VersionedCert_Encode_inj:
  "VersionedCert_Encode c = VersionedCert_Encode d \<longleftrightarrow> (c :: VersionedCert) = d"
  by (auto simp: VersionedCert_Encode_def)

lemma EncodeCommitment_total:
  "mode \<in> {OptimismKeccakCommitmentMode, OptimismGenericCommitmentMode, StandardCommitmentMode}
     \<longleftrightarrow> (\<exists>bs. EncodeCommitment vc mode = Ok bs)"
  by (auto simp: EncodeCommitment_def)

lemma EncodeCommitment_standard [simp]:
  "EncodeCommitment vc StandardCommitmentMode = Ok (Version vc # SerializedCert vc)"
  by (simp add: EncodeCommitment_def StandardCommitment_Encode_def VersionedCert_Encode_def)

lemma EncodeCommitment_generic [simp]:
  "EncodeCommitment vc OptimismGenericCommitmentMode = Ok (1 # 0 # Version vc # SerializedCert vc)"
  by (simp add: EncodeCommitment_def OPEigenDAGenericCommitment_Encode_def VersionedCert_Encode_def
      OPGenericCommitmentByte_def EigenDALayerByte_def)

lemma EncodeCommitment_keccak [simp]:
  "EncodeCommitment vc OptimismKeccakCommitmentMode = Ok (0 # SerializedCert vc)"
  by (simp add: EncodeCommitment_def OPKeccak256Commitment_Encode_def OPKeccak256CommitmentByte_def)

end
