(* ===== verification/Common.thy ===== *)
theory Common
  imports Commitments
begin

text \<open>
  The enumerations and helpers of the \<^verbatim>\<open>common\<close> package: backend types, EigenDA backends, EigenDA
  networks, and the two list helpers used by the configuration checks.
\<close>

section \<open>Helpers of common.go\<close>

text \<open>
  \<^verbatim>\<open>ContainsDuplicates\<close> walks the slice with the set of values seen so far; \<^verbatim>\<open>Contains\<close> is a linear
  search.
\<close>

fun ContainsDuplicates_from :: "'a set \<Rightarrow> 'a list \<Rightarrow> bool" where
  "ContainsDuplicates_from seen [] = False"
| "ContainsDuplicates_from seen (v # s) =
     (if v \<in> seen then True else ContainsDuplicates_from (insert v seen) s)"

definition ContainsDuplicates :: "'a list \<Rightarrow> bool" where
  "ContainsDuplicates s = ContainsDuplicates_from {} s"

text \<open>A slice of strings as \<^verbatim>\<open>fmt\<close> prints it.\<close>

fun spaced :: "string list \<Rightarrow> string" where
  "spaced [] = []"
| "spaced [x] = x"
| "spaced (x # y # xs) = x @ '' '' @ spaced (y # xs)"

definition fmt_slice :: "string list \<Rightarrow> string" where
  "fmt_slice xs = ''['' @ spaced xs @ '']''"

fun Contains :: "'a list \<Rightarrow> 'a \<Rightarrow> bool" where
  "Contains [] e = False"
| "Contains (v # s) e = (if v = e then True else Contains s e)"

type_synonym EigenDABackend = byte

definition V1EigenDABackend :: EigenDABackend where [mode_simps]: "V1EigenDABackend = 1"
definition V2EigenDABackend :: EigenDABackend where [mode_simps]: "V2EigenDABackend = 2"

definition StringToEigenDABackend :: "string \<Rightarrow> EigenDABackend go" where
  "StringToEigenDABackend inputString =
     (let s = strings_ToUpper (strings_TrimSpace inputString) in
      if s = ''V1'' then Ok V1EigenDABackend
      else if s = ''V2'' then Ok V2EigenDABackend
      else Err (InvalidBackendError s))"

definition EigenDABackendToString :: "EigenDABackend \<Rightarrow> string" where
  "EigenDABackendToString backend =
     (if backend = V1EigenDABackend then ''V1''
      else if backend = V2EigenDABackend then ''V2''
      else ''unknown'')"

section \<open>Backend types and verification options of store.go\<close>

datatype BackendType =
    EigenDABackendType
  | EigenDAV2BackendType
  | MemstoreV1BackendType
  | MemstoreV2BackendType
  | S3BackendType
  | RedisBackendType
  | UnknownBackendType

fun BackendType_String :: "BackendType \<Rightarrow> string" where
  "BackendType_String EigenDABackendType = ''EigenDA''"
| "BackendType_String EigenDAV2BackendType = ''EigenDAV2''"
| "BackendType_String MemstoreV1BackendType = ''EigenDAV1Memstore''"
| "BackendType_String MemstoreV2BackendType = ''EigenDAV2Memstore''"
| "BackendType_String S3BackendType = ''S3''"
| "BackendType_String RedisBackendType = ''Redis''"
| "BackendType_String UnknownBackendType = ''Unknown''"

definition StringToBackendType :: "string \<Rightarrow> BackendType" where
  "StringToBackendType s =
     (let lower = strings_ToLower s in
      if lower = ''eigenda'' then EigenDABackendType
      else if lower = ''eigenda_v2'' then EigenDAV2BackendType
      else if lower = ''memory_v1'' then MemstoreV1BackendType
      else if lower = ''memory_v2'' then MemstoreV2BackendType
      else if lower = ''s3'' then S3BackendType
      else if lower = ''redis'' then RedisBackendType
      else UnknownBackendType)"

record CertVerificationOpts =
  L1InclusionBlockNum :: uint64

text \<open>The constant of \<^verbatim>\<open>common/consts\<close>.\<close>

definition EthHappyPathFinalizationDepthBlocks :: nat where
  "EthHappyPathFinalizationDepthBlocks = 64"

section \<open>Networks of eigenda_network.go\<close>

type_synonym EigenDANetwork = string

definition HoleskyTestnetEigenDANetwork :: EigenDANetwork where
  [mode_simps]: "HoleskyTestnetEigenDANetwork = ''holesky_testnet''"

definition HoleskyPreprodEigenDANetwork :: EigenDANetwork where
  [mode_simps]: "HoleskyPreprodEigenDANetwork = ''holesky_preprod''"

definition SepoliaTestnetEigenDANetwork :: EigenDANetwork where
  [mode_simps]: "SepoliaTestnetEigenDANetwork = ''sepolia_testnet''"

definition GetServiceManagerAddress :: "EigenDANetwork \<Rightarrow> string go" where
  "GetServiceManagerAddress n =
     (if n = HoleskyTestnetEigenDANetwork then Ok ''0xD4A7E1Bd8015057293f0D0A557088c286942e84b''
      else if n = HoleskyPreprodEigenDANetwork then Ok ''0x54A03db2784E3D0aCC08344D05385d0b62d4F432''
      else if n = SepoliaTestnetEigenDANetwork then Ok ''0x3a5acf46ba6890B8536420F4900AC9BC45Df4764''
      else Err (ErrorString (''unknown network type: '' @ n)))"

definition GetDisperserAddress :: "EigenDANetwork \<Rightarrow> string go" where
  "GetDisperserAddress n =
     (if n = HoleskyTestnetEigenDANetwork then Ok ''disperser-testnet-holesky.eigenda.xyz:443''
      else if n = HoleskyPreprodEigenDANetwork then Ok ''disperser-preprod-holesky.eigenda.xyz:443''
      else if n = SepoliaTestnetEigenDANetwork then Ok ''disperser-testnet-sepolia.eigenda.xyz:443''
      else Err (ErrorString (''unknown network type: '' @ n)))"

definition GetBLSOperatorStateRetrieverAddress :: "EigenDANetwork \<Rightarrow> string go" where
  "GetBLSOperatorStateRetrieverAddress n =
     (if n = HoleskyTestnetEigenDANetwork \<or> n = HoleskyPreprodEigenDANetwork
        then Ok ''0x003497Dd77E5B73C40e8aCbB562C8bb0410320E7''
      else if n = SepoliaTestnetEigenDANetwork then Ok ''0x22478d082E9edaDc2baE8443E4aC9473F6E047Ff''
      else Err (ErrorString (''unknown network: '' @ n)))"

definition chainIDToNetworkMap :: "string \<rightharpoonup> EigenDANetwork list" where
  "chainIDToNetworkMap =
     [''17000'' \<mapsto> [HoleskyTestnetEigenDANetwork, HoleskyPreprodEigenDANetwork],
      ''11155111'' \<mapsto> [SepoliaTestnetEigenDANetwork]]"

definition EigenDANetworksFromChainID :: "string \<Rightarrow> EigenDANetwork list go" where
  "EigenDANetworksFromChainID chainID =
     (case chainIDToNetworkMap chainID of
        None \<Rightarrow> Err (ErrorString (''unknown chain ID: '' @ chainID))
      | Some networks \<Rightarrow> Ok networks)"

definition EigenDANetworkFromString :: "string \<Rightarrow> EigenDANetwork go" where
  "EigenDANetworkFromString inputString =
     (if inputString = HoleskyTestnetEigenDANetwork \<or>
         inputString = HoleskyPreprodEigenDANetwork \<or>
         inputString = SepoliaTestnetEigenDANetwork
      then Ok inputString
      else Err (ErrorString (''unknown network type: '' @ inputString)))"

section \<open>Lemmas\<close>

lemma ContainsDuplicates_from_iff:
  "ContainsDuplicates_from seen s \<longleftrightarrow> \<not> distinct s \<or> set s \<inter> seen \<noteq> {}"
  by (induction seen s rule: ContainsDuplicates_from.induct) auto

lemma ContainsDuplicates_iff [simp]: "ContainsDuplicates s \<longleftrightarrow> \<not> distinct s"
  by (simp add: ContainsDuplicates_def ContainsDuplicates_from_iff)

lemma Contains_iff [simp]: "Contains s e \<longleftrightarrow> e \<in> set s"
  by (induction s) auto

lemma backend_distinct [simp]:
  "V1EigenDABackend \<noteq> V2EigenDABackend" "V2EigenDABackend \<noteq> V1EigenDABackend"
  by (simp_all add: mode_simps)

lemma EigenDABackend_roundtrip:
  "b \<in> {V1EigenDABackend, V2EigenDABackend} \<Longrightarrow>
     StringToEigenDABackend (EigenDABackendToString b) = Ok b"
  by (auto simp: EigenDABackendToString_def StringToEigenDABackend_def strings_ToUpper_def
      strings_TrimSpace_def is_space_def char_upper_def)

lemma StringToEigenDABackend_Ok:
  "StringToEigenDABackend s = Ok b \<Longrightarrow> b \<in> {V1EigenDABackend, V2EigenDABackend}"
  by (auto simp: StringToEigenDABackend_def Let_def split: if_splits)

lemma StringToEigenDABackend_Err:
  "StringToEigenDABackend s = Err e \<Longrightarrow> Is400 e"
  by (auto simp: StringToEigenDABackend_def Let_def split: if_splits)

lemma StringToEigenDABackend_returns:
  "StringToEigenDABackend s \<noteq> Panic" "StringToEigenDABackend s \<noteq> Blocked"
  by (auto simp: StringToEigenDABackend_def Let_def split: if_splits)

text \<open>Every network accepted by name has all three addresses and is served by some chain.\<close>

lemma EigenDANetworkFromString_addresses:
  assumes "EigenDANetworkFromString s = Ok n"
  shows "\<exists>a b c. GetServiceManagerAddress n = Ok a \<and> GetDisperserAddress n = Ok b \<and>
           GetBLSOperatorStateRetrieverAddress n = Ok c"
  using assms
  by (auto simp: EigenDANetworkFromString_def GetServiceManagerAddress_def GetDisperserAddress_def
      GetBLSOperatorStateRetrieverAddress_def split: if_splits)

lemma EigenDANetworksFromChainID_known:
  assumes "EigenDANetworksFromChainID c = Ok ns" and "n \<in> set ns"
  shows "EigenDANetworkFromString n = Ok n"
  using assms
  by (auto simp: EigenDANetworksFromChainID_def chainIDToNetworkMap_def
      EigenDANetworkFromString_def split: if_splits)

end
