(* ===== verification/Cert_V1.thy ===== *)
theory Cert_V1
  imports Common
begin

text \<open>
  EigenDA V1 certificates: the protobuf message the disperser returns, the structural checks of
  \<^verbatim>\<open>verify/certificate.go\<close>, the hashes of \<^verbatim>\<open>verify/hasher.go\<close> and the inclusion proof of
  \<^verbatim>\<open>verify/merkle.go\<close>.

  A pointer field is an option, \<open>None\<close> being nil. A protobuf getter (\<^verbatim>\<open>GetX\<close>) of a nil message
  returns the zero value; a plain field access of a nil pointer panics. \<^verbatim>\<open>crypto.Keccak256\<close> and the
  ABI packing of go-ethereum are arguments.
\<close>

section \<open>The certificate\<close>

record G1Commitment =
  commitX :: bytes
  commitY :: bytes

record PbBlobQuorumParam =
  pbQuorumNumber :: uint32
  pbAdversaryThresholdPercentage :: uint32
  pbConfirmationThresholdPercentage :: uint32
  pbChunkLength :: uint32

record PbBlobHeader =
  pbCommitment :: "G1Commitment option"
  pbDataLength :: uint32
  pbBlobQuorumParams :: "PbBlobQuorumParam option list"

record BatchHeader =
  BatchRoot :: bytes
  QuorumNumbers :: bytes
  QuorumSignedPercentages :: bytes
  ReferenceBlockNumber :: uint32

record BatchMetadata =
  metaBatchHeader :: "BatchHeader option"
  SignatoryRecordHash :: bytes
  Fee :: bytes
  ConfirmationBlockNumber :: uint32
  BatchHeaderHash :: bytes

record BlobVerificationProof =
  BatchId :: uint32
  proofBlobIndex :: uint32
  proofBatchMetadata :: "BatchMetadata option"
  InclusionProof :: bytes
  QuorumIndexes :: bytes

record Certificate =
  certBlobHeader :: "PbBlobHeader option"
  certBlobVerificationProof :: "BlobVerificationProof option"

text \<open>The Solidity-shaped blob header the hashes and the checks work on.\<close>

record G1Point =
  pointX :: nat
  pointY :: nat

record QuorumBlobParam =
  QuorumNumber :: byte
  AdversaryThresholdPercentage :: byte
  ConfirmationThresholdPercentage :: byte
  ChunkLength :: uint32

record BlobHeader =
  hdrCommitment :: G1Point
  hdrDataLength :: uint32
  QuorumBlobParams :: "QuorumBlobParam list"

definition NoNilFields :: "Certificate \<Rightarrow> unit go" where
  "NoNilFields c =
     (case certBlobVerificationProof c of
        None \<Rightarrow> Err (ErrorString ''BlobVerificationProof is nil'')
      | Some bvp \<Rightarrow>
          (case proofBatchMetadata bvp of
             None \<Rightarrow> Err (ErrorString ''BlobVerificationProof.BatchMetadata is nil'')
           | Some md \<Rightarrow>
               if metaBatchHeader md = None
                 then Err (ErrorString ''BlobVerificationProof.BatchMetadata.BatchHeader is nil'')
               else (case certBlobHeader c of
                       None \<Rightarrow> Err (ErrorString ''BlobHeader is nil'')
                     | Some bh \<Rightarrow>
                         if pbCommitment bh = None
                         then Err (ErrorString ''BlobHeader.Commitment is nil'')
                         else Ok ())))"

text \<open>\<^verbatim>\<open>ValidFieldLengths\<close> reads through the pointers directly, so a nil one panics.\<close>

definition length_check :: "string \<Rightarrow> bytes \<Rightarrow> unit go" where
  "length_check name bs =
     (if length bs \<noteq> 32
      then Err (ErrorString (name @ '' is not 32 bytes, got '' @ decimal (length bs)))
      else Ok ())"

definition ValidFieldLengths :: "Certificate \<Rightarrow> unit go" where
  "ValidFieldLengths c =
     (case certBlobVerificationProof c of None \<Rightarrow> Panic | Some bvp \<Rightarrow>
      case proofBatchMetadata bvp of None \<Rightarrow> Panic | Some md \<Rightarrow>
      bindR (length_check ''BlobVerification.BatchMetadata.BatchHeaderHash'' (BatchHeaderHash md)) (\<lambda>_.
      case certBlobHeader c of None \<Rightarrow> Panic | Some bh \<Rightarrow>
      case pbCommitment bh of None \<Rightarrow> Panic | Some g \<Rightarrow>
      bindR (length_check ''BlobHeader.Commitment.X'' (commitX g)) (\<lambda>_.
      bindR (length_check ''BlobHeader.Commitment.Y'' (commitY g)) (\<lambda>_.
      bindR (length_check ''BlobVerification.BatchMetadata.SignatoryRecordHash''
               (SignatoryRecordHash md)) (\<lambda>_.
      case metaBatchHeader md of None \<Rightarrow> Panic | Some h \<Rightarrow>
      length_check ''BlobVerification.BatchMetadata.BatchHeader.BatchRoot'' (BatchRoot h))))))"

text \<open>Getters that are nil-safe (generated by protobuf) and accessors that are not.\<close>

definition GetBatchMetadata :: "BlobVerificationProof option \<Rightarrow> BatchMetadata option" where
  "GetBatchMetadata p = (case p of None \<Rightarrow> None | Some bvp \<Rightarrow> proofBatchMetadata bvp)"

definition GetBatchHeader :: "BatchMetadata option \<Rightarrow> BatchHeader option" where
  "GetBatchHeader m = (case m of None \<Rightarrow> None | Some md \<Rightarrow> metaBatchHeader md)"

definition BatchHeaderRoot :: "Certificate \<Rightarrow> bytes go" where
  "BatchHeaderRoot c =
     (case certBlobVerificationProof c of None \<Rightarrow> Panic | Some bvp \<Rightarrow>
      case proofBatchMetadata bvp of None \<Rightarrow> Panic | Some md \<Rightarrow>
      case metaBatchHeader md of None \<Rightarrow> Panic | Some h \<Rightarrow> Ok (BatchRoot h))"

text \<open>\<^verbatim>\<open>new(big.Int).SetBytes\<close> reads big-endian; the \<^verbatim>\<open>uint8\<close> conversions keep the low eight bits.\<close>

definition be_nat :: "bytes \<Rightarrow> nat" where
  "be_nat bs = foldl (\<lambda>n b. 256 * n + unat b) 0 bs"

lemma be_nat_leading_zeros: "be_nat (replicate n 0 @ bs) = be_nat bs"
  by (induction n) (simp_all add: be_nat_def)

definition read_quorum_param :: "PbBlobQuorumParam \<Rightarrow> QuorumBlobParam" where
  "read_quorum_param qp =
     \<lparr>QuorumNumber = ucast (pbQuorumNumber qp),
      AdversaryThresholdPercentage = ucast (pbAdversaryThresholdPercentage qp),
      ConfirmationThresholdPercentage = ucast (pbConfirmationThresholdPercentage qp),
      ChunkLength = pbChunkLength qp\<rparr>"

definition ReadBlobHeader :: "Certificate \<Rightarrow> BlobHeader go" where
  "ReadBlobHeader c =
     (case certBlobHeader c of None \<Rightarrow> Panic | Some bh \<Rightarrow>
      case pbCommitment bh of None \<Rightarrow> Panic | Some g \<Rightarrow>
      if None \<in> set (pbBlobQuorumParams bh) then Panic else
      Ok \<lparr>hdrCommitment = \<lparr>pointX = be_nat (commitX g), pointY = be_nat (commitY g)\<rparr>,
          hdrDataLength = pbDataLength bh,
          QuorumBlobParams = map (\<lambda>qp. read_quorum_param (the qp)) (pbBlobQuorumParams bh)\<rparr>)"

section \<open>Hashes\<close>

text \<open>The three ABI encodings the hashes use, as go-ethereum's \<^verbatim>\<open>abi.Arguments.Pack\<close> gives them.\<close>

record abi_api =
  packBatchHeader :: "bytes \<Rightarrow> bytes \<Rightarrow> bytes \<Rightarrow> uint32 \<Rightarrow> go_error + bytes"
  packBytes32Pair :: "bytes \<Rightarrow> bytes \<Rightarrow> go_error + bytes"
  packBlobHeader :: "BlobHeader \<Rightarrow> go_error + bytes"

text \<open>\<^verbatim>\<open>binary.BigEndian.PutUint32\<close>.\<close>

definition be32 :: "uint32 \<Rightarrow> bytes" where
  "be32 w = [ucast (drop_bit 24 w), ucast (drop_bit 16 w), ucast (drop_bit 8 w), ucast w]"

definition HashBatchHashedMetadata ::
  "(bytes \<Rightarrow> bytes) \<Rightarrow> abi_api \<Rightarrow> bytes \<Rightarrow> bytes \<Rightarrow> uint32 \<Rightarrow> bytes go" where
  "HashBatchHashedMetadata keccak abi batchHeaderHash signatoryRecordHash blockNumber =
     (let a = be32 blockNumber in
      bindR (fromSum (packBytes32Pair abi batchHeaderHash signatoryRecordHash)) (\<lambda>bytes.
      Ok (keccak (bytes @ a))))"

definition HashBatchMetadata ::
  "(bytes \<Rightarrow> bytes) \<Rightarrow> abi_api \<Rightarrow> bytes \<Rightarrow> bytes \<Rightarrow> bytes \<Rightarrow> uint32 \<Rightarrow> bytes \<Rightarrow> uint32 \<Rightarrow> bytes go" where
  "HashBatchMetadata keccak abi blobHeadersRoot quorumNumbers signedStakeForQuorums
     referenceBlockNumber sigHash confirmedBlockNum =
     bindR (fromSum (packBatchHeader abi blobHeadersRoot quorumNumbers signedStakeForQuorums
              referenceBlockNumber)) (\<lambda>bytes.
     HashBatchHashedMetadata keccak abi (keccak bytes) sigHash confirmedBlockNum)"

definition HashBlobHeader :: "(bytes \<Rightarrow> bytes) \<Rightarrow> abi_api \<Rightarrow> BlobHeader \<Rightarrow> bytes go" where
  "HashBlobHeader keccak abi blobHeader =
     bindR (fromSum (packBlobHeader abi blobHeader)) (\<lambda>bytes. Ok (keccak bytes))"

definition HashEncodeBlobHeader :: "(bytes \<Rightarrow> bytes) \<Rightarrow> abi_api \<Rightarrow> BlobHeader \<Rightarrow> bytes go" where
  "HashEncodeBlobHeader keccak abi header =
     bindR (HashBlobHeader keccak abi header) (\<lambda>blobHash. Ok (keccak blobHash))"

section \<open>Merkle inclusion proofs\<close>

text \<open>
  The loop of \<^verbatim>\<open>ProcessInclusionProof\<close>: 32 bytes of the proof per turn, the running hash on the
  left when the index is even and on the right when it is odd, the index halved.
\<close>

function inclusion_loop :: "(bytes \<Rightarrow> bytes) \<Rightarrow> bytes \<Rightarrow> bytes \<Rightarrow> uint64 \<Rightarrow> bytes" where
  "inclusion_loop keccak proof computedHash index =
     (if proof = [] then computedHash
      else
        let proofElement = take 32 proof;
            combined = (if index mod 2 = 0 then computedHash @ proofElement
                        else proofElement @ computedHash)
        in inclusion_loop keccak (drop 32 proof) (keccak combined) (index div 2))"
  by pat_completeness auto
termination
  by (relation "measure (\<lambda>(k, proof, h, i). length proof)") auto

declare inclusion_loop.simps [simp del]

definition ProcessInclusionProof :: "(bytes \<Rightarrow> bytes) \<Rightarrow> bytes \<Rightarrow> bytes \<Rightarrow> uint64 \<Rightarrow> bytes go" where
  "ProcessInclusionProof keccak proof leaf index =
     (if length proof mod 32 \<noteq> 0
      then Err (ErrorString ''proof length should be a multiple of 32 bytes or 256 bits'')
      else Ok (inclusion_loop keccak proof leaf index))"

end
