(* ===== verification/Merkle.thy ===== *)
theory Merkle
  imports Cert_V1
begin

text \<open>
  What \<^verbatim>\<open>ProcessInclusionProof\<close> computes, against a reference definition of Merkle trees: the
  proof of a leaf leads to the root, and a proof of full length that leads to the root of a tree
  is the path of the leaf at that index, unless Keccak collides on the inputs hashed.
\<close>

section \<open>Reference trees\<close>

datatype mtree = Leaf bytes | Node mtree mtree

fun root :: "(bytes \<Rightarrow> bytes) \<Rightarrow> mtree \<Rightarrow> bytes" where
  "root keccak (Leaf h) = h"
| "root keccak (Node l r) = keccak (root keccak l @ root keccak r)"

fun perfect :: "nat \<Rightarrow> mtree \<Rightarrow> bool" where
  "perfect 0 (Leaf h) = (length h = 32)"
| "perfect (Suc d) (Node l r) = (perfect d l \<and> perfect d r)"
| "perfect _ _ = False"

fun leaf_at :: "nat \<Rightarrow> nat \<Rightarrow> mtree \<Rightarrow> bytes" where
  "leaf_at d i (Leaf h) = h"
| "leaf_at d i (Node l r) =
     (if i < 2 ^ (d - 1) then leaf_at (d - 1) i l else leaf_at (d - 1) (i - 2 ^ (d - 1)) r)"

text \<open>The sibling hashes of the leaf, from the bottom of the tree to the top.\<close>

fun path :: "(bytes \<Rightarrow> bytes) \<Rightarrow> nat \<Rightarrow> nat \<Rightarrow> mtree \<Rightarrow> bytes list" where
  "path keccak d i (Leaf h) = []"
| "path keccak d i (Node l r) =
     (if i < 2 ^ (d - 1) then path keccak (d - 1) i l @ [root keccak r]
      else path keccak (d - 1) (i - 2 ^ (d - 1)) r @ [root keccak l])"

text \<open>The inputs hashed when the root is built, and when a proof is folded.\<close>

fun tree_inputs :: "(bytes \<Rightarrow> bytes) \<Rightarrow> mtree \<Rightarrow> bytes set" where
  "tree_inputs keccak (Leaf h) = {}"
| "tree_inputs keccak (Node l r) =
     insert (root keccak l @ root keccak r) (tree_inputs keccak l \<union> tree_inputs keccak r)"

definition combine :: "nat \<Rightarrow> bytes \<Rightarrow> bytes \<Rightarrow> bytes" where
  "combine i h s = (if even i then h @ s else s @ h)"

fun merkle_fold :: "(bytes \<Rightarrow> bytes) \<Rightarrow> bytes list \<Rightarrow> bytes \<Rightarrow> nat \<Rightarrow> bytes" where
  "merkle_fold keccak [] h i = h"
| "merkle_fold keccak (s # ss) h i = merkle_fold keccak ss (keccak (combine i h s)) (i div 2)"

fun fold_inputs :: "(bytes \<Rightarrow> bytes) \<Rightarrow> bytes list \<Rightarrow> bytes \<Rightarrow> nat \<Rightarrow> bytes set" where
  "fold_inputs keccak [] h i = {}"
| "fold_inputs keccak (s # ss) h i =
     insert (combine i h s) (fold_inputs keccak ss (keccak (combine i h s)) (i div 2))"

section \<open>The loop is the fold\<close>

lemma inclusion_loop_Nil [simp]: "inclusion_loop keccak [] h i = h"
  by (simp add: inclusion_loop.simps)

lemma word64_even: "i < 2 ^ 64 \<Longrightarrow> (word_of_nat i :: uint64) mod 2 = 0 \<longleftrightarrow> even i"
  by (simp add: word_eq_iff_unsigned unat_mod_distrib unat_of_nat take_bit_nat_eq_self
      even_iff_mod_2_eq_zero flip: unat_eq_zero)

lemma word64_half: "i < 2 ^ 64 \<Longrightarrow> (word_of_nat i :: uint64) div 2 = word_of_nat (i div 2)"
  by (rule word_unat_eq_iff [THEN iffD2]) (simp add: unat_div_distrib unat_of_nat take_bit_nat_eq_self)

lemma inclusion_loop_fold:
  assumes "\<forall>s \<in> set ss. length s = 32" and "i < 2 ^ 64"
  shows "inclusion_loop keccak (concat ss) h (word_of_nat i) = merkle_fold keccak ss h i"
  using assms
proof (induction ss arbitrary: h i)
  case Nil
  then show ?case by simp
next
  case (Cons s ss)
  then have s: "length s = 32" by simp
  then have ne: "s \<noteq> []" by auto
  have "i div 2 < 2 ^ 64" using Cons.prems by simp
  with Cons have IH: "inclusion_loop keccak (concat ss) h' (word_of_nat (i div 2))
      = merkle_fold keccak ss h' (i div 2)" for h'
    by simp
  show ?case
    using s ne Cons.prems IH
    by (simp add: inclusion_loop.simps [of keccak "s @ concat ss"] Let_def word64_even word64_half
        combine_def)
qed

lemma length_concat_32: "\<forall>s \<in> set ss. length s = 32 \<Longrightarrow> length (concat ss) = 32 * length ss"
  by (induction ss) auto

lemma ProcessInclusionProof_fold:
  assumes "\<forall>s \<in> set ss. length s = 32" and "i < 2 ^ 64"
  shows "ProcessInclusionProof keccak (concat ss) h (word_of_nat i) = Ok (merkle_fold keccak ss h i)"
  using assms by (simp add: ProcessInclusionProof_def inclusion_loop_fold length_concat_32)

lemma merkle_fold_snoc:
  "merkle_fold keccak (ss @ [s]) h i =
     keccak (combine (i div 2 ^ length ss) (merkle_fold keccak ss h i) s)"
  by (induction ss arbitrary: h i) (simp_all add: div_mult2_eq)

lemma fold_inputs_snoc:
  "fold_inputs keccak (ss @ [s]) h i =
     insert (combine (i div 2 ^ length ss) (merkle_fold keccak ss h i) s) (fold_inputs keccak ss h i)"
  by (induction ss arbitrary: h i) (auto simp add: div_mult2_eq)

text \<open>Only the low \<open>length ss\<close> bits of the index matter below a node.\<close>

lemma merkle_fold_low_bits:
  "length ss \<le> d \<Longrightarrow> merkle_fold keccak ss h (2 ^ d + i) = merkle_fold keccak ss h i"
proof (induction ss arbitrary: h i d)
  case Nil
  then show ?case by simp
next
  case (Cons s ss)
  then obtain d' where d: "d = Suc d'" by (cases d) auto
  have "(2 ^ d + i) div 2 = 2 ^ d' + i div 2" and "even (2 ^ d + i) = even i"
    by (simp_all add: d)
  with Cons d show ?case by (simp add: combine_def)
qed

lemma fold_inputs_low_bits:
  "length ss \<le> d \<Longrightarrow> fold_inputs keccak ss h (2 ^ d + i) = fold_inputs keccak ss h i"
proof (induction ss arbitrary: h i d)
  case Nil
  then show ?case by simp
next
  case (Cons s ss)
  then obtain d' where d: "d = Suc d'" by (cases d) auto
  have "(2 ^ d + i) div 2 = 2 ^ d' + i div 2" and "even (2 ^ d + i) = even i"
    by (simp_all add: d)
  with Cons d show ?case by (simp add: combine_def)
qed

section \<open>Completeness and soundness\<close>

lemma index_bound: "d \<le> 64 \<Longrightarrow> i < 2 ^ d \<Longrightarrow> i < (2 :: nat) ^ 64"
  using power_increasing [of d 64 "2 :: nat"] by linarith

lemma top_bit: "j < 2 ^ d \<Longrightarrow> (2 ^ d + j) div 2 ^ d = Suc (0 :: nat)"
  by (simp add: div_add_self1)

lemma length_path: "perfect d t \<Longrightarrow> length (path keccak d i t) = d"
  by (induction d t arbitrary: i rule: perfect.induct) auto

lemma length_root:
  "perfect d t \<Longrightarrow> (\<And>x. length (keccak x) = 32) \<Longrightarrow> length (root keccak t) = 32"
  by (induction d t rule: perfect.induct) auto

lemma path_elements:
  assumes "perfect d t" and "\<And>x. length (keccak x) = 32"
  shows "\<forall>s \<in> set (path keccak d i t). length s = 32"
  using assms
proof (induction d t arbitrary: i rule: perfect.induct)
  case (2 d l r)
  then show ?case by (auto simp: length_root)
qed auto

lemma merkle_fold_path:
  "perfect d t \<Longrightarrow> i < 2 ^ d \<Longrightarrow>
     merkle_fold keccak (path keccak d i t) (leaf_at d i t) i = root keccak t"
proof (induction d t arbitrary: i rule: perfect.induct)
  case (2 d l r)
  show ?case
  proof (cases "i < 2 ^ d")
    case True
    with 2 show ?thesis by (simp add: merkle_fold_snoc length_path combine_def)
  next
    case False
    define j where "j = i - 2 ^ d"
    with False "2.prems" have i: "i = 2 ^ d + j" and j: "j < 2 ^ d" by auto
    have "(2 ^ d + j) div 2 ^ d = Suc 0" using j by (simp add: top_bit)
    with 2 i j show ?thesis
      by (simp add: merkle_fold_snoc length_path combine_def merkle_fold_low_bits)
  qed
qed auto

lemma merkle_fold_sound:
  assumes "perfect d t" and "i < 2 ^ d" and "length ss = d"
    and "\<forall>s \<in> set ss. length s = 32" and "length h = 32" and len: "\<And>x. length (keccak x) = 32"
    and "inj_on keccak (tree_inputs keccak t \<union> fold_inputs keccak ss h i)"
    and "merkle_fold keccak ss h i = root keccak t"
  shows "h = leaf_at d i t \<and> ss = path keccak d i t"
  using assms(1-5,7,8)
proof (induction d t arbitrary: i ss rule: perfect.induct)
  case (1 g)
  then show ?case by simp
next
  case (2 d l r)
  from "2.prems"(3) obtain ss' s where ss: "ss = ss' @ [s]" and len': "length ss' = d"
    by (cases ss rule: rev_cases) auto
  let ?m = "merkle_fold keccak ss' h i"
  have lens: "length s = 32" "length (root keccak l) = 32" "length (root keccak r) = 32"
    using "2.prems" ss len by (auto intro: length_root)
  have "combine (i div 2 ^ d) ?m s = root keccak l @ root keccak r"
    using "2.prems"(6,7) by (auto simp: ss len' merkle_fold_snoc fold_inputs_snoc dest: inj_onD)
  moreover have "inj_on keccak (tree_inputs keccak l \<union> fold_inputs keccak ss' h i)"
    "inj_on keccak (tree_inputs keccak r \<union> fold_inputs keccak ss' h i)"
    using "2.prems"(6) by (auto simp: ss fold_inputs_snoc intro: inj_on_subset)
  ultimately show ?case
  proof (cases "i < 2 ^ d")
    case True
    then have "?m @ s = root keccak l @ root keccak r"
      using \<open>combine _ _ _ = _\<close> by (simp add: combine_def)
    then have "?m = root keccak l" "s = root keccak r" using lens by auto
    with True 2 ss len' \<open>inj_on keccak (tree_inputs keccak l \<union> _)\<close> show ?thesis by auto
  next
    case False
    define j where "j = i - 2 ^ d"
    with False "2.prems"(2) have i: "i = 2 ^ d + j" and j: "j < 2 ^ d" by auto
    have "(2 ^ d + j) div 2 ^ d = Suc 0" using j by (simp add: top_bit)
    then have "s @ ?m = root keccak l @ root keccak r"
      using \<open>combine _ _ _ = _\<close> i by (simp add: combine_def)
    then have "s = root keccak l" "?m = root keccak r" using lens by auto
    with False i j 2 ss len' \<open>inj_on keccak (tree_inputs keccak r \<union> _)\<close> show ?thesis
      by (auto simp: merkle_fold_low_bits fold_inputs_low_bits)
  qed
qed auto

section \<open>Properties\<close>

text \<open>A function with 32-byte results that stands for Keccak in examples.\<close>

definition pad32 :: "bytes \<Rightarrow> bytes" where
  "pad32 x = take 32 (x @ replicate 32 0)"

lemma length_pad32 [simp]: "length (pad32 x) = 32"
  by (simp add: pad32_def)

text \<open>
  C6: completeness of inclusion proofs. For every perfect tree of 32-byte leaves, of depth at most
  64, \<^verbatim>\<open>ProcessInclusionProof\<close> applied to a leaf, its index and the concatenated sibling hashes of
  its path returns the root of the tree.
\<close>

theorem inclusion_proof_complete:
  assumes "perfect d t" and "d \<le> 64" and "i < 2 ^ d" and "\<forall>x. length (keccak x) = 32"
  shows "ProcessInclusionProof keccak (concat (path keccak d i t)) (leaf_at d i t) (word_of_nat i)
         = Ok (root keccak t)"
proof -
  have "i < 2 ^ 64" using assms(2,3) by (rule index_bound)
  moreover have "\<forall>s \<in> set (path keccak d i t). length s = 32"
    using assms(1,4) by (intro path_elements) auto
  ultimately show ?thesis
    using assms by (simp add: ProcessInclusionProof_fold merkle_fold_path)
qed

theorem inclusion_proof_complete_witness:
  "let t = Node (Leaf (replicate 32 1)) (Leaf (replicate 32 2)) in
   ProcessInclusionProof pad32 (concat (path pad32 1 1 t)) (leaf_at 1 1 t) (word_of_nat 1)
     = Ok (root pad32 t)"
  unfolding Let_def
  by (rule inclusion_proof_complete) (simp_all add: One_nat_def)

text \<open>
  C5: soundness of inclusion proofs. When \<^verbatim>\<open>ProcessInclusionProof\<close> returns the root of a perfect
  tree for a 32-byte leaf hash, an index below the number of leaves and a proof of as many elements
  as the tree is deep, and Keccak does not collide on the inputs hashed, then the leaf hash is the
  leaf of the tree at that index and the proof is its path.
\<close>

theorem inclusion_proof_sound:
  assumes "perfect d t" and "d \<le> 64" and "i < 2 ^ d"
    and "length ss = d" and "\<forall>s \<in> set ss. length s = 32" and "length h = 32"
    and "\<forall>x. length (keccak x) = 32"
    and "inj_on keccak (tree_inputs keccak t \<union> fold_inputs keccak ss h i)"
    and "ProcessInclusionProof keccak (concat ss) h (word_of_nat i) = Ok (root keccak t)"
  shows "h = leaf_at d i t \<and> ss = path keccak d i t"
proof -
  have "i < 2 ^ 64" using assms(2,3) by (rule index_bound)
  with assms have "merkle_fold keccak ss h i = root keccak t"
    by (simp add: ProcessInclusionProof_fold)
  with assms show ?thesis by (intro merkle_fold_sound) auto
qed

theorem inclusion_proof_sound_witness:
  "let t = Node (Leaf (replicate 32 1)) (Leaf (replicate 32 2)); h = replicate 32 2 in
   h = leaf_at 1 1 t \<and> [replicate 32 1] = path pad32 1 1 t"
  unfolding Let_def
  by (rule inclusion_proof_sound [where keccak = pad32])
     (simp_all add: One_nat_def ProcessInclusionProof_def inclusion_loop.simps combine_def
       Let_def)

end
