(* ===== verification/Verifier_V1.thy ===== *)
theory Verifier_V1
  imports Merkle
begin

text \<open>
  The verifier of EigenDA V1 certificates: \<^verbatim>\<open>verify/cert.go\<close> (what is read from Ethereum and how
  a certificate is compared with it) and \<^verbatim>\<open>verify/verifier.go\<close> (KZG commitment, security
  parameters and the composition of the checks).

  Everything outside the proxy is an argument: the Ethereum node and the contracts (actions on the
  world \<open>'w\<close>), \<^verbatim>\<open>retry.Do\<close> of op-service, Keccak, the ABI packing, and the curve arithmetic of
  gnark and of EigenDA's encoding library.
\<close>

section \<open>Ethereum-facing part (cert.go)\<close>

record 'w SecurityParamReader =
  QuorumAdversaryThresholdPercentages :: "('w, bytes) goact"
  QuorumNumbersRequired :: "('w, bytes) goact"

record 'w EthNode =
  ethBlockNumber :: "('w, uint64) goact"
  ethFinalizedBlock :: "('w, nat) goact"
  BatchIdToBatchMetadataHash :: "nat \<Rightarrow> uint32 \<Rightarrow> ('w, bytes) goact"

record 'w CertVerifier =
  ethConfirmationDepth :: uint64
  waitForFinalization :: bool
  ethClient :: "'w EthNode"
  quorumsRequired :: bytes
  quorumAdversaryThresholds :: "byte \<rightharpoonup> byte"

record VerifyConfig =
  VerifyCerts :: bool
  RPCURL :: string
  SvcManagerAddr :: string
  CertVerifierV1Addr :: string
  EthConfirmationDepth :: uint64
  WaitForFinalization :: bool
  verifyMaxBlobSizeBytes :: uint64

text \<open>The map from quorum number to threshold that the loop over the returned bytes builds.\<close>

definition threshold_map :: "bytes \<Rightarrow> byte \<rightharpoonup> byte" where
  "threshold_map thresholds =
     fold (\<lambda>i m. m(word_of_nat i \<mapsto> thresholds ! i)) [0..<length thresholds] Map.empty"

fun check_required :: "(byte \<rightharpoonup> byte) \<Rightarrow> bytes \<Rightarrow> unit go" where
  "check_required m [] = Ok ()"
| "check_required m (q # qs) =
     (case m q of
        None \<Rightarrow> Err (ErrorString (''required quorum '' @ decimal (unat q) @
                  '' does not have an adversary threshold. Was the EigenDAServiceManager properly deployed?''))
      | Some _ \<Rightarrow> check_required m qs)"

definition getQuorumParametersAtLatestBlock ::
  "'w SecurityParamReader \<Rightarrow> ('w, bytes \<times> (byte \<rightharpoonup> byte)) goact" where
  "getQuorumParametersAtLatestBlock reader =
     andThen (mapErr (WrapError ''failed to fetch QuorumNumbersRequired from EigenDAServiceManager'')
                (QuorumNumbersRequired reader)) (\<lambda>requiredQuorums.
     andThen (mapErr (WrapError ''failed to fetch QuorumAdversaryThresholdPercentages from EigenDAServiceManager'')
                (QuorumAdversaryThresholdPercentages reader)) (\<lambda>thresholds.
     if length thresholds > 255
     then throw (ErrorString (''thresholds received from EigenDAServiceManager contains '' @
            decimal (length thresholds) @ '' > 256 quorums, which isn't possible''))
     else let m = threshold_map thresholds in
          andThen (liftR (check_required m requiredQuorums)) (\<lambda>_.
          ret (requiredQuorums, m))))"

text \<open>
  \<^verbatim>\<open>NewCertVerifier\<close>. \<open>dial\<close> connects to the node, \<open>bindSvcManager\<close> binds the service manager contract
  at an address; \<open>verifierV1\<close> binds a custom verifier contract. The node's reader of the security
  parameters is \<open>readerOf\<close>. The struct literal at the end sets no \<^verbatim>\<open>waitForFinalization\<close> field, so
  the constructed value has its zero value.
\<close>

definition NewCertVerifier ::
  "(string \<Rightarrow> string + 'c) \<Rightarrow> ('c \<Rightarrow> string \<Rightarrow> go_error + 'w EthNode) \<Rightarrow>
   ('w EthNode \<Rightarrow> 'w SecurityParamReader) \<Rightarrow>
   ('w EthNode \<Rightarrow> string \<Rightarrow> go_error + 'w SecurityParamReader) \<Rightarrow>
   VerifyConfig \<Rightarrow> ('w, 'w CertVerifier) goact" where
  "NewCertVerifier dial bindSvcManager readerOf verifierV1 cfg =
     (if unat (EthConfirmationDepth cfg) \<ge> EthHappyPathFinalizationDepthBlocks
      then throw (ErrorString
        ''confirmation depth must be less than 64; consider using cfg.WaitForFinalization=true instead'')
      else
        andThen (case dial (RPCURL cfg) of
                   Inl msg \<Rightarrow> throw (ErrorString (''failed to dial ETH RPC node: '' @ msg))
                 | Inr conn \<Rightarrow> liftR (fromSum (bindSvcManager conn (SvcManagerAddr cfg)))) (\<lambda>client.
        andThen (if CertVerifierV1Addr cfg \<noteq> ''''
                 then mapErr (WrapError ''failed to create EigenDACertVerifierV1 caller'')
                        (liftR (fromSum (verifierV1 client (CertVerifierV1Addr cfg))))
                 else ret (readerOf client)) (\<lambda>reader.
        andThen (mapErr (WrapError ''failed to fetch quorum parameters from EigenDAServiceManager'')
                   (getQuorumParametersAtLatestBlock reader)) (\<lambda>(required, thresholds).
        ret \<lparr>ethConfirmationDepth = EthConfirmationDepth cfg,
             waitForFinalization = False,
             ethClient = client,
             quorumsRequired = required,
             quorumAdversaryThresholds = thresholds\<rparr>))))"

definition getConfDeepBlockNumber :: "'w CertVerifier \<Rightarrow> ('w, nat) goact" where
  "getConfDeepBlockNumber cv =
     (if waitForFinalization cv
      then mapErr (WrapError ''failed to get finalized block'') (ethFinalizedBlock (ethClient cv))
      else
        andThen (mapErr (WrapError ''failed to get latest block number'')
                   (ethBlockNumber (ethClient cv))) (\<lambda>blockNumber.
        if blockNumber < ethConfirmationDepth cv then ret 0
        else ret (unat (blockNumber - ethConfirmationDepth cv))))"

definition retrieveBatchMetadataHash ::
  "'w CertVerifier \<Rightarrow> uint32 \<Rightarrow> nat \<Rightarrow> ('w, bytes) goact" where
  "retrieveBatchMetadataHash cv batchID blockNumber =
     andThen (mapErr (WrapError ''calling EigenDAServiceManager.BatchIdToBatchMetadataHash'')
                (BatchIdToBatchMetadataHash (ethClient cv) blockNumber batchID)) (\<lambda>onchainHash.
     if onchainHash = replicate 32 0
     then throw (ErrorString (''BatchMetadataHash not found for BatchId '' @
            decimal (unat batchID) @ '' at block '' @ decimal blockNumber))
     else ret onchainHash)"

text \<open>The conversion \<^verbatim>\<open>[32]byte(s)\<close> panics on a shorter slice and drops what follows 32 bytes.\<close>

definition array32 :: "bytes \<Rightarrow> bytes go" where
  "array32 bs = (if length bs < 32 then Panic else Ok (take 32 bs))"

definition header_bytes :: "(BatchHeader \<Rightarrow> bytes) \<Rightarrow> BatchHeader option \<Rightarrow> bytes" where
  "header_bytes f h = (case h of None \<Rightarrow> [] | Some bh \<Rightarrow> f bh)"

definition verifyBatchConfirmedOnChain ::
  "(bytes \<Rightarrow> bytes) \<Rightarrow> abi_api \<Rightarrow> (nat \<Rightarrow> ('w, bytes) goact \<Rightarrow> ('w, bytes) goact) \<Rightarrow>
   'w CertVerifier \<Rightarrow> uint32 \<Rightarrow> BatchMetadata option \<Rightarrow> ('w, unit) goact" where
  "verifyBatchConfirmedOnChain keccak abi retryDo cv batchID batchMetadata =
     andThen (mapErr (WrapError (''retrieving batch that was confirmed at block '' @
         decimal (case batchMetadata of None \<Rightarrow> 0 | Some md \<Rightarrow> unat (ConfirmationBlockNumber md))))
       (retryDo 20
         (andThen (mapErr (WrapError ''failed to get context block'') (getConfDeepBlockNumber cv))
            (\<lambda>blockNumber. retrieveBatchMetadataHash cv batchID blockNumber)))) (\<lambda>onchainHash.
     (let hdr = GetBatchHeader batchMetadata in
      andThen (liftR (array32 (header_bytes BatchRoot hdr))) (\<lambda>blobHeadersRoot.
      andThen (liftR (array32 (case batchMetadata of None \<Rightarrow> [] | Some md \<Rightarrow> SignatoryRecordHash md)))
        (\<lambda>recordHash.
      andThen (mapErr (WrapError ''failed to hash batch metadata'') (liftR
        (HashBatchMetadata keccak abi blobHeadersRoot
           (header_bytes QuorumNumbers hdr) (header_bytes QuorumSignedPercentages hdr)
           (case hdr of None \<Rightarrow> 0 | Some h \<Rightarrow> ReferenceBlockNumber h) recordHash
           (case batchMetadata of None \<Rightarrow> 0 | Some md \<Rightarrow> ConfirmationBlockNumber md)))) (\<lambda>computedHash.
      if onchainHash = computedHash then ret ()
      else throw (BatchMetadataHashMismatchError onchainHash computedHash))))))"

definition verifyMerkleProof ::
  "(bytes \<Rightarrow> bytes) \<Rightarrow> abi_api \<Rightarrow> bytes \<Rightarrow> bytes \<Rightarrow> uint32 \<Rightarrow> BlobHeader \<Rightarrow> unit go" where
  "verifyMerkleProof keccak abi inclusionProof rootHash blobIndex blobHeader =
     bindR (HashEncodeBlobHeader keccak abi blobHeader) (\<lambda>leafHash.
     bindR (ProcessInclusionProof keccak inclusionProof leafHash (ucast blobIndex)) (\<lambda>generatedRoot.
     if rootHash = generatedRoot then Ok ()
     else Err (ErrorString (''root hash mismatch, expected: '' @ hex_EncodeToString rootHash @
                 '', got: '' @ hex_EncodeToString generatedRoot))))"

section \<open>The verifier (verifier.go)\<close>

text \<open>Curve and field arithmetic of the imported libraries; field elements are naturals.\<close>

record kzg_api =
  toFrArray :: "bytes \<Rightarrow> go_error + nat list"
  srsLen :: nat
  multiExp :: "nat list \<Rightarrow> go_error + nat \<times> nat"
  fpUnmarshal :: "bytes \<Rightarrow> nat"
  fpMarshal :: "nat \<Rightarrow> bytes"
  isOnCurve :: "nat \<times> nat \<Rightarrow> bool"

record 'w Verifier =
  kzgVerifier :: kzg_api
  verifyCerts :: bool
  certVerifier :: "'w CertVerifier option"
  holesky :: bool

definition HoleskySVCManagerV1Address :: string where
  "HoleskySVCManagerV1Address = ''0xD4A7E1Bd8015057293f0D0A557088c286942e84b''"

definition strings_TrimPrefix :: "string \<Rightarrow> string \<Rightarrow> string" where
  "strings_TrimPrefix s p = (if take (length p) s = p then drop (length p) s else s)"

definition isHolesky :: "string \<Rightarrow> bool" where
  "isHolesky svcAddress =
     (strings_ToLower (strings_TrimPrefix svcAddress ''0x'') =
      strings_ToLower (strings_TrimPrefix HoleskySVCManagerV1Address ''0x''))"

definition NewVerifier ::
  "(VerifyConfig \<Rightarrow> ('w, 'w CertVerifier) goact) \<Rightarrow> VerifyConfig \<Rightarrow> kzg_api \<Rightarrow> ('w, 'w Verifier) goact" where
  "NewVerifier newCertVerifier cfg kzg =
     andThen (if VerifyCerts cfg
              then andThen (mapErr (WrapError ''new cert verifier'') (newCertVerifier cfg)) (\<lambda>cv. ret (Some cv))
              else ret None) (\<lambda>cv.
     ret \<lparr>kzgVerifier = kzg, verifyCerts = VerifyCerts cfg, certVerifier = cv,
          holesky = isHolesky (SvcManagerAddr cfg)\<rparr>)"

definition Commit :: "kzg_api \<Rightarrow> bytes \<Rightarrow> (nat \<times> nat) go" where
  "Commit kzg blob =
     bindR (mapErrR (WrapError ''cannot convert bytes to field elements'') (fromSum (toFrArray kzg blob)))
       (\<lambda>inputFr.
     if srsLen kzg < length inputFr
     then Err (ErrorString (''cannot verify commitment because the number of stored srs in the memory is insufficient, have '' @
            decimal (srsLen kzg) @ '' need '' @ decimal (length inputFr)))
     else fromSum (multiExp kzg inputFr))"

definition VerifyCommitment :: "kzg_api \<Rightarrow> G1Commitment option \<Rightarrow> bytes \<Rightarrow> unit go" where
  "VerifyCommitment kzg certCommitment blob =
     bindR (Commit kzg blob) (\<lambda>actualCommit.
     case certCommitment of
       None \<Rightarrow> Panic
     | Some g \<Rightarrow>
         let cx = fpUnmarshal kzg (commitX g); cy = fpUnmarshal kzg (commitY g) in
         if \<not> isOnCurve kzg (cx, cy)
           then Err (ErrorString ''commitment (x,y) field elements are not on the BN254 curve'')
         else if fst actualCommit \<noteq> cx \<or> snd actualCommit \<noteq> cy
           then Err (ErrorString
             (''field elements do not match, x actual commit: '' @ hex_EncodeToString (fpMarshal kzg (fst actualCommit)) @
              '', x expected commit: '' @ hex_EncodeToString (fpMarshal kzg cx) @
              '', y actual commit: '' @ hex_EncodeToString (fpMarshal kzg (snd actualCommit)) @
              '', y expected commit: '' @ hex_EncodeToString (fpMarshal kzg cy)))
         else Ok ())"

text \<open>
  The loop of \<^verbatim>\<open>verifySecurityParams\<close> over the quorum parameters of the blob, from index \<open>i\<close> on. Both
  byte slices of the batch header are indexed with \<open>i\<close>; an index past the end panics, and so does
  a nil header or a nil certificate verifier.
\<close>

fun security_loop ::
  "'w CertVerifier option \<Rightarrow> BatchHeader option \<Rightarrow> nat \<Rightarrow> QuorumBlobParam list \<Rightarrow>
   (byte \<Rightarrow> bool) \<Rightarrow> (byte \<Rightarrow> bool) go" where
  "security_loop cvo bho i [] confirmedQuorums = Ok confirmedQuorums"
| "security_loop cvo None i (p # ps) confirmedQuorums = Panic"
| "security_loop cvo (Some batchHeader) i (p # ps) confirmedQuorums =
     (if i \<ge> length (QuorumNumbers batchHeader) then Panic
      else if QuorumNumbers batchHeader ! i \<noteq> QuorumNumber p
        then Err (ErrorString (''quorum number mismatch, expected: '' @
               decimal (unat (QuorumNumbers batchHeader ! i)) @ '', got: '' @ decimal (unat (QuorumNumber p))))
      else if AdversaryThresholdPercentage p > ConfirmationThresholdPercentage p
        then Err (ErrorString
          ''adversary threshold percentage must be greater than or equal to confirmation threshold percentage'')
      else case cvo of None \<Rightarrow> Panic | Some cv \<Rightarrow>
        if (case quorumAdversaryThresholds cv (QuorumNumber p) of
                 None \<Rightarrow> False | Some t \<Rightarrow> AdversaryThresholdPercentage p < t)
        then Err (ErrorString
          ''adversary threshold percentage must be >= quorum adversary threshold percentage'')
      else if i \<ge> length (QuorumSignedPercentages batchHeader) then Panic
      else if QuorumSignedPercentages batchHeader ! i < ConfirmationThresholdPercentage p
        then Err (ErrorString ''signed stake for quorum must be >= to confirmation threshold percentage'')
      else security_loop cvo (Some batchHeader) (Suc i) ps (confirmedQuorums(QuorumNumber p := True)))"

fun required_loop :: "(byte \<Rightarrow> bool) \<Rightarrow> bytes \<Rightarrow> unit go" where
  "required_loop confirmedQuorums [] = Ok ()"
| "required_loop confirmedQuorums (quorum # qs) =
     (if \<not> confirmedQuorums quorum
      then Err (ErrorString (''quorum '' @ decimal (unat quorum) @
             '' is required but not present in confirmed quorums''))
      else required_loop confirmedQuorums qs)"

definition requiredQuorum :: "uint32 \<Rightarrow> 'w Verifier \<Rightarrow> bytes go" where
  "requiredQuorum referenceBlockNumber v =
     (if holesky v \<and> referenceBlockNumber \<ge> 2950000 \<and> referenceBlockNumber < 2960000
      then Ok [0]
      else case certVerifier v of None \<Rightarrow> Panic | Some cv \<Rightarrow> Ok (quorumsRequired cv))"

definition verifySecurityParams ::
  "'w Verifier \<Rightarrow> BlobHeader \<Rightarrow> BatchHeader option \<Rightarrow> unit go" where
  "verifySecurityParams v blobHeader batchHeader =
     bindR (security_loop (certVerifier v) batchHeader 0 (QuorumBlobParams blobHeader) (\<lambda>_. False))
       (\<lambda>confirmed.
     case batchHeader of None \<Rightarrow> Panic | Some bh \<Rightarrow>
     bindR (requiredQuorum (ReferenceBlockNumber bh) v) (\<lambda>required. required_loop confirmed required))"

definition VerifyCert ::
  "(bytes \<Rightarrow> bytes) \<Rightarrow> abi_api \<Rightarrow> (nat \<Rightarrow> ('w, bytes) goact \<Rightarrow> ('w, bytes) goact) \<Rightarrow>
   'w Verifier \<Rightarrow> Certificate \<Rightarrow> ('w, unit) goact" where
  "VerifyCert keccak abi retryDo v cert =
     (if \<not> verifyCerts v then ret ()
      else case certVerifier v of None \<Rightarrow> panic | Some cv \<Rightarrow>
        let pf = certBlobVerificationProof cert in
        andThen (mapErr (WrapError ''failed to verify batch'')
          (verifyBatchConfirmedOnChain keccak abi retryDo cv
             (case pf of None \<Rightarrow> 0 | Some p \<Rightarrow> BatchId p) (GetBatchMetadata pf))) (\<lambda>_.
        andThen (liftR (BatchHeaderRoot cert)) (\<lambda>rootHash.
        andThen (liftR (ReadBlobHeader cert)) (\<lambda>header.
        andThen (mapErr (WrapError ''failed to verify merkle proof'') (liftR
          (verifyMerkleProof keccak abi
             (case pf of None \<Rightarrow> [] | Some p \<Rightarrow> InclusionProof p) rootHash
             (case pf of None \<Rightarrow> 0 | Some p \<Rightarrow> proofBlobIndex p) header))) (\<lambda>_.
        mapErr (WrapError ''failed to verify security parameters'') (liftR
          (verifySecurityParams v header (GetBatchHeader (GetBatchMetadata pf)))))))))"

section \<open>Quorum parameters read from the chain\<close>

lemma fold_threshold_map:
  "n \<le> 256 \<Longrightarrow>
   fold (\<lambda>i m. m(word_of_nat i \<mapsto> thresholds ! i)) [0..<n] Map.empty (q :: byte) =
     (if unat q < n then Some (thresholds ! unat q) else None)"
proof (induction n)
  case (Suc n)
  have "word_of_nat n = q \<longleftrightarrow> unat q = n"
    using Suc.prems by (auto simp: unat_of_nat unat_word_ariths take_bit_eq_mod)
  with Suc show ?case by (auto simp: less_Suc_eq)
qed simp

text \<open>For at most 256 quorums the map is the byte slice read at the quorum's number.\<close>

lemma threshold_map_lookup:
  "length thresholds \<le> 256 \<Longrightarrow>
   threshold_map thresholds q =
     (if unat q < length thresholds then Some (thresholds ! unat q) else None)"
  by (simp add: threshold_map_def fold_threshold_map)

lemma check_required_Ok: "check_required m qs = Ok () \<longleftrightarrow> set qs \<subseteq> dom m"
  by (induction qs) (auto split: option.splits)

lemma required_loop_Ok: "required_loop c qs = Ok () \<longleftrightarrow> (\<forall>q \<in> set qs. c q)"
  by (induction qs) auto

lemma required_loop_not_Panic [simp]: "required_loop c qs \<noteq> Panic" "required_loop c qs \<noteq> Blocked"
  by (induction qs) auto

section \<open>Security parameters\<close>

text \<open>What one entry of the blob's quorum parameters has to satisfy at index \<open>i\<close> of the batch header.\<close>

definition quorum_ok :: "(byte \<rightharpoonup> byte) \<Rightarrow> BatchHeader \<Rightarrow> nat \<Rightarrow> QuorumBlobParam \<Rightarrow> bool" where
  "quorum_ok thresholds bh i p \<longleftrightarrow>
     i < length (QuorumNumbers bh) \<and> i < length (QuorumSignedPercentages bh) \<and>
     QuorumNumbers bh ! i = QuorumNumber p \<and>
     AdversaryThresholdPercentage p \<le> ConfirmationThresholdPercentage p \<and>
     (case thresholds (QuorumNumber p) of None \<Rightarrow> True | Some t \<Rightarrow> t \<le> AdversaryThresholdPercentage p) \<and>
     ConfirmationThresholdPercentage p \<le> QuorumSignedPercentages bh ! i"

lemma security_loop_Ok:
  "security_loop (Some cv) (Some bh) i ps c = Ok c' \<longleftrightarrow>
     (\<forall>k < length ps. quorum_ok (quorumAdversaryThresholds cv) bh (i + k) (ps ! k)) \<and>
     c' = (\<lambda>q. c q \<or> q \<in> QuorumNumber ` set ps)"
proof (induction ps arbitrary: i c)
  case (Cons p ps)
  have step: "security_loop (Some cv) (Some bh) i (p # ps) c = Ok c' \<longleftrightarrow>
      quorum_ok (quorumAdversaryThresholds cv) bh i p \<and>
      security_loop (Some cv) (Some bh) (Suc i) ps (c(QuorumNumber p := True)) = Ok c'"
    by (auto simp: quorum_ok_def not_less not_le split: option.splits)
  show ?case
    unfolding step Cons.IH by (auto simp: All_less_Suc2 fun_eq_iff)
qed auto

lemma verifySecurityParams_Ok_iff:
  assumes "certVerifier v = Some cv"
  shows "verifySecurityParams v hdr (Some bh) = Ok () \<longleftrightarrow>
     (\<forall>k < length (QuorumBlobParams hdr).
        quorum_ok (quorumAdversaryThresholds cv) bh k (QuorumBlobParams hdr ! k)) \<and>
     (\<exists>required. requiredQuorum (ReferenceBlockNumber bh) v = Ok required \<and>
        set required \<subseteq> QuorumNumber ` set (QuorumBlobParams hdr))"
  using assms
  by (auto simp: verifySecurityParams_def bindR_eq_Ok security_loop_Ok required_loop_Ok)

section \<open>Construction and on-chain lookup\<close>

lemma getQuorumParameters_Ok:
  assumes "getQuorumParametersAtLatestBlock reader w = (Ok (required, m), w')"
  shows "set required \<subseteq> dom m"
  using assms
  by (auto simp: getQuorumParametersAtLatestBlock_def andThen_eq_Ok act_simps Let_def check_required_Ok
      split: if_splits prod.splits result.splits)

lemma NewCertVerifier_Ok:
  assumes "NewCertVerifier dial bindSvc readerOf verifierV1 cfg w = (Ok cv, w')"
  shows "unat (ethConfirmationDepth cv) < 64" "\<not> waitForFinalization cv"
    "set (quorumsRequired cv) \<subseteq> dom (quorumAdversaryThresholds cv)"
proof -
  from assms obtain w1 reader required m where
    "getQuorumParametersAtLatestBlock reader w1 = (Ok (required, m), w')"
    "quorumsRequired cv = required" "quorumAdversaryThresholds cv = m"
    "unat (ethConfirmationDepth cv) < 64" "\<not> waitForFinalization cv"
    by (auto simp: NewCertVerifier_def EthHappyPathFinalizationDepthBlocks_def run_Ok
        split: if_splits)
  then show "unat (ethConfirmationDepth cv) < 64" "\<not> waitForFinalization cv"
    "set (quorumsRequired cv) \<subseteq> dom (quorumAdversaryThresholds cv)"
    by (auto dest: getQuorumParameters_Ok)
qed

text \<open>With a confirmation depth, the block is the latest one minus the depth, cut off at zero.\<close>

lemma getConfDeepBlockNumber_depth:
  assumes "\<not> waitForFinalization cv" and "ethBlockNumber (ethClient cv) w = (Ok n, w')"
  shows "getConfDeepBlockNumber cv w = (Ok (unat n - unat (ethConfirmationDepth cv)), w')"
  using assms
  by (auto simp: getConfDeepBlockNumber_def act_simps unat_sub not_less word_less_nat_alt
      word_le_nat_alt)

lemma verifyMerkleProof_Ok_iff:
  "verifyMerkleProof keccak abi ip rootHash idx hdr = Ok () \<longleftrightarrow>
     (\<exists>leaf. HashEncodeBlobHeader keccak abi hdr = Ok leaf \<and>
        ProcessInclusionProof keccak ip leaf (ucast idx) = Ok rootHash)"
  by (auto simp: verifyMerkleProof_def bindR_eq_Ok)

lemma array32_Ok: "array32 bs = Ok a \<longleftrightarrow> 32 \<le> length bs \<and> a = take 32 bs"
  by (auto simp: array32_def)

text \<open>The hash the proxy computes from the metadata of a certificate.\<close>

definition computed_metadata_hash ::
  "(bytes \<Rightarrow> bytes) \<Rightarrow> abi_api \<Rightarrow> BatchHeader \<Rightarrow> BatchMetadata \<Rightarrow> bytes go" where
  "computed_metadata_hash keccak abi h md =
     HashBatchMetadata keccak abi (take 32 (BatchRoot h)) (QuorumNumbers h)
       (QuorumSignedPercentages h) (ReferenceBlockNumber h) (take 32 (SignatoryRecordHash md))
       (ConfirmationBlockNumber md)"

text \<open>One attempt of the lookup that \<^verbatim>\<open>retry.Do\<close> repeats.\<close>

definition onchain_attempt :: "'w CertVerifier \<Rightarrow> uint32 \<Rightarrow> ('w, bytes) goact" where
  "onchain_attempt cv batchID =
     andThen (mapErr (WrapError ''failed to get context block'') (getConfDeepBlockNumber cv))
       (\<lambda>blockNumber. retrieveBatchMetadataHash cv batchID blockNumber)"

lemma verifyBatchConfirmedOnChain_Ok:
  assumes "verifyBatchConfirmedOnChain keccak abi retryDo cv bid (Some md) w = (Ok (), w')"
    and "metaBatchHeader md = Some h"
  shows "\<exists>hash. retryDo 20 (onchain_attempt cv bid) w = (Ok hash, w') \<and>
           computed_metadata_hash keccak abi h md = Ok hash"
  using assms
  by (auto simp: verifyBatchConfirmedOnChain_def GetBatchHeader_def header_bytes_def Let_def
      run_Ok array32_Ok onchain_attempt_def
      computed_metadata_hash_def split: if_splits)

section \<open>A concrete verifier\<close>

text \<open>
  A node at block 100 that stores one batch, and a certificate of it with one quorum. The packing
  and the hash are simple functions of the same shape as the real ones.
\<close>

definition ex_abi :: abi_api where
  "ex_abi = \<lparr>packBatchHeader = (\<lambda>r q s n. Inr r), packBytes32Pair = (\<lambda>a b. Inr (a @ b)),
             packBlobHeader = (\<lambda>h. Inr [1])\<rparr>"

definition ex_root :: bytes where
  "ex_root = 1 # replicate 31 0"

definition ex_node :: "unit EthNode" where
  "ex_node = \<lparr>ethBlockNumber = ret 100, ethFinalizedBlock = ret 36,
              BatchIdToBatchMetadataHash = (\<lambda>n bid. ret ex_root)\<rparr>"

definition ex_reader :: "unit SecurityParamReader" where
  "ex_reader = \<lparr>QuorumAdversaryThresholdPercentages = ret [33], QuorumNumbersRequired = ret [0]\<rparr>"

definition ex_verify_cfg :: VerifyConfig where
  "ex_verify_cfg = \<lparr>VerifyCerts = True, RPCURL = ''url'', SvcManagerAddr = ''0x01'',
     CertVerifierV1Addr = [], EthConfirmationDepth = 6, WaitForFinalization = True, verifyMaxBlobSizeBytes = 0\<rparr>"

definition ex_cv :: "unit CertVerifier" where
  "ex_cv = \<lparr>ethConfirmationDepth = 6, waitForFinalization = False, ethClient = ex_node,
            quorumsRequired = [0], quorumAdversaryThresholds = threshold_map [33]\<rparr>"

definition ex_kzg :: kzg_api where
  "ex_kzg = \<lparr>toFrArray = (\<lambda>bs. Inr (map unat bs)), srsLen = 1000, multiExp = (\<lambda>fs. Inr (sum_list fs, 1)),
             fpUnmarshal = be_nat, fpMarshal = (\<lambda>n. replicate 31 0 @ [word_of_nat n]), isOnCurve = (\<lambda>p. True)\<rparr>"

definition ex_verifier :: "kzg_api \<Rightarrow> unit Verifier" where
  "ex_verifier kzg = \<lparr>kzgVerifier = kzg, verifyCerts = True, certVerifier = Some ex_cv, holesky = False\<rparr>"

definition ex_header :: BatchHeader where
  "ex_header = \<lparr>BatchRoot = ex_root, QuorumNumbers = [0], QuorumSignedPercentages = [70],
                ReferenceBlockNumber = 90\<rparr>"

definition ex_metadata :: BatchMetadata where
  "ex_metadata = \<lparr>metaBatchHeader = Some ex_header, SignatoryRecordHash = replicate 32 7, Fee = [],
                  ConfirmationBlockNumber = 92, BatchHeaderHash = replicate 32 9\<rparr>"

definition ex_blob_header :: BlobHeader where
  "ex_blob_header = \<lparr>hdrCommitment = \<lparr>pointX = 1, pointY = 1\<rparr>, hdrDataLength = 4,
     QuorumBlobParams = [\<lparr>QuorumNumber = 0, AdversaryThresholdPercentage = 33,
                          ConfirmationThresholdPercentage = 55, ChunkLength = 1\<rparr>]\<rparr>"

definition ex_cert :: Certificate where
  "ex_cert = \<lparr>certBlobHeader = Some \<lparr>pbCommitment = Some \<lparr>commitX = replicate 31 0 @ [1], commitY = replicate 31 0 @ [1]\<rparr>, pbDataLength = 4,
       pbBlobQuorumParams = [Some \<lparr>pbQuorumNumber = 0, pbAdversaryThresholdPercentage = 33,
         pbConfirmationThresholdPercentage = 55, pbChunkLength = 1\<rparr>]\<rparr>,
     certBlobVerificationProof = Some \<lparr>BatchId = 5, proofBlobIndex = 0,
       proofBatchMetadata = Some ex_metadata, InclusionProof = [], QuorumIndexes = [0]\<rparr>\<rparr>"

lemmas ex_defs = ex_abi_def ex_root_def ex_node_def ex_reader_def ex_verify_cfg_def ex_cv_def
  ex_verifier_def ex_header_def ex_metadata_def ex_blob_header_def ex_cert_def

lemma ex_selectors:
  "certBlobVerificationProof ex_cert = Some \<lparr>BatchId = 5, proofBlobIndex = 0,
     proofBatchMetadata = Some ex_metadata, InclusionProof = [], QuorumIndexes = [0]\<rparr>"
  "metaBatchHeader ex_metadata = Some ex_header" "BatchRoot ex_header = ex_root"
  "certVerifier (ex_verifier kzg) = Some ex_cv" "verifyCerts (ex_verifier kzg)"
  by (simp_all add: ex_defs)

lemma ex_ReadBlobHeader: "ReadBlobHeader ex_cert = Ok ex_blob_header"
  by (simp add: ReadBlobHeader_def ex_defs be_nat_leading_zeros read_quorum_param_def) (simp add: be_nat_def)

lemma ex_pad32_root [simp]: "pad32 [1] = ex_root" "pad32 (ex_root @ x) = ex_root" "pad32 ex_root = ex_root"
  by (simp_all add: pad32_def ex_root_def)

lemma ex_securityParams: "verifySecurityParams (ex_verifier kzg) ex_blob_header (Some ex_header) = Ok ()"
  by (simp add: verifySecurityParams_def requiredQuorum_def ex_defs threshold_map_def)

lemma ex_VerifyCert:
  "VerifyCert pad32 ex_abi (\<lambda>n m. m) (ex_verifier kzg) ex_cert () = (Ok (), ())"
proof -
  have "getConfDeepBlockNumber ex_cv () = (Ok 94, ())"
    by (simp add: getConfDeepBlockNumber_def ex_defs act_simps)
  moreover have "HashBatchMetadata pad32 ex_abi ex_root q s n r b = Ok ex_root" for q s n r b
    by (simp add: HashBatchMetadata_def HashBatchHashedMetadata_def ex_abi_def)
  moreover have "retrieveBatchMetadataHash ex_cv 5 n () = (Ok ex_root, ())" for n
    by (simp add: retrieveBatchMetadataHash_def ex_defs act_simps numeral_eq_Suc)
  ultimately have "verifyBatchConfirmedOnChain pad32 ex_abi (\<lambda>n m. m) ex_cv 5 (Some ex_metadata) () = (Ok (), ())"
    by (simp add: verifyBatchConfirmedOnChain_def GetBatchHeader_def header_bytes_def Let_def act_simps
        array32_def ex_metadata_def ex_header_def) (simp add: ex_root_def act_simps)
  moreover have "verifyMerkleProof pad32 ex_abi [] ex_root 0 ex_blob_header = Ok ()"
    by (simp add: verifyMerkleProof_Ok_iff HashEncodeBlobHeader_def HashBlobHeader_def
        ProcessInclusionProof_def ex_abi_def)
  ultimately show ?thesis
    by (simp add: VerifyCert_def BatchHeaderRoot_def GetBatchMetadata_def GetBatchHeader_def run_Ok
        ex_ReadBlobHeader ex_securityParams ex_selectors)
qed

section \<open>Properties\<close>

text \<open>
  What a constructed certificate verifier satisfies. Whatever the node, the contracts and the
  configuration are, when \<^verbatim>\<open>NewCertVerifier\<close> returns a verifier then its confirmation depth is below
  64, every required quorum has an adversary threshold, and the verifier does not wait for
  finalization: the configuration's \<^verbatim>\<open>WaitForFinalization\<close> never reaches it. The block at which it
  then looks up a batch is the latest block minus the depth, cut off at zero.
\<close>

theorem NewCertVerifier_invariant:
  assumes "NewCertVerifier dial bindSvc readerOf verifierV1 cfg w0 = (Ok cv, w1)"
    and "ethBlockNumber (ethClient cv) w = (Ok n, w')"
  shows "unat (ethConfirmationDepth cv) < 64 \<and> \<not> waitForFinalization cv \<and>
     set (quorumsRequired cv) \<subseteq> dom (quorumAdversaryThresholds cv) \<and>
     getConfDeepBlockNumber cv w = (Ok (unat n - unat (ethConfirmationDepth cv)), w')"
  using NewCertVerifier_Ok [OF assms(1)] assms(2) by (simp add: getConfDeepBlockNumber_depth)

theorem NewCertVerifier_invariant_witness:
  "NewCertVerifier (\<lambda>u. Inr ()) (\<lambda>c a. Inr ex_node) (\<lambda>n. ex_reader) (\<lambda>n a. Inr ex_reader) ex_verify_cfg ()
     = (Ok ex_cv, ()) \<and>
   \<not> waitForFinalization ex_cv \<and> WaitForFinalization ex_verify_cfg \<and>
   getConfDeepBlockNumber ex_cv () = (Ok 94, ())"
proof -
  have *: "NewCertVerifier (\<lambda>u. Inr ()) (\<lambda>c a. Inr ex_node) (\<lambda>n. ex_reader) (\<lambda>n a. Inr ex_reader)
      ex_verify_cfg () = (Ok ex_cv, ())"
    by (simp add: NewCertVerifier_def EthHappyPathFinalizationDepthBlocks_def act_simps
        getQuorumParametersAtLatestBlock_def ex_reader_def ex_verify_cfg_def ex_cv_def threshold_map_def)
  have "ethBlockNumber (ethClient ex_cv) () = (Ok 100, ())"
    by (simp add: ex_defs act_simps)
  from NewCertVerifier_invariant [OF * this] * show ?thesis
    by (simp add: ex_cv_def ex_verify_cfg_def)
qed

text \<open>
  C7: security parameters. When \<^verbatim>\<open>verifySecurityParams\<close> accepts, outside the block range of the
  Holesky exception, with a verifier whose required quorums have thresholds, then every required
  quorum occurs in the batch header at an index where the signed stake is at least the adversary
  threshold of that quorum.
\<close>

theorem verifySecurityParams_sound:
  assumes "certVerifier v = Some cv"
    and "set (quorumsRequired cv) \<subseteq> dom (quorumAdversaryThresholds cv)"
    and "\<not> (holesky v \<and> 2950000 \<le> ReferenceBlockNumber bh \<and> ReferenceBlockNumber bh < 2960000)"
    and "verifySecurityParams v hdr (Some bh) = Ok ()"
    and "q \<in> set (quorumsRequired cv)"
  shows "\<exists>i < length (QuorumNumbers bh). \<exists>t. QuorumNumbers bh ! i = q \<and>
     quorumAdversaryThresholds cv q = Some t \<and>
     i < length (QuorumSignedPercentages bh) \<and> t \<le> QuorumSignedPercentages bh ! i"
proof -
  have "requiredQuorum (ReferenceBlockNumber bh) v = Ok (quorumsRequired cv)"
    using assms(1,3) by (auto simp: requiredQuorum_def)
  with assms have "q \<in> QuorumNumber ` set (QuorumBlobParams hdr)"
    and all: "\<forall>k < length (QuorumBlobParams hdr).
       quorum_ok (quorumAdversaryThresholds cv) bh k (QuorumBlobParams hdr ! k)"
    by (auto simp: verifySecurityParams_Ok_iff)
  then obtain k where k: "k < length (QuorumBlobParams hdr)"
    and q: "QuorumNumber (QuorumBlobParams hdr ! k) = q"
    by (auto simp: in_set_conv_nth)
  have ok: "quorum_ok (quorumAdversaryThresholds cv) bh k (QuorumBlobParams hdr ! k)"
    using all k by blast
  obtain t where "quorumAdversaryThresholds cv q = Some t" using assms(2,5) by auto
  with ok q show ?thesis
    by (auto simp: quorum_ok_def intro!: exI [of _ k] exI [of _ t])
qed

theorem verifySecurityParams_sound_witness:
  "\<exists>i < length (QuorumNumbers ex_header). \<exists>t. QuorumNumbers ex_header ! i = 0 \<and>
     quorumAdversaryThresholds ex_cv 0 = Some t \<and>
     i < length (QuorumSignedPercentages ex_header) \<and> t \<le> QuorumSignedPercentages ex_header ! i"
  by (rule verifySecurityParams_sound [where v = "ex_verifier ex_kzg" and hdr = ex_blob_header])
     (simp_all add: ex_securityParams, simp_all add: ex_defs threshold_map_def)

text \<open>
  C4: what an accepted certificate means. When certificate verification is on and \<^verbatim>\<open>VerifyCert\<close>
  returns no error, then the certificate has a proof, batch metadata and headers; the hash computed
  from its batch metadata is the one the retried contract lookup returned for its batch id; the
  inclusion proof leads from the hash of its blob header to the batch root; and its security
  parameters were accepted.
\<close>

theorem VerifyCert_sound:
  assumes "verifyCerts v" and "VerifyCert keccak abi retryDo v cert w = (Ok (), w')"
  shows "\<exists>cv p md h hdr hash leaf.
     certVerifier v = Some cv \<and> certBlobVerificationProof cert = Some p \<and>
     proofBatchMetadata p = Some md \<and> metaBatchHeader md = Some h \<and>
     ReadBlobHeader cert = Ok hdr \<and>
     retryDo 20 (onchain_attempt cv (BatchId p)) w = (Ok hash, w') \<and>
     computed_metadata_hash keccak abi h md = Ok hash \<and>
     HashEncodeBlobHeader keccak abi hdr = Ok leaf \<and>
     ProcessInclusionProof keccak (InclusionProof p) leaf (ucast (proofBlobIndex p)) = Ok (BatchRoot h) \<and>
     verifySecurityParams v hdr (Some h) = Ok ()"
proof -
  from assms obtain cv p md h hdr where
    "certVerifier v = Some cv" and p: "certBlobVerificationProof cert = Some p"
    "proofBatchMetadata p = Some md" "metaBatchHeader md = Some h" and
    "ReadBlobHeader cert = Ok hdr" and
    chain: "verifyBatchConfirmedOnChain keccak abi retryDo cv (BatchId p) (Some md) w = (Ok (), w')" and
    "verifyMerkleProof keccak abi (InclusionProof p) (BatchRoot h) (proofBlobIndex p) hdr = Ok ()"
    "verifySecurityParams v hdr (Some h) = Ok ()"
    by (auto simp: VerifyCert_def BatchHeaderRoot_def GetBatchMetadata_def GetBatchHeader_def Let_def
        run_Ok split: option.splits)
  then show ?thesis
    using verifyBatchConfirmedOnChain_Ok [OF chain] by (auto simp: verifyMerkleProof_Ok_iff)
qed

theorem VerifyCert_sound_witness:
  "VerifyCert pad32 ex_abi (\<lambda>n m. m) (ex_verifier ex_kzg) ex_cert () = (Ok (), ()) \<and>
   (\<exists>leaf. HashEncodeBlobHeader pad32 ex_abi ex_blob_header = Ok leaf \<and>
      ProcessInclusionProof pad32 [] leaf 0 = Ok ex_root)"
  using VerifyCert_sound [of "ex_verifier ex_kzg" pad32 ex_abi "\<lambda>n m. m" ex_cert "()" "()"]
    ex_VerifyCert
  by (auto simp: ex_ReadBlobHeader) (auto simp: ex_defs)

end
