(* ===== verification/Stores.thy ===== *)
theory Stores
  imports Common
begin

text \<open>
  The store interfaces of \<^verbatim>\<open>common/store.go\<close>, the retry combinator of \<^verbatim>\<open>retry-go\<close> with the semantics
  of its options the stores rely on, and \<^verbatim>\<open>ConvertToRetryGoAttempts\<close>.

  An interface value is a record of actions over a world \<open>'w\<close>, which holds the state of every
  backend. A backend whose state is a part of the world is embedded with \<open>zoom\<close>.
\<close>

section \<open>Interfaces\<close>

record 'w EigenDAV1Store =
  v1Put :: "bytes \<Rightarrow> ('w, bytes) goact"
  v1Get :: "bytes \<Rightarrow> ('w, bytes) goact"
  v1Verify :: "bytes \<Rightarrow> bytes \<Rightarrow> CertVerificationOpts \<Rightarrow> ('w, unit) goact"
  v1BackendType :: BackendType

record 'w EigenDAV2Store =
  v2Put :: "bytes \<Rightarrow> ('w, bytes) goact"
  v2Get :: "VersionedCert \<Rightarrow> ('w, bytes) goact"
  v2Verify :: "VersionedCert \<Rightarrow> CertVerificationOpts \<Rightarrow> ('w, unit) goact"
  v2BackendType :: BackendType

text \<open>\<^verbatim>\<open>SecondaryStore.Get\<close> may return nil without an error, which is \<open>None\<close>.\<close>

record 'w SecondaryStore =
  scPut :: "bytes \<Rightarrow> bytes \<Rightarrow> ('w, unit) goact"
  scGet :: "bytes \<Rightarrow> ('w, bytes option) goact"
  scVerify :: "bytes \<Rightarrow> bytes \<Rightarrow> ('w, unit) goact"
  scBackendType :: BackendType

definition zoom :: "('w \<Rightarrow> 's) \<Rightarrow> ('s \<Rightarrow> 'w \<Rightarrow> 'w) \<Rightarrow> ('s, 'a) goact \<Rightarrow> ('w, 'a) goact" where
  "zoom getS putS m w = (case m (getS w) of (r, s') \<Rightarrow> (r, putS s' w))"

lemma zoom_eq [simp]: "m (getS w) = (r, s') \<Longrightarrow> zoom getS putS m w = (r, putS s' w)"
  by (simp add: zoom_def)

section \<open>Retries\<close>

definition putTriesZero :: go_error where
  "putTriesZero = ErrorString
     (''putTries==0 is not permitted. >0 means 'try N times', <0 means 'retry indefinitely'' @ [CHR 0x27])"

text \<open>
  \<^verbatim>\<open>ConvertToRetryGoAttempts\<close>: a negative number of tries is the value 0 of \<^verbatim>\<open>retry-go\<close>, which means
  to retry forever. \<^verbatim>\<open>int\<close> and \<^verbatim>\<open>uint\<close> are 64 bits wide.
\<close>

definition ConvertToRetryGoAttempts :: "int \<Rightarrow> uint64" where
  "ConvertToRetryGoAttempts putTries = (if putTries < 0 then 0 else word_of_int putTries)"

text \<open>
  \<^verbatim>\<open>retry.DoWithData\<close> with \<^verbatim>\<open>RetryIf\<close>, \<^verbatim>\<open>Attempts(n)\<close> and \<^verbatim>\<open>LastErrorOnly\<close>, for \<open>n > 0\<close>, as documented: at
  most \<open>n\<close> attempts, an error for which the predicate is false ends the loop, and the last error is
  the one returned. \<^verbatim>\<open>retry.Do\<close> of op-service is the case where every error is retried, with an
  error of its own around the last one.
\<close>

fun retry_attempts :: "(go_error \<Rightarrow> bool) \<Rightarrow> nat \<Rightarrow> ('w, 'a) goact \<Rightarrow> ('w, 'a) goact" where
  "retry_attempts p 0 m w = m w"
| "retry_attempts p (Suc n) m w =
     (case m w of
        (Err e, w') \<Rightarrow> if n = 0 \<or> \<not> p e then (Err e, w') else retry_attempts p n m w'
      | r \<Rightarrow> r)"

definition retry_documented ::
  "((go_error \<Rightarrow> bool) \<Rightarrow> uint64 \<Rightarrow> ('w, 'a) goact \<Rightarrow> ('w, 'a) goact) \<Rightarrow> bool" where
  "retry_documented retryDo \<longleftrightarrow>
     (\<forall>p n m. 0 < n \<longrightarrow> retryDo p n m = retry_attempts p (unat n) m)"

lemma retry_attempts_Ok:
  "m w = (Ok a, w') \<Longrightarrow> retry_attempts p n m w = (Ok a, w')"
  by (cases n) simp_all

lemma retry_attempts_abort:
  "m w = (Err e, w') \<Longrightarrow> \<not> p e \<Longrightarrow> retry_attempts p n m w = (Err e, w')"
  by (cases n) simp_all

text \<open>
  A successful result of the loop is a result of one of the attempts, the ones before it having
  failed.
\<close>

lemma retry_attempts_Ok_attempt:
  "retry_attempts p n m w = (Ok a, w') \<Longrightarrow> \<exists>w1. m w1 = (Ok a, w')"
  by (induction n arbitrary: w) (auto split: prod.splits result.splits if_splits)

lemma retry_attempts_Err_attempt:
  "retry_attempts p n m w = (Err e, w') \<Longrightarrow> \<exists>w1. m w1 = (Err e, w')"
  by (induction n arbitrary: w) (auto split: prod.splits result.splits if_splits)

text \<open>The number of attempts, for an action that counts its own calls.\<close>

lemma retry_attempts_count:
  assumes "\<And>w. calls (snd (m w)) = Suc (calls w)" and "0 < n"
  shows "calls w < calls (snd (retry_attempts p n m w)) \<and>
         calls (snd (retry_attempts p n m w)) \<le> calls w + n"
  using assms(2)
proof (induction n arbitrary: w)
  case (Suc n)
  obtain r w' where m: "m w = (r, w')" by (cases "m w")
  then have "calls w' = Suc (calls w)" using assms(1) [of w] by simp
  with m Suc.IH [of w'] show ?case
    by (cases r) auto
qed simp

lemma ConvertToRetryGoAttempts_pos:
  "0 < n \<Longrightarrow> n < 2 ^ 63 \<Longrightarrow>
     0 < ConvertToRetryGoAttempts n \<and> unat (ConvertToRetryGoAttempts n) = nat n"
  by (simp add: ConvertToRetryGoAttempts_def word_less_nat_alt unat_eq_nat_uint uint_word_of_int)

lemma ConvertToRetryGoAttempts_neg: "n < 0 \<Longrightarrow> ConvertToRetryGoAttempts n = 0"
  by (simp add: ConvertToRetryGoAttempts_def)

section \<open>Key-value contracts\<close>

text \<open>
  What the proxy relies on in a key-value backend, for a fixed time and configuration: a successful
  insertion can be read back, other keys keep their entry, a failed insertion changes nothing.
  \<open>inv\<close> is the backend's invariant.
\<close>

locale kv_store =
  fixes insert_entry :: "bytes \<Rightarrow> bytes \<Rightarrow> 's \<Rightarrow> unit go \<times> 's"
    and lookup :: "'s \<Rightarrow> bytes \<Rightarrow> bytes option"
    and inv :: "'s \<Rightarrow> bool"
  assumes inv_insert: "inv s \<Longrightarrow> insert_entry k v s = (r, s') \<Longrightarrow> inv s'"
    and insert_lookup: "inv s \<Longrightarrow> insert_entry k v s = (Ok (), s') \<Longrightarrow> lookup s' k = Some v"
    and insert_frame: "inv s \<Longrightarrow> insert_entry k v s = (r, s') \<Longrightarrow> k' \<noteq> k \<Longrightarrow> lookup s' k' = lookup s k'"
    and insert_failed: "inv s \<Longrightarrow> insert_entry k v s = (r, s') \<Longrightarrow> r \<noteq> Ok () \<Longrightarrow> lookup s' k = lookup s k"
begin

fun insert_all :: "(bytes \<times> bytes) list \<Rightarrow> 's \<Rightarrow> unit go list \<times> 's" where
  "insert_all [] s = ([], s)"
| "insert_all ((k, v) # kvs) s =
     (case insert_entry k v s of (r, s') \<Rightarrow>
        (case insert_all kvs s' of (rs, s'') \<Rightarrow> (r # rs, s'')))"

lemma insert_all_inv: "inv s \<Longrightarrow> insert_all kvs s = (rs, s') \<Longrightarrow> inv s'"
  by (induction kvs s arbitrary: rs s' rule: insert_all.induct)
     (auto split: prod.splits intro: inv_insert)

text \<open>Any sequence of insertions leaves an entry alone that it does not name.\<close>

lemma insert_all_frame:
  "inv s \<Longrightarrow> insert_all kvs s = (rs, s') \<Longrightarrow> k \<notin> fst ` set kvs \<Longrightarrow> lookup s' k = lookup s k"
proof (induction kvs s arbitrary: rs s' rule: insert_all.induct)
  case (2 k1 v1 kvs s)
  then show ?case
    by (auto split: prod.splits) (metis inv_insert insert_frame)
qed simp

text \<open>What was inserted first is what is read after any insertions under other keys.\<close>

lemma insert_then_all:
  assumes "inv s" and "insert_entry k v s = (Ok (), s1)" and "insert_all kvs s1 = (rs, s2)"
    and "k \<notin> fst ` set kvs"
  shows "lookup s2 k = Some v"
  using assms by (metis inv_insert insert_all_frame insert_lookup)

end

text \<open>A store that refuses to replace an entry: nothing it holds ever changes by insertion.\<close>

locale write_once_store = kv_store +
  assumes insert_stable: "inv s \<Longrightarrow> insert_entry k v s = (r, s') \<Longrightarrow> lookup s k' = Some b \<Longrightarrow> lookup s' k' = Some b"
begin

lemma insert_all_stable:
  "inv s \<Longrightarrow> insert_all kvs s = (rs, s') \<Longrightarrow> lookup s k = Some b \<Longrightarrow> lookup s' k = Some b"
proof (induction kvs s arbitrary: rs s' rule: insert_all.induct)
  case (2 k1 v1 kvs s)
  then show ?case
    by (auto split: prod.splits) (metis inv_insert insert_stable)
qed simp

end

end
