(* ===== verification/Secondary.thy ===== *)
theory Secondary
  imports Stores
begin

text \<open>
  Secondary storage (\<^verbatim>\<open>store/secondary/secondary.go\<close>): caches and fallbacks in front of and behind
  EigenDA. \<^verbatim>\<open>ISecondary\<close> is a record of operations; \<^verbatim>\<open>SecondaryManager\<close> is its implementation.

  The mutable part is in the state: the verification mutex, the flag and the number of live write
  workers, the notifications handed to the workers and not written yet, what was reported to the
  metrics, and the world of the backends. A request is run as one step. The mutex is therefore found
  locked only if an earlier request left it so, and then waiting for it never ends. A send on the
  unbuffered topic waits until a worker takes the notification; it never ends if there is none.

  \<^verbatim>\<open>crypto.Keccak256\<close> is the argument \<open>keccak\<close>, \<^verbatim>\<open>retry.Do\<close> of op-service is \<open>opRetry\<close>.
\<close>

section \<open>State and interface\<close>

record PutNotify =
  notifCommitment :: bytes
  notifValue :: bytes

record 'w sm_state =
  verifyLock :: bool
  concurrentWrites :: bool
  liveWorkers :: nat
  inflight :: "PutNotify list"
  recorded :: "(string \<times> string \<times> string) list"
  world :: 'w

type_synonym ('s) verify_fn = "bytes \<Rightarrow> bytes \<Rightarrow> CertVerificationOpts \<Rightarrow> ('s, unit) goact"

record 's ISecondary =
  AsyncWriteEntry :: "'s \<Rightarrow> bool"
  Enabled :: bool
  TopicSend :: "PutNotify \<Rightarrow> ('s, unit) goact"
  CachingEnabled :: bool
  FallbackEnabled :: bool
  HandleRedundantWrites :: "bytes \<Rightarrow> bytes \<Rightarrow> ('s, unit) goact"
  MultiSourceRead :: "bytes \<Rightarrow> bool \<Rightarrow> 's verify_fn \<Rightarrow> CertVerificationOpts \<Rightarrow> ('s, bytes) goact"
  WriteOnCacheMissEnabled :: bool

record 'w SecondaryManager =
  caches :: "'w SecondaryStore list"
  fallbacks :: "'w SecondaryStore list"
  writeOnCacheMiss :: bool

definition on_world :: "('w, 'a) goact \<Rightarrow> (('w, 'z) sm_state_scheme, 'a) goact" where
  "on_world m = zoom world (\<lambda>w s. s\<lparr>world := w\<rparr>) m"

definition record_request ::
  "BackendType \<Rightarrow> string \<Rightarrow> string \<Rightarrow> (('w, 'z) sm_state_scheme, unit) goact" where
  "record_request b verb status =
     modify (\<lambda>s. s\<lparr>recorded := recorded s @ [(BackendType_String b, verb, status)]\<rparr>)"

definition Miss :: string where "Miss = ''miss''"
definition Success :: string where "Success = ''success''"
definition Failed :: string where "Failed = ''failed''"

section \<open>SecondaryManager\<close>

definition sm_CachingEnabled :: "'w SecondaryManager \<Rightarrow> bool" where
  "sm_CachingEnabled sm = (length (caches sm) > 0)"

definition sm_FallbackEnabled :: "'w SecondaryManager \<Rightarrow> bool" where
  "sm_FallbackEnabled sm = (length (fallbacks sm) > 0)"

definition sm_Enabled :: "'w SecondaryManager \<Rightarrow> bool" where
  "sm_Enabled sm = (sm_CachingEnabled sm \<or> sm_FallbackEnabled sm)"

definition sm_WriteOnCacheMissEnabled :: "'w SecondaryManager \<Rightarrow> bool" where
  "sm_WriteOnCacheMissEnabled sm = (sm_CachingEnabled sm \<and> writeOnCacheMiss sm)"

text \<open>The loop of \<^verbatim>\<open>HandleRedundantWrites\<close>, with the number of successes so far.\<close>

fun write_sources ::
  "(nat \<Rightarrow> ('w, unit) goact \<Rightarrow> ('w, unit) goact) \<Rightarrow> bytes \<Rightarrow> bytes \<Rightarrow> 'w SecondaryStore list \<Rightarrow> nat \<Rightarrow>
   (('w, 'z) sm_state_scheme, nat) goact" where
  "write_sources opRetry key v [] successes = ret successes"
| "write_sources opRetry key v (src # sources) successes =
     andThen (onErr (andThen (on_world (opRetry 5 (scPut src key v))) (\<lambda>_. ret True)) (\<lambda>_. ret False)) (\<lambda>ok.
     andThen (record_request (scBackendType src) ''PUT'' (if ok then Success else Failed)) (\<lambda>_.
     write_sources opRetry key v sources (if ok then successes + 1 else successes)))"

definition sm_HandleRedundantWrites ::
  "(bytes \<Rightarrow> bytes) \<Rightarrow> (nat \<Rightarrow> ('w, unit) goact \<Rightarrow> ('w, unit) goact) \<Rightarrow> 'w SecondaryManager \<Rightarrow>
   bytes \<Rightarrow> bytes \<Rightarrow> (('w, 'z) sm_state_scheme, unit) goact" where
  "sm_HandleRedundantWrites keccak opRetry sm commitment v =
     andThen (write_sources opRetry (keccak commitment) v (caches sm @ fallbacks sm) 0) (\<lambda>successes.
     if successes = 0 then throw (ErrorString ''failed to write blob to any redundant targets'')
     else ret ())"

text \<open>
  \<^verbatim>\<open>Lock\<close> and \<^verbatim>\<open>Unlock\<close> of the verification mutex. The loop of \<^verbatim>\<open>MultiSourceRead\<close> unlocks on both
  outcomes of \<^verbatim>\<open>verify\<close>; there is no \<^verbatim>\<open>defer\<close>, so a panic of \<^verbatim>\<open>verify\<close> leaves the mutex locked.
\<close>

definition lock :: "(('w, 'z) sm_state_scheme, unit) goact" where
  "lock s = (if verifyLock s then (Blocked, s) else (Ok (), s\<lparr>verifyLock := True\<rparr>))"

definition unlock :: "(('w, 'z) sm_state_scheme, unit) goact" where
  "unlock = modify (\<lambda>s. s\<lparr>verifyLock := False\<rparr>)"

fun read_sources ::
  "bytes \<Rightarrow> bytes \<Rightarrow> ('w, 'z) sm_state_scheme verify_fn \<Rightarrow> CertVerificationOpts \<Rightarrow> 'w SecondaryStore list \<Rightarrow>
   (('w, 'z) sm_state_scheme, bytes) goact" where
  "read_sources commitment key verify opts [] =
     throw (ErrorString ''no data found in any redundant backend'')"
| "read_sources commitment key verify opts (src # sources) =
     andThen (onErr (andThen (on_world (scGet src key)) (\<lambda>d. ret (Some d))) (\<lambda>_. ret None)) (\<lambda>got.
     case got of
       None \<Rightarrow> andThen (record_request (scBackendType src) ''GET'' Failed) (\<lambda>_.
               read_sources commitment key verify opts sources)
     | Some None \<Rightarrow> andThen (record_request (scBackendType src) ''GET'' Miss) (\<lambda>_.
               read_sources commitment key verify opts sources)
     | Some (Some data) \<Rightarrow>
         andThen lock (\<lambda>_.
         andThen (onErr (andThen (verify commitment data opts) (\<lambda>_. ret True)) (\<lambda>_. ret False)) (\<lambda>valid.
         if valid
         then andThen unlock (\<lambda>_. andThen (record_request (scBackendType src) ''GET'' Success) (\<lambda>_. ret data))
         else andThen (record_request (scBackendType src) ''GET'' Failed) (\<lambda>_. andThen unlock (\<lambda>_.
              read_sources commitment key verify opts sources)))))"

definition sm_MultiSourceRead ::
  "(bytes \<Rightarrow> bytes) \<Rightarrow> 'w SecondaryManager \<Rightarrow> bytes \<Rightarrow> bool \<Rightarrow> ('w, 'z) sm_state_scheme verify_fn \<Rightarrow>
   CertVerificationOpts \<Rightarrow> (('w, 'z) sm_state_scheme, bytes) goact" where
  "sm_MultiSourceRead keccak sm commitment fallback verify verifyOpts =
     read_sources commitment (keccak commitment) verify verifyOpts
       (if fallback then fallbacks sm else caches sm)"

definition sm_AsyncWriteEntry :: "('w, 'z) sm_state_scheme \<Rightarrow> bool" where
  "sm_AsyncWriteEntry s = concurrentWrites s"

definition sm_TopicSend :: "PutNotify \<Rightarrow> (('w, 'z) sm_state_scheme, unit) goact" where
  "sm_TopicSend notif s =
     (if liveWorkers s = 0 then (Blocked, s)
      else (Ok (), s\<lparr>inflight := inflight s @ [notif]\<rparr>))"

text \<open>
  \<^verbatim>\<open>WriteSubscriptionLoop\<close>, a goroutine: entering it sets the flag, each turn of the loop writes one
  notification it received, and it leaves when its context is done. The flag is never reset. An
  error of the write is only logged.
\<close>

definition loop_enter :: "('w, 'z) sm_state_scheme \<Rightarrow> ('w, 'z) sm_state_scheme" where
  "loop_enter s = s\<lparr>concurrentWrites := True, liveWorkers := liveWorkers s + 1\<rparr>"

definition loop_turn ::
  "(bytes \<Rightarrow> bytes) \<Rightarrow> (nat \<Rightarrow> ('w, unit) goact \<Rightarrow> ('w, unit) goact) \<Rightarrow> 'w SecondaryManager \<Rightarrow> nat \<Rightarrow>
   (('w, 'z) sm_state_scheme, unit) goact" where
  "loop_turn keccak opRetry sm i s =
     (if i < length (inflight s)
      then let notif = inflight s ! i;
               s' = s\<lparr>inflight := take i (inflight s) @ drop (Suc i) (inflight s)\<rparr>
           in onErr (sm_HandleRedundantWrites keccak opRetry sm (notifCommitment notif) (notifValue notif))
                (\<lambda>_. ret ()) s'
      else (Ok (), s))"

definition loop_leave :: "('w, 'z) sm_state_scheme \<Rightarrow> ('w, 'z) sm_state_scheme" where
  "loop_leave s = s\<lparr>liveWorkers := liveWorkers s - 1\<rparr>"

definition NewSecondaryManager ::
  "'w SecondaryStore list \<Rightarrow> 'w SecondaryStore list \<Rightarrow> bool \<Rightarrow> 'w SecondaryManager" where
  "NewSecondaryManager cs fs wocm = \<lparr>caches = cs, fallbacks = fs, writeOnCacheMiss = wocm\<rparr>"

text \<open>The state of a new manager.\<close>

definition sm_init :: "'w \<Rightarrow> 'w sm_state" where
  "sm_init w = \<lparr>verifyLock = False, concurrentWrites = False, liveWorkers = 0, inflight = [],
                recorded = [], world = w\<rparr>"

definition SecondaryManager_ISecondary ::
  "(bytes \<Rightarrow> bytes) \<Rightarrow> (nat \<Rightarrow> ('w, unit) goact \<Rightarrow> ('w, unit) goact) \<Rightarrow> 'w SecondaryManager \<Rightarrow>
   ('w, 'z) sm_state_scheme ISecondary" where
  "SecondaryManager_ISecondary keccak opRetry sm =
     \<lparr>AsyncWriteEntry = sm_AsyncWriteEntry, Enabled = sm_Enabled sm, TopicSend = sm_TopicSend,
      CachingEnabled = sm_CachingEnabled sm, FallbackEnabled = sm_FallbackEnabled sm,
      HandleRedundantWrites = sm_HandleRedundantWrites keccak opRetry sm,
      MultiSourceRead = sm_MultiSourceRead keccak sm,
      WriteOnCacheMissEnabled = sm_WriteOnCacheMissEnabled sm\<rparr>"

section \<open>Reading\<close>

lemma read_sources_Ok:
  "read_sources c key verify opts srcs s = (Ok d, s') \<Longrightarrow>
     \<exists>src \<in> set srcs. (\<exists>w1 w2. scGet src key w1 = (Ok (Some d), w2)) \<and>
       (\<exists>s1 s2. verify c d opts s1 = (Ok (), s2))"
proof (induction srcs arbitrary: s)
  case (Cons src srcs)
  obtain r s1 where g: "on_world (scGet src key) s = (r, s1)" by (metis surj_pair)
  then obtain w1 where w: "scGet src key (world s) = (r, w1)"
    by (auto simp: on_world_def zoom_def split: prod.splits)
  show ?case
  proof (cases r)
    case (Ok got)
    show ?thesis
    proof (cases got)
      case None
      with Cons g Ok show ?thesis by (auto simp: act_simps record_request_def)
    next
      case (Some data)
      with Ok g have "lock s1 = (Blocked, s1) \<or> (\<exists>s2. lock s1 = (Ok (), s2))"
        by (simp add: lock_def)
      then obtain s2 where l: "lock s1 = (Ok (), s2)"
        using Cons.prems g Ok Some by (auto simp: act_simps)
      obtain r' s3 where v: "verify c data opts s2 = (r', s3)" by (metis surj_pair)
      show ?thesis
      proof (cases r')
        case (Ok u)
        with Cons.prems g \<open>r = Ok got\<close> Some l v have "d = data"
          by (auto simp: act_simps record_request_def unlock_def)
        with v Ok w \<open>r = Ok got\<close> Some show ?thesis by auto
      next
        case (Err e)
        with Cons.prems g \<open>r = Ok got\<close> Some l v
        have "\<exists>s4. read_sources c key verify opts srcs s4 = (Ok d, s')"
          by (auto simp: act_simps record_request_def unlock_def)
        with Cons.IH show ?thesis by auto
      qed (use Cons.prems g \<open>r = Ok got\<close> Some l v in \<open>auto simp: act_simps\<close>)
    qed
  next
    case (Err e)
    with Cons.prems g have "\<exists>s4. read_sources c key verify opts srcs s4 = (Ok d, s')"
      by (auto simp: act_simps record_request_def)
    with Cons.IH show ?thesis by auto
  qed (use Cons.prems g in \<open>auto simp: act_simps\<close>)
qed (simp add: throw_def)

text \<open>
  What a client of secondary storage may rely on: data it returns passed the given verification,
  nothing is read where no source is configured, and the flags are consistent.
\<close>

locale redundant_storage =
  fixes sec :: "'s ISecondary"
  assumes read_verified:
      "MultiSourceRead sec c fb verify opts s = (Ok d, s') \<Longrightarrow> \<exists>s1 s2. verify c d opts s1 = (Ok (), s2)"
    and no_cache: "\<not> CachingEnabled sec \<Longrightarrow> fst (MultiSourceRead sec c False verify opts s) \<noteq> Ok d"
    and no_fallback: "\<not> FallbackEnabled sec \<Longrightarrow> fst (MultiSourceRead sec c True verify opts s) \<noteq> Ok d"
    and enabled: "Enabled sec \<longleftrightarrow> CachingEnabled sec \<or> FallbackEnabled sec"
    and write_on_miss: "WriteOnCacheMissEnabled sec \<Longrightarrow> Enabled sec"

interpretation sm: redundant_storage "SecondaryManager_ISecondary keccak opRetry m" for keccak opRetry m
  by unfold_locales
     (auto simp: SecondaryManager_ISecondary_def sm_MultiSourceRead_def sm_CachingEnabled_def
        sm_FallbackEnabled_def sm_Enabled_def sm_WriteOnCacheMissEnabled_def throw_def
        dest: read_sources_Ok)

section \<open>Writing\<close>

text \<open>
  What writing to a list of sources is: \<open>ws\<close> are the worlds before, between and after the writes, \<open>sts\<close> says which writes
  succeeded. Every source is written, in order, whatever the outcome of the earlier ones.
\<close>

definition writes_ran ::
  "(nat \<Rightarrow> ('w, unit) goact \<Rightarrow> ('w, unit) goact) \<Rightarrow> bytes \<Rightarrow> bytes \<Rightarrow> 'w SecondaryStore list \<Rightarrow> 'w list \<Rightarrow> bool list \<Rightarrow> bool" where
  "writes_ran opRetry key v srcs ws sts \<longleftrightarrow>
     length ws = Suc (length srcs) \<and> length sts = length srcs \<and>
     (\<forall>i < length srcs.
        if sts ! i then opRetry 5 (scPut (srcs ! i) key v) (ws ! i) = (Ok (), ws ! Suc i)
        else \<exists>e. opRetry 5 (scPut (srcs ! i) key v) (ws ! i) = (Err e, ws ! Suc i))"

lemma writes_ran_Nil: "writes_ran opRetry key v [] [w] []"
  by (simp add: writes_ran_def)

lemma writes_ran_Cons:
  assumes "if ok then opRetry 5 (scPut src key v) w = (Ok (), w1) else \<exists>e. opRetry 5 (scPut src key v) w = (Err e, w1)"
    and "writes_ran opRetry key v srcs ws sts" and "hd ws = w1"
  shows "writes_ran opRetry key v (src # srcs) (w # ws) (ok # sts)"
proof -
  have "ws ! 0 = w1" using assms(2,3) by (cases ws) (auto simp: writes_ran_def)
  with assms(1,2) show ?thesis unfolding writes_ran_def by (auto simp: less_Suc_eq_0_disj)
qed

text \<open>
  One status is recorded per source, in order, which is that of its write, and the count of successes is the number
  of sources recorded as successful.
\<close>

lemma write_sources_recorded:
  "write_sources opRetry key v srcs n s = (Ok m, s') \<Longrightarrow>
     \<exists>ws sts. writes_ran opRetry key v srcs ws sts \<and> hd ws = world s \<and> last ws = world s' \<and>
       m = n + count_list sts True \<and>
       recorded s' = recorded s @
         map2 (\<lambda>src ok. (BackendType_String (scBackendType src), ''PUT'', if ok then Success else Failed))
           srcs sts"
proof (induction srcs arbitrary: n s)
  case Nil
  then show ?case using writes_ran_Nil by (fastforce simp: ret_def)
next
  case (Cons src srcs)
  obtain r w1 where p: "opRetry 5 (scPut src key v) (world s) = (r, w1)" by (metis surj_pair)
  define ok where "ok = (\<exists>u. r = Ok u)"
  define s1 where "s1 = s\<lparr>world := w1, recorded := recorded s @
    [(BackendType_String (scBackendType src), ''PUT'', if ok then Success else Failed)]\<rparr>"
  have "r \<notin> {Panic, Blocked}"
    using Cons.prems p by (cases r) (auto simp: act_simps on_world_def zoom_def)
  have "write_sources opRetry key v srcs (if ok then n + 1 else n) s1 = (Ok m, s')"
    using Cons.prems p
    by (cases r) (auto simp: act_simps on_world_def zoom_def record_request_def ok_def s1_def)
  from Cons.IH [OF this] obtain ws sts where w: "writes_ran opRetry key v srcs ws sts" "hd ws = world s1"
    "last ws = world s'" "m = (if ok then n + 1 else n) + count_list sts True"
    "recorded s' = recorded s1 @
         map2 (\<lambda>src ok. (BackendType_String (scBackendType src), ''PUT'', if ok then Success else Failed))
           srcs sts" by blast
  have "if ok then opRetry 5 (scPut src key v) (world s) = (Ok (), w1)
      else \<exists>e. opRetry 5 (scPut src key v) (world s) = (Err e, w1)"
    using p \<open>r \<notin> {Panic, Blocked}\<close> by (cases r) (auto simp: ok_def)
  from writes_ran_Cons [OF this w(1)] w(2)
  have "writes_ran opRetry key v (src # srcs) (world s # ws) (ok # sts)" by (simp add: s1_def)
  moreover have "ws \<noteq> []" using w(1) by (auto simp: writes_ran_def)
  ultimately show ?case
    using w(3-5) by (intro exI [of _ "world s # ws"] exI [of _ "ok # sts"]) (auto simp: s1_def)
qed

lemma write_sources_not_Err: "fst (write_sources opRetry key v srcs n s) \<noteq> Err e"
proof (induction srcs arbitrary: n s)
  case (Cons src srcs)
  obtain r w1 where p: "opRetry 5 (scPut src key v) (world s) = (r, w1)" by (metis surj_pair)
  with Cons show ?case
    by (cases r) (auto simp: act_simps on_world_def zoom_def record_request_def)
qed (simp add: ret_def)

section \<open>The verification mutex\<close>

text \<open>A verification that returns and leaves the mutex as it finds it.\<close>

definition well_behaved :: "('w, 'z) sm_state_scheme verify_fn \<Rightarrow> bool" where
  "well_behaved verify \<longleftrightarrow>
     (\<forall>c d opts s. fst (verify c d opts s) \<noteq> Panic \<and> fst (verify c d opts s) \<noteq> Blocked \<and>
        verifyLock (snd (verify c d opts s)) = verifyLock s)"

definition sources_return :: "'w SecondaryStore list \<Rightarrow> bool" where
  "sources_return srcs \<longleftrightarrow>
     (\<forall>src \<in> set srcs. \<forall>k w. fst (scGet src k w) \<noteq> Panic \<and> fst (scGet src k w) \<noteq> Blocked)"

lemma read_sources_returns:
  assumes "well_behaved verify" and "sources_return srcs" and "\<not> verifyLock s"
    and "read_sources c key verify opts srcs s = (r, s')"
  shows "r \<noteq> Panic \<and> r \<noteq> Blocked \<and> \<not> verifyLock s'"
  using assms(2-)
proof (induction srcs arbitrary: s)
  case (Cons src srcs)
  have sr: "sources_return srcs" using Cons.prems(1) by (simp add: sources_return_def)
  obtain g w1 where g: "scGet src key (world s) = (g, w1)" by (metis surj_pair)
  with Cons.prems(1) have gr: "g \<noteq> Panic" "g \<noteq> Blocked"
    unfolding sources_return_def by (metis fst_conv list.set_intros(1))+
  show ?case
  proof (cases "\<exists>data. g = Ok (Some data)")
    case False
    with g gr Cons.prems obtain st where
      "read_sources c key verify opts srcs
         (s\<lparr>world := w1, recorded := recorded s @ [(BackendType_String (scBackendType src), ''GET'', st)]\<rparr>) = (r, s')"
      by (cases g) (auto simp: act_simps on_world_def zoom_def record_request_def split: option.splits)
    from Cons.IH [OF sr _ this] Cons.prems(2) show ?thesis by simp
  next
    case True
    then obtain data where data: "g = Ok (Some data)" ..
    let ?s2 = "s\<lparr>world := w1, verifyLock := True\<rparr>"
    obtain v s3 where v: "verify c data opts ?s2 = (v, s3)" by (metis surj_pair)
    have vr: "v \<noteq> Panic" "v \<noteq> Blocked"
      using assms(1) v unfolding well_behaved_def by (metis fst_conv)+
    show ?thesis
    proof (cases v)
      case (Ok u)
      with Cons.prems g data v show ?thesis
        by (auto simp: act_simps on_world_def zoom_def lock_def unlock_def record_request_def)
    next
      case (Err e)
      with Cons.prems g data v have
        "read_sources c key verify opts srcs (s3\<lparr>recorded := recorded s3 @
           [(BackendType_String (scBackendType src), ''GET'', Failed)], verifyLock := False\<rparr>) = (r, s')"
        by (auto simp: act_simps on_world_def zoom_def lock_def unlock_def record_request_def)
      from Cons.IH [OF sr _ this] show ?thesis by simp
    qed (use vr in auto)
  qed
qed (auto simp: throw_def)

lemma redundant_write_recorded:
  assumes "sm_HandleRedundantWrites keccak opRetry m c v s = (r, s')" and "r \<noteq> Panic" and "r \<noteq> Blocked"
  shows "\<exists>ws sts. writes_ran opRetry (keccak c) v (caches m @ fallbacks m) ws sts \<and>
     hd ws = world s \<and> last ws = world s' \<and>
     recorded s' = recorded s @
       map2 (\<lambda>src ok. (BackendType_String (scBackendType src), ''PUT'', if ok then Success else Failed))
         (caches m @ fallbacks m) sts \<and>
     (r = Ok () \<longleftrightarrow> True \<in> set sts)"
proof -
  let ?W = "write_sources opRetry (keccak c) v (caches m @ fallbacks m) 0 s"
  obtain n where n: "?W = (Ok n, s')" and r: "r = (if n = 0 then Err (ErrorString
      ''failed to write blob to any redundant targets'') else Ok ())"
    using assms write_sources_not_Err [of opRetry "keccak c" v "caches m @ fallbacks m" 0 s]
    by (auto simp: sm_HandleRedundantWrites_def act_simps split: prod.splits result.splits if_splits)
  from write_sources_recorded [OF n] obtain ws sts where
    sts: "writes_ran opRetry (keccak c) v (caches m @ fallbacks m) ws sts" "hd ws = world s" "last ws = world s'"
    "n = count_list sts True" "recorded s' = recorded s @
       map2 (\<lambda>src ok. (BackendType_String (scBackendType src), ''PUT'', if ok then Success else Failed))
         (caches m @ fallbacks m) sts" by auto
  have "r = Ok () \<longleftrightarrow> True \<in> set sts" using r sts(4) by (auto simp: count_list_0_iff)
  with sts show ?thesis by blast
qed

section \<open>Properties\<close>

text \<open>
  A redundant write is reported honestly. When \<^verbatim>\<open>HandleRedundantWrites\<close> returns, it has written every
  cache and every fallback, in this order, whatever happened to the ones before; the status of every
  write was recorded; and it returns an error exactly when none of them succeeded.
\<close>

theorem HandleRedundantWrites_outcome:
  assumes "sm_HandleRedundantWrites keccak opRetry m c v s = (r, s')" and "r \<noteq> Panic" and "r \<noteq> Blocked"
  shows "\<exists>ws sts. writes_ran opRetry (keccak c) v (caches m @ fallbacks m) ws sts \<and>
     hd ws = world s \<and> last ws = world s' \<and>
     recorded s' = recorded s @
       map2 (\<lambda>src ok. (BackendType_String (scBackendType src), ''PUT'', if ok then Success else Failed))
         (caches m @ fallbacks m) sts \<and>
     (r = Ok () \<longleftrightarrow> True \<in> set sts)"
  using assms by (rule redundant_write_recorded)

text \<open>A backend kept in a map, and one that is down.\<close>

definition map_store :: "BackendType \<Rightarrow> (bytes \<rightharpoonup> bytes) SecondaryStore" where
  "map_store b = \<lparr>scPut = (\<lambda>k v m. (Ok (), m(k \<mapsto> v))), scGet = (\<lambda>k m. (Ok (m k), m)),
                  scVerify = (\<lambda>k v. ret ()), scBackendType = b\<rparr>"

definition down_store :: "BackendType \<Rightarrow> (bytes \<rightharpoonup> bytes) SecondaryStore" where
  "down_store b = \<lparr>scPut = (\<lambda>k v. throw (ErrorString ''down'')), scGet = (\<lambda>k. throw (ErrorString ''down'')),
                   scVerify = (\<lambda>k v. ret ()), scBackendType = b\<rparr>"

definition ex_sm :: "(bytes \<rightharpoonup> bytes) SecondaryManager" where
  "ex_sm = NewSecondaryManager [down_store RedisBackendType] [map_store S3BackendType] False"

theorem HandleRedundantWrites_outcome_witness:
  "fst (sm_HandleRedundantWrites id (\<lambda>n m. m) ex_sm [1] [7] (sm_init Map.empty)) = Ok () \<and>
   (\<exists>ws sts. writes_ran (\<lambda>n m. m) [1] [7] [down_store RedisBackendType, map_store S3BackendType] ws sts \<and> True \<in> set sts)"
proof -
  obtain s' where run: "sm_HandleRedundantWrites id (\<lambda>n m. m) ex_sm [1] [7] (sm_init Map.empty) = (Ok (), s')"
    by (simp add: sm_HandleRedundantWrites_def ex_sm_def NewSecondaryManager_def down_store_def map_store_def
        act_simps on_world_def zoom_def record_request_def)
  with HandleRedundantWrites_outcome [OF run] show ?thesis
    by (auto simp: ex_sm_def NewSecondaryManager_def)
qed

text \<open>
  C16: a redundant read returns verified data of a configured source. When \<^verbatim>\<open>MultiSourceRead\<close> returns
  data, one of the caches (or, for a fallback read, of the fallbacks) returned it for the Keccak hash
  of the commitment, and the verification function accepted the commitment with this data. With
  sources and a verification that return, the read returns as well, and leaves the mutex unlocked.
\<close>

theorem MultiSourceRead_verified:
  assumes "sm_MultiSourceRead keccak m c fallback verify opts s = (r, s')"
  shows "(\<forall>d. r = Ok d \<longrightarrow>
       (\<exists>src \<in> set (if fallback then fallbacks m else caches m).
          \<exists>w1 w2. scGet src (keccak c) w1 = (Ok (Some d), w2)) \<and>
       (\<exists>s1 s2. verify c d opts s1 = (Ok (), s2))) \<and>
     (well_behaved verify \<and> sources_return (if fallback then fallbacks m else caches m) \<and> \<not> verifyLock s \<longrightarrow>
       r \<noteq> Panic \<and> r \<noteq> Blocked \<and> \<not> verifyLock s')"
proof -
  let ?srcs = "if fallback then fallbacks m else caches m"
  have run: "read_sources c (keccak c) verify opts ?srcs s = (r, s')"
    using assms by (simp add: sm_MultiSourceRead_def)
  have "(\<exists>src \<in> set ?srcs. \<exists>w1 w2. scGet src (keccak c) w1 = (Ok (Some d), w2)) \<and>
      (\<exists>s1 s2. verify c d opts s1 = (Ok (), s2))" if "r = Ok d" for d
    using read_sources_Ok [of c "keccak c" verify opts ?srcs s d s'] run that by blast
  moreover have "r \<noteq> Panic \<and> r \<noteq> Blocked \<and> \<not> verifyLock s'"
    if "well_behaved verify" "sources_return ?srcs" "\<not> verifyLock s"
    using read_sources_returns [OF that run] .
  ultimately show ?thesis by blast
qed

definition ex_verify :: "(bytes \<rightharpoonup> bytes) sm_state verify_fn" where
  "ex_verify c d opts = (if d = [7] then ret () else throw (ErrorString ''bad''))"

theorem MultiSourceRead_verified_witness:
  "\<exists>s'. sm_MultiSourceRead id ex_sm [1] True ex_verify \<lparr>L1InclusionBlockNum = 0\<rparr> (sm_init [[1] \<mapsto> [7]]) = (Ok [7], s') \<and>
     (\<exists>s1 s2. ex_verify [1] [7] \<lparr>L1InclusionBlockNum = 0\<rparr> s1 = (Ok (), s2))"
proof -
  obtain s' where run: "sm_MultiSourceRead id ex_sm [1] True ex_verify \<lparr>L1InclusionBlockNum = 0\<rparr>
      (sm_init [[1] \<mapsto> [7]]) = (Ok [7], s')"
    by (simp add: sm_MultiSourceRead_def ex_sm_def NewSecondaryManager_def map_store_def ex_verify_def
        act_simps on_world_def zoom_def record_request_def lock_def unlock_def sm_init_def)
  note MultiSourceRead_verified [OF run, THEN conjunct1, rule_format, OF HOL.refl, THEN conjunct2]
  with run show ?thesis by fast
qed

text \<open>
  A panic under the verification mutex is permanent. If the verification panics, leaving the mutex
  as it is, then the read panics, and every later read whose first source has data never returns.
\<close>

theorem panic_blocks_reads:
  assumes "(if fallback then fallbacks m else caches m) = src # srcs"
    and "\<And>w. \<exists>d w'. scGet src (keccak c) w = (Ok (Some d), w')"
    and "\<And>d s. \<exists>s'. verify c d opts s = (Panic, s') \<and> verifyLock s' = verifyLock s"
    and "\<not> verifyLock s"
  shows "\<exists>s1. sm_MultiSourceRead keccak m c fallback verify opts s = (Panic, s1) \<and>
     (\<forall>verify' opts'. fst (sm_MultiSourceRead keccak m c fallback verify' opts' s1) = Blocked)"
proof -
  obtain d w1 where g: "scGet src (keccak c) (world s) = (Ok (Some d), w1)" using assms(2) by blast
  obtain s1 where v: "verify c d opts (s\<lparr>world := w1, verifyLock := True\<rparr>) = (Panic, s1)" "verifyLock s1"
    using assms(3) [of d "s\<lparr>world := w1, verifyLock := True\<rparr>"] by auto
  have "sm_MultiSourceRead keccak m c fallback verify opts s = (Panic, s1)"
    using assms(1,4) g v(1) by (simp add: sm_MultiSourceRead_def act_simps on_world_def zoom_def lock_def)
  moreover have "fst (sm_MultiSourceRead keccak m c fallback verify' opts' s1) = Blocked" for verify' opts'
  proof -
    obtain d' w2 where "scGet src (keccak c) (world s1) = (Ok (Some d'), w2)" using assms(2) by blast
    then show ?thesis
      using assms(1) v(2) by (simp add: sm_MultiSourceRead_def act_simps on_world_def zoom_def lock_def)
  qed
  ultimately show ?thesis by blast
qed

definition ex_cache :: "unit SecondaryStore" where
  "ex_cache = \<lparr>scPut = (\<lambda>k v. ret ()), scGet = (\<lambda>k. ret (Some [7])), scVerify = (\<lambda>k v. ret ()),
               scBackendType = RedisBackendType\<rparr>"

theorem panic_blocks_reads_witness:
  "\<exists>s1. sm_MultiSourceRead id (NewSecondaryManager [ex_cache] [] False) [1] False (\<lambda>c d opts. panic)
       \<lparr>L1InclusionBlockNum = 0\<rparr> (sm_init ()) = (Panic, s1)"
  using panic_blocks_reads [of False "NewSecondaryManager [ex_cache] [] False" ex_cache "[]" id "[1]"
      "\<lambda>c d opts. panic" "\<lparr>L1InclusionBlockNum = 0\<rparr>" "sm_init ()"]
  by (auto simp: NewSecondaryManager_def ex_cache_def ret_def panic_def sm_init_def)

text \<open>
  Once a write worker has run, writes stay asynchronous, and without a live worker they never
  return. After any entering and leaving of worker loops that ends with no live worker, the manager
  still announces asynchronous writes and a send on its topic blocks for ever.
\<close>

theorem no_worker_blocks_writes:
  assumes "liveWorkers (loop_leave (loop_enter s)) = 0"
  shows "sm_AsyncWriteEntry (loop_leave (loop_enter s)) \<and>
     sm_TopicSend notif (loop_leave (loop_enter s)) = (Blocked, loop_leave (loop_enter s))"
  using assms by (simp add: sm_AsyncWriteEntry_def sm_TopicSend_def loop_leave_def loop_enter_def)

theorem no_worker_blocks_writes_witness:
  "sm_AsyncWriteEntry (loop_leave (loop_enter (sm_init ()))) \<and>
   fst (sm_TopicSend \<lparr>notifCommitment = [], notifValue = []\<rparr> (loop_leave (loop_enter (sm_init ())))) = Blocked"
  using no_worker_blocks_writes [of "sm_init ()" "\<lparr>notifCommitment = [], notifValue = []\<rparr>"]
  by (simp add: loop_leave_def loop_enter_def sm_init_def)

end
