(* ===== verification/Secondary_Stores.thy ===== *)
theory Secondary_Stores
  imports Secondary
begin

text \<open>
  The two secondary backends: Redis (\<^verbatim>\<open>store/secondary/redis/redis.go\<close>) and S3
  (\<^verbatim>\<open>store/secondary/s3/s3.go\<close>). The clients (\<^verbatim>\<open>go-redis\<close>, \<^verbatim>\<open>minio-go\<close>) and Keccak are arguments;
  \<^verbatim>\<open>path.Join\<close> and \<^verbatim>\<open>path.Clean\<close> of the Go library are defined.
\<close>

section \<open>Redis\<close>

record 'w redis_client =
  redisGet :: "bytes \<Rightarrow> ('w, bytes) goact"
  redisSet :: "bytes \<Rightarrow> bytes \<Rightarrow> int \<Rightarrow> ('w, unit) goact"
  redisPing :: "('w, unit) goact"
  redisNil :: go_error

record RedisConfig =
  redisEndpoint :: string
  redisPassword :: string
  redisDB :: int
  redisEviction :: int

record 'w RedisStore =
  eviction :: int
  redisClient :: "'w redis_client"

definition Redis_MarshalJSON :: "RedisConfig \<Rightarrow> RedisConfig" where
  "Redis_MarshalJSON c = (if redisPassword c \<noteq> [] then c\<lparr>redisPassword := ''*****''\<rparr> else c)"

definition Redis_NewStore ::
  "(RedisConfig \<Rightarrow> 'w redis_client) \<Rightarrow> RedisConfig \<Rightarrow> ('w, 'w RedisStore) goact" where
  "Redis_NewStore newClient cfg =
     (let client = newClient cfg in
      andThen (mapErr (WrapError ''failed to ping redis server'') (redisPing client)) (\<lambda>_.
      ret \<lparr>eviction = redisEviction cfg, redisClient = client\<rparr>))"

text \<open>A key that is not found is nil without an error.\<close>

definition Redis_Get :: "'w RedisStore \<Rightarrow> bytes \<Rightarrow> ('w, bytes option) goact" where
  "Redis_Get r key =
     andThen (attempt (redisGet (redisClient r) key)) (\<lambda>res.
     case res of
       Inl err \<Rightarrow> if errors_Is err (redisNil (redisClient r)) then ret None else throw err
     | Inr v \<Rightarrow> ret (Some v))"

definition Redis_Put :: "'w RedisStore \<Rightarrow> bytes \<Rightarrow> bytes \<Rightarrow> ('w, unit) goact" where
  "Redis_Put r key v = redisSet (redisClient r) key v (eviction r)"

definition Redis_Verify :: "bytes \<Rightarrow> bytes \<Rightarrow> ('w, unit) goact" where
  "Redis_Verify key v = ret ()"

definition Redis_store :: "'w RedisStore \<Rightarrow> 'w SecondaryStore" where
  "Redis_store r = \<lparr>scPut = Redis_Put r, scGet = Redis_Get r, scVerify = Redis_Verify,
                    scBackendType = RedisBackendType\<rparr>"

section \<open>Object names\<close>

text \<open>
  \<^verbatim>\<open>path.Clean\<close>: the path's components without empty ones and \<^verbatim>\<open>.\<close>, with \<^verbatim>\<open>..\<close> cancelling the
  component before it. \<^verbatim>\<open>path.Join\<close> drops empty elements, joins with slashes and cleans.
\<close>

fun split_slash :: "string \<Rightarrow> string list" where
  "split_slash [] = [[]]"
| "split_slash (c # cs) =
     (if c = CHR ''/'' then [] # split_slash cs
      else (case split_slash cs of [] \<Rightarrow> [[c]] | w # ws \<Rightarrow> (c # w) # ws))"

definition clean_step :: "bool \<Rightarrow> string list \<Rightarrow> string \<Rightarrow> string list" where
  "clean_step rooted done c =
     (if c = [] \<or> c = ''.'' then done
      else if c = ''..''
      then (if done \<noteq> [] \<and> last done \<noteq> ''..'' then butlast done
            else if rooted then done else done @ [c])
      else done @ [c])"

fun join_slash :: "string list \<Rightarrow> string" where
  "join_slash [] = []"
| "join_slash [w] = w"
| "join_slash (w # ws) = w @ ''/'' @ join_slash ws"

definition path_Clean :: "string \<Rightarrow> string" where
  "path_Clean p =
     (if p = [] then ''.''
      else let rooted = (hd p = CHR ''/'');
               comps = foldl (clean_step rooted) [] (split_slash p)
           in if rooted then CHR ''/'' # join_slash comps
              else if comps = [] then ''.'' else join_slash comps)"

definition path_Join :: "string \<Rightarrow> string \<Rightarrow> string" where
  "path_Join a b =
     (if a = [] \<and> b = [] then []
      else if a = [] then path_Clean b
      else if b = [] then path_Clean a
      else path_Clean (a @ ''/'' @ b))"

section \<open>S3\<close>

record ('w, 'o) s3_client =
  getObject :: "string \<Rightarrow> string \<Rightarrow> ('w, 'o) goact"
  readAll :: "'o \<Rightarrow> ('w, bytes) goact"
  putObject :: "string \<Rightarrow> string \<Rightarrow> bytes \<Rightarrow> bool \<Rightarrow> ('w, unit) goact"
  errorCode :: "go_error \<Rightarrow> string"

datatype CredentialType =
  CredentialTypeStatic | CredentialTypeIAM | CredentialTypePublic | CredentialTypeUnknown

definition StringToCredentialType :: "string \<Rightarrow> CredentialType" where
  "StringToCredentialType s =
     (if s = ''static'' then CredentialTypeStatic
      else if s = ''iam'' then CredentialTypeIAM
      else if s = ''public'' then CredentialTypePublic
      else CredentialTypeUnknown)"

record S3Config =
  s3CredentialType :: CredentialType
  s3Endpoint :: string
  s3EnableTLS :: bool
  s3AccessKeyID :: string
  s3AccessKeySecret :: string
  s3Bucket :: string
  s3Path :: string

definition S3_MarshalJSON :: "S3Config \<Rightarrow> S3Config" where
  "S3_MarshalJSON c = (if s3AccessKeySecret c \<noteq> [] then c\<lparr>s3AccessKeySecret := ''*****''\<rparr> else c)"

record ('w, 'o) S3Store =
  s3cfg :: S3Config
  s3client :: "('w, 'o) s3_client"
  disableContentSha256 :: bool

text \<open>\<^verbatim>\<open>strings.Contains\<close>.\<close>

fun strings_Contains :: "string \<Rightarrow> string \<Rightarrow> bool" where
  "strings_Contains [] p = (p = [])"
| "strings_Contains (c # cs) p = (take (length p) (c # cs) = p \<or> strings_Contains cs p)"

definition isGoogleEndpoint :: "string \<Rightarrow> bool" where
  "isGoogleEndpoint endpoint = strings_Contains endpoint ''storage.googleapis.com''"

datatype credentials = CredsIAM | CredsNone | CredsStaticV4 string string

definition creds :: "S3Config \<Rightarrow> credentials" where
  "creds cfg =
     (if s3CredentialType cfg = CredentialTypeIAM then CredsIAM
      else if s3CredentialType cfg = CredentialTypePublic then CredsNone
      else CredsStaticV4 (s3AccessKeyID cfg) (s3AccessKeySecret cfg))"

definition S3_NewStore ::
  "(string \<Rightarrow> credentials \<Rightarrow> bool \<Rightarrow> go_error + ('w, 'o) s3_client) \<Rightarrow> S3Config \<Rightarrow> ('w, 'o) S3Store go" where
  "S3_NewStore minioNew cfg =
     bindR (fromSum (minioNew (s3Endpoint cfg) (creds cfg) (s3EnableTLS cfg))) (\<lambda>client.
     Ok \<lparr>s3cfg = cfg, s3client = client, disableContentSha256 = isGoogleEndpoint (s3Endpoint cfg)\<rparr>)"

definition object_name :: "('w, 'o) S3Store \<Rightarrow> bytes \<Rightarrow> string" where
  "object_name s key = path_Join (s3Path (s3cfg s)) (hex_EncodeToString key)"

definition S3_Get :: "('w, 'o) S3Store \<Rightarrow> bytes \<Rightarrow> ('w, bytes option) goact" where
  "S3_Get s key =
     andThen (attempt (getObject (s3client s) (s3Bucket (s3cfg s)) (object_name s key))) (\<lambda>res.
     case res of
       Inl err \<Rightarrow>
         if errorCode (s3client s) err = ''NoSuchKey'' then throw ErrKeccakKeyNotFound else throw err
     | Inr result \<Rightarrow> andThen (readAll (s3client s) result) (\<lambda>data. ret (Some data)))"

definition S3_Put :: "('w, 'o) S3Store \<Rightarrow> bytes \<Rightarrow> bytes \<Rightarrow> ('w, unit) goact" where
  "S3_Put s key v =
     mapErr (WrapError ''S3 Put'')
       (putObject (s3client s) (s3Bucket (s3cfg s)) (object_name s key) v (disableContentSha256 s))"

text \<open>\<^verbatim>\<open>Hash.Hex\<close> prints with the prefix \<^verbatim>\<open>0x\<close>.\<close>

definition S3_Verify :: "(bytes \<Rightarrow> bytes) \<Rightarrow> bytes \<Rightarrow> bytes \<Rightarrow> ('w, unit) goact" where
  "S3_Verify keccak key v =
     (if key \<noteq> keccak v
      then throw (Keccak256KeyValueMismatchError (hex_EncodeToString key)
                    (''0x'' @ hex_EncodeToString (keccak v)))
      else ret ())"

definition S3_store :: "(bytes \<Rightarrow> bytes) \<Rightarrow> ('w, 'o) S3Store \<Rightarrow> 'w SecondaryStore" where
  "S3_store keccak s = \<lparr>scPut = S3_Put s, scGet = S3_Get s, scVerify = S3_Verify keccak,
                        scBackendType = S3BackendType\<rparr>"

section \<open>Distinct keys have distinct object names\<close>

lemma split_slash_nonempty [simp]: "split_slash s \<noteq> []"
  by (induction s) (auto split: list.splits)

lemma split_slash_join: "split_slash (a @ CHR ''/'' # b) = split_slash a @ split_slash b"
proof (induction a)
  case (Cons c a)
  then show ?case by (cases "split_slash a") auto
qed simp

lemma split_slash_plain: "CHR ''/'' \<notin> set s \<Longrightarrow> split_slash s = [s]"
  by (induction s) auto

lemma join_slash_snoc: "ws \<noteq> [] \<Longrightarrow> join_slash (ws @ [w]) = join_slash ws @ CHR ''/'' # w"
  by (induction ws rule: join_slash.induct) (auto simp: neq_Nil_conv)

text \<open>A plain component: no slash, not empty, not a dot name.\<close>

definition plain :: "string \<Rightarrow> bool" where
  "plain s \<longleftrightarrow> s \<noteq> [] \<and> CHR ''/'' \<notin> set s \<and> s \<noteq> ''.'' \<and> s \<noteq> ''..''"

lemma path_Join_plain:
  assumes "plain h"
  shows "\<exists>prefix. \<forall>h'. plain h' \<longrightarrow> path_Join p h' = prefix @ h'"
proof (cases "p = []")
  case True
  have "path_Join p h' = [] @ h'" if "plain h'" for h'
    using that True
    by (cases h') (auto simp: path_Join_def path_Clean_def plain_def split_slash_plain clean_step_def Let_def)
  then show ?thesis by blast
next
  case False
  let ?rooted = "hd p = CHR ''/''"
  let ?cs = "foldl (clean_step ?rooted) [] (split_slash p)"
  have comps: "foldl (clean_step ?rooted) [] (split_slash (p @ ''/'' @ h')) = ?cs @ [h']" if "plain h'" for h'
    using that by (simp add: split_slash_join split_slash_plain plain_def clean_step_def)
  have "path_Join p h' = ((if ?rooted then ''/'' else []) @ (if ?cs = [] then [] else join_slash ?cs @ ''/'')) @ h'"
    if "plain h'" for h'
    using that False comps [OF that]
    by (auto simp: path_Join_def path_Clean_def plain_def Let_def join_slash_snoc)
  then show ?thesis by blast
qed

lemma hexdigit_set: "n < 16 \<Longrightarrow> hexdigit n \<in> set ''0123456789abcdef''"
  by (drule hexdigit_cases) (auto simp: hexdigit_def)

lemma hex_chars: "set (hex_EncodeToString bs) \<subseteq> set ''0123456789abcdef''"
proof (induction bs)
  case (Cons b bs)
  have "unat b div 16 < 16" "unat b mod 16 < 16" using unat_byte_bound [of b] by simp_all
  then have "set (byte_hex b) \<subseteq> set ''0123456789abcdef''"
    using hexdigit_set by (simp add: byte_hex_def)
  with Cons show ?case by (simp add: hex_EncodeToString_Cons)
qed (simp add: hex_EncodeToString_def)

lemma plain_hex:
  assumes "k \<noteq> []"
  shows "plain (hex_EncodeToString k)"
proof -
  have "CHR ''/'' \<notin> set (hex_EncodeToString k)" "CHR ''.'' \<notin> set (hex_EncodeToString k)"
    using hex_chars [of k] by auto
  moreover have "hex_EncodeToString k \<noteq> []"
    using assms length_hex_EncodeToString [of k] by (metis length_0_conv mult_is_0 zero_neq_numeral)
  ultimately show ?thesis by (auto simp: plain_def)
qed

section \<open>Properties\<close>

text \<open>
  Objects of different keys never share a name. Whatever path the S3 store is configured with
  (relative, rooted, with empty, dot or parent components), two non-empty keys are stored under the
  same object name only if they are equal.
\<close>

theorem object_name_injective:
  assumes "k1 \<noteq> []" and "k2 \<noteq> []"
  shows "object_name s k1 = object_name s k2 \<longleftrightarrow> k1 = k2"
proof -
  obtain prefix where "\<forall>h. plain h \<longrightarrow> path_Join (s3Path (s3cfg s)) h = prefix @ h"
    using path_Join_plain [OF plain_hex [OF assms(1)]] by blast
  with assms have "object_name s k1 = prefix @ hex_EncodeToString k1"
    "object_name s k2 = prefix @ hex_EncodeToString k2"
    by (simp_all add: object_name_def plain_hex)
  then show ?thesis by (simp add: hex_inj)
qed

definition ex_s3_client :: "((string \<rightharpoonup> bytes), bytes) s3_client" where
  "ex_s3_client = \<lparr>getObject = (\<lambda>bucket name m. (case m name of None \<Rightarrow> Err (ErrorString ''NoSuchKey'') | Some b \<Rightarrow> Ok b, m)),
     readAll = (\<lambda>b. ret b), putObject = (\<lambda>bucket name v sha m. (Ok (), m(name \<mapsto> v))),
     errorCode = (\<lambda>e. if e = ErrorString ''NoSuchKey'' then ''NoSuchKey'' else [])\<rparr>"

definition ex_s3 :: "((string \<rightharpoonup> bytes), bytes) S3Store" where
  "ex_s3 = \<lparr>s3cfg = \<lparr>s3CredentialType = CredentialTypePublic, s3Endpoint = ''s3'', s3EnableTLS = True,
     s3AccessKeyID = [], s3AccessKeySecret = [], s3Bucket = ''blobs'', s3Path = ''a/../b/''\<rparr>,
     s3client = ex_s3_client, disableContentSha256 = False\<rparr>"

theorem object_name_injective_witness:
  "object_name ex_s3 [1] \<noteq> object_name ex_s3 [2]"
  using object_name_injective [of "[1]" "[2]" ex_s3] by simp

end
