(* ===== verification/Ephemeral_DB.thy ===== *)
theory Ephemeral_DB
  imports Stores
begin

text \<open>
  The in-memory store behind the memstore backends: its run-time configuration with the HTTP
  endpoints that read and patch it (\<^verbatim>\<open>store/generated_key/memstore/memconfig\<close>), the client of
  those endpoints (\<^verbatim>\<open>clients/memconfig_client\<close>) and the expiring key-value database
  (\<^verbatim>\<open>store/generated_key/memstore/ephemeraldb\<close>).

  Durations and instants are integers (nanoseconds). Every access to the configuration and to
  the database takes its mutex, so each operation below is atomic; the sleeps that imitate
  network latency only delay it. \<^verbatim>\<open>time.Now\<close> is the argument \<open>now\<close>, \<^verbatim>\<open>time.ParseDuration\<close> and
  \<^verbatim>\<open>Duration.String\<close> are the arguments \<open>parseDuration\<close> and \<open>durationString\<close>, and the decoding of a
  JSON body is given by its result.
\<close>

section \<open>Configuration\<close>

record MemConfig =
  MaxBlobSizeBytes :: uint64
  BlobExpiration :: int
  PutLatency :: int
  GetLatency :: int
  PutReturnsFailoverError :: bool

definition SetLatencyPUTRoute :: "int \<Rightarrow> MemConfig \<Rightarrow> MemConfig" where
  "SetLatencyPUTRoute latency c = c\<lparr>PutLatency := latency\<rparr>"

definition SetLatencyGETRoute :: "int \<Rightarrow> MemConfig \<Rightarrow> MemConfig" where
  "SetLatencyGETRoute latency c = c\<lparr>GetLatency := latency\<rparr>"

definition SetPUTReturnsFailoverError :: "bool \<Rightarrow> MemConfig \<Rightarrow> MemConfig" where
  "SetPUTReturnsFailoverError b c = c\<lparr>PutReturnsFailoverError := b\<rparr>"

definition SetBlobExpiration :: "int \<Rightarrow> MemConfig \<Rightarrow> MemConfig" where
  "SetBlobExpiration expiration c = c\<lparr>BlobExpiration := expiration\<rparr>"

definition SetMaxBlobSizeBytes :: "uint64 \<Rightarrow> MemConfig \<Rightarrow> MemConfig" where
  "SetMaxBlobSizeBytes n c = c\<lparr>MaxBlobSizeBytes := n\<rparr>"

text \<open>\<^verbatim>\<open>Update\<close> replaces the whole configuration under the lock.\<close>

definition SafeConfig_Update :: "MemConfig \<Rightarrow> MemConfig \<Rightarrow> MemConfig" where
  "SafeConfig_Update config c = config"

text \<open>A PATCH body: the pointer fields of \<^verbatim>\<open>ConfigUpdate\<close> are nil when the key is omitted.\<close>

record ConfigUpdate =
  updMaxBlobSizeBytes :: "uint64 option"
  updPutLatency :: "string option"
  updGetLatency :: "string option"
  updPutReturnsFailoverError :: "bool option"
  updBlobExpiration :: "string option"

datatype config_response = ConfigJSON MemConfig | ConfigError nat go_error

text \<open>
  One optional duration field of the update: parse it and apply the setter; a duration that does
  not parse ends the handler with status 400, after the fields before it have been applied.
\<close>

definition update_duration ::
  "(string \<Rightarrow> go_error + int) \<Rightarrow> string option \<Rightarrow> (int \<Rightarrow> MemConfig \<Rightarrow> MemConfig) \<Rightarrow>
     (MemConfig, unit) goact" where
  "update_duration parseDuration field setter =
     (case field of
        None \<Rightarrow> ret ()
      | Some s \<Rightarrow> andThen (liftR (fromSum (parseDuration s))) (\<lambda>d. modify (setter d)))"

definition update_fields ::
  "(string \<Rightarrow> go_error + int) \<Rightarrow> ConfigUpdate \<Rightarrow> (MemConfig, unit) goact" where
  "update_fields parseDuration update =
     andThen (update_duration parseDuration (updPutLatency update) SetLatencyPUTRoute) (\<lambda>_.
     andThen (update_duration parseDuration (updGetLatency update) SetLatencyGETRoute) (\<lambda>_.
     andThen (case updPutReturnsFailoverError update of
                None \<Rightarrow> ret () | Some b \<Rightarrow> modify (SetPUTReturnsFailoverError b)) (\<lambda>_.
     andThen (case updMaxBlobSizeBytes update of
                None \<Rightarrow> ret () | Some n \<Rightarrow> modify (SetMaxBlobSizeBytes n)) (\<lambda>_.
     update_duration parseDuration (updBlobExpiration update) SetBlobExpiration))))"

definition handleGetConfig :: "MemConfig \<Rightarrow> config_response" where
  "handleGetConfig c = ConfigJSON c"

definition handleUpdateConfig ::
  "(string \<Rightarrow> go_error + int) \<Rightarrow> go_error + ConfigUpdate \<Rightarrow> MemConfig \<Rightarrow> config_response \<times> MemConfig" where
  "handleUpdateConfig parseDuration decoded c =
     (case decoded of
        Inl e \<Rightarrow> (ConfigError 400 e, c)
      | Inr update \<Rightarrow>
          (case update_fields parseDuration update c of
             (Err e, c') \<Rightarrow> (ConfigError 400 e, c')
           | (_, c') \<Rightarrow> (ConfigJSON c', c')))"

text \<open>
  The client sends every field of its configuration (\<^verbatim>\<open>MemConfig.MarshalJSON\<close>,
  \<^verbatim>\<open>Client.UpdateConfig\<close>).
\<close>

definition client_MarshalJSON :: "(int \<Rightarrow> string) \<Rightarrow> MemConfig \<Rightarrow> ConfigUpdate" where
  "client_MarshalJSON durationString c =
     \<lparr>updMaxBlobSizeBytes = Some (MaxBlobSizeBytes c),
      updPutLatency = Some (durationString (PutLatency c)),
      updGetLatency = Some (durationString (GetLatency c)),
      updPutReturnsFailoverError = Some (PutReturnsFailoverError c),
      updBlobExpiration = Some (durationString (BlobExpiration c))\<rparr>"

section \<open>The database\<close>

record DB =
  keyStarts :: "bytes \<rightharpoonup> int"
  store :: "bytes \<rightharpoonup> bytes"
  pruning :: bool

text \<open>
  \<^verbatim>\<open>New\<close> starts the pruning goroutine only if an expiration is configured at that moment; the
  field \<open>pruning\<close> records whether it runs.
\<close>

definition DB_New :: "MemConfig \<Rightarrow> DB" where
  "DB_New cfg = \<lparr>keyStarts = Map.empty, store = Map.empty, pruning = (BlobExpiration cfg \<noteq> 0)\<rparr>"

definition InsertEntry ::
  "(go_error \<Rightarrow> go_error) \<Rightarrow> MemConfig \<Rightarrow> int \<Rightarrow> bytes \<Rightarrow> bytes \<Rightarrow> (DB, unit) goact" where
  "InsertEntry newErrorFailover cfg now key value db =
     (if PutReturnsFailoverError cfg
        then (Err (newErrorFailover (ErrorString ''ephemeral db in failover simulation mode'')), db)
      else if length value > unat (MaxBlobSizeBytes cfg)
        then (Err (WrapError (''blob length '' @ decimal (length value) @ '', max blob size '' @
                decimal (unat (MaxBlobSizeBytes cfg))) ErrProxyOversizedBlob), db)
      else case store db key of
        Some _ \<Rightarrow> (Err (ErrorString ''payload key already exists in ephemeral db''), db)
      | None \<Rightarrow>
          (Ok (),
           (let db1 = db\<lparr>store := (store db)(key \<mapsto> value)\<rparr> in
            if BlobExpiration cfg > 0
            then db1\<lparr>keyStarts := (keyStarts db1)(key \<mapsto> now)\<rparr>
            else db1)))"

definition FetchEntry :: "bytes \<Rightarrow> DB \<Rightarrow> bytes go" where
  "FetchEntry key db =
     (case store db key of
        None \<Rightarrow> Err (ErrorString (''payload not found for key: '' @ hex_EncodeToString key))
      | Some payload \<Rightarrow> Ok payload)"

text \<open>
  \<^verbatim>\<open>pruneExpired\<close> ranges over the map \<^verbatim>\<open>keyStarts\<close>, in an order Go leaves unspecified, and asks the
  clock and the configuration again for each entry. \<open>visits\<close> is the sequence of keys in the order of the
  iteration, each with the time at which \<^verbatim>\<open>time.Since\<close> was evaluated for it and the expiration that
  was read from the configuration.
\<close>

type_synonym visit = "bytes \<times> int \<times> int"

definition prune_visit :: "visit \<Rightarrow> DB \<Rightarrow> DB" where
  "prune_visit v db =
     (case v of (commit, now, expiration) \<Rightarrow>
       (case keyStarts db commit of
          None \<Rightarrow> db
        | Some dur \<Rightarrow>
            if now - dur \<ge> expiration
            then db\<lparr>keyStarts := (keyStarts db)(commit := None), store := (store db)(commit := None)\<rparr>
            else db))"

definition pruneExpired :: "visit list \<Rightarrow> DB \<Rightarrow> DB" where
  "pruneExpired visits db = fold prune_visit visits db"

text \<open>A complete iteration visits every tracked key exactly once.\<close>

definition complete_visits :: "visit list \<Rightarrow> DB \<Rightarrow> bool" where
  "complete_visits visits db \<longleftrightarrow> set (map fst visits) = dom (keyStarts db) \<and> distinct (map fst visits)"

section \<open>The configuration endpoints\<close>

lemma update_duration_None [simp]: "update_duration p None f c = (Ok (), c)"
  by (simp add: update_duration_def act_simps)

lemma update_duration_Ok [simp]: "p s = Inr d \<Longrightarrow> update_duration p (Some s) f c = (Ok (), f d c)"
  by (simp add: update_duration_def act_simps)

lemma update_duration_Err [simp]: "p s = Inl e \<Longrightarrow> update_duration p (Some s) f c = (Err e, c)"
  by (simp add: update_duration_def act_simps)

lemmas setter_defs =
  SetLatencyPUTRoute_def SetLatencyGETRoute_def SetPUTReturnsFailoverError_def
  SetBlobExpiration_def SetMaxBlobSizeBytes_def

text \<open>Setting the five fields one by one ends where \<^verbatim>\<open>Update\<close> does.\<close>

lemma setters_Update:
  "(SetMaxBlobSizeBytes (MaxBlobSizeBytes n) \<circ> SetBlobExpiration (BlobExpiration n) \<circ> SetLatencyPUTRoute (PutLatency n) \<circ>
    SetLatencyGETRoute (GetLatency n) \<circ> SetPUTReturnsFailoverError (PutReturnsFailoverError n)) c = SafeConfig_Update n c"
  by (simp add: setter_defs SafeConfig_Update_def)

lemma client_update_fields:
  assumes "\<And>d. parseDuration (durationString d) = Inr d"
  shows "update_fields parseDuration (client_MarshalJSON durationString c) c0 = (Ok (), c)"
  using assms
  by (simp add: update_fields_def client_MarshalJSON_def andThen_def modify_def setter_defs)

section \<open>Inserting, fetching, pruning\<close>

lemma InsertEntry_Ok_iff:
  "InsertEntry nf cfg now k v db = (Ok (), db') \<longleftrightarrow>
     \<not> PutReturnsFailoverError cfg \<and> length v \<le> unat (MaxBlobSizeBytes cfg) \<and>
     store db k = None \<and>
     db' = db\<lparr>store := (store db)(k \<mapsto> v),
              keyStarts := (if BlobExpiration cfg > 0 then (keyStarts db)(k \<mapsto> now) else keyStarts db)\<rparr>"
  by (auto simp: InsertEntry_def Let_def split: option.splits if_splits)

lemma InsertEntry_returns:
  "fst (InsertEntry nf cfg now k v db) \<noteq> Panic" "fst (InsertEntry nf cfg now k v db) \<noteq> Blocked"
  by (auto simp: InsertEntry_def split: option.splits)

lemma InsertEntry_Err_unchanged:
  "InsertEntry nf cfg now k v db = (Err e, db') \<Longrightarrow> db' = db"
  by (auto simp: InsertEntry_def Let_def split: option.splits if_splits)

lemma InsertEntry_store:
  "InsertEntry nf cfg now k v db = (r, db') \<Longrightarrow> k' \<noteq> k \<Longrightarrow> store db' k' = store db k'"
  by (auto simp: InsertEntry_def Let_def split: option.splits if_splits)

lemma InsertEntry_never_overwrites:
  "InsertEntry nf cfg now k v db = (r, db') \<Longrightarrow> store db k' = Some b \<Longrightarrow> store db' k' = Some b"
  by (auto simp: InsertEntry_def Let_def split: option.splits if_splits)

text \<open>
  What the iteration leaves, whatever its order: a tracked entry visited when it has expired is
  gone from both maps, and every other entry is as before.
\<close>

definition expired_visit :: "visit list \<Rightarrow> DB \<Rightarrow> bytes \<Rightarrow> bool" where
  "expired_visit visits db k \<longleftrightarrow>
     (\<exists>now e dur. (k, now, e) \<in> set visits \<and> keyStarts db k = Some dur \<and> now - dur \<ge> e)"

definition prune_spec :: "visit list \<Rightarrow> DB \<Rightarrow> DB" where
  "prune_spec visits db =
     db\<lparr>keyStarts := (\<lambda>k. if expired_visit visits db k then None else keyStarts db k),
        store := (\<lambda>k. if expired_visit visits db k then None else store db k)\<rparr>"

lemma expired_visit_Nil [simp]: "\<not> expired_visit [] db k"
  by (simp add: expired_visit_def)

lemma expired_visit_Cons:
  assumes "c \<notin> set (map fst visits)"
  shows "expired_visit ((c, now, e) # visits) db k \<longleftrightarrow>
    (k = c \<and> (\<exists>dur. keyStarts db c = Some dur \<and> now - dur \<ge> e)) \<or>
    (k \<noteq> c \<and> expired_visit visits (prune_visit (c, now, e) db) k)"
  using assms
  by (force simp: expired_visit_def prune_visit_def split: option.splits)

lemma prune_visit_fields:
  "store (prune_visit (c, now, e) db) k =
     (if k = c \<and> (\<exists>dur. keyStarts db c = Some dur \<and> now - dur \<ge> e) then None else store db k)"
  "keyStarts (prune_visit (c, now, e) db) k =
     (if k = c \<and> (\<exists>dur. keyStarts db c = Some dur \<and> now - dur \<ge> e) then None else keyStarts db k)"
  "pruning (prune_visit (c, now, e) db) = pruning db"
  by (auto simp: prune_visit_def split: option.splits)

lemma not_expired_if_not_visited: "c \<notin> set (map fst visits) \<Longrightarrow> \<not> expired_visit visits db c"
  by (force simp: expired_visit_def)

lemma expired_visit_age:
  assumes "expired_visit visits d k" and "\<And>k n e'. (k, n, e') \<in> set visits \<Longrightarrow> n \<le> t \<and> e' = e"
  shows "\<exists>dur. keyStarts d k = Some dur \<and> t - dur \<ge> e"
proof -
  obtain n e' dur where "(k, n, e') \<in> set visits" "keyStarts d k = Some dur" "n - dur \<ge> e'"
    using assms(1) unfolding expired_visit_def by blast
  with assms(2) [of k n e'] show ?thesis by simp
qed

lemma fold_prune_visit:
  "distinct (map fst visits) \<Longrightarrow> fold prune_visit visits db = prune_spec visits db"
proof (induction visits arbitrary: db)
  case Nil
  then show ?case by (simp add: prune_spec_def)
next
  case (Cons v visits)
  obtain c now e where v: "v = (c, now, e)" by (cases v)
  with Cons.prems have c: "c \<notin> set (map fst visits)" by simp
  have "fold prune_visit (v # visits) db = prune_spec visits (prune_visit (c, now, e) db)"
    using Cons v by simp
  also have "\<dots> = prune_spec (v # visits) db"
    using not_expired_if_not_visited [OF c]
    by (auto simp: prune_spec_def v expired_visit_Cons [OF c] fun_eq_iff prune_visit_fields
        intro!: DB.equality)
  finally show ?case .
qed

text \<open>
  The database, its configuration and the clock as a transition system: requests insert, the
  configuration endpoint patches, time passes, and the pruning goroutine, if it was started, runs
  an iteration during which the clock moves from \<open>clock s\<close> to \<open>t\<close>. A patch comes before or after an
  iteration, not in its middle, so that all entries of an iteration are compared with one expiration.
\<close>

record mem_state =
  cfg :: MemConfig
  db :: DB
  clock :: int

inductive mem_step ::
  "(go_error \<Rightarrow> go_error) \<Rightarrow> (string \<Rightarrow> go_error + int) \<Rightarrow> mem_state \<Rightarrow> mem_state \<Rightarrow> bool"
  for nf :: "go_error \<Rightarrow> go_error" and pd :: "string \<Rightarrow> go_error + int"
where
  insert: "InsertEntry nf (cfg s) (clock s) k v (db s) = (r, db') \<Longrightarrow>
     mem_step nf pd s (s\<lparr>db := db'\<rparr>)"
| prune: "pruning (db s) \<Longrightarrow> complete_visits visits (db s) \<Longrightarrow>
     (\<forall>(k, n, e) \<in> set visits. clock s \<le> n \<and> n \<le> t \<and> e = BlobExpiration (cfg s)) \<Longrightarrow> clock s \<le> t \<Longrightarrow>
     mem_step nf pd s (s\<lparr>db := pruneExpired visits (db s), clock := t\<rparr>)"
| patch: "handleUpdateConfig pd decoded (cfg s) = (resp, c') \<Longrightarrow>
     mem_step nf pd s (s\<lparr>cfg := c'\<rparr>)"
| tick: "clock s \<le> t \<Longrightarrow> mem_step nf pd s (s\<lparr>clock := t\<rparr>)"

inductive mem_steps ::
  "(go_error \<Rightarrow> go_error) \<Rightarrow> (string \<Rightarrow> go_error + int) \<Rightarrow> mem_state \<Rightarrow> mem_state \<Rightarrow> bool"
  for nf :: "go_error \<Rightarrow> go_error" and pd :: "string \<Rightarrow> go_error + int"
where
  refl: "mem_steps nf pd s s"
| step: "mem_steps nf pd s t \<Longrightarrow> mem_step nf pd t u \<Longrightarrow> mem_steps nf pd s u"

definition mem_init :: "MemConfig \<Rightarrow> int \<Rightarrow> mem_state" where
  "mem_init c t = \<lparr>cfg = c, db = DB_New c, clock = t\<rparr>"

text \<open>
  The invariant: only stored keys are tracked for expiration, and no tracked entry was inserted
  in the future.
\<close>

definition tracked_stored :: "DB \<Rightarrow> bool" where
  "tracked_stored d \<longleftrightarrow> (\<forall>k t. keyStarts d k = Some t \<longrightarrow> store d k \<noteq> None)"

definition mem_inv :: "mem_state \<Rightarrow> bool" where
  "mem_inv s \<longleftrightarrow>
     tracked_stored (db s) \<and>
     (\<forall>k t. keyStarts (db s) k = Some t \<longrightarrow> t \<le> clock s)"

lemma mem_inv_init: "mem_inv (mem_init c t)"
  by (simp add: mem_inv_def mem_init_def DB_New_def tracked_stored_def)

lemma pruneExpired_spec:
  "distinct (map fst visits) \<Longrightarrow> pruneExpired visits d = prune_spec visits d"
  by (simp add: pruneExpired_def fold_prune_visit)

lemma prune_spec_inv:
  assumes "tracked_stored d"
  shows "tracked_stored (prune_spec visits d)"
  using assms by (auto simp: prune_spec_def tracked_stored_def)

lemma prune_spec_keyStarts_le:
  "keyStarts (prune_spec visits d) k = Some t \<Longrightarrow> keyStarts d k = Some t"
  by (auto simp: prune_spec_def split: if_splits)

lemma InsertEntry_tracked:
  assumes "InsertEntry nf c now k v d = (r, d')" and "tracked_stored d"
  shows "tracked_stored d'"
  using assms by (auto simp: InsertEntry_def Let_def tracked_stored_def split: option.splits if_splits)

lemma InsertEntry_keyStarts:
  assumes "InsertEntry nf c now k v d = (r, d')" and "keyStarts d' k' = Some t"
  shows "keyStarts d k' = Some t \<or> t = now"
  using assms by (auto simp: InsertEntry_def Let_def split: option.splits if_splits)

text \<open>The database keeps the contract of a key-value store that never replaces an entry.\<close>

interpretation ephemeral: write_once_store "InsertEntry nf c now" store tracked_stored for nf c now
proof unfold_locales
  fix s k v r s' k' b
  assume ins: "InsertEntry nf c now k v s = (r, s')"
  show "tracked_stored s \<Longrightarrow> tracked_stored s'"
    using InsertEntry_tracked [OF ins] .
  show "k' \<noteq> k \<Longrightarrow> store s' k' = store s k'"
    using InsertEntry_store [OF ins] .
  show "r \<noteq> Ok () \<Longrightarrow> store s' k = store s k"
    using ins by (auto simp: InsertEntry_def Let_def split: option.splits if_splits)
  show "store s k' = Some b \<Longrightarrow> store s' k' = Some b"
    using InsertEntry_never_overwrites [OF ins] .
qed (auto simp: InsertEntry_Ok_iff)

lemma mem_step_inv: "mem_step nf pd s t \<Longrightarrow> mem_inv s \<Longrightarrow> mem_inv t"
proof (induction rule: mem_step.induct)
  case (insert s k v r db')
  then show ?case
    using InsertEntry_tracked [OF insert(1)] InsertEntry_keyStarts [OF insert(1)]
    by (fastforce simp: mem_inv_def)
next
  case (prune s visits t)
  then have "pruneExpired visits (db s) = prune_spec visits (db s)"
    by (simp add: complete_visits_def pruneExpired_spec)
  with prune show ?case
    using prune_spec_inv [of "db s"]
    by (fastforce simp: mem_inv_def dest!: prune_spec_keyStarts_le)
next
  case (patch decoded s resp c')
  then show ?case by (simp add: mem_inv_def)
next
  case (tick s t)
  then show ?case by (force simp: mem_inv_def)
qed

lemma mem_steps_inv: "mem_steps nf pd s t \<Longrightarrow> mem_inv s \<Longrightarrow> mem_inv t"
  by (induction rule: mem_steps.induct) (auto intro: mem_step_inv)

text \<open>
  One step changes an entry in only one way: the pruning goroutine removes it, and only if it is
  tracked and its age at the end of the iteration has reached the configured expiration.
\<close>

lemma mem_step_entry:
  assumes "mem_step nf pd s t" and "store (db s) k = Some v"
  shows "store (db t) k = Some v \<or>
     store (db t) k = None \<and> pruning (db s) \<and>
       (\<exists>dur. keyStarts (db s) k = Some dur \<and> clock t - dur \<ge> BlobExpiration (cfg s))"
  using assms
proof (induction rule: mem_step.induct)
  case (insert s k' v' r db')
  then show ?case by (auto dest: InsertEntry_never_overwrites)
next
  case (prune s visits t)
  then have "pruneExpired visits (db s) = prune_spec visits (db s)"
    by (simp add: complete_visits_def pruneExpired_spec)
  moreover have "\<exists>dur. keyStarts (db s) k = Some dur \<and> t - dur \<ge> BlobExpiration (cfg s)"
    if "expired_visit visits (db s) k"
    by (rule expired_visit_age [OF that]) (use prune in auto)
  ultimately show ?case
    using prune by (auto simp: prune_spec_def)
qed auto

lemma mem_step_untracked:
  assumes "mem_step nf pd s t" and "store (db s) k = Some v" and "keyStarts (db s) k = None"
  shows "store (db t) k = Some v \<and> keyStarts (db t) k = None"
  using assms
proof (induction rule: mem_step.induct)
  case (insert s k' v' r db')
  then show ?case
    by (auto simp: InsertEntry_def Let_def split: option.splits if_splits)
next
  case (prune s visits t)
  then have "pruneExpired visits (db s) = prune_spec visits (db s)"
    by (simp add: complete_visits_def pruneExpired_spec)
  with prune show ?case by (auto simp: prune_spec_def expired_visit_def)
qed auto

lemma mem_steps_untracked:
  assumes "mem_steps nf pd s t" and "store (db s) k = Some v" and "keyStarts (db s) k = None"
  shows "store (db t) k = Some v \<and> keyStarts (db t) k = None"
  using assms by (induction rule: mem_steps.induct) (auto dest: mem_step_untracked)

section \<open>Properties\<close>

text \<open>
  C29: pruning is exact and does not depend on the iteration order. Over any complete iteration of the
  tracked keys, at whatever moments the clock is read and whatever expirations the configuration has at these
  moments, \<^verbatim>\<open>pruneExpired\<close> removes from both maps exactly the entries whose age had reached the expiration
  when they were visited, and changes nothing else; two iterations that visit the same keys at the same
  moments in a different order give the same database.
\<close>

theorem pruneExpired_exact:
  assumes "complete_visits visits d"
  shows "store (pruneExpired visits d) =
       (\<lambda>k. if expired_visit visits d k then None else store d k) \<and>
     keyStarts (pruneExpired visits d) =
       (\<lambda>k. if expired_visit visits d k then None else keyStarts d k) \<and>
     (\<forall>visits'. distinct visits' \<and> set visits' = set visits \<longrightarrow>
        pruneExpired visits' d = pruneExpired visits d)"
proof -
  have d: "distinct (map fst visits)" using assms by (simp add: complete_visits_def)
  have "pruneExpired visits' d = pruneExpired visits d"
    if v: "distinct visits'" "set visits' = set visits" for visits'
  proof -
    have "inj_on fst (set visits')" using d v by (simp add: distinct_map)
    then have "distinct (map fst visits')" using v by (simp add: distinct_map)
    moreover have "expired_visit visits' d k = expired_visit visits d k" for k
      by (simp add: expired_visit_def v(2))
    ultimately show ?thesis using d by (simp add: pruneExpired_spec prune_spec_def)
  qed
  then show ?thesis using d by (simp add: pruneExpired_spec prune_spec_def)
qed

definition ex_memconfig :: MemConfig where
  "ex_memconfig = \<lparr>MaxBlobSizeBytes = 1000, BlobExpiration = 10, PutLatency = 0, GetLatency = 0,
                   PutReturnsFailoverError = False\<rparr>"

definition ex_db :: DB where
  "ex_db = \<lparr>keyStarts = [[1] \<mapsto> 5, [2] \<mapsto> 9], store = [[1] \<mapsto> [11], [2] \<mapsto> [22]], pruning = True\<rparr>"

theorem pruneExpired_exact_witness:
  "complete_visits [([2], 15, 10), ([1], 16, 11)] ex_db \<and>
   store (pruneExpired [([2], 15, 10), ([1], 16, 11)] ex_db) = [[2] \<mapsto> [22]] \<and>
   pruneExpired [([1], 16, 11), ([2], 15, 10)] ex_db = pruneExpired [([2], 15, 10), ([1], 16, 11)] ex_db"
proof -
  have c: "complete_visits [([2], 15, 10), ([1], 16, 11)] ex_db"
    by (auto simp: complete_visits_def ex_db_def)
  have "distinct [([1], 16, 11), ([2], 15, 10) :: visit] \<and>
      set [([1], 16, 11), ([2], 15, 10)] = set [([2], 15, 10), ([1], 16, 11) :: visit]"
    by auto
  moreover have "(\<lambda>k. if expired_visit [([2], 15, 10), ([1], 16, 11)] ex_db k then None else store ex_db k) = [[2] \<mapsto> [22]]"
    by (rule ext) (auto simp: expired_visit_def ex_db_def)
  ultimately show ?thesis
    using c pruneExpired_exact [OF c, THEN conjunct1]
      pruneExpired_exact [OF c, THEN conjunct2, THEN conjunct2, rule_format, of "[([1], 16, 11), ([2], 15, 10)]"]
    by simp
qed

text \<open>
  C28: the life of an entry. From the state a new memstore starts in, over any interleaving of
  insertions, configuration patches, pruning iterations and the passing of time: only stored keys are
  tracked and none was inserted in the future; and in one more step an entry keeps its value, or is
  removed by the pruning goroutine, being tracked and at least as old as the expiration configured at
  that moment.
\<close>

theorem entry_lifetime:
  assumes "mem_steps nf pd (mem_init c t0) s" and "mem_step nf pd s s'"
    and "store (db s) k = Some v"
  shows "mem_inv s' \<and>
    (store (db s') k = Some v \<or>
     store (db s') k = None \<and> pruning (db s) \<and>
       (\<exists>dur. keyStarts (db s) k = Some dur \<and> BlobExpiration (cfg s) \<le> clock s' - dur))"
  using assms mem_steps_inv [OF assms(1) mem_inv_init] mem_step_inv [OF assms(2)]
    mem_step_entry [OF assms(2,3)] by auto

theorem entry_lifetime_witness:
  "\<exists>s s'. mem_steps id (\<lambda>s. Inl (ErrorString s)) (mem_init ex_memconfig 5) s \<and>
     mem_step id (\<lambda>s. Inl (ErrorString s)) s s' \<and> store (db s) [1] = Some [7] \<and> store (db s') [1] = None \<and>
     mem_inv s' \<and> (\<exists>dur. keyStarts (db s) [1] = Some dur \<and> 10 \<le> clock s' - dur)"
proof -
  let ?s = "(mem_init ex_memconfig 5)\<lparr>db := DB_New ex_memconfig\<lparr>store := [[1] \<mapsto> [7]], keyStarts := [[1] \<mapsto> 5]\<rparr>\<rparr>"
    and ?pd = "\<lambda>s. Inl (ErrorString s)"
  let ?s' = "?s\<lparr>db := pruneExpired [([1], 20, 10)] (db ?s), clock := 20\<rparr>"
  have st: "mem_steps id ?pd (mem_init ex_memconfig 5) ?s"
    by (intro mem_steps.step [OF mem_steps.refl]
        mem_step.insert [where k = "[1]" and v = "[7]" and r = "Ok ()"])
       (simp add: InsertEntry_Ok_iff mem_init_def ex_memconfig_def DB_New_def)
  have prune: "mem_step id ?pd ?s ?s'"
    by (rule mem_step.prune) (simp_all add: mem_init_def ex_memconfig_def DB_New_def complete_visits_def)
  have "store (db ?s) [1] = Some [7]" "store (db ?s') [1] = None"
    by (simp_all add: pruneExpired_def prune_visit_def)
  moreover have "BlobExpiration (cfg ?s) = 10" by (simp add: mem_init_def ex_memconfig_def)
  ultimately have "mem_inv ?s' \<and> (\<exists>dur. keyStarts (db ?s) [1] = Some dur \<and> 10 \<le> clock ?s' - dur)"
    using entry_lifetime [OF st prune, of "[1]" "[7]"] by (metis option.distinct(1))
  with st prune \<open>store (db ?s) [1] = Some [7]\<close> \<open>store (db ?s') [1] = None\<close> show ?thesis by blast
qed

text \<open>
  Configuration round trip. A configuration sent by the memconfig client is accepted and is
  exactly what the server then holds and returns, whatever it was before, if parsing a printed
  duration gives it back.
\<close>

theorem memconfig_client_roundtrip:
  assumes "\<forall>d. parseDuration (durationString d) = Inr d"
  shows "handleUpdateConfig parseDuration (Inr (client_MarshalJSON durationString c)) c0 = (ConfigJSON c, c) \<and>
     handleGetConfig c = ConfigJSON c"
  using client_update_fields [of parseDuration durationString c c0] assms
  by (simp add: handleUpdateConfig_def handleGetConfig_def)

definition ex_printDuration :: "int \<Rightarrow> string" where
  "ex_printDuration d = (if d < 0 then CHR ''-'' # decimal (nat (- d)) else decimal (nat d))"

fun ex_parseDuration :: "string \<Rightarrow> go_error + int" where
  "ex_parseDuration [] = Inl (ErrorString ''empty'')"
| "ex_parseDuration (c # cs) =
     (if c = CHR ''-''
      then (case parse_digits 0 cs of None \<Rightarrow> Inl (ErrorString ''bad'') | Some n \<Rightarrow> Inr (- int n))
      else (case parse_digits 0 (c # cs) of None \<Rightarrow> Inl (ErrorString ''bad'') | Some n \<Rightarrow> Inr (int n)))"

lemma decimal_no_minus: "decimal n = c # cs \<Longrightarrow> c \<noteq> CHR ''-''"
  using parse_digits_decimal [of n] by (auto simp: digit_val_def split: option.splits)

lemma ex_duration_roundtrip: "ex_parseDuration (ex_printDuration d) = Inr d"
proof (cases "d < 0")
  case True
  then show ?thesis by (simp add: ex_printDuration_def parse_digits_decimal)
next
  case False
  obtain c cs where cs: "decimal (nat d) = c # cs" by (cases "decimal (nat d)") auto
  with parse_digits_decimal [of "nat d"] False decimal_no_minus [OF cs] show ?thesis
    by (simp add: ex_printDuration_def)
qed

theorem memconfig_client_roundtrip_witness:
  "handleUpdateConfig ex_parseDuration (Inr (client_MarshalJSON ex_printDuration ex_memconfig))
     (SetMaxBlobSizeBytes 1 ex_memconfig) = (ConfigJSON ex_memconfig, ex_memconfig)"
  using memconfig_client_roundtrip [of ex_parseDuration ex_printDuration ex_memconfig
      "SetMaxBlobSizeBytes 1 ex_memconfig"]
  by (simp add: ex_duration_roundtrip)

text \<open>
  A rejected patch is not atomic. A PATCH whose last duration does not parse is answered with
  status 400, and yet every field before it has been applied.
\<close>

theorem rejected_patch_applied:
  assumes "parseDuration bad = Inl e" and "parseDuration s = Inr d"
  shows "handleUpdateConfig parseDuration
      (Inr \<lparr>updMaxBlobSizeBytes = Some n, updPutLatency = Some s, updGetLatency = None,
            updPutReturnsFailoverError = Some b, updBlobExpiration = Some bad\<rparr>) c =
    (ConfigError 400 e, c\<lparr>PutLatency := d, PutReturnsFailoverError := b, MaxBlobSizeBytes := n\<rparr>)"
  using assms
  by (simp add: handleUpdateConfig_def update_fields_def andThen_def modify_def setter_defs)

theorem rejected_patch_applied_witness:
  "handleUpdateConfig ex_parseDuration
      (Inr \<lparr>updMaxBlobSizeBytes = Some 7, updPutLatency = Some ''3'', updGetLatency = None,
            updPutReturnsFailoverError = Some True, updBlobExpiration = Some ''x''\<rparr>) ex_memconfig =
    (ConfigError 400 (ErrorString ''bad''),
     ex_memconfig\<lparr>PutLatency := 3, PutReturnsFailoverError := True, MaxBlobSizeBytes := 7\<rparr>)"
  by (rule rejected_patch_applied) (simp_all add: digit_val_def)

text \<open>
  An expiration patched to 0 removes every tracked entry. Although 0 configures a new store never
  to expire anything, a running pruning loop compares ages with it: one iteration that visits every
  tracked key no earlier than its insertion empties the tracked part of the store.
\<close>

theorem zero_expiration_prunes_all:
  assumes "complete_visits visits d"
    and "\<forall>(k, now, e) \<in> set visits. e = 0 \<and> (\<forall>dur. keyStarts d k = Some dur \<longrightarrow> dur \<le> now)"
  shows "keyStarts (pruneExpired visits d) = Map.empty \<and>
     store (pruneExpired visits d) = (\<lambda>k. if k \<in> dom (keyStarts d) then None else store d k)"
proof -
  have "expired_visit visits d k \<longleftrightarrow> k \<in> dom (keyStarts d)" for k
    using assms by (fastforce simp: expired_visit_def complete_visits_def set_eq_iff image_iff)
  with assms show ?thesis
    by (auto simp: pruneExpired_spec prune_spec_def complete_visits_def fun_eq_iff)
qed

theorem zero_expiration_prunes_all_witness:
  "keyStarts (pruneExpired [([2], 9, 0), ([1], 9, 0)] ex_db) = Map.empty"
  using zero_expiration_prunes_all [of "[([2], 9, 0), ([1], 9, 0)]" ex_db]
  by (auto simp: complete_visits_def ex_db_def)

end
