(* ===== verification/Config.thy ===== *)
theory Config
  imports Verifier_V1 Secondary_Stores Ephemeral_DB
begin

text \<open>
  The configuration of the proxy and its checks: \<^verbatim>\<open>store/config.go\<close>, \<^verbatim>\<open>store/builder/config.go\<close>,
  \<^verbatim>\<open>common/client_config_v1.go\<close>, \<^verbatim>\<open>common/client_config_v2.go\<close>, \<^verbatim>\<open>common/secret_config.go\<close>,
  \<^verbatim>\<open>metrics/cli.go\<close> (the check) and \<^verbatim>\<open>config/app_config.go\<close>. Of the configuration structs of the EigenDA client
  libraries the records have the fields that the proxy sets. Durations are numbers of nanoseconds.

  \<^verbatim>\<open>builder.Config.Check\<close> has a pointer receiver and writes to the configuration, so it is an action on it;
  \<^verbatim>\<open>AppConfig.Check\<close> has a value receiver: what it calls changes a copy.
\<close>

section \<open>Configuration structs\<close>

record StoreCfg =
  BackendsToEnable :: "EigenDABackend list"
  DispersalBackend :: EigenDABackend
  AsyncPutWorkers :: int
  FallbackTargets :: "string list"
  CacheTargets :: "string list"
  WriteOnCacheMiss :: bool

record EigenDAClientConfig =
  edaRPC :: string
  edaResponseTimeout :: int
  edaConfirmationTimeout :: int
  edaStatusQueryRetryInterval :: int
  edaStatusQueryTimeout :: int
  edaDisableTLS :: bool
  edaCustomQuorumIDs :: "uint64 list"
  edaSignerPrivateKeyHex :: string
  edaPutBlobEncodingVersion :: byte
  edaDisablePointVerificationMode :: bool
  edaWaitForFinalization :: bool
  edaWaitForConfirmationDepth :: uint64
  edaEthRpcUrl :: string
  edaSvcManagerAddr :: string

record ClientConfigV1 =
  EdaClientCfg :: EigenDAClientConfig
  v1MaxBlobSizeBytes :: uint64
  v1PutTries :: int

record DisperserClientConfig =
  Hostname :: string
  dcPort :: string
  UseSecureGrpcFlag :: bool

datatype PolynomialForm = PolynomialFormEval | PolynomialFormCoeff

record PayloadClientConfig =
  PayloadPolynomialForm :: PolynomialForm
  BlobVersion :: "16 word"

record PayloadDisperserConfig =
  pdPayloadClientConfig :: PayloadClientConfig
  DisperseBlobTimeout :: int
  BlobCompleteTimeout :: int
  BlobStatusPollInterval :: int
  ContractCallTimeout :: int

record RelayPayloadRetrieverConfig =
  rrPayloadClientConfig :: PayloadClientConfig
  RelayTimeout :: int

record ValidatorPayloadRetrieverConfig =
  vrPayloadClientConfig :: PayloadClientConfig
  RetrievalTimeout :: int

type_synonym RetrieverType = string

definition RelayRetrieverType :: RetrieverType where
  [mode_simps]: "RelayRetrieverType = ''relayRetriever''"

definition ValidatorRetrieverType :: RetrieverType where
  [mode_simps]: "ValidatorRetrieverType = ''validatorRetriever''"

record ClientConfigV2 =
  DisperserClientCfg :: DisperserClientConfig
  PayloadDisperserCfg :: PayloadDisperserConfig
  RelayPayloadRetrieverCfg :: RelayPayloadRetrieverConfig
  ValidatorPayloadRetrieverCfg :: ValidatorPayloadRetrieverConfig
  v2PutTries :: int
  v2MaxBlobSizeBytes :: uint64
  EigenDACertVerifierOrRouterAddress :: string
  RetrieversToEnable :: "RetrieverType list"
  BLSOperatorStateRetrieverAddr :: string
  EigenDAServiceManagerAddr :: string
  v2RBNRecencyWindowSize :: uint64
  v2EigenDANetwork :: EigenDANetwork

record SecretConfigV2 =
  SignerPaymentKey :: string
  EthRPCURL :: string

record KzgConfig =
  G1Path :: string
  G2Path :: string
  G2TrailingPath :: string
  CacheDir :: string
  SRSOrder :: uint64
  SRSNumberToLoad :: uint64
  NumWorker :: uint64
  LoadG2Points :: bool

record BuilderConfig =
  bcStoreConfig :: StoreCfg
  bcClientConfigV1 :: ClientConfigV1
  bcVerifierConfigV1 :: VerifyConfig
  bcKzgConfig :: KzgConfig
  bcClientConfigV2 :: ClientConfigV2
  bcMemstoreConfig :: MemConfig
  bcMemstoreEnabled :: bool
  bcRedisConfig :: RedisConfig
  bcS3Config :: S3Config

record MetricsConfig =
  mcEnabled :: bool
  mcHost :: string
  mcPort :: int

section \<open>Checks\<close>

fun check_known :: "string list \<Rightarrow> unit go" where
  "check_known [] = Ok ()"
| "check_known (t # ts) =
     (if StringToBackendType t = UnknownBackendType
      then Err (ErrorString (''unknown fallback target provided: '' @ t))
      else check_known ts)"

definition checkTargets :: "string list \<Rightarrow> unit go" where
  "checkTargets targets =
     (if length targets = 0 then Ok ()
      else if ContainsDuplicates targets then Err (ErrorString (''duplicate targets provided: '' @ fmt_slice targets))
      else check_known targets)"

fun check_disjoint :: "string list \<Rightarrow> string list \<Rightarrow> unit go" where
  "check_disjoint cacheTargets [] = Ok ()"
| "check_disjoint cacheTargets (t # ts) =
     (if Contains cacheTargets t
      then Err (ErrorString (''target '' @ t @ '' is in both fallback and cache targets''))
      else check_disjoint cacheTargets ts)"

definition StoreConfig_Check :: "StoreCfg \<Rightarrow> unit go" where
  "StoreConfig_Check c =
     bindR (checkTargets (FallbackTargets c)) (\<lambda>_.
     bindR (checkTargets (CacheTargets c)) (\<lambda>_.
     bindR (check_disjoint (CacheTargets c) (FallbackTargets c)) (\<lambda>_.
     if AsyncPutWorkers c \<ge> 100
     then Err (ErrorString ''number of secondary write workers can't be greater than 100'')
     else Ok ())))"

definition ClientConfigV2_Check :: "ClientConfigV2 \<Rightarrow> unit go" where
  "ClientConfigV2_Check c =
     (if Hostname (DisperserClientCfg c) = []
        then Err (ErrorString ''EigenDA disperser hostname is required for using EigenDA V2 backend'')
      else if dcPort (DisperserClientCfg c) = []
        then Err (ErrorString ''EigenDA disperser port is required for using EigenDA V2 backend'')
      else if EigenDACertVerifierOrRouterAddress c = []
        then Err (ErrorString (''immutable v3 cert verifier address or dynamic router '' @ [CHR 0x0A, CHR 0x09, CHR 0x09] @
               ''address is required for using EigenDA V2 backend''))
      else if v2MaxBlobSizeBytes c = 0
        then Err (ErrorString ''max blob size is required for using EigenDA V2 backend'')
      else if length (RetrieversToEnable c) = 0
        then Err (ErrorString ''at least one retriever type must be enabled for using EigenDA V2 backend'')
      else if ValidatorRetrieverType \<in> set (RetrieversToEnable c) \<and> BLSOperatorStateRetrieverAddr c = []
        then Err (ErrorString ''BLS operator state retriever address is required for validator retrieval in EigenDA V2 backend'')
      else if ValidatorRetrieverType \<in> set (RetrieversToEnable c) \<and> EigenDAServiceManagerAddr c = []
        then Err (ErrorString ''EigenDA service manager address is required for validator retrieval in EigenDA V2 backend'')
      else if v2PutTries c = 0 then Err putTriesZero
      else Ok ())"

definition SecretConfigV2_Check :: "SecretConfigV2 \<Rightarrow> unit go" where
  "SecretConfigV2_Check s =
     (if SignerPaymentKey s = []
        then Err (ErrorString ''signer payment private key is required for using EigenDA V2 backend'')
      else if EthRPCURL s = [] then Err (ErrorString ''eth rpc url is required for using EigenDA V2 backend'')
      else Ok ())"

text \<open>The dummy values that \<^verbatim>\<open>checkV1Config\<close> writes when the memstore is enabled.\<close>

definition memstore_dummies :: "BuilderConfig \<Rightarrow> BuilderConfig" where
  "memstore_dummies c =
     c\<lparr>bcVerifierConfigV1 := (bcVerifierConfigV1 c)\<lparr>SvcManagerAddr := ''0x0000000000000000000000000000000000000000''\<rparr>,
         bcClientConfigV1 := (bcClientConfigV1 c)
           \<lparr>EdaClientCfg := (EdaClientCfg (bcClientConfigV1 c))\<lparr>edaEthRpcUrl := ''http://0.0.0.0:666''\<rparr>\<rparr>\<rparr>"

definition check_v1_backend :: "BuilderConfig \<Rightarrow> unit go" where
  "check_v1_backend c =
     (let eda = EdaClientCfg (bcClientConfigV1 c) in
      if edaSvcManagerAddr eda = [] \<or> SvcManagerAddr (bcVerifierConfigV1 c) = []
        then Err (ErrorString ''service manager address is required for communication with EigenDA'')
      else if edaEthRpcUrl eda = []
        then Err (ErrorString ''eth prc url is required for communication with EigenDA'')
      else if edaRPC eda = []
        then Err (ErrorString ''using eigenda backend (memstore.enabled=false) but eigenda disperser rpc url is not set'')
      else Ok ())"

definition check_v1_verification :: "BuilderConfig \<Rightarrow> unit go" where
  "check_v1_verification c =
     (if VerifyCerts (bcVerifierConfigV1 c)
      then if bcMemstoreEnabled c
             then Err (ErrorString ''cannot enable cert verification when memstore is enabled. use --eigenda.cert-verification-disabled'')
           else if RPCURL (bcVerifierConfigV1 c) = []
             then Err (ErrorString ''cert verification enabled but eth rpc is not set'')
           else if edaSvcManagerAddr (EdaClientCfg (bcClientConfigV1 c)) = [] \<or> SvcManagerAddr (bcVerifierConfigV1 c) = []
             then Err (ErrorString ''cert verification enabled but svc manager address is not set'')
           else Ok ()
      else Ok ())"

definition checkV1Config :: "(BuilderConfig, unit) goact" where
  "checkV1Config c =
     andThen (if bcMemstoreEnabled c then modify memstore_dummies else liftR (check_v1_backend c)) (\<lambda>_ c'.
     (check_v1_verification c', c')) c"

definition check_secondaries :: "BuilderConfig \<Rightarrow> unit go" where
  "check_secondaries c =
     (let s3 = bcS3Config c; redis = bcRedisConfig c in
      if s3CredentialType s3 = CredentialTypeUnknown \<and> s3Endpoint s3 \<noteq> []
        then Err (ErrorString ''s3 credential type must be set'')
      else if s3CredentialType s3 = CredentialTypeStatic \<and>
              s3Endpoint s3 \<noteq> [] \<and> (s3AccessKeyID s3 = [] \<or> s3AccessKeySecret s3 = [])
        then Err (ErrorString ''s3 endpoint is set, but access key id or access key secret is not set'')
      else if redisEndpoint redis = [] \<and> redisPassword redis \<noteq> []
        then Err (ErrorString ''redis password is set, but endpoint is not'')
      else Ok ())"

definition BuilderConfig_Check :: "(BuilderConfig, unit) goact" where
  "BuilderConfig_Check c =
     (let backends = BackendsToEnable (bcStoreConfig c) in
      andThen (if V1EigenDABackend \<in> set backends
               then mapErr (WrapError ''check v1 config'') checkV1Config else ret ()) (\<lambda>_.
      andThen (\<lambda>c. (if V2EigenDABackend \<in> set backends \<and> \<not> bcMemstoreEnabled c
                      then mapErrR (WrapError ''check v2 config'') (ClientConfigV2_Check (bcClientConfigV2 c))
                      else Ok (), c)) (\<lambda>_.
      andThen (\<lambda>c. (check_secondaries c, c)) (\<lambda>_ c.
      (StoreConfig_Check (bcStoreConfig c), c)))) c)"

definition MetricsConfig_Check :: "MetricsConfig \<Rightarrow> unit go" where
  "MetricsConfig_Check m =
     (if \<not> mcEnabled m then Ok ()
      else if mcPort m < 0 \<or> mcPort m > 65535 then Err (ErrorString ''invalid metrics port'')
      else Ok ())"


section \<open>The configuration that is logged\<close>

definition VerifyConfig_MarshalJSON :: "VerifyConfig \<Rightarrow> VerifyConfig" where
  "VerifyConfig_MarshalJSON c = (if RPCURL c \<noteq> [] then c\<lparr>RPCURL := ''*****''\<rparr> else c)"

definition redacted :: string where
  "redacted = ''******''"

definition redact :: "string \<Rightarrow> string" where
  "redact s = (if s \<noteq> [] then redacted else s)"

definition redacted_copy :: "BuilderConfig \<Rightarrow> BuilderConfig" where
  "redacted_copy c =
     c\<lparr>bcClientConfigV1 := (bcClientConfigV1 c)
         \<lparr>EdaClientCfg := (EdaClientCfg (bcClientConfigV1 c))
            \<lparr>edaSignerPrivateKeyHex := redact (edaSignerPrivateKeyHex (EdaClientCfg (bcClientConfigV1 c))),
             edaEthRpcUrl := redact (edaEthRpcUrl (EdaClientCfg (bcClientConfigV1 c)))\<rparr>\<rparr>,
       bcRedisConfig := (bcRedisConfig c)\<lparr>redisPassword := redact (redisPassword (bcRedisConfig c))\<rparr>,
       bcS3Config := (bcS3Config c)\<lparr>s3AccessKeySecret := redact (s3AccessKeySecret (bcS3Config c)),
                                     s3AccessKeyID := redact (s3AccessKeyID (bcS3Config c))\<rparr>\<rparr>"

text \<open>
  \<^verbatim>\<open>json.MarshalIndent\<close> calls the \<^verbatim>\<open>MarshalJSON\<close> methods of the fields; \<open>marshal\<close> prints the value they
  leave.
\<close>

definition marshalled_fields :: "BuilderConfig \<Rightarrow> BuilderConfig" where
  "marshalled_fields c =
     c\<lparr>bcVerifierConfigV1 := VerifyConfig_MarshalJSON (bcVerifierConfigV1 c),
       bcRedisConfig := Redis_MarshalJSON (bcRedisConfig c),
       bcS3Config := S3_MarshalJSON (bcS3Config c)\<rparr>"

definition BuilderConfig_ToString :: "(BuilderConfig \<Rightarrow> go_error + string) \<Rightarrow> BuilderConfig \<Rightarrow> string go" where
  "BuilderConfig_ToString marshal c =
     mapErrR (WrapError ''failed to marshal config'') (fromSum (marshal (marshalled_fields (redacted_copy c))))"

text \<open>A configuration with its secrets replaced.\<close>

record secrets =
  scSigner :: string
  scEthRpc :: string
  scVerifierRpc :: string
  scRedisPassword :: string
  scS3Secret :: string
  scS3KeyID :: string

definition with_secrets :: "secrets \<Rightarrow> BuilderConfig \<Rightarrow> BuilderConfig" where
  "with_secrets s c =
     c\<lparr>bcClientConfigV1 := (bcClientConfigV1 c)
         \<lparr>EdaClientCfg := (EdaClientCfg (bcClientConfigV1 c))
            \<lparr>edaSignerPrivateKeyHex := scSigner s, edaEthRpcUrl := scEthRpc s\<rparr>\<rparr>,
       bcVerifierConfigV1 := (bcVerifierConfigV1 c)\<lparr>RPCURL := scVerifierRpc s\<rparr>,
       bcRedisConfig := (bcRedisConfig c)\<lparr>redisPassword := scRedisPassword s\<rparr>,
       bcS3Config := (bcS3Config c)\<lparr>s3AccessKeySecret := scS3Secret s, s3AccessKeyID := scS3KeyID s\<rparr>\<rparr>"

definition which_set :: "secrets \<Rightarrow> bool list" where
  "which_set s = map (\<lambda>x. x \<noteq> []) [scSigner s, scEthRpc s, scVerifierRpc s, scRedisPassword s, scS3Secret s, scS3KeyID s]"

section \<open>What the checks accept\<close>

lemma check_known_Ok: "check_known ts = Ok () \<longleftrightarrow> (\<forall>t \<in> set ts. StringToBackendType t \<noteq> UnknownBackendType)"
  by (induction ts) auto

lemma check_disjoint_Ok: "check_disjoint cs ts = Ok () \<longleftrightarrow> set ts \<inter> set cs = {}"
  by (induction ts) auto

lemma checkTargets_Ok:
  "checkTargets ts = Ok () \<longleftrightarrow> distinct ts \<and> (\<forall>t \<in> set ts. StringToBackendType t \<noteq> UnknownBackendType)"
  by (auto simp: checkTargets_def check_known_Ok)

definition targets_ok :: "StoreCfg \<Rightarrow> bool" where
  "targets_ok c \<longleftrightarrow> distinct (FallbackTargets c @ CacheTargets c) \<and>
     (\<forall>t \<in> set (FallbackTargets c @ CacheTargets c). StringToBackendType t \<noteq> UnknownBackendType)"

lemma StoreConfig_Check_Ok: "StoreConfig_Check c = Ok () \<longleftrightarrow> targets_ok c \<and> AsyncPutWorkers c < 100"
  by (auto simp: StoreConfig_Check_def bindR_eq_Ok checkTargets_Ok check_disjoint_Ok targets_ok_def)

definition v2_client_ok :: "ClientConfigV2 \<Rightarrow> bool" where
  "v2_client_ok c \<longleftrightarrow>
     [] \<notin> set [Hostname (DisperserClientCfg c), dcPort (DisperserClientCfg c), EigenDACertVerifierOrRouterAddress c] \<and>
     0 < v2MaxBlobSizeBytes c \<and> RetrieversToEnable c \<noteq> [] \<and> v2PutTries c \<noteq> 0 \<and>
     (ValidatorRetrieverType \<in> set (RetrieversToEnable c) \<longrightarrow>
        BLSOperatorStateRetrieverAddr c \<noteq> [] \<and> EigenDAServiceManagerAddr c \<noteq> [])"

lemma ClientConfigV2_Check_Ok: "ClientConfigV2_Check c = Ok () \<longleftrightarrow> v2_client_ok c"
  by (auto simp: ClientConfigV2_Check_def v2_client_ok_def word_neq_0_conv)

definition v1_backend_ok :: "BuilderConfig \<Rightarrow> bool" where
  "v1_backend_ok c \<longleftrightarrow>
     (if bcMemstoreEnabled c then \<not> VerifyCerts (bcVerifierConfigV1 c)
      else [] \<notin> set [edaSvcManagerAddr (EdaClientCfg (bcClientConfigV1 c)), SvcManagerAddr (bcVerifierConfigV1 c),
                     edaEthRpcUrl (EdaClientCfg (bcClientConfigV1 c)), edaRPC (EdaClientCfg (bcClientConfigV1 c))] \<and>
           (VerifyCerts (bcVerifierConfigV1 c) \<longrightarrow> RPCURL (bcVerifierConfigV1 c) \<noteq> []))"

lemma memstore_dummies_sel [simp]:
  "bcMemstoreEnabled (memstore_dummies c) = bcMemstoreEnabled c" "bcStoreConfig (memstore_dummies c) = bcStoreConfig c"
  "bcClientConfigV2 (memstore_dummies c) = bcClientConfigV2 c" "bcS3Config (memstore_dummies c) = bcS3Config c"
  "bcRedisConfig (memstore_dummies c) = bcRedisConfig c"
  "VerifyCerts (bcVerifierConfigV1 (memstore_dummies c)) = VerifyCerts (bcVerifierConfigV1 c)"
  by (simp_all add: memstore_dummies_def)

lemma checkV1Config_Ok:
  "checkV1Config c = (Ok (), c') \<longleftrightarrow> v1_backend_ok c \<and> c' = (if bcMemstoreEnabled c then memstore_dummies c else c)"
  by (auto simp: checkV1Config_def act_simps check_v1_verification_def check_v1_backend_def v1_backend_ok_def Let_def)

definition secondaries_ok :: "BuilderConfig \<Rightarrow> bool" where
  "secondaries_ok c \<longleftrightarrow>
     (s3Endpoint (bcS3Config c) \<noteq> [] \<longrightarrow> s3CredentialType (bcS3Config c) \<noteq> CredentialTypeUnknown \<and>
        (s3CredentialType (bcS3Config c) = CredentialTypeStatic \<longrightarrow>
           s3AccessKeyID (bcS3Config c) \<noteq> [] \<and> s3AccessKeySecret (bcS3Config c) \<noteq> [])) \<and>
     (redisPassword (bcRedisConfig c) \<noteq> [] \<longrightarrow> redisEndpoint (bcRedisConfig c) \<noteq> [])"

lemma check_secondaries_Ok: "check_secondaries c = Ok () \<longleftrightarrow> secondaries_ok c"
  by (auto simp: check_secondaries_def secondaries_ok_def Let_def)

definition config_ok :: "BuilderConfig \<Rightarrow> bool" where
  "config_ok c \<longleftrightarrow>
     (V1EigenDABackend \<in> set (BackendsToEnable (bcStoreConfig c)) \<longrightarrow> v1_backend_ok c) \<and>
     (V2EigenDABackend \<in> set (BackendsToEnable (bcStoreConfig c)) \<and> \<not> bcMemstoreEnabled c \<longrightarrow>
        v2_client_ok (bcClientConfigV2 c)) \<and>
     secondaries_ok c \<and> targets_ok (bcStoreConfig c) \<and> AsyncPutWorkers (bcStoreConfig c) < 100"

definition checked_config :: "BuilderConfig \<Rightarrow> BuilderConfig" where
  "checked_config c =
     (if V1EigenDABackend \<in> set (BackendsToEnable (bcStoreConfig c)) \<and> bcMemstoreEnabled c
      then memstore_dummies c else c)"

lemma secondaries_ok_dummies [simp]: "secondaries_ok (memstore_dummies c) = secondaries_ok c"
  by (simp add: secondaries_ok_def)

lemma BuilderConfig_Check_Ok:
  "BuilderConfig_Check c = (Ok (), c') \<longleftrightarrow> config_ok c \<and> c' = checked_config c"
  by (auto simp: BuilderConfig_Check_def Let_def andThen_eq_Ok mapErr_eq_Ok ret_eq_Ok checkV1Config_Ok
      ClientConfigV2_Check_Ok check_secondaries_Ok StoreConfig_Check_Ok config_ok_def checked_config_def)


section \<open>Properties\<close>

text \<open>
  C37: the logged configuration does not depend on secrets. The text that \<^verbatim>\<open>ToString\<close> gives, whatever the JSON
  printer does, is the same for any two configurations that differ only in the signer key, the RPC URLs, the
  Redis password and the S3 credentials, as long as the same ones are set.
\<close>

theorem ToString_hides_secrets:
  assumes "which_set s = which_set t"
  shows "BuilderConfig_ToString marshal (with_secrets s c) = BuilderConfig_ToString marshal (with_secrets t c)"
proof -
  have "marshalled_fields (redacted_copy (with_secrets s c)) = marshalled_fields (redacted_copy (with_secrets t c))"
    using assms
    by (auto simp: which_set_def with_secrets_def redacted_copy_def marshalled_fields_def redact_def redacted_def
        VerifyConfig_MarshalJSON_def Redis_MarshalJSON_def S3_MarshalJSON_def)
  then show ?thesis by (simp add: BuilderConfig_ToString_def)
qed

definition ex_builder_config :: BuilderConfig where
  "ex_builder_config =
     \<lparr>bcStoreConfig = \<lparr>BackendsToEnable = [V2EigenDABackend], DispersalBackend = V2EigenDABackend, AsyncPutWorkers = 2,
                       FallbackTargets = [], CacheTargets = [], WriteOnCacheMiss = False\<rparr>,
      bcClientConfigV1 =
        \<lparr>EdaClientCfg = \<lparr>edaRPC = [], edaResponseTimeout = 0, edaConfirmationTimeout = 0, edaStatusQueryRetryInterval = 0,
           edaStatusQueryTimeout = 0, edaDisableTLS = False, edaCustomQuorumIDs = [], edaSignerPrivateKeyHex = [],
           edaPutBlobEncodingVersion = 0, edaDisablePointVerificationMode = False, edaWaitForFinalization = False,
           edaWaitForConfirmationDepth = 0, edaEthRpcUrl = [], edaSvcManagerAddr = []\<rparr>,
         v1MaxBlobSizeBytes = 0, v1PutTries = 0\<rparr>,
      bcVerifierConfigV1 = \<lparr>VerifyCerts = False, RPCURL = [], SvcManagerAddr = [], CertVerifierV1Addr = [],
         EthConfirmationDepth = 0, WaitForFinalization = False, verifyMaxBlobSizeBytes = 0\<rparr>,
      bcKzgConfig = \<lparr>G1Path = [], G2Path = [], G2TrailingPath = [], CacheDir = [], SRSOrder = 0, SRSNumberToLoad = 0,
         NumWorker = 1, LoadG2Points = False\<rparr>,
      bcClientConfigV2 =
        \<lparr>DisperserClientCfg = \<lparr>Hostname = ''host'', dcPort = ''443'', UseSecureGrpcFlag = True\<rparr>,
         PayloadDisperserCfg = \<lparr>pdPayloadClientConfig = \<lparr>PayloadPolynomialForm = PolynomialFormEval, BlobVersion = 0\<rparr>,
           DisperseBlobTimeout = 0, BlobCompleteTimeout = 0, BlobStatusPollInterval = 0, ContractCallTimeout = 0\<rparr>,
         RelayPayloadRetrieverCfg =
           \<lparr>rrPayloadClientConfig = \<lparr>PayloadPolynomialForm = PolynomialFormEval, BlobVersion = 0\<rparr>, RelayTimeout = 0\<rparr>,
         ValidatorPayloadRetrieverCfg =
           \<lparr>vrPayloadClientConfig = \<lparr>PayloadPolynomialForm = PolynomialFormEval, BlobVersion = 0\<rparr>, RetrievalTimeout = 0\<rparr>,
         v2PutTries = 3, v2MaxBlobSizeBytes = 16777216, EigenDACertVerifierOrRouterAddress = ''0x1'',
         RetrieversToEnable = [RelayRetrieverType], BLSOperatorStateRetrieverAddr = [], EigenDAServiceManagerAddr = [],
         v2RBNRecencyWindowSize = 0, v2EigenDANetwork = SepoliaTestnetEigenDANetwork\<rparr>,
      bcMemstoreConfig = ex_memconfig, bcMemstoreEnabled = True,
      bcRedisConfig = \<lparr>redisEndpoint = [], redisPassword = [], redisDB = 0, redisEviction = 0\<rparr>,
      bcS3Config = \<lparr>s3CredentialType = CredentialTypeUnknown, s3Endpoint = [], s3EnableTLS = False, s3AccessKeyID = [],
         s3AccessKeySecret = [], s3Bucket = [], s3Path = []\<rparr>\<rparr>"

theorem ToString_hides_secrets_witness:
  "BuilderConfig_ToString (\<lambda>c. Inr (edaSignerPrivateKeyHex (EdaClientCfg (bcClientConfigV1 c))))
     (with_secrets \<lparr>scSigner = ''k1'', scEthRpc = [], scVerifierRpc = ''u1'', scRedisPassword = [], scS3Secret = ''s1'', scS3KeyID = ''i1''\<rparr> ex_builder_config) =
   BuilderConfig_ToString (\<lambda>c. Inr (edaSignerPrivateKeyHex (EdaClientCfg (bcClientConfigV1 c))))
     (with_secrets \<lparr>scSigner = ''k2'', scEthRpc = [], scVerifierRpc = ''u2'', scRedisPassword = [], scS3Secret = ''s2'', scS3KeyID = ''i2''\<rparr> ex_builder_config)"
  by (rule ToString_hides_secrets) (simp add: which_set_def)

end
