(* ===== verification/Manager.thy ===== *)
theory Manager
  imports Secondary_Stores
begin

text \<open>
  The storage manager (\<^verbatim>\<open>store/manager.go\<close>), which routes a request to the EigenDA V1 or V2 store, to
  secondary storage and to S3. The interfaces it holds are options, \<open>None\<close> being nil; calling a
  method of a nil interface panics. The dispersal backend, an \<^verbatim>\<open>atomic.Value\<close> that the admin endpoint
  changes at run time, is part of the state.
\<close>

section \<open>The manager\<close>

record 'w mgr_state = "'w sm_state" +
  dispersalBackend :: "EigenDABackend option"

record 'w Manager =
  mgrS3 :: "'w mgr_state SecondaryStore option"
  mgrEigenda :: "'w mgr_state EigenDAV1Store option"
  mgrEigendaV2 :: "'w mgr_state EigenDAV2Store option"
  mgrSecondary :: "'w mgr_state ISecondary"

text \<open>\<^verbatim>\<open>Load\<close> of an \<^verbatim>\<open>atomic.Value\<close> that was never stored to is nil, and the type assertion fails.\<close>

definition GetDispersalBackend :: "'w mgr_state \<Rightarrow> EigenDABackend" where
  "GetDispersalBackend s = (case dispersalBackend s of None \<Rightarrow> 0 | Some b \<Rightarrow> b)"

definition SetDispersalBackend :: "EigenDABackend \<Rightarrow> 'w mgr_state \<Rightarrow> 'w mgr_state" where
  "SetDispersalBackend backend s = s\<lparr>dispersalBackend := Some backend\<rparr>"

definition NewManager ::
  "'w mgr_state EigenDAV1Store option \<Rightarrow> 'w mgr_state EigenDAV2Store option \<Rightarrow>
   'w mgr_state SecondaryStore option \<Rightarrow> 'w mgr_state ISecondary \<Rightarrow> EigenDABackend \<Rightarrow>
   ('w mgr_state, 'w Manager) goact" where
  "NewManager eigenda eigenDAV2 s3 secondary backend =
     (if backend = V2EigenDABackend \<and> eigenDAV2 = None
        then throw (ErrorString ''EigenDA V2 dispersal enabled but no v2 store provided'')
      else if backend = V1EigenDABackend \<and> eigenda = None
        then throw (ErrorString ''EigenDA dispersal enabled but no store provided'')
      else andThen (modify (SetDispersalBackend backend)) (\<lambda>_.
           ret \<lparr>mgrS3 = s3, mgrEigenda = eigenda, mgrEigendaV2 = eigenDAV2, mgrSecondary = secondary\<rparr>))"

text \<open>
  \<^verbatim>\<open>getVerifyMethod\<close>. The method value \<^verbatim>\<open>m.eigenda.Verify\<close> of a nil interface panics when it is taken;
  the wrapper for V2 panics when it is called. The wrapper ignores the payload.
\<close>

definition v2VerifyWrapper :: "'w Manager \<Rightarrow> byte \<Rightarrow> 'w mgr_state verify_fn" where
  "v2VerifyWrapper m commitmentType cert payload opts =
     (case mgrEigendaV2 m of
        None \<Rightarrow> panic
      | Some e \<Rightarrow> v2Verify e (NewVersionedCert cert commitmentType) opts)"

definition getVerifyMethod :: "'w Manager \<Rightarrow> byte \<Rightarrow> 'w mgr_state verify_fn go" where
  "getVerifyMethod m commitmentType =
     (if commitmentType = V0VersionByte
        then (case mgrEigenda m of None \<Rightarrow> Panic | Some e \<Rightarrow> Ok (v1Verify e))
      else if commitmentType = V1VersionByte \<or> commitmentType = V2VersionByte
        then Ok (v2VerifyWrapper m commitmentType)
      else Err (ErrorString (''commitment version unknown: '' @ binary (unat commitmentType))))"

definition putToCorrectEigenDABackend :: "'w Manager \<Rightarrow> bytes \<Rightarrow> ('w mgr_state, bytes) goact" where
  "putToCorrectEigenDABackend m v s =
     (case dispersalBackend s of
        None \<Rightarrow> throw (ErrorString ''invalid dispersal backend type: <nil>'') s
      | Some backend \<Rightarrow>
          if backend = V1EigenDABackend
          then (case mgrEigenda m of
                  None \<Rightarrow> throw (ErrorString ''EigenDA V1 dispersal requested but not configured'') s
                | Some e \<Rightarrow> v1Put e v s)
          else if backend = V2EigenDABackend
          then (case mgrEigendaV2 m of
                  None \<Rightarrow> throw (ErrorString ''EigenDA V2 dispersal requested but not configured'') s
                | Some e \<Rightarrow> v2Put e v s)
          else throw (ErrorString (''unsupported dispersal backend: '' @ decimal (unat backend))) s)"

definition getFromCorrectEigenDABackend ::
  "'w Manager \<Rightarrow> VersionedCert \<Rightarrow> CertVerificationOpts \<Rightarrow> ('w mgr_state, bytes) goact" where
  "getFromCorrectEigenDABackend m versionedCert verifyOpts =
     (if Version versionedCert = V0VersionByte
      then (case mgrEigenda m of
              None \<Rightarrow> panic
            | Some e \<Rightarrow>
                andThen (v1Get e (SerializedCert versionedCert)) (\<lambda>data.
                andThen (v1Verify e (SerializedCert versionedCert) data verifyOpts) (\<lambda>_.
                ret data)))
      else if Version versionedCert = V1VersionByte \<or> Version versionedCert = V2VersionByte
      then (case mgrEigendaV2 m of
              None \<Rightarrow> panic
            | Some e \<Rightarrow>
                andThen (mapErr (WrapError ''verify EigenDACert'') (v2Verify e versionedCert verifyOpts)) (\<lambda>_.
                mapErr (WrapError ''get data from V2 backend'') (v2Get e versionedCert)))
      else throw (ErrorString (''cert version unknown: '' @ binary (unat (Version versionedCert)))))"

text \<open>An error of the synchronous write is only logged.\<close>

definition backupToSecondary :: "'w Manager \<Rightarrow> bytes \<Rightarrow> bytes \<Rightarrow> ('w mgr_state, unit) goact" where
  "backupToSecondary m commitment v s =
     (if AsyncWriteEntry (mgrSecondary m) s
      then TopicSend (mgrSecondary m) \<lparr>notifCommitment = commitment, notifValue = v\<rparr> s
      else onErr (HandleRedundantWrites (mgrSecondary m) commitment v) (\<lambda>_. ret ()) s)"

definition read_cache ::
  "'w Manager \<Rightarrow> VersionedCert \<Rightarrow> 'w mgr_state verify_fn \<Rightarrow> CertVerificationOpts \<Rightarrow>
   ('w mgr_state, bytes option) goact" where
  "read_cache m versionedCert verifyMethod verifyOpts =
     (if CachingEnabled (mgrSecondary m)
      then andThen (attempt (MultiSourceRead (mgrSecondary m) (SerializedCert versionedCert) False
                               verifyMethod verifyOpts)) (\<lambda>r.
           case r of Inl _ \<Rightarrow> ret None | Inr data \<Rightarrow> ret (Some data))
      else ret None)"

definition Manager_Get ::
  "'w Manager \<Rightarrow> VersionedCert \<Rightarrow> CommitmentMode \<Rightarrow> CertVerificationOpts \<Rightarrow> ('w mgr_state, bytes) goact" where
  "Manager_Get m versionedCert cm verifyOpts =
     (if cm = StandardCommitmentMode \<or> cm = OptimismGenericCommitmentMode then
        if Version versionedCert = V0VersionByte \<and> mgrEigenda m = None
          then throw (ErrorString ''expected EigenDA V1 backend for DA commitment type with CertV0'')
        else if Version versionedCert = V1VersionByte \<and> mgrEigendaV2 m = None
          then throw (ErrorString ''expected EigenDA V2 backend for DA commitment type with CertV1'')
        else
          andThen (mapErr (WrapError ''get verify method'')
                     (liftR (getVerifyMethod m (Version versionedCert)))) (\<lambda>verifyMethod.
          andThen (read_cache m versionedCert verifyMethod verifyOpts) (\<lambda>cached.
          case cached of
            Some data \<Rightarrow> ret data
          | None \<Rightarrow>
              andThen (attempt (getFromCorrectEigenDABackend m versionedCert verifyOpts)) (\<lambda>r.
              case r of
                Inr data \<Rightarrow>
                  andThen (if WriteOnCacheMissEnabled (mgrSecondary m)
                           then backupToSecondary m (SerializedCert versionedCert) data
                           else ret ()) (\<lambda>_. ret data)
              | Inl err \<Rightarrow>
                  if FallbackEnabled (mgrSecondary m)
                  then MultiSourceRead (mgrSecondary m) (SerializedCert versionedCert) True
                         verifyMethod verifyOpts
                  else throw err)))
      else if cm = OptimismKeccakCommitmentMode
        then throw (ErrorString ''INTERNAL BUG: call GetOPKeccakValueFromS3 instead'')
      else throw (ErrorString
        ''could not determine which storage backend to route to based on unknown commitment mode''))"

definition Manager_Put :: "'w Manager \<Rightarrow> CommitmentMode \<Rightarrow> bytes \<Rightarrow> ('w mgr_state, bytes) goact" where
  "Manager_Put m cm v =
     (if cm = OptimismGenericCommitmentMode \<or> cm = StandardCommitmentMode then
        andThen (putToCorrectEigenDABackend m v) (\<lambda>commit.
        andThen (if Enabled (mgrSecondary m) then backupToSecondary m commit v else ret ()) (\<lambda>_.
        ret commit))
      else if cm = OptimismKeccakCommitmentMode
        then throw (ErrorString ''INTERNAL BUG: call PutOPKeccakPairInS3 instead'')
      else throw (ErrorString ''unknown commitment mode''))"

definition PutOPKeccakPairInS3 :: "'w Manager \<Rightarrow> bytes \<Rightarrow> bytes \<Rightarrow> ('w mgr_state, unit) goact" where
  "PutOPKeccakPairInS3 m key v =
     (case mgrS3 m of
        None \<Rightarrow> throw (ErrorString ''S3 is disabled but is only supported for posting known commitment keys'')
      | Some s3 \<Rightarrow>
          andThen (mapErr (WrapError ''s3 verify'') (scVerify s3 key v)) (\<lambda>_.
          mapErr (WrapError ''s3 put'') (scPut s3 key v)))"

definition GetOPKeccakValueFromS3 :: "'w Manager \<Rightarrow> bytes \<Rightarrow> ('w mgr_state, bytes) goact" where
  "GetOPKeccakValueFromS3 m key =
     (case mgrS3 m of
        None \<Rightarrow> throw (ErrorString ''expected S3 backend for OP keccak256 commitment type, but none configured'')
      | Some s3 \<Rightarrow>
          andThen (mapErr (WrapError ''s3 get'') (scGet s3 key)) (\<lambda>got.
          let v = (case got of None \<Rightarrow> [] | Some b \<Rightarrow> b) in
          andThen (mapErr (WrapError ''s3 verify'') (scVerify s3 key v)) (\<lambda>_. ret v)))"

section \<open>Lemmas\<close>

lemma getFrom_Ok:
  "getFromCorrectEigenDABackend m vc opts s = (Ok d, s') \<longleftrightarrow>
     (Version vc = V0VersionByte \<and>
       (\<exists>e s1. mgrEigenda m = Some e \<and> v1Get e (SerializedCert vc) s = (Ok d, s1) \<and>
          v1Verify e (SerializedCert vc) d opts s1 = (Ok (), s'))) \<or>
     ((Version vc = V1VersionByte \<or> Version vc = V2VersionByte) \<and>
       (\<exists>e s1. mgrEigendaV2 m = Some e \<and> v2Verify e vc opts s = (Ok (), s1) \<and> v2Get e vc s1 = (Ok d, s')))"
  by (auto simp: getFromCorrectEigenDABackend_def run_Ok split: option.splits)

text \<open>What the manager's verification method for a version accepts.\<close>

definition accepted ::
  "'w Manager \<Rightarrow> VersionedCert \<Rightarrow> CertVerificationOpts \<Rightarrow> bytes \<Rightarrow> bool" where
  "accepted m vc opts d \<longleftrightarrow>
     (Version vc = V0VersionByte \<and> (\<exists>e s1 s2. mgrEigenda m = Some e \<and>
        v1Verify e (SerializedCert vc) d opts s1 = (Ok (), s2))) \<or>
     ((Version vc = V1VersionByte \<or> Version vc = V2VersionByte) \<and> (\<exists>e s1 s2. mgrEigendaV2 m = Some e \<and>
        v2Verify e vc opts s1 = (Ok (), s2)))"

lemma getVerifyMethod_accepted:
  assumes "getVerifyMethod m (Version vc) = Ok verify"
    and "verify (SerializedCert vc) d opts s1 = (Ok (), s2)"
  shows "accepted m vc opts d"
proof -
  have "NewVersionedCert (SerializedCert vc) (Version vc) = vc"
    by (simp add: NewVersionedCert_def)
  with assms show ?thesis
    by (auto simp: getVerifyMethod_def accepted_def v2VerifyWrapper_def split: if_splits option.splits) blast+
qed

lemma getFrom_accepted:
  "getFromCorrectEigenDABackend m vc opts s = (Ok d, s') \<Longrightarrow> accepted m vc opts d"
  by (auto simp: getFrom_Ok accepted_def)

text \<open>The client side of the contract of secondary storage, for a manager's state.\<close>

locale manager_storage = redundant_storage sec for sec :: "'w mgr_state ISecondary"
begin

lemma read_cache_accepted:
  assumes "mgrSecondary m = sec" and "getVerifyMethod m (Version vc) = Ok verify"
    and "read_cache m vc verify opts s = (Ok (Some d), s')"
  shows "accepted m vc opts d"
proof -
  have "\<exists>s1. MultiSourceRead sec (SerializedCert vc) False verify opts s = (Ok d, s1)"
    using assms(1,3) by (auto simp: read_cache_def run_Ok split: if_splits)
  then show ?thesis using read_verified getVerifyMethod_accepted [OF assms(2)] by blast
qed

lemma Get_accepted:
  assumes "mgrSecondary m = sec" and "Manager_Get m vc cm opts s = (Ok d, s')"
  shows "(cm = StandardCommitmentMode \<or> cm = OptimismGenericCommitmentMode) \<and> accepted m vc opts d"
proof -
  from assms(2) obtain verify cached s1 where v: "getVerifyMethod m (Version vc) = Ok verify"
    and c: "read_cache m vc verify opts s = (Ok cached, s1)"
    and mode: "cm = StandardCommitmentMode \<or> cm = OptimismGenericCommitmentMode"
    by (auto simp: Manager_Get_def run_Ok split: if_splits)
  show ?thesis
  proof (cases cached)
    case (Some x)
    with assms(2) v c mode have "x = d" by (auto simp: Manager_Get_def run_Ok split: if_splits)
    with read_cache_accepted [OF assms(1) v] c Some mode show ?thesis by blast
  next
    case None
    with assms v c mode consider
        (da) s2 s3 where "getFromCorrectEigenDABackend m vc opts s2 = (Ok d, s3)"
      | (fb) s2 s3 where "MultiSourceRead sec (SerializedCert vc) True verify opts s2 = (Ok d, s3)"
      by (auto simp: Manager_Get_def run_Ok split: if_splits)
    then show ?thesis
      using mode getFrom_accepted read_verified getVerifyMethod_accepted [OF v] by cases blast+
  qed
qed

end

interpretation mgr: manager_storage "SecondaryManager_ISecondary keccak opRetry sm" for keccak opRetry sm
  by unfold_locales

lemma backup_not_Err: "backupToSecondary m c v s = (Err e, s') \<Longrightarrow> AsyncWriteEntry (mgrSecondary m) s"
  by (auto simp: backupToSecondary_def act_simps split: if_splits prod.splits result.splits)

text \<open>Backends on the world, embedded in the manager's state.\<close>

definition lift_secondary :: "'w SecondaryStore \<Rightarrow> 'w mgr_state SecondaryStore" where
  "lift_secondary st = \<lparr>scPut = (\<lambda>k v. on_world (scPut st k v)), scGet = (\<lambda>k. on_world (scGet st k)),
     scVerify = (\<lambda>k v. on_world (scVerify st k v)), scBackendType = scBackendType st\<rparr>"

definition lift_v1 :: "'w EigenDAV1Store \<Rightarrow> 'w mgr_state EigenDAV1Store" where
  "lift_v1 st = \<lparr>v1Put = (\<lambda>v. on_world (v1Put st v)), v1Get = (\<lambda>c. on_world (v1Get st c)),
     v1Verify = (\<lambda>c v opts. on_world (v1Verify st c v opts)), v1BackendType = v1BackendType st\<rparr>"

definition lift_v2 :: "'w EigenDAV2Store \<Rightarrow> 'w mgr_state EigenDAV2Store" where
  "lift_v2 st = \<lparr>v2Put = (\<lambda>v. on_world (v2Put st v)), v2Get = (\<lambda>c. on_world (v2Get st c)),
     v2Verify = (\<lambda>c opts. on_world (v2Verify st c opts)), v2BackendType = v2BackendType st\<rparr>"

lemma on_world_eq: "on_world m s = (r, s') \<longleftrightarrow> (\<exists>w. m (world s) = (r, w) \<and> s' = s\<lparr>world := w\<rparr>)"
  by (auto simp: on_world_def zoom_def split: prod.splits)

text \<open>The \<^verbatim>\<open>Put\<close> that the current dispersal backend selects.\<close>

definition dispersing :: "'w Manager \<Rightarrow> 'w mgr_state \<Rightarrow> (bytes \<Rightarrow> ('w mgr_state, bytes) goact) option" where
  "dispersing m s =
     (case dispersalBackend s of
        None \<Rightarrow> None
      | Some b \<Rightarrow> if b = V1EigenDABackend then map_option v1Put (mgrEigenda m)
                  else if b = V2EigenDABackend then map_option v2Put (mgrEigendaV2 m)
                  else None)"

lemma putTo_dispersing:
  "dispersing m s = Some put \<Longrightarrow> putToCorrectEigenDABackend m v s = put v s"
  by (auto simp: dispersing_def putToCorrectEigenDABackend_def split: option.splits if_splits)

lemma putTo_not_dispersing:
  "dispersing m s = None \<Longrightarrow> \<exists>msg. putToCorrectEigenDABackend m v s = (Err (ErrorString msg), s)"
  by (auto simp: dispersing_def putToCorrectEigenDABackend_def throw_def split: option.splits if_splits)

lemma backup_sync:
  assumes "mgrSecondary m = SecondaryManager_ISecondary keccak opRetry sm" and "\<not> concurrentWrites s"
    and "backupToSecondary m c v s = (r, s')" and "r \<noteq> Panic" and "r \<noteq> Blocked"
  shows "r = Ok ()"
  using assms
  by (auto simp: backupToSecondary_def SecondaryManager_ISecondary_def sm_AsyncWriteEntry_def act_simps
      split: prod.splits result.splits)

definition cert_mode :: "CommitmentMode \<Rightarrow> bool" where
  "cert_mode cm \<longleftrightarrow> cm = StandardCommitmentMode \<or> cm = OptimismGenericCommitmentMode"

section \<open>A concrete manager\<close>

definition ex_da1 :: "'w mgr_state EigenDAV1Store" where
  "ex_da1 = \<lparr>v1Put = (\<lambda>v. ret (1 # v)), v1Get = (\<lambda>c. ret (tl c)), v1Verify = (\<lambda>c v opts. ret ()),
             v1BackendType = EigenDABackendType\<rparr>"

definition ex_da2 :: "go_error \<Rightarrow> 'w mgr_state EigenDAV2Store" where
  "ex_da2 err = \<lparr>v2Put = (\<lambda>v. throw err), v2Get = (\<lambda>c. throw err), v2Verify = (\<lambda>c opts. ret ()),
             v2BackendType = EigenDAV2BackendType\<rparr>"

definition ex_manager :: "'w SecondaryManager \<Rightarrow> 'w Manager" where
  "ex_manager sm = \<lparr>mgrS3 = None, mgrEigenda = Some ex_da1, mgrEigendaV2 = None,
                    mgrSecondary = SecondaryManager_ISecondary id (\<lambda>n m. m) sm\<rparr>"

definition mgr_init :: "'w \<Rightarrow> EigenDABackend \<Rightarrow> 'w mgr_state" where
  "mgr_init w b = \<lparr>verifyLock = False, concurrentWrites = False, liveWorkers = 0, inflight = [],
                   recorded = [], world = w, dispersalBackend = Some b\<rparr>"

section \<open>Properties\<close>

text \<open>
  C3: what the manager returns was verified. When \<^verbatim>\<open>Get\<close> of a manager over a \<^verbatim>\<open>SecondaryManager\<close> returns
  a payload, from the caches, from EigenDA or from the fallbacks, then the mode is a certificate
  mode, and the V1 store accepted certificate and payload (version byte 0) or the V2 store accepted the
  certificate (version bytes 1 and 2), under the requested options.
\<close>

theorem Manager_Get_verified:
  assumes "mgrSecondary m = SecondaryManager_ISecondary keccak opRetry sm"
    and "Manager_Get m vc cm opts s = (Ok d, s')"
  shows "cert_mode cm \<and> accepted m vc opts d"
  using mgr.Get_accepted [OF assms] unfolding cert_mode_def .

theorem Manager_Get_verified_witness:
  "Manager_Get (ex_manager (NewSecondaryManager [] [] False)) (NewVersionedCert [1, 7] V0VersionByte)
      StandardCommitmentMode \<lparr>L1InclusionBlockNum = 0\<rparr> (mgr_init () V1EigenDABackend) =
     (Ok [7], mgr_init () V1EigenDABackend) \<and>
   accepted (ex_manager (NewSecondaryManager [] [] False :: unit SecondaryManager))
     (NewVersionedCert [1, 7] V0VersionByte) \<lparr>L1InclusionBlockNum = 0\<rparr> [7]"
proof -
  let ?m = "ex_manager (NewSecondaryManager [] [] False :: unit SecondaryManager)"
  have "Manager_Get ?m (NewVersionedCert [1, 7] V0VersionByte)
      StandardCommitmentMode \<lparr>L1InclusionBlockNum = 0\<rparr> (mgr_init () V1EigenDABackend) =
     (Ok [7], mgr_init () V1EigenDABackend)"
    by (simp add: Manager_Get_def ex_manager_def getVerifyMethod_def read_cache_def NewSecondaryManager_def
        SecondaryManager_ISecondary_def sm_CachingEnabled_def NewVersionedCert_def act_simps ex_da1_def
        getFromCorrectEigenDABackend_def sm_WriteOnCacheMissEnabled_def)
  moreover have "mgrSecondary ?m = SecondaryManager_ISecondary id (\<lambda>n m. m) (NewSecondaryManager [] [] False)"
    by (simp add: ex_manager_def)
  ultimately show ?thesis using Manager_Get_verified by blast
qed

text \<open>
  C19: dispersal. In a certificate mode, with a selected backend: an error of its \<^verbatim>\<open>Put\<close> is returned as it
  is, with no write to secondary storage; and when its \<^verbatim>\<open>Put\<close> succeeds and writes are synchronous, the
  manager returns its certificate whatever errors secondary storage has, as long as the backends
  return.
\<close>

theorem Manager_Put_dispersal:
  assumes "cert_mode cm" and "dispersing m s = Some put" and "put v s = (r, s1)"
    and "mgrSecondary m = SecondaryManager_ISecondary keccak opRetry sm"
  shows "(\<forall>err. r = Err err \<longrightarrow> Manager_Put m cm v s = (Err err, s1)) \<and>
     (\<forall>c. r = Ok c \<and> \<not> concurrentWrites s1 \<and> fst (Manager_Put m cm v s) \<noteq> Panic \<and>
          fst (Manager_Put m cm v s) \<noteq> Blocked \<longrightarrow> fst (Manager_Put m cm v s) = Ok c)"
proof -
  have run: "Manager_Put m cm v s = andThen (\<lambda>_. (r, s1)) (\<lambda>commit.
        andThen (if Enabled (mgrSecondary m) then backupToSecondary m commit v else ret ()) (\<lambda>_.
        ret commit)) s"
    using assms(1-3) putTo_dispersing [OF assms(2), of v]
    by (auto simp: Manager_Put_def cert_mode_def andThen_def)
  moreover have "fst (Manager_Put m cm v s) = Ok c"
    if "r = Ok c" "\<not> concurrentWrites s1" "fst (Manager_Put m cm v s) \<noteq> Panic"
      "fst (Manager_Put m cm v s) \<noteq> Blocked" for c
    using that run backup_sync [OF assms(4) that(2), of c v]
    by (auto simp: act_simps split: if_splits prod.splits result.splits)
  ultimately show ?thesis by auto
qed

theorem Manager_Put_dispersal_witness:
  "fst (Manager_Put (ex_manager ex_sm) OptimismGenericCommitmentMode [7]
      (mgr_init Map.empty V1EigenDABackend)) = Ok [1, 7]"
proof -
  let ?m = "ex_manager ex_sm" and ?s = "mgr_init (Map.empty :: bytes \<rightharpoonup> bytes) V1EigenDABackend"
  have d: "dispersing ?m ?s = Some (v1Put ex_da1)"
    by (simp add: dispersing_def ex_manager_def mgr_init_def)
  have "fst (Manager_Put ?m OptimismGenericCommitmentMode [7] ?s) \<notin> {Panic, Blocked}"
    by (simp add: Manager_Put_def putToCorrectEigenDABackend_def act_simps ex_da1_def backupToSecondary_def
        ex_manager_def SecondaryManager_ISecondary_def sm_AsyncWriteEntry_def mgr_init_def ex_sm_def
        sm_HandleRedundantWrites_def NewSecondaryManager_def down_store_def map_store_def on_world_def
        zoom_def record_request_def)
  with Manager_Put_dispersal [OF _ d, of OptimismGenericCommitmentMode "[7]" "Ok [1, 7]" ?s id "\<lambda>n m. m" ex_sm]
  show ?thesis by (auto simp: cert_mode_def ex_da1_def ret_def mgr_init_def ex_manager_def)
qed

text \<open>
  C20: the dispersal backend is served. A manager that \<^verbatim>\<open>NewManager\<close> returns for the V1 or V2 backend has
  the store of that backend. Whatever the admin endpoint sets later, a dispersal to a backend that is
  missing or unknown is an ordinary error with the state unchanged, never a panic.
\<close>

theorem NewManager_serves_backend:
  assumes "NewManager e1 e2 s3 sec b s = (Ok m, s1)" and "b \<in> {V1EigenDABackend, V2EigenDABackend}"
    and "cert_mode cm"
  shows "(\<exists>put. dispersing m s1 = Some put) \<and>
     (\<forall>b' s2. dispersing m (SetDispersalBackend b' s2) = None \<longrightarrow>
        (\<exists>msg. Manager_Put m cm v (SetDispersalBackend b' s2) = (Err (ErrorString msg), SetDispersalBackend b' s2)))"
proof -
  have "\<exists>put. dispersing m s1 = Some put"
    using assms(1,2)
    by (auto simp: NewManager_def act_simps dispersing_def SetDispersalBackend_def split: if_splits)
  moreover have "\<exists>msg. Manager_Put m cm v s' = (Err (ErrorString msg), s')" if "dispersing m s' = None" for s'
    using assms(3) putTo_not_dispersing [OF that, of v]
    by (auto simp: Manager_Put_def cert_mode_def andThen_def)
  ultimately show ?thesis by blast
qed

theorem NewManager_serves_backend_witness:
  "\<exists>msg. Manager_Put (ex_manager ex_sm) StandardCommitmentMode [7]
       (SetDispersalBackend V2EigenDABackend (mgr_init Map.empty V1EigenDABackend)) =
     (Err (ErrorString msg), SetDispersalBackend V2EigenDABackend (mgr_init Map.empty V1EigenDABackend))"
proof -
  let ?sec = "SecondaryManager_ISecondary id (\<lambda>n m. m) ex_sm"
  have new: "NewManager (Some ex_da1) None None ?sec V1EigenDABackend (mgr_init Map.empty 0) =
      (Ok (ex_manager ex_sm), mgr_init Map.empty V1EigenDABackend)"
    by (simp add: NewManager_def act_simps SetDispersalBackend_def mgr_init_def ex_manager_def)
  have "dispersing (ex_manager ex_sm) (SetDispersalBackend V2EigenDABackend (mgr_init Map.empty V1EigenDABackend)) = None"
    by (simp add: dispersing_def SetDispersalBackend_def ex_manager_def)
  with NewManager_serves_backend [OF new, of StandardCommitmentMode "[7]"] show ?thesis
    by (simp add: cert_mode_def)
qed

text \<open>
  C24: keccak commitments. Over the S3 store: \<^verbatim>\<open>PutOPKeccakPairInS3\<close> succeeds only if the key is the
  Keccak hash of the value, a mismatch is an error of HTTP status 400 that changes nothing, and a value
  that \<^verbatim>\<open>GetOPKeccakValueFromS3\<close> returns hashes to the key, whatever S3 answers.
\<close>

theorem OPKeccak_sound:
  assumes "mgrS3 m = Some (lift_secondary (S3_store keccak st))"
  shows "(PutOPKeccakPairInS3 m key v s = (Ok (), s') \<longrightarrow> key = keccak v) \<and>
     (key \<noteq> keccak v \<longrightarrow>
        (\<exists>e. PutOPKeccakPairInS3 m key v s = (Err e, s) \<and> error_status fromError e = 400)) \<and>
     (GetOPKeccakValueFromS3 m key s = (Ok v, s') \<longrightarrow> keccak v = key)"
  using assms
  by (auto simp: PutOPKeccakPairInS3_def GetOPKeccakValueFromS3_def S3_store_def lift_secondary_def S3_Verify_def
      run_Ok on_world_eq Let_def)
     (auto simp: act_simps on_world_def zoom_def)

definition pad_hash :: "bytes \<Rightarrow> bytes" where
  "pad_hash x = take 32 (x @ replicate 32 0)"

definition ex_keccak_manager :: "(string \<rightharpoonup> bytes) Manager" where
  "ex_keccak_manager = \<lparr>mgrS3 = Some (lift_secondary (S3_store pad_hash ex_s3)), mgrEigenda = None,
     mgrEigendaV2 = None, mgrSecondary = SecondaryManager_ISecondary pad_hash (\<lambda>n m. m) (NewSecondaryManager [] [] False)\<rparr>"

theorem OPKeccak_sound_witness:
  "\<exists>e. PutOPKeccakPairInS3 ex_keccak_manager [5] [6] (mgr_init Map.empty V1EigenDABackend) =
         (Err e, mgr_init Map.empty V1EigenDABackend) \<and> error_status chain_code e = 400"
  using OPKeccak_sound [of ex_keccak_manager pad_hash ex_s3 "[5]" "[6]" "mgr_init Map.empty V1EigenDABackend"
      "mgr_init Map.empty V1EigenDABackend" chain_code]
  by (simp add: ex_keccak_manager_def pad_hash_def)

text \<open>
  C25: keccak round trip. If the S3 client reads back what it wrote, a value stored with
  \<^verbatim>\<open>PutOPKeccakPairInS3\<close> is what \<^verbatim>\<open>GetOPKeccakValueFromS3\<close> returns for its key.
\<close>

theorem OPKeccak_roundtrip:
  assumes "mgrS3 m = Some (lift_secondary (S3_store keccak st))"
    and "\<And>name v sha w w'. putObject (s3client st) (s3Bucket (s3cfg st)) name v sha w = (Ok (), w') \<Longrightarrow>
       \<exists>obj w1 w2. getObject (s3client st) (s3Bucket (s3cfg st)) name w' = (Ok obj, w1) \<and>
         readAll (s3client st) obj w1 = (Ok v, w2)"
    and "PutOPKeccakPairInS3 m key v s = (Ok (), s1)"
  shows "\<exists>s2. GetOPKeccakValueFromS3 m key s1 = (Ok v, s2)"
proof -
  have key: "key = keccak v" and put: "on_world (S3_Put st key v) s = (Ok (), s1)"
    using assms(1,3)
    by (auto simp: PutOPKeccakPairInS3_def S3_store_def lift_secondary_def S3_Verify_def run_Ok on_world_eq
        split: if_splits)
  then obtain w where "putObject (s3client st) (s3Bucket (s3cfg st)) (object_name st key) v
      (disableContentSha256 st) (world s) = (Ok (), w)" "world s1 = w"
    by (auto simp: on_world_eq S3_Put_def mapErr_eq_Ok)
  with assms(2) obtain obj w1 w2 where
    "getObject (s3client st) (s3Bucket (s3cfg st)) (object_name st key) (world s1) = (Ok obj, w1)"
    "readAll (s3client st) obj w1 = (Ok v, w2)" by blast
  then have "S3_Get st key (world s1) = (Ok (Some v), w2)"
    by (simp add: S3_Get_def act_simps)
  with assms(1) key show ?thesis
    by (simp add: GetOPKeccakValueFromS3_def S3_store_def lift_secondary_def S3_Verify_def act_simps
        on_world_def zoom_def)
qed

theorem OPKeccak_roundtrip_witness:
  "\<exists>s1 s2. PutOPKeccakPairInS3 ex_keccak_manager (pad_hash [6]) [6] (mgr_init Map.empty V1EigenDABackend) = (Ok (), s1) \<and>
     GetOPKeccakValueFromS3 ex_keccak_manager (pad_hash [6]) s1 = (Ok [6], s2)"
proof -
  let ?s = "mgr_init (Map.empty :: string \<rightharpoonup> bytes) V1EigenDABackend"
  obtain s1 where put: "PutOPKeccakPairInS3 ex_keccak_manager (pad_hash [6]) [6] ?s = (Ok (), s1)"
    by (simp add: PutOPKeccakPairInS3_def ex_keccak_manager_def lift_secondary_def S3_store_def S3_Verify_def
        S3_Put_def act_simps on_world_def zoom_def ex_s3_def ex_s3_client_def)
  have "mgrS3 ex_keccak_manager = Some (lift_secondary (S3_store pad_hash ex_s3))"
    by (simp add: ex_keccak_manager_def)
  from OPKeccak_roundtrip [OF this _ put] show ?thesis
    using put by (auto simp: ex_s3_def ex_s3_client_def ret_def)
qed

text \<open>
  C39: a version-2 certificate at a manager without a V2 store. The guard of \<^verbatim>\<open>Get\<close> tests version byte 1
  only: for version byte 2 a manager without a V2 store and without caches panics, and with a cache
  that has data for the certificate it panics under the verification mutex, after which every read
  through the caches blocks for ever.
\<close>

theorem Get_v2_without_store:
  assumes "mgrEigendaV2 m = None" and "mgrSecondary m = SecondaryManager_ISecondary keccak opRetry sm"
    and "Version vc = V2VersionByte" and "cert_mode cm" and "\<not> verifyLock s"
  shows "(caches sm = [] \<longrightarrow> fst (Manager_Get m vc cm opts s) = Panic) \<and>
     (\<forall>src srcs. caches sm = src # srcs \<and>
        (\<forall>w. \<exists>d w'. scGet src (keccak (SerializedCert vc)) w = (Ok (Some d), w')) \<longrightarrow>
        (\<exists>s1. Manager_Get m vc cm opts s = (Panic, s1) \<and>
           (\<forall>vc' cm' opts'. cert_mode cm' \<and> SerializedCert vc' = SerializedCert vc \<and> Version vc' = V2VersionByte \<longrightarrow>
              fst (Manager_Get m vc' cm' opts' s1) = Blocked)))"
proof (intro conjI impI allI)
  assume "caches sm = []"
  then show "fst (Manager_Get m vc cm opts s) = Panic"
    using assms(1-4)
    by (auto simp: Manager_Get_def cert_mode_def getVerifyMethod_def read_cache_def act_simps
        SecondaryManager_ISecondary_def sm_CachingEnabled_def getFromCorrectEigenDABackend_def)
next
  fix src srcs
  assume a: "caches sm = src # srcs \<and>
    (\<forall>w. \<exists>d w'. scGet src (keccak (SerializedCert vc)) w = (Ok (Some d), w'))"
  have get: "Manager_Get m vc' cm' opts' s' = (p, s'')"
    if "cert_mode cm'" "Version vc' = V2VersionByte" "p = Panic \<or> p = Blocked"
      "sm_MultiSourceRead keccak sm (SerializedCert vc') False (v2VerifyWrapper m V2VersionByte) opts' s' = (q, s'')"
      "q = Panic \<and> p = Panic \<or> q = Blocked \<and> p = Blocked"
    for vc' cm' opts' s' s'' p q
    using assms(1-2) a that
    by (auto simp: Manager_Get_def cert_mode_def getVerifyMethod_def read_cache_def act_simps
        SecondaryManager_ISecondary_def sm_CachingEnabled_def)
  have v: "v2VerifyWrapper m V2VersionByte c d o' s' = (Panic, s')" for c d o' s'
    using assms(1) by (simp add: v2VerifyWrapper_def panic_def)
  let ?src = "scGet src (keccak (SerializedCert vc))"
  obtain d w1 where g: "?src (world s) = (Ok (Some d), w1)" using a by blast
  let ?s1 = "s\<lparr>world := w1, verifyLock := True\<rparr>"
  have "sm_MultiSourceRead keccak sm (SerializedCert vc) False (v2VerifyWrapper m V2VersionByte) opts s = (Panic, ?s1)"
    using a g v assms(5) by (simp add: sm_MultiSourceRead_def act_simps on_world_def zoom_def lock_def)
  then have "Manager_Get m vc cm opts s = (Panic, ?s1)" using get assms(3,4) by blast
  moreover have "fst (Manager_Get m vc' cm' opts' ?s1) = Blocked"
    if "cert_mode cm' \<and> SerializedCert vc' = SerializedCert vc \<and> Version vc' = V2VersionByte" for vc' cm' opts'
  proof -
    obtain d' w2 where "?src w1 = (Ok (Some d'), w2)" using a by blast
    then have "sm_MultiSourceRead keccak sm (SerializedCert vc') False (v2VerifyWrapper m V2VersionByte) opts' ?s1
        = (Blocked, ?s1\<lparr>world := w2\<rparr>)"
      using a that by (simp add: sm_MultiSourceRead_def act_simps on_world_def zoom_def lock_def)
    then show ?thesis using get that by (metis fst_conv)
  qed
  ultimately show "\<exists>s1. Manager_Get m vc cm opts s = (Panic, s1) \<and>
      (\<forall>vc' cm' opts'. cert_mode cm' \<and> SerializedCert vc' = SerializedCert vc \<and> Version vc' = V2VersionByte \<longrightarrow>
         fst (Manager_Get m vc' cm' opts' s1) = Blocked)" by blast
qed

theorem Get_v2_without_store_witness:
  "fst (Manager_Get (ex_manager (NewSecondaryManager [] [] False)) (NewVersionedCert [1, 7] V2VersionByte)
      StandardCommitmentMode \<lparr>L1InclusionBlockNum = 0\<rparr> (mgr_init () V1EigenDABackend)) = Panic"
  using Get_v2_without_store [of "ex_manager (NewSecondaryManager [] [] False)" id "\<lambda>n m. m"
      "NewSecondaryManager [] [] False" "NewVersionedCert [1, 7] V2VersionByte" StandardCommitmentMode
      "mgr_init () V1EigenDABackend" "\<lparr>L1InclusionBlockNum = 0\<rparr>"]
  by (simp add: ex_manager_def cert_mode_def NewVersionedCert_def mgr_init_def NewSecondaryManager_def)

text \<open>
  Fallbacks hide why a certificate was rejected. With fallbacks configured and no caches, when the
  V2 store rejects a certificate with an error of HTTP status 418 and no fallback has data, the manager
  returns the fallbacks' error, of status 500.
\<close>

theorem fallback_hides_rejection:
  assumes "mgrSecondary m = SecondaryManager_ISecondary keccak opRetry sm"
    and "mgrEigendaV2 m = Some e" and "Version vc = V2VersionByte" and "cert_mode cm"
    and "caches sm = []" and "fallbacks sm = [src]"
    and "v2Verify e vc opts s = (Err err, s1)" and "error_status fromError err = 418"
    and "scGet src (keccak (SerializedCert vc)) (world s1) = (Ok None, w)"
    and "fromError_documented fromError"
  shows "\<exists>err' s2. Manager_Get m vc cm opts s = (Err err', s2) \<and> error_status fromError err' = 500"
  using assms
  by (auto simp: Manager_Get_def cert_mode_def getVerifyMethod_def read_cache_def act_simps
      SecondaryManager_ISecondary_def sm_CachingEnabled_def sm_FallbackEnabled_def
      getFromCorrectEigenDABackend_def sm_MultiSourceRead_def on_world_def zoom_def record_request_def)

definition ex_rejecting :: "'w mgr_state EigenDAV2Store" where
  "ex_rejecting = (ex_da2 ErrProxyOversizedBlob)\<lparr>v2Verify := (\<lambda>c opts. throw (CertVerificationFailedError 3 ''no''))\<rparr>"

theorem fallback_hides_rejection_witness:
  "\<exists>err' s2. Manager_Get ((ex_manager (NewSecondaryManager [] [map_store S3BackendType] False))\<lparr>mgrEigendaV2 := Some ex_rejecting\<rparr>)
      (NewVersionedCert [1] V2VersionByte) StandardCommitmentMode \<lparr>L1InclusionBlockNum = 0\<rparr>
      (mgr_init Map.empty V2EigenDABackend) = (Err err', s2) \<and> error_status chain_code err' = 500"
  by (rule fallback_hides_rejection [where src = "map_store S3BackendType" and e = ex_rejecting
        and keccak = id and opRetry = "\<lambda>n m. m" and sm = "NewSecondaryManager [] [map_store S3BackendType] False"
        and ?s1.0 = "mgr_init Map.empty V2EigenDABackend" and w = Map.empty
        and err = "CertVerificationFailedError 3 ''no''"])
     (simp_all add: ex_manager_def NewVersionedCert_def cert_mode_def NewSecondaryManager_def ex_rejecting_def
       throw_def map_store_def mgr_init_def)

text \<open>
  Cached V2 data is not compared with the certificate. Whatever bytes a cache holds for a V1 or V2
  version byte, \<^verbatim>\<open>Get\<close> returns them as soon as the V2 store accepts the certificate.
\<close>

theorem cached_v2_payload_unchecked:
  assumes "mgrSecondary m = SecondaryManager_ISecondary keccak opRetry sm"
    and "mgrEigendaV2 m = Some e" and "Version vc = V2VersionByte" and "cert_mode cm"
    and "caches sm = src # srcs" and "\<not> verifyLock s"
    and "scGet src (keccak (SerializedCert vc)) (world s) = (Ok (Some d), w)"
    and "v2Verify e vc opts (s\<lparr>world := w, verifyLock := True\<rparr>) = (Ok (), s1)"
  shows "\<exists>s2. Manager_Get m vc cm opts s = (Ok d, s2)"
proof -
  have "NewVersionedCert (SerializedCert vc) V2VersionByte = vc"
    using assms(3) by (simp add: NewVersionedCert_def)
  with assms show ?thesis
    by (auto simp: Manager_Get_def cert_mode_def getVerifyMethod_def read_cache_def act_simps
        SecondaryManager_ISecondary_def sm_CachingEnabled_def v2VerifyWrapper_def
        sm_MultiSourceRead_def on_world_def zoom_def record_request_def lock_def unlock_def)
qed

theorem cached_v2_payload_unchecked_witness:
  "\<exists>s2. Manager_Get ((ex_manager (NewSecondaryManager [map_store RedisBackendType] [] False))
        \<lparr>mgrEigendaV2 := Some (ex_da2 ErrProxyOversizedBlob)\<rparr>)
      (NewVersionedCert [1] V2VersionByte) StandardCommitmentMode \<lparr>L1InclusionBlockNum = 0\<rparr>
      (mgr_init [[1] \<mapsto> [66]] V2EigenDABackend) = (Ok [66], s2)"
  by (rule cached_v2_payload_unchecked [where src = "map_store RedisBackendType" and srcs = "[]"
        and keccak = id and opRetry = "\<lambda>n m. m" and sm = "NewSecondaryManager [map_store RedisBackendType] [] False"
        and e = "ex_da2 ErrProxyOversizedBlob" and w = "[[1] \<mapsto> [66]]"])
     (simp_all add: ex_manager_def NewVersionedCert_def cert_mode_def NewSecondaryManager_def ex_da2_def
       ret_def map_store_def mgr_init_def)

end
