(* ===== verification/EigenDA_V2.thy ===== *)
theory EigenDA_V2
  imports Stores
begin

text \<open>
  The EigenDA V2 store (\<^verbatim>\<open>store/generated_key/v2/eigenda.go\<close>): dispersal with retries, retrieval over
  a list of retrievers, and certificate verification with the recency check of the reference block
  number.

  The V2 and V3 certificate types are those of EigenDA's client library: type variables \<open>'c2\<close> and
  \<open>'c3\<close>, with the RLP codec and the accessors the store calls as arguments (\<open>cert_api\<close>). The
  payload disperser, the retrievers and the verifier contract are fields of the store, as in the
  code. Block numbers are 64-bit words.
\<close>

section \<open>The store\<close>

datatype ('c2, 'c3) DACert = CertV2 'c2 | CertV3 'c3

text \<open>
  What \<^verbatim>\<open>SendPayload\<close> returns: an interface value with its version, and the V3 certificate if the
  type assertion succeeds.
\<close>

record 'c3 SentCert =
  sentVersion :: CertificateVersion
  sentV3 :: "'c3 option"

record ('c2, 'c3) cert_api =
  rlpDecodeV2 :: "bytes \<Rightarrow> go_error + 'c2"
  rlpDecodeV3 :: "bytes \<Rightarrow> go_error + 'c3"
  referenceBlockNumberV2 :: "'c2 \<Rightarrow> uint64"
  referenceBlockNumberV3 :: "'c3 \<Rightarrow> uint64"
  serializeV3 :: "'c3 \<Rightarrow> go_error + bytes"
  errorText :: "go_error \<Rightarrow> string"

record ('w, 'c2, 'c3) V2Store =
  putTries :: int
  rbnRecencyWindowSize :: uint64
  sendPayload :: "bytes \<Rightarrow> ('w, 'c3 SentCert) goact"
  retrievers :: "(('c2, 'c3) DACert \<Rightarrow> ('w, bytes) goact) list"
  checkDACert :: "('c2, 'c3) DACert \<Rightarrow> ('w, unit) goact"

definition V2_NewStore ::
  "int \<Rightarrow> uint64 \<Rightarrow> (bytes \<Rightarrow> ('w, 'c3 SentCert) goact) \<Rightarrow>
   (('c2, 'c3) DACert \<Rightarrow> ('w, bytes) goact) list \<Rightarrow> (('c2, 'c3) DACert \<Rightarrow> ('w, unit) goact) \<Rightarrow>
   ('w, 'c2, 'c3) V2Store go" where
  "V2_NewStore tries window disperser rs verifier =
     (if tries = 0
      then Err putTriesZero
      else Ok \<lparr>putTries = tries, rbnRecencyWindowSize = window, sendPayload = disperser,
               retrievers = rs, checkDACert = verifier\<rparr>)"

text \<open>The loop over the retrievers. The slice of errors is never appended to, so the final error wraps nil.\<close>

fun try_retrievers ::
  "(('c2, 'c3) DACert \<Rightarrow> ('w, bytes) goact) list \<Rightarrow> ('c2, 'c3) DACert \<Rightarrow> ('w, bytes) goact" where
  "try_retrievers [] cert = throw (ErrorString ''all retrievers failed: %!w(<nil>)'')"
| "try_retrievers (r # rs) cert = onErr (r cert) (\<lambda>_. try_retrievers rs cert)"

definition V2_Get ::
  "('c2, 'c3) cert_api \<Rightarrow> ('w, 'c2, 'c3) V2Store \<Rightarrow> VersionedCert \<Rightarrow> ('w, bytes) goact" where
  "V2_Get api e versionedCert =
     andThen (liftR
       (if Version versionedCert = V0VersionByte \<or> Version versionedCert = V1VersionByte
        then bindR (mapErrR (WrapError ''RLP decoding EigenDA v2 cert'')
                     (fromSum (rlpDecodeV2 api (SerializedCert versionedCert)))) (\<lambda>c. Ok (CertV2 c))
        else if Version versionedCert = V2VersionByte
        then bindR (mapErrR (WrapError ''RLP decoding EigenDA v3 cert'')
                     (fromSum (rlpDecodeV3 api (SerializedCert versionedCert)))) (\<lambda>c. Ok (CertV3 c))
        else Err (ErrorString (''unknown certificate version: '' @ decimal (unat (Version versionedCert))))))
     (\<lambda>cert. try_retrievers (retrievers e) cert)"

text \<open>
  The predicate given to \<^verbatim>\<open>retry.RetryIf\<close>: an error with the gRPC code InvalidArgument is final,
  everything else is tried again (the sleep on ResourceExhausted only delays).
\<close>

definition dispersal_retry_if :: "(go_error \<Rightarrow> grpc_code option) \<Rightarrow> go_error \<Rightarrow> bool" where
  "dispersal_retry_if fromError err =
     (case fromError err of
        None \<Rightarrow> True
      | Some InvalidArgument \<Rightarrow> False
      | Some ResourceExhausted \<Rightarrow> True
      | Some _ \<Rightarrow> True)"

definition V2_Put ::
  "(go_error \<Rightarrow> grpc_code option) \<Rightarrow>
   ((go_error \<Rightarrow> bool) \<Rightarrow> uint64 \<Rightarrow> ('w, 'c3 SentCert) goact \<Rightarrow> ('w, 'c3 SentCert) goact) \<Rightarrow>
   ('c2, 'c3) cert_api \<Rightarrow> ('w, 'c2, 'c3) V2Store \<Rightarrow> bytes \<Rightarrow> ('w, bytes) goact" where
  "V2_Put fromError retryDo api e value =
     andThen (retryDo (dispersal_retry_if fromError) (ConvertToRetryGoAttempts (putTries e))
                (sendPayload e value)) (\<lambda>cert.
     case sentVersion cert of
       VersionTwoCert \<Rightarrow>
         throw (ErrorString ''EigenDA V2 certs are not supported anymore, use V3 instead'')
     | VersionThreeCert \<Rightarrow>
         (case sentV3 cert of
            None \<Rightarrow> throw (ErrorString ''expected EigenDACertV3'')
          | Some c \<Rightarrow> liftR (fromSum (serializeV3 api c)))
     | OtherCertVersion n \<Rightarrow>
         throw (ErrorString (''unsupported EigenDA cert version: '' @ decimal n)))"

section \<open>Verification\<close>

definition verifyCertRBNRecencyCheck :: "uint64 \<Rightarrow> uint64 \<Rightarrow> uint64 \<Rightarrow> unit go" where
  "verifyCertRBNRecencyCheck certRBN certL1IBN windowSize =
     (if certL1IBN = 0 \<or> windowSize = 0 then Ok ()
      else if certRBN = 0 then Err (ErrorString ''certRBN should never be 0, this is likely a bug'')
      else if certL1IBN \<le> certRBN
        then Err (ErrorString (''cert's l1 inclusion block number ('' @ decimal (unat certRBN) @
          '') <= cert reference block number ('' @ decimal (unat certL1IBN) @
          ''), but this is physically impossible since the cert has to be signed by all eigenda validators before being submitted to the batcher inbox, and validators will only sign a batchRoot (contained in certs) if the RBN is in the past. This is a serious bug, please report it''))
      else if \<not> certL1IBN \<le> certRBN + windowSize
        then Err (NewRBNRecencyCheckFailedError certRBN certL1IBN windowSize)
      else Ok ())"

text \<open>The switch of \<^verbatim>\<open>Verify\<close>: the certificate and its reference block number, or a parsing error.\<close>

definition parse_for_verify ::
  "('c2, 'c3) cert_api \<Rightarrow> VersionedCert \<Rightarrow> (uint64 \<times> ('c2, 'c3) DACert) go" where
  "parse_for_verify api versionedCert =
     (let certHex = hex_EncodeToString (SerializedCert versionedCert) in
      if Version versionedCert = V0VersionByte
      then Err (NewCertParsingFailedError certHex
             ''version 0 byte certs should never be verified by the EigenDA V2 store'')
      else if Version versionedCert = V1VersionByte
      then (case rlpDecodeV2 api (SerializedCert versionedCert) of
              Inl err \<Rightarrow> Err (NewCertParsingFailedError certHex
                            (''RLP decoding EigenDA v1 cert: '' @ errorText api err))
            | Inr c \<Rightarrow> Ok (referenceBlockNumberV2 api c, CertV2 c))
      else if Version versionedCert = V2VersionByte
      then (case rlpDecodeV3 api (SerializedCert versionedCert) of
              Inl err \<Rightarrow> Err (NewCertParsingFailedError certHex
                            (''RLP decoding EigenDA v3 cert: '' @ errorText api err))
            | Inr c \<Rightarrow> Ok (referenceBlockNumberV3 api c, CertV3 c))
      else Err (NewCertParsingFailedError certHex
             (''unknown EigenDA cert version: '' @ decimal (unat (Version versionedCert)))))"

definition V2_Verify ::
  "('c2, 'c3) cert_api \<Rightarrow> ('w, 'c2, 'c3) V2Store \<Rightarrow> VersionedCert \<Rightarrow> CertVerificationOpts \<Rightarrow>
   ('w, unit) goact" where
  "V2_Verify api e versionedCert opts =
     andThen (liftR (parse_for_verify api versionedCert)) (\<lambda>(referenceBlockNumber, cert).
     andThen (liftR (verifyCertRBNRecencyCheck referenceBlockNumber (L1InclusionBlockNum opts)
                (rbnRecencyWindowSize e))) (\<lambda>_.
     mapErr (WrapError ''eth-call to CertVerifier.checkDACert'') (checkDACert e cert)))"

text \<open>The store as a value of the interface.\<close>

definition V2_store ::
  "(go_error \<Rightarrow> grpc_code option) \<Rightarrow>
   ((go_error \<Rightarrow> bool) \<Rightarrow> uint64 \<Rightarrow> ('w, 'c3 SentCert) goact \<Rightarrow> ('w, 'c3 SentCert) goact) \<Rightarrow>
   ('c2, 'c3) cert_api \<Rightarrow> ('w, 'c2, 'c3) V2Store \<Rightarrow> 'w EigenDAV2Store" where
  "V2_store fromError retryDo api e =
     \<lparr>v2Put = V2_Put fromError retryDo api e, v2Get = V2_Get api e, v2Verify = V2_Verify api e,
      v2BackendType = EigenDAV2BackendType\<rparr>"

section \<open>Lemmas\<close>

lemma sum_mod_zero:
  "0 < x \<Longrightarrow> x < m \<Longrightarrow> y < m \<Longrightarrow> (x + y) mod m = 0 \<Longrightarrow> x + y = (m :: nat)"
proof -
  assume s: "0 < x" "x < m" "y < m" "(x + y) mod m = 0"
  then obtain k where k: "x + y = m * k" by auto
  have "0 < k" using k s(1) by (cases k) auto
  moreover have "m * k < m * 2" unfolding k [symmetric] using s by linarith
  ultimately have "k = 1" by simp
  with k show "x + y = m" by simp
qed

lemma word_sum_exact:
  "unat a + unat b < 2 ^ 64 \<Longrightarrow> unat ((a :: uint64) + b) = unat a + unat b"
  by (simp add: unat_word_ariths)

lemma recency_Ok_iff:
  assumes "unat rbn + unat window < 2 ^ 64"
  shows "verifyCertRBNRecencyCheck rbn ibn window = Ok () \<longleftrightarrow>
     ibn = 0 \<or> window = 0 \<or>
     0 < unat rbn \<and> unat rbn < unat ibn \<and> unat ibn \<le> unat rbn + unat window"
  using assms
  by (auto simp: verifyCertRBNRecencyCheck_def word_le_nat_alt word_sum_exact unat_gt_0)

lemma try_retrievers_Ok:
  "try_retrievers rs cert w = (Ok data, w') \<Longrightarrow> \<exists>r \<in> set rs. \<exists>w1. r cert w1 = (Ok data, w')"
  by (induction rs arbitrary: w) (auto simp: onErr_def split: prod.splits result.splits)

lemma parse_for_verify_Err_418:
  "parse_for_verify api vc = Err e \<Longrightarrow> error_status f e = 418"
  by (auto simp: parse_for_verify_def Let_def split: if_splits sum.splits)

lemma parse_for_verify_returns [simp]:
  "parse_for_verify api vc \<noteq> Panic" "parse_for_verify api vc \<noteq> Blocked"
  by (auto simp: parse_for_verify_def Let_def split: sum.splits)

lemma parse_for_verify_version:
  "parse_for_verify api vc = Ok p \<Longrightarrow> Version vc = V1VersionByte \<or> Version vc = V2VersionByte"
  by (auto simp: parse_for_verify_def Let_def split: if_splits sum.splits)

lemma recency_Err_418_iff:
  assumes "unat rbn + unat window < 2 ^ 64" and "fromError_documented f"
  shows "(\<exists>e. verifyCertRBNRecencyCheck rbn ibn window = Err e \<and> error_status f e = 418) \<longleftrightarrow>
     ibn \<noteq> 0 \<and> window \<noteq> 0 \<and> rbn \<noteq> 0 \<and> unat rbn + unat window < unat ibn"
  using assms
  by (auto simp: verifyCertRBNRecencyCheck_def word_le_nat_alt word_sum_exact not_le)

section \<open>Properties\<close>

text \<open>
  C9: the recency check is the documented inequality. For a 32-bit reference block number and a
  window of at most \<^verbatim>\<open>2^64 - 2^32\<close> blocks, the check passes exactly when it is switched off (window or
  inclusion block 0) or \<^verbatim>\<open>0 < RBN < IBN <= RBN + window\<close> holds over the integers; and it answers with
  an error that becomes HTTP status 418 exactly when the certificate is too old, the other rejected
  inputs giving an error that does not.
\<close>

theorem recency_check_exact:
  assumes "unat rbn < 2 ^ 32" and "unat window \<le> 2 ^ 64 - 2 ^ 32" and "fromError_documented f"
  shows "(verifyCertRBNRecencyCheck rbn ibn window = Ok () \<longleftrightarrow>
       ibn = 0 \<or> window = 0 \<or>
       0 < unat rbn \<and> unat rbn < unat ibn \<and> unat ibn \<le> unat rbn + unat window) \<and>
     ((\<exists>e. verifyCertRBNRecencyCheck rbn ibn window = Err e \<and> error_status f e = 418) \<longleftrightarrow>
       ibn \<noteq> 0 \<and> window \<noteq> 0 \<and> rbn \<noteq> 0 \<and> unat rbn + unat window < unat ibn)"
proof -
  have "unat rbn + unat window < 2 ^ 64" using assms(1,2) by simp
  then show ?thesis using assms(3) by (simp add: recency_Ok_iff recency_Err_418_iff)
qed

theorem recency_check_exact_witness:
  "verifyCertRBNRecencyCheck 100 150 50 = Ok () \<and>
   (\<exists>e. verifyCertRBNRecencyCheck 100 151 50 = Err e \<and> error_status chain_code e = 418)"
  using recency_check_exact [of 100 50 chain_code 150] recency_check_exact [of 100 50 chain_code 151]
  by simp

text \<open>
  The sum of the check wraps. Whatever the reference block number and a later inclusion block
  are, a window of \<^verbatim>\<open>2^64 - RBN\<close> blocks, larger than any distance, makes the check reject the
  certificate as too old.
\<close>

theorem recency_check_wraps:
  assumes "0 < rbn" and "rbn < ibn"
  shows "verifyCertRBNRecencyCheck rbn ibn (- rbn) = Err (NewRBNRecencyCheckFailedError rbn ibn (- rbn)) \<and>
     unat rbn + unat (- rbn) = 2 ^ 64"
proof -
  have *: "unat rbn < 2 ^ 64" "unat (- rbn) < 2 ^ 64"
    using unsigned_less [of rbn, where 'a = nat] unsigned_less [of "- rbn", where 'a = nat] by simp_all
  have "0 < unat rbn" using assms(1) by (simp add: word_less_nat_alt)
  moreover have "(unat rbn + unat (- rbn)) mod 2 ^ 64 = 0"
    using unat_word_ariths(1) [of rbn "- rbn"] by simp
  ultimately have "unat rbn + unat (- rbn) = 2 ^ 64" using * by (intro sum_mod_zero)
  then show ?thesis
    using assms by (auto simp: verifyCertRBNRecencyCheck_def)
qed

theorem recency_check_wraps_witness:
  "verifyCertRBNRecencyCheck 100 101 (- 100) = Err (NewRBNRecencyCheckFailedError 100 101 (- 100)) \<and>
   unat (100 :: uint64) + unat (- 100 :: uint64) = 2 ^ 64"
  by (rule recency_check_wraps) simp_all

text \<open>
  C8: what an accepted V2 certificate means. When \<^verbatim>\<open>Verify\<close> returns no error, the version byte is 1 or
  2, the certificate decodes as the type of that version, its reference block number passed the
  recency check for the requested inclusion block, and the verifier contract accepted it. A version
  byte outside these, or bytes that do not decode, give an error of HTTP status 418 without a call
  of the contract.
\<close>

theorem V2_Verify_sound:
  assumes "V2_Verify api e vc opts w = (r, w')"
  shows "(r = Ok () \<longrightarrow> (\<exists>rbn cert.
       (Version vc = V1VersionByte \<and> (\<exists>c. rlpDecodeV2 api (SerializedCert vc) = Inr c \<and>
            cert = CertV2 c \<and> rbn = referenceBlockNumberV2 api c) \<or>
        Version vc = V2VersionByte \<and> (\<exists>c. rlpDecodeV3 api (SerializedCert vc) = Inr c \<and>
            cert = CertV3 c \<and> rbn = referenceBlockNumberV3 api c)) \<and>
       verifyCertRBNRecencyCheck rbn (L1InclusionBlockNum opts) (rbnRecencyWindowSize e) = Ok () \<and>
       checkDACert e cert w = (Ok (), w'))) \<and>
     ((\<nexists>p. parse_for_verify api vc = Ok p) \<longrightarrow> (\<exists>err. r = Err err \<and> error_status f err = 418 \<and> w' = w))"
proof (cases "parse_for_verify api vc")
  case (Ok p)
  then obtain rbn cert where p: "parse_for_verify api vc = Ok (rbn, cert)" by (cases p) auto
  with assms have r: "andThen (liftR (verifyCertRBNRecencyCheck rbn (L1InclusionBlockNum opts)
        (rbnRecencyWindowSize e))) (\<lambda>_. mapErr (WrapError ''eth-call to CertVerifier.checkDACert'')
        (checkDACert e cert)) w = (r, w')"
    by (simp add: V2_Verify_def andThen_def [of "liftR (parse_for_verify api vc)"] liftR_def)
  from p have "Version vc = V1VersionByte \<and> (\<exists>c. rlpDecodeV2 api (SerializedCert vc) = Inr c \<and>
            cert = CertV2 c \<and> rbn = referenceBlockNumberV2 api c) \<or>
        Version vc = V2VersionByte \<and> (\<exists>c. rlpDecodeV3 api (SerializedCert vc) = Inr c \<and>
            cert = CertV3 c \<and> rbn = referenceBlockNumberV3 api c)"
    by (auto simp: parse_for_verify_def Let_def split: if_splits sum.splits)
  with r p show ?thesis by (auto simp: run_Ok)
next
  case (Err x)
  with assms show ?thesis
    using parse_for_verify_Err_418 [OF Err, of f] by (auto simp: V2_Verify_def act_simps)
qed auto

text \<open>
  C27: dispersal is bounded and its final error is passed on as it is. With a \<^verbatim>\<open>retry-go\<close> that behaves
  as documented and a positive number of tries, \<^verbatim>\<open>Put\<close> calls the disperser at least once and at most
  \<^verbatim>\<open>putTries\<close> times; an error with gRPC code InvalidArgument on the first call is returned at once.
\<close>

theorem V2_Put_attempts:
  assumes "retry_documented retryDo" and "0 < putTries e" and "putTries e < 2 ^ 63"
    and "\<And>w. calls (snd (sendPayload e payload w)) = Suc (calls w)"
  shows "calls w < calls (snd (V2_Put fromError retryDo api e payload w)) \<and>
     calls (snd (V2_Put fromError retryDo api e payload w)) \<le> calls w + nat (putTries e) \<and>
     (\<forall>err w'. sendPayload e payload w = (Err err, w') \<and> fromError err = Some InvalidArgument \<longrightarrow>
        V2_Put fromError retryDo api e payload w = (Err err, w'))"
proof -
  let ?n = "ConvertToRetryGoAttempts (putTries e)"
  have n: "0 < ?n" "unat ?n = nat (putTries e)"
    using ConvertToRetryGoAttempts_pos [OF assms(2,3)] by auto
  let ?R = "retry_attempts (dispersal_retry_if fromError) (nat (putTries e)) (sendPayload e payload)"
  have run: "retryDo (dispersal_retry_if fromError) ?n (sendPayload e payload) = ?R"
    using assms(1) n by (simp add: retry_documented_def)
  have final: "snd (V2_Put fromError retryDo api e payload w) = snd (?R w)"
    unfolding V2_Put_def run
    by (auto simp: act_simps split: prod.splits result.splits CertificateVersion.splits option.splits)
  have abort: "V2_Put fromError retryDo api e payload w = (Err err, w')"
    if "sendPayload e payload w = (Err err, w')" "fromError err = Some InvalidArgument" for err w'
    using that retry_attempts_abort [of "sendPayload e payload" w err w' "dispersal_retry_if fromError"]
    unfolding V2_Put_def run by (simp add: dispersal_retry_if_def)
  show ?thesis
    using retry_attempts_count [of calls "sendPayload e payload" "nat (putTries e)"] assms(2,4) abort
    by (simp add: final)
qed

text \<open>A disperser that always fails with ResourceExhausted, counting its calls.\<close>

definition ex_busy :: "go_error" where
  "ex_busy = ExternalError ''busy'' None False (Some ResourceExhausted)"

definition ex_v2 :: "(nat, unit, unit) V2Store" where
  "ex_v2 = \<lparr>putTries = 3, rbnRecencyWindowSize = 0, sendPayload = (\<lambda>v n. (Err ex_busy, Suc n)),
            retrievers = [], checkDACert = (\<lambda>c. ret ())\<rparr>"

definition ex_retry :: "(go_error \<Rightarrow> bool) \<Rightarrow> uint64 \<Rightarrow> ('w, 'a) goact \<Rightarrow> ('w, 'a) goact" where
  "ex_retry p n m = retry_attempts p (unat n) m"

lemma ex_retry_documented [simp]: "retry_documented ex_retry"
  by (simp add: retry_documented_def ex_retry_def)

definition ex_api :: "(unit, unit) cert_api" where
  "ex_api = \<lparr>rlpDecodeV2 = (\<lambda>b. Inl (ErrorString ''rlp'')), rlpDecodeV3 = (\<lambda>b. Inr ()),
     referenceBlockNumberV2 = (\<lambda>c. 0), referenceBlockNumberV3 = (\<lambda>c. 100),
     serializeV3 = (\<lambda>c. Inr []), errorText = (\<lambda>e. ''rlp'')\<rparr>"

theorem V2_Put_attempts_witness:
  "snd (V2_Put chain_code ex_retry ex_api ex_v2 [] 0) \<le> 3"
  using V2_Put_attempts [where retryDo = ex_retry and e = ex_v2 and calls = id and w = 0
      and payload = "[]" and fromError = chain_code and api = ex_api]
  by (simp add: ex_v2_def)

theorem V2_Verify_sound_witness:
  "V2_Verify ex_api ex_v2 (NewVersionedCert [1] V2VersionByte) \<lparr>L1InclusionBlockNum = 0\<rparr> 0 = (Ok (), 0) \<and>
   checkDACert ex_v2 (CertV3 ()) 0 = (Ok (), 0)"
proof -
  let ?vc = "NewVersionedCert [1] V2VersionByte"
  have "V2_Verify ex_api ex_v2 ?vc \<lparr>L1InclusionBlockNum = 0\<rparr> 0 = (Ok (), 0)"
    by (simp add: V2_Verify_def parse_for_verify_def NewVersionedCert_def ex_api_def ex_v2_def act_simps
        verifyCertRBNRecencyCheck_def)
  with V2_Verify_sound [OF this, of chain_code] show ?thesis
    by (auto simp: NewVersionedCert_def)
qed

end
