(* ===== verification/EigenDA_V1.thy ===== *)
theory EigenDA_V1
  imports Verifier_V1 EigenDA_V2
begin

text \<open>
  The EigenDA V1 store (\<^verbatim>\<open>store/generated_key/eigenda/eigenda.go\<close>). The EigenDA client, its blob codec
  and the RLP codec of certificates are arguments; the verifier is the one of \<^verbatim>\<open>Verifier_V1\<close>.
\<close>

section \<open>The store\<close>

record StoreConfig =
  cfgMaxBlobSizeBytes :: uint64
  cfgEthConfirmationDepth :: uint64
  cfgStatusQueryTimeout :: int
  cfgPutTries :: int

definition NewStoreConfig :: "uint64 \<Rightarrow> uint64 \<Rightarrow> int \<Rightarrow> int \<Rightarrow> StoreConfig go" where
  "NewStoreConfig maxBlobSizeBytes depth statusQueryTimeout tries =
     (if tries = 0 then Err putTriesZero
      else Ok \<lparr>cfgMaxBlobSizeBytes = maxBlobSizeBytes, cfgEthConfirmationDepth = depth,
               cfgStatusQueryTimeout = statusQueryTimeout, cfgPutTries = tries\<rparr>)"

record 'w V1Client =
  encodeBlob :: "bytes \<Rightarrow> go_error + bytes"
  getBlob :: "bytes \<Rightarrow> uint32 \<Rightarrow> ('w, bytes) goact"
  putBlob :: "bytes \<Rightarrow> ('w, Certificate) goact"

record 'w V1Store =
  client :: "'w V1Client"
  verifier :: "'w Verifier"
  storeConfig :: StoreConfig

record v1_codec =
  rlpDecodeCert :: "bytes \<Rightarrow> go_error + Certificate"
  rlpEncodeCert :: "Certificate \<Rightarrow> go_error + bytes"

type_synonym 'w op_retry = "nat \<Rightarrow> ('w, bytes) goact \<Rightarrow> ('w, bytes) goact"
type_synonym ('w, 'a) go_retry = "(go_error \<Rightarrow> bool) \<Rightarrow> uint64 \<Rightarrow> ('w, 'a) goact \<Rightarrow> ('w, 'a) goact"

definition V1_Get :: "v1_codec \<Rightarrow> 'w V1Store \<Rightarrow> bytes \<Rightarrow> ('w, bytes) goact" where
  "V1_Get codec e key =
     andThen (mapErr (WrapError ''failed to decode DA cert to RLP format'')
                (liftR (fromSum (rlpDecodeCert codec key)))) (\<lambda>cert.
     andThen (mapErr (WrapError ''failed to verify DA cert'') (liftR (NoNilFields cert))) (\<lambda>_.
     mapErr (WrapError ''EigenDA client failed to retrieve decoded blob'')
       (let p = certBlobVerificationProof cert in
        getBlob (client e)
          (case GetBatchMetadata p of None \<Rightarrow> [] | Some md \<Rightarrow> BatchHeaderHash md)
          (case p of None \<Rightarrow> 0 | Some bvp \<Rightarrow> proofBlobIndex bvp))))"

definition V1_retry_if :: "(go_error \<Rightarrow> grpc_code option) \<Rightarrow> go_error \<Rightarrow> bool" where
  "V1_retry_if fromError err =
     (case fromError err of
        None \<Rightarrow> True
      | Some InvalidArgument \<Rightarrow> False
      | Some ResourceExhausted \<Rightarrow> True
      | Some _ \<Rightarrow> True)"

text \<open>\<^verbatim>\<open>GetCommitment\<close> of a nil header is nil; a plain access of the header panics on nil.\<close>

definition header_commitment :: "Certificate \<Rightarrow> G1Commitment option" where
  "header_commitment cert = (case certBlobHeader cert of None \<Rightarrow> None | Some bh \<Rightarrow> pbCommitment bh)"

definition V1_Put ::
  "(go_error \<Rightarrow> grpc_code option) \<Rightarrow> (bytes \<Rightarrow> bytes) \<Rightarrow> abi_api \<Rightarrow> 'w op_retry \<Rightarrow>
   ('w, Certificate) go_retry \<Rightarrow> v1_codec \<Rightarrow> 'w V1Store \<Rightarrow> bytes \<Rightarrow> ('w, bytes) goact" where
  "V1_Put fromError keccak abi opRetry retryDo codec e value =
     andThen (mapErr (WrapError ''EigenDA client failed to re-encode blob'')
                (liftR (fromSum (encodeBlob (client e) value)))) (\<lambda>encodedBlob.
     if length encodedBlob > unat (cfgMaxBlobSizeBytes (storeConfig e))
     then throw (WrapError (''blob length '' @ decimal (length value) @ '', max blob size '' @
            decimal (unat (cfgMaxBlobSizeBytes (storeConfig e)))) ErrProxyOversizedBlob)
     else
       andThen (retryDo (V1_retry_if fromError)
                  (ConvertToRetryGoAttempts (cfgPutTries (storeConfig e)))
                  (putBlob (client e) value)) (\<lambda>cert.
       andThen (mapErr (WrapError ''failed to verify DA cert due to nil fields'')
                  (liftR (NoNilFields cert))) (\<lambda>_.
       andThen (mapErr (WrapError ''failed to verify DA cert due to invalid field lengths'')
                  (liftR (ValidFieldLengths cert))) (\<lambda>_.
       andThen (mapErr (WrapError ''failed to verify commitment'')
                  (liftR (VerifyCommitment (kzgVerifier (verifier e)) (header_commitment cert) encodedBlob)))
         (\<lambda>_.
       andThen (mapErr (WrapError ''failed to verify DA cert'')
                  (VerifyCert keccak abi opRetry (verifier e) cert)) (\<lambda>_.
       mapErr (WrapError ''failed to encode DA cert to RLP format'')
         (liftR (fromSum (rlpEncodeCert codec cert)))))))))"

text \<open>Only a batch metadata hash mismatch is wrapped by \<^verbatim>\<open>Verify\<close>.\<close>

definition V1_Verify ::
  "(bytes \<Rightarrow> bytes) \<Rightarrow> abi_api \<Rightarrow> 'w op_retry \<Rightarrow> v1_codec \<Rightarrow> 'w V1Store \<Rightarrow> bytes \<Rightarrow> bytes \<Rightarrow>
   CertVerificationOpts \<Rightarrow> ('w, unit) goact" where
  "V1_Verify keccak abi opRetry codec e serializedCert payload opts =
     andThen (mapErr (WrapError ''failed to decode DA cert to RLP format'')
                (liftR (fromSum (rlpDecodeCert codec serializedCert)))) (\<lambda>cert.
     andThen (mapErr (WrapError ''EigenDA client failed to re-encode blob'')
                (liftR (fromSum (encodeBlob (client e) payload)))) (\<lambda>encodedBlob.
     andThen (mapErr (WrapError ''failed to verify commitment'')
                (liftR (VerifyCommitment (kzgVerifier (verifier e)) (header_commitment cert) encodedBlob)))
       (\<lambda>_.
     mapErr (\<lambda>err. if errors_any is_BatchMetadataHashMismatch err
                    then WrapError ''failed to verify DA cert'' err else err)
       (VerifyCert keccak abi opRetry (verifier e) cert))))"

definition V1_store ::
  "(go_error \<Rightarrow> grpc_code option) \<Rightarrow> (bytes \<Rightarrow> bytes) \<Rightarrow> abi_api \<Rightarrow> 'w op_retry \<Rightarrow>
   ('w, Certificate) go_retry \<Rightarrow> v1_codec \<Rightarrow> 'w V1Store \<Rightarrow> 'w EigenDAV1Store" where
  "V1_store fromError keccak abi opRetry retryDo codec e =
     \<lparr>v1Put = V1_Put fromError keccak abi opRetry retryDo codec e, v1Get = V1_Get codec e,
      v1Verify = V1_Verify keccak abi opRetry codec e, v1BackendType = EigenDABackendType\<rparr>"

section \<open>Lemmas\<close>

lemma NoNilFields_Ok:
  "NoNilFields c = Ok () \<longleftrightarrow>
     (\<exists>p md h bh g. certBlobVerificationProof c = Some p \<and> proofBatchMetadata p = Some md \<and>
        metaBatchHeader md = Some h \<and> certBlobHeader c = Some bh \<and> pbCommitment bh = Some g)"
  by (auto simp: NoNilFields_def split: option.splits)

lemma length_check_Ok [simp]: "length_check n bs = Ok () \<longleftrightarrow> length bs = 32"
  by (simp add: length_check_def)

lemma length_check_returns [simp]: "length_check n bs \<noteq> Panic" "length_check n bs \<noteq> Blocked"
  by (simp_all add: length_check_def)

text \<open>The nil check protects the length check, which would panic on a nil field.\<close>

lemma ValidFieldLengths_after_NoNilFields:
  "NoNilFields c = Ok () \<Longrightarrow> ValidFieldLengths c \<noteq> Panic"
  by (auto simp: NoNilFields_Ok ValidFieldLengths_def bindR_eq_Panic)

lemma ValidFieldLengths_Ok:
  "ValidFieldLengths c = Ok () \<longleftrightarrow>
     (\<exists>p md h bh g. certBlobVerificationProof c = Some p \<and> proofBatchMetadata p = Some md \<and>
        metaBatchHeader md = Some h \<and> certBlobHeader c = Some bh \<and> pbCommitment bh = Some g \<and>
        length (BatchHeaderHash md) = 32 \<and> length (commitX g) = 32 \<and> length (commitY g) = 32 \<and>
        length (SignatoryRecordHash md) = 32 \<and> length (BatchRoot h) = 32)"
  by (auto simp: ValidFieldLengths_def bindR_eq_Ok split: option.splits)

lemma VerifyCommitment_Ok:
  "VerifyCommitment kzg (Some g) blob = Ok () \<longleftrightarrow>
     Commit kzg blob = Ok (fpUnmarshal kzg (commitX g), fpUnmarshal kzg (commitY g)) \<and>
     isOnCurve kzg (fpUnmarshal kzg (commitX g), fpUnmarshal kzg (commitY g))"
  by (auto simp: VerifyCommitment_def bindR_eq_Ok Let_def prod_eq_iff split: if_splits)

lemma Commit_returns: "Commit kzg blob \<noteq> Panic" "Commit kzg blob \<noteq> Blocked"
  by (cases "toFrArray kzg blob"; simp add: Commit_def)+

lemma V1_Put_Ok:
  assumes "V1_Put fromError keccak abi opRetry retryDo codec e v w = (Ok c, w')"
  shows "\<exists>blob cert w1. encodeBlob (client e) v = Inr blob \<and>
     length blob \<le> unat (cfgMaxBlobSizeBytes (storeConfig e)) \<and>
     retryDo (V1_retry_if fromError) (ConvertToRetryGoAttempts (cfgPutTries (storeConfig e)))
       (putBlob (client e) v) w = (Ok cert, w1) \<and>
     NoNilFields cert = Ok () \<and> ValidFieldLengths cert = Ok () \<and>
     VerifyCommitment (kzgVerifier (verifier e)) (header_commitment cert) blob = Ok () \<and>
     VerifyCert keccak abi opRetry (verifier e) cert w1 = (Ok (), w') \<and>
     rlpEncodeCert codec cert = Inr c"
  using assms by (auto simp: V1_Put_def run_Ok not_less split: if_splits)

section \<open>Properties\<close>

text \<open>
  C26: what a V1 dispersal returns. When \<^verbatim>\<open>Put\<close> succeeds, the encoded blob is within the configured
  size, and the returned bytes are the RLP encoding of the certificate that the retried dispersal returned;
  it has no nil fields, 32-byte hashes and coordinates, its commitment is the KZG commitment of the
  encoded blob, and \<^verbatim>\<open>VerifyCert\<close> accepted it after the dispersal. If RLP decoding inverts the encoding, then
  \<^verbatim>\<open>Verify\<close> of those bytes with the same payload passes the commitment check in every later world: its
  outcome is exactly that of \<^verbatim>\<open>VerifyCert\<close>, apart from a message around a hash mismatch.
\<close>

theorem V1_Put_then_Verify:
  assumes "V1_Put fromError keccak abi opRetry retryDo codec e v w = (Ok c, w')"
    and "\<And>cert b. rlpEncodeCert codec cert = Inr b \<Longrightarrow> rlpDecodeCert codec b = Inr cert"
  shows "\<exists>blob cert p md h bh g.
     encodeBlob (client e) v = Inr blob \<and> length blob \<le> unat (cfgMaxBlobSizeBytes (storeConfig e)) \<and>
     rlpDecodeCert codec c = Inr cert \<and>
     certBlobVerificationProof cert = Some p \<and> proofBatchMetadata p = Some md \<and>
     metaBatchHeader md = Some h \<and> certBlobHeader cert = Some bh \<and> pbCommitment bh = Some g \<and>
     length (BatchHeaderHash md) = 32 \<and> length (SignatoryRecordHash md) = 32 \<and> length (BatchRoot h) = 32 \<and>
     length (commitX g) = 32 \<and> length (commitY g) = 32 \<and>
     (\<exists>w2. retryDo (V1_retry_if fromError) (ConvertToRetryGoAttempts (cfgPutTries (storeConfig e)))
          (putBlob (client e) v) w = (Ok cert, w2) \<and> VerifyCert keccak abi opRetry (verifier e) cert w2 = (Ok (), w')) \<and>
     Commit (kzgVerifier (verifier e)) blob =
       Ok (fpUnmarshal (kzgVerifier (verifier e)) (commitX g), fpUnmarshal (kzgVerifier (verifier e)) (commitY g)) \<and>
     (\<forall>opts w1. V1_Verify keccak abi opRetry codec e c v opts w1 =
        mapErr (\<lambda>err. if errors_any is_BatchMetadataHashMismatch err
                       then WrapError ''failed to verify DA cert'' err else err)
          (VerifyCert keccak abi opRetry (verifier e) cert) w1)"
proof -
  from V1_Put_Ok [OF assms(1)] obtain blob cert where
    blob: "encodeBlob (client e) v = Inr blob" "length blob \<le> unat (cfgMaxBlobSizeBytes (storeConfig e))"
    and ok: "ValidFieldLengths cert = Ok ()"
    "VerifyCommitment (kzgVerifier (verifier e)) (header_commitment cert) blob = Ok ()"
    and acc: "\<exists>w2. retryDo (V1_retry_if fromError) (ConvertToRetryGoAttempts (cfgPutTries (storeConfig e)))
        (putBlob (client e) v) w = (Ok cert, w2) \<and> VerifyCert keccak abi opRetry (verifier e) cert w2 = (Ok (), w')"
    and enc: "rlpEncodeCert codec cert = Inr c" by blast
  have dec: "rlpDecodeCert codec c = Inr cert" using assms(2) enc by blast
  from ok(1) obtain p md h bh g where cert: "certBlobVerificationProof cert = Some p"
    "proofBatchMetadata p = Some md" "metaBatchHeader md = Some h" "certBlobHeader cert = Some bh"
    "pbCommitment bh = Some g" "length (BatchHeaderHash md) = 32" "length (SignatoryRecordHash md) = 32"
    "length (BatchRoot h) = 32" "length (commitX g) = 32" "length (commitY g) = 32"
    by (auto simp: ValidFieldLengths_Ok)
  then have "header_commitment cert = Some g" by (simp add: header_commitment_def)
  with ok(2) have commit: "Commit (kzgVerifier (verifier e)) blob =
       Ok (fpUnmarshal (kzgVerifier (verifier e)) (commitX g), fpUnmarshal (kzgVerifier (verifier e)) (commitY g))"
    by (simp add: VerifyCommitment_Ok)
  have "V1_Verify keccak abi opRetry codec e c v opts w1 =
        mapErr (\<lambda>err. if errors_any is_BatchMetadataHashMismatch err
                       then WrapError ''failed to verify DA cert'' err else err)
          (VerifyCert keccak abi opRetry (verifier e) cert) w1" for opts w1
    using dec blob ok(2) by (simp add: V1_Verify_def act_simps)
  with blob dec cert acc commit show ?thesis by blast
qed

text \<open>A client and a codec that know one certificate.\<close>

definition ex_v1 :: "unit V1Store" where
  "ex_v1 = \<lparr>client = \<lparr>encodeBlob = Inr, getBlob = (\<lambda>h i. ret [1]), putBlob = (\<lambda>v. ret ex_cert)\<rparr>,
            verifier = ex_verifier ex_kzg,
            storeConfig = \<lparr>cfgMaxBlobSizeBytes = 4, cfgEthConfirmationDepth = 6, cfgStatusQueryTimeout = 0,
                           cfgPutTries = 1\<rparr>\<rparr>"

definition ex_codec :: v1_codec where
  "ex_codec = \<lparr>rlpDecodeCert = (\<lambda>b. Inr ex_cert),
     rlpEncodeCert = (\<lambda>c. if c = ex_cert then Inr [9] else Inl (ErrorString ''rlp''))\<rparr>"

lemma ex_cert_fields:
  "NoNilFields ex_cert = Ok ()" "ValidFieldLengths ex_cert = Ok ()"
  "VerifyCommitment ex_kzg (header_commitment ex_cert) [1] = Ok ()"
  by (simp add: NoNilFields_def ex_defs, simp add: ValidFieldLengths_Ok ex_defs)
     (simp add: header_commitment_def VerifyCommitment_Ok Commit_def ex_kzg_def ex_cert_def
        be_nat_leading_zeros, simp add: be_nat_def)

theorem V1_Put_then_Verify_witness:
  "V1_Put chain_code pad32 ex_abi (\<lambda>n m. m) ex_retry ex_codec ex_v1 [1] () = (Ok [9], ()) \<and>
   V1_Verify pad32 ex_abi (\<lambda>n m. m) ex_codec ex_v1 [9] [1] \<lparr>L1InclusionBlockNum = 0\<rparr> () = (Ok (), ())"
proof -
  have put: "V1_Put chain_code pad32 ex_abi (\<lambda>n m. m) ex_retry ex_codec ex_v1 [1] () = (Ok [9], ())"
    by (simp add: V1_Put_def ex_v1_def ex_codec_def run_Ok ex_cert_fields ex_VerifyCert ex_retry_def
        retry_attempts_Ok [of _ "()" ex_cert "()"] ret_def ex_verifier_def [of ex_kzg, THEN arg_cong, of kzgVerifier])
  have "\<And>cert b. rlpEncodeCert ex_codec cert = Inr b \<Longrightarrow> rlpDecodeCert ex_codec b = Inr cert"
    by (simp add: ex_codec_def split: if_splits)
  from V1_Put_then_Verify [OF put this] put show ?thesis
    by (auto simp: ex_codec_def ex_v1_def mapErr_eq_Ok ex_VerifyCert)
qed

text \<open>
  Oversized blobs. A V1 dispersal of a payload whose encoding exceeds the configured maximum is
  refused with HTTP status 400 before the disperser is called.
\<close>

theorem V1_Put_oversized:
  assumes "encodeBlob (client e) v = Inr blob"
    and "unat (cfgMaxBlobSizeBytes (storeConfig e)) < length blob"
  shows "\<exists>err. V1_Put fromError keccak abi opRetry retryDo codec e v w = (Err err, w) \<and>
     error_status fromError err = 400"
  using assms by (simp add: V1_Put_def act_simps)

theorem V1_Put_oversized_witness:
  "\<exists>err. V1_Put chain_code pad32 ex_abi (\<lambda>n m. m) ex_retry ex_codec ex_v1 [1, 2, 3, 4, 5] () = (Err err, ()) \<and>
     error_status chain_code err = 400"
  by (rule V1_Put_oversized [where blob = "[1, 2, 3, 4, 5]"]) (simp_all add: ex_v1_def)

end
