(* ===== verification/MemStore.thy ===== *)
theory MemStore
  imports Ephemeral_DB EigenDA_V1
begin

text \<open>
  The two in-memory backends (\<^verbatim>\<open>store/generated_key/memstore/memstore.go\<close> and \<^verbatim>\<open>v2/memstore.go\<close>): they
  encode the payload, make up a certificate around the real KZG commitment, and keep the encoded
  payload in the ephemeral database under the Keccak hash of the serialized certificate.

  \<^verbatim>\<open>crypto/rand\<close> is a random number generator in the state (\<open>rng\<close>) with the two operations the code
  calls (\<open>rand_api\<close>). The blob codec, RLP, Keccak, the commitment generation of the client library
  and the batch header hash are arguments.
\<close>

section \<open>State and randomness\<close>

record 'r mem_world = mem_state +
  rng :: 'r

text \<open>
  \<^verbatim>\<open>rand.Read(buf)\<close>: the buffer after the call, and an error if there was one. \<^verbatim>\<open>rand.Int(rand.Reader,
  max)\<close>: a number, or an error, in which case the pointer returned is nil.
\<close>

record 'r rand_api =
  randRead :: "nat \<Rightarrow> 'r \<Rightarrow> (go_error option \<times> bytes) \<times> 'r"
  randInt :: "nat \<Rightarrow> 'r \<Rightarrow> nat option \<times> 'r"

definition rand_documented :: "'r rand_api \<Rightarrow> bool" where
  "rand_documented R \<longleftrightarrow>
     (\<forall>n g. length (snd (fst (randRead R n g))) = n) \<and>
     (\<forall>m g. 0 < m \<longrightarrow> (case fst (randInt R m g) of None \<Rightarrow> False | Some i \<Rightarrow> i < m))"

record blob_codec =
  EncodeBlob :: "bytes \<Rightarrow> go_error + bytes"
  DecodeBlob :: "bytes \<Rightarrow> go_error + bytes"

definition rand_Read :: "'r rand_api \<Rightarrow> nat \<Rightarrow> ('r mem_world, bytes) goact" where
  "rand_Read R n s =
     (case randRead R n (rng s) of ((err, buf), g) \<Rightarrow>
        (case err of None \<Rightarrow> Ok buf | Some e \<Rightarrow> Err e, s\<lparr>rng := g\<rparr>))"

definition unsafeRandomBytes :: "'r rand_api \<Rightarrow> nat \<Rightarrow> ('r mem_world, bytes) goact" where
  "unsafeRandomBytes R n s =
     (case randRead R n (rng s) of ((err, buf), g) \<Rightarrow> (Ok buf, s\<lparr>rng := g\<rparr>))"

definition unsafeRandInt :: "'r rand_api \<Rightarrow> nat \<Rightarrow> ('r mem_world, nat option) goact" where
  "unsafeRandInt R m s = (case randInt R m (rng s) of (i, g) \<Rightarrow> (Ok i, s\<lparr>rng := g\<rparr>))"

text \<open>\<^verbatim>\<open>uint32(x.Uint64())\<close> of a possibly nil \<^verbatim>\<open>*big.Int\<close>.\<close>

definition bigint_uint32 :: "nat option \<Rightarrow> uint32 go" where
  "bigint_uint32 i = (case i of None \<Rightarrow> Panic | Some n \<Rightarrow> Ok (word_of_nat n))"

definition unsafeRandCeilAt32 :: "'r rand_api \<Rightarrow> ('r mem_world, uint32) goact" where
  "unsafeRandCeilAt32 R = andThen (unsafeRandInt R 32) (\<lambda>i. liftR (bigint_uint32 i))"

section \<open>V1\<close>

definition BytesPerFieldElement :: nat where
  "BytesPerFieldElement = 32"

definition generateRandomCert ::
  "'r rand_api \<Rightarrow> (bytes \<Rightarrow> bytes) \<Rightarrow> (bytes \<Rightarrow> nat \<Rightarrow> go_error + bytes) \<Rightarrow> kzg_api \<Rightarrow> bytes \<Rightarrow>
   ('r mem_world, Certificate) goact" where
  "generateRandomCert R keccak batchHeaderHash kzg blobValue =
     andThen (liftR (Commit kzg blobValue)) (\<lambda>commitment.
     andThen (rand_Read R 10) (\<lambda>entropy.
     let mockBatchRoot = keccak entropy in
     andThen (unsafeRandInt R 1000) (\<lambda>blockNum.
     andThen (liftR (bigint_uint32 blockNum)) (\<lambda>num.
     let header = \<lparr>BatchRoot = mockBatchRoot, QuorumNumbers = [1, 0],
           QuorumSignedPercentages = [0x60, 0x90], ReferenceBlockNumber = num\<rparr> in
     andThen (liftR (array32 mockBatchRoot)) (\<lambda>reducedRoot.
     andThen (mapErr (WrapError ''generating batch header hash'')
                (liftR (fromSum (batchHeaderHash reducedRoot (unat num))))) (\<lambda>headerHash.
     ret \<lparr>certBlobHeader = Some
            \<lparr>pbCommitment = Some \<lparr>commitX = fpMarshal kzg (fst commitment),
                                   commitY = fpMarshal kzg (snd commitment)\<rparr>,
             pbDataLength = word_of_nat ((length blobValue + BytesPerFieldElement - 1) div BytesPerFieldElement),
             pbBlobQuorumParams =
               [Some \<lparr>pbQuorumNumber = 1, pbAdversaryThresholdPercentage = 29,
                 pbConfirmationThresholdPercentage = 30, pbChunkLength = 300\<rparr>]\<rparr>,
          certBlobVerificationProof = Some
            \<lparr>BatchId = 69, proofBlobIndex = 420,
             proofBatchMetadata = Some
               \<lparr>metaBatchHeader = Some header, SignatoryRecordHash = mockBatchRoot, Fee = [0],
                ConfirmationBlockNumber = num, BatchHeaderHash = headerHash\<rparr>,
             InclusionProof = entropy, QuorumIndexes = [1, 0]\<rparr>\<rparr>))))))"

text \<open>The database operations on the store's state.\<close>

definition mem_insert ::
  "(go_error \<Rightarrow> go_error) \<Rightarrow> bytes \<Rightarrow> bytes \<Rightarrow> ('r mem_world, unit) goact" where
  "mem_insert nf key v s =
     (case InsertEntry nf (cfg s) (clock s) key v (db s) of (r, d) \<Rightarrow> (r, s\<lparr>db := d\<rparr>))"

definition mem_fetch :: "bytes \<Rightarrow> ('r mem_world, bytes) goact" where
  "mem_fetch key s = (FetchEntry key (db s), s)"

definition MemV1_Get ::
  "(bytes \<Rightarrow> bytes) \<Rightarrow> blob_codec \<Rightarrow> bytes \<Rightarrow> ('r mem_world, bytes) goact" where
  "MemV1_Get keccak codec commit =
     andThen (mapErr (WrapError ''fetching entry via v1 memstore'') (mem_fetch (keccak commit)))
       (\<lambda>encodedBlob. liftR (fromSum (DecodeBlob codec encodedBlob)))"

definition MemV1_Put ::
  "'r rand_api \<Rightarrow> (go_error \<Rightarrow> go_error) \<Rightarrow> (bytes \<Rightarrow> bytes) \<Rightarrow> (bytes \<Rightarrow> nat \<Rightarrow> go_error + bytes) \<Rightarrow>
   kzg_api \<Rightarrow> blob_codec \<Rightarrow> (Certificate \<Rightarrow> go_error + bytes) \<Rightarrow> bytes \<Rightarrow> ('r mem_world, bytes) goact" where
  "MemV1_Put R nf keccak batchHeaderHash kzg codec rlpEncode value =
     andThen (liftR (fromSum (EncodeBlob codec value))) (\<lambda>encodedVal.
     andThen (generateRandomCert R keccak batchHeaderHash kzg encodedVal) (\<lambda>cert.
     andThen (liftR (fromSum (rlpEncode cert))) (\<lambda>certBytes.
     andThen (mem_insert nf (keccak certBytes) encodedVal) (\<lambda>_.
     ret certBytes))))"

definition MemV1_Verify ::
  "bytes \<Rightarrow> bytes \<Rightarrow> CertVerificationOpts \<Rightarrow> ('r mem_world, unit) goact" where
  "MemV1_Verify cert payload opts = ret ()"

section \<open>V2\<close>

text \<open>The certificate type of the V3 bindings. A \<^verbatim>\<open>*big.Int\<close> is an option.\<close>

record G1PointB =
  g1X :: "nat option"
  g1Y :: "nat option"

record G2PointB =
  g2X :: "nat option list"
  g2Y :: "nat option list"

record BlobCommitmentV2 =
  LengthCommitment :: G2PointB
  LengthProof :: G2PointB
  v2Commitment :: G1PointB
  v2Length :: uint32

record BlobHeaderV2 =
  hdrVersion :: nat
  hdrQuorumNumbers :: bytes
  hdrV2Commitment :: BlobCommitmentV2
  PaymentHeaderHash :: bytes

record BlobCertificateV2 =
  certHeader :: BlobHeaderV2
  Signature :: bytes
  RelayKeys :: "uint32 list"

record BlobInclusionInfoV2 =
  BlobCertificate :: BlobCertificateV2
  v2BlobIndex :: uint32
  v2InclusionProof :: bytes

record BatchHeaderV2 =
  v2BatchRoot :: bytes
  v2ReferenceBlockNumber :: uint32

record NonSignerStakesAndSignature =
  NonSignerQuorumBitmapIndices :: "uint32 list"
  NonSignerPubkeys :: "G1PointB list"
  QuorumApks :: "G1PointB list"
  ApkG2 :: G2PointB
  QuorumApkIndices :: "uint32 list"
  TotalStakeIndices :: "uint32 list"
  NonSignerStakeIndices :: "uint32 list list"
  Sigma :: G1PointB

record EigenDACertV3 =
  v3BlobInclusionInfo :: BlobInclusionInfoV2
  v3BatchHeader :: BatchHeaderV2
  v3NonSigners :: NonSignerStakesAndSignature

definition rand_g1 :: "'r rand_api \<Rightarrow> ('r mem_world, G1PointB) goact" where
  "rand_g1 R = andThen (unsafeRandInt R 1000) (\<lambda>x. andThen (unsafeRandInt R 1000) (\<lambda>y.
     ret \<lparr>g1X = x, g1Y = y\<rparr>))"

definition rand_g2 :: "'r rand_api \<Rightarrow> nat \<Rightarrow> nat \<Rightarrow> nat \<Rightarrow> nat \<Rightarrow> ('r mem_world, G2PointB) goact" where
  "rand_g2 R a b c d =
     andThen (sequence [unsafeRandInt R a, unsafeRandInt R b]) (\<lambda>xs.
     andThen (sequence [unsafeRandInt R c, unsafeRandInt R d]) (\<lambda>ys.
     ret \<lparr>g2X = xs, g2Y = ys\<rparr>))"

definition randomBatchHeader :: "'r rand_api \<Rightarrow> ('r mem_world, BatchHeaderV2) goact" where
  "randomBatchHeader R =
     andThen (unsafeRandomBytes R 32) (\<lambda>batchRoot.
     andThen (unsafeRandCeilAt32 R) (\<lambda>r.
     ret \<lparr>v2BatchRoot = batchRoot, v2ReferenceBlockNumber = r + 4294967200\<rparr>))"

definition randomInclusionInfo ::
  "'r rand_api \<Rightarrow> nat \<times> nat \<Rightarrow> bytes \<Rightarrow> ('r mem_world, BlobInclusionInfoV2) goact" where
  "randomInclusionInfo R dataCommitment blobContents =
     andThen (rand_g2 R 1000 1000 1000 1000) (\<lambda>lengthCommitment.
     andThen (rand_g2 R 1 1 1 1) (\<lambda>lengthProof.
     andThen (unsafeRandomBytes R 32) (\<lambda>payment.
     andThen (unsafeRandomBytes R 48) (\<lambda>signature.
     andThen (sequence [unsafeRandCeilAt32 R, unsafeRandCeilAt32 R]) (\<lambda>relays.
     andThen (unsafeRandInt R 1000) (\<lambda>i.
     andThen (liftR (bigint_uint32 i)) (\<lambda>blobIndex.
     andThen (unsafeRandomBytes R 128) (\<lambda>inclusionProof.
     ret \<lparr>BlobCertificate =
            \<lparr>certHeader =
               \<lparr>hdrVersion = 0, hdrQuorumNumbers = [0, 1],
                hdrV2Commitment =
                  \<lparr>LengthCommitment = lengthCommitment, LengthProof = lengthProof,
                   v2Commitment = \<lparr>g1X = Some (fst dataCommitment), g1Y = Some (snd dataCommitment)\<rparr>,
                   v2Length = word_of_nat (length blobContents) div 32\<rparr>,
                PaymentHeaderHash = payment\<rparr>,
             Signature = signature, RelayKeys = relays\<rparr>,
          v2BlobIndex = blobIndex, v2InclusionProof = inclusionProof\<rparr>))))))))"

definition randomNonSigners :: "'r rand_api \<Rightarrow> ('r mem_world, NonSignerStakesAndSignature) goact" where
  "randomNonSigners R =
     (let ceil32 = unsafeRandCeilAt32 R in
      andThen (sequence [ceil32, ceil32]) (\<lambda>bitmaps.
      andThen (rand_g1 R) (\<lambda>pubkey.
      andThen (rand_g1 R) (\<lambda>apk.
      andThen (rand_g2 R 1000 10000 1000 1000) (\<lambda>apkG2.
      andThen (sequence [ceil32, ceil32]) (\<lambda>apkIndices.
      andThen (sequence [ceil32, ceil32, ceil32]) (\<lambda>totals.
      andThen (sequence [ceil32, ceil32]) (\<lambda>stakes1.
      andThen (sequence [ceil32, ceil32]) (\<lambda>stakes2.
      andThen (rand_g1 R) (\<lambda>sigma.
      ret \<lparr>NonSignerQuorumBitmapIndices = bitmaps, NonSignerPubkeys = [pubkey], QuorumApks = [apk],
           ApkG2 = apkG2, QuorumApkIndices = apkIndices, TotalStakeIndices = totals,
           NonSignerStakeIndices = [stakes1, stakes2], Sigma = sigma\<rparr>))))))))))"

definition generateRandomCertV2 ::
  "'r rand_api \<Rightarrow> (bytes \<Rightarrow> go_error + nat \<times> nat) \<Rightarrow> bytes \<Rightarrow> ('r mem_world, EigenDACertV3) goact" where
  "generateRandomCertV2 R generateBlobCommitment blobContents =
     andThen (liftR (fromSum (generateBlobCommitment blobContents))) (\<lambda>dataCommitment.
     andThen (randomInclusionInfo R dataCommitment blobContents) (\<lambda>inclusion.
     andThen (randomBatchHeader R) (\<lambda>header.
     andThen (randomNonSigners R) (\<lambda>nonSigners.
     ret \<lparr>v3BlobInclusionInfo = inclusion, v3BatchHeader = header, v3NonSigners = nonSigners\<rparr>))))"

definition MemV2_Get ::
  "(bytes \<Rightarrow> bytes) \<Rightarrow> blob_codec \<Rightarrow> VersionedCert \<Rightarrow> ('r mem_world, bytes) goact" where
  "MemV2_Get keccak codec versionedCert =
     andThen (mapErr (WrapError ''fetching entry via v2 memstore'')
                (mem_fetch (keccak (SerializedCert versionedCert))))
       (\<lambda>encodedBlob. liftR (fromSum (DecodeBlob codec encodedBlob)))"

definition MemV2_Put ::
  "'r rand_api \<Rightarrow> (go_error \<Rightarrow> go_error) \<Rightarrow> (bytes \<Rightarrow> bytes) \<Rightarrow> (bytes \<Rightarrow> go_error + nat \<times> nat) \<Rightarrow>
   blob_codec \<Rightarrow> (EigenDACertV3 \<Rightarrow> go_error + bytes) \<Rightarrow> bytes \<Rightarrow> ('r mem_world, bytes) goact" where
  "MemV2_Put R nf keccak generateBlobCommitment codec rlpEncode value =
     andThen (liftR (fromSum (EncodeBlob codec value))) (\<lambda>encodedVal.
     andThen (mapErr (WrapError ''generating random cert'')
                (generateRandomCertV2 R generateBlobCommitment encodedVal)) (\<lambda>artificialV2Cert.
     andThen (mapErr (WrapError ''rlp decode v2 cert'') (liftR (fromSum (rlpEncode artificialV2Cert))))
       (\<lambda>certBytes.
     andThen (mem_insert nf (keccak certBytes) encodedVal) (\<lambda>_.
     ret certBytes))))"

definition MemV2_Verify ::
  "VersionedCert \<Rightarrow> CertVerificationOpts \<Rightarrow> ('r mem_world, unit) goact" where
  "MemV2_Verify versionedCert opts = ret ()"

text \<open>The backends as interface values.\<close>

definition MemV1_store ::
  "'r rand_api \<Rightarrow> (go_error \<Rightarrow> go_error) \<Rightarrow> (bytes \<Rightarrow> bytes) \<Rightarrow> (bytes \<Rightarrow> nat \<Rightarrow> go_error + bytes) \<Rightarrow>
   kzg_api \<Rightarrow> blob_codec \<Rightarrow> (Certificate \<Rightarrow> go_error + bytes) \<Rightarrow> 'r mem_world EigenDAV1Store" where
  "MemV1_store R nf keccak batchHeaderHash kzg codec rlpEncode =
     \<lparr>v1Put = MemV1_Put R nf keccak batchHeaderHash kzg codec rlpEncode,
      v1Get = MemV1_Get keccak codec, v1Verify = MemV1_Verify, v1BackendType = MemstoreV1BackendType\<rparr>"

definition MemV2_store ::
  "'r rand_api \<Rightarrow> (go_error \<Rightarrow> go_error) \<Rightarrow> (bytes \<Rightarrow> bytes) \<Rightarrow> (bytes \<Rightarrow> go_error + nat \<times> nat) \<Rightarrow>
   blob_codec \<Rightarrow> (EigenDACertV3 \<Rightarrow> go_error + bytes) \<Rightarrow> 'r mem_world EigenDAV2Store" where
  "MemV2_store R nf keccak generateBlobCommitment codec rlpEncode =
     \<lparr>v2Put = MemV2_Put R nf keccak generateBlobCommitment codec rlpEncode,
      v2Get = MemV2_Get keccak codec, v2Verify = MemV2_Verify, v2BackendType = MemstoreV2BackendType\<rparr>"

section \<open>Making certificates does not touch the database\<close>

definition mem_of :: "'r mem_world \<Rightarrow> mem_state" where
  "mem_of s = \<lparr>cfg = cfg s, db = db s, clock = clock s\<rparr>"

lemma mem_of_sel [simp]:
  "cfg (mem_of s) = cfg s" "db (mem_of s) = db s" "clock (mem_of s) = clock s"
  by (simp_all add: mem_of_def)

lemma mem_of_rng [simp]: "mem_of (s\<lparr>rng := g\<rparr>) = mem_of s"
  by (simp add: mem_of_def)

definition keeps_mem :: "('r mem_world, 'a) goact \<Rightarrow> bool" where
  "keeps_mem m \<longleftrightarrow> (\<forall>s. mem_of (snd (m s)) = mem_of s)"

named_theorems keeps_intros \<open>actions that leave the database, its configuration and the clock alone\<close>

lemma keeps_memD: "keeps_mem m \<Longrightarrow> m s = (r, s') \<Longrightarrow> mem_of s' = mem_of s"
  by (metis keeps_mem_def snd_conv)

lemma keeps_andThen [keeps_intros]:
  "keeps_mem m \<Longrightarrow> (\<And>a. keeps_mem (f a)) \<Longrightarrow> keeps_mem (andThen m f)"
  unfolding keeps_mem_def andThen_def by (auto split: prod.splits result.splits) (metis snd_conv)+

lemma keeps_mapErr [keeps_intros]: "keeps_mem m \<Longrightarrow> keeps_mem (mapErr g m)"
  unfolding keeps_mem_def mapErr_def by (auto split: prod.splits result.splits) (metis snd_conv)+

lemma keeps_pure [keeps_intros]: "keeps_mem (ret a)" "keeps_mem (liftR r)" "keeps_mem (throw e)"
  by (simp_all add: keeps_mem_def act_simps)

lemma keeps_rand [keeps_intros]:
  "keeps_mem (rand_Read R n)" "keeps_mem (unsafeRandomBytes R n)" "keeps_mem (unsafeRandInt R m)"
  by (auto simp: keeps_mem_def rand_Read_def unsafeRandomBytes_def unsafeRandInt_def split: prod.splits)

lemma keeps_ceil32 [keeps_intros]: "keeps_mem (unsafeRandCeilAt32 R)"
  unfolding unsafeRandCeilAt32_def by (intro keeps_intros)

lemma keeps_sequence: "(\<And>m. m \<in> set ms \<Longrightarrow> keeps_mem m) \<Longrightarrow> keeps_mem (sequence ms)"
  by (induction ms) (auto intro!: keeps_intros)

lemma keeps_sequence2 [keeps_intros]:
  "keeps_mem a \<Longrightarrow> keeps_mem b \<Longrightarrow> keeps_mem (sequence [a, b])"
  "keeps_mem a \<Longrightarrow> keeps_mem b \<Longrightarrow> keeps_mem c \<Longrightarrow> keeps_mem (sequence [a, b, c])"
  by (rule keeps_sequence; auto)+

lemma keeps_g1 [keeps_intros]: "keeps_mem (rand_g1 R)"
  unfolding rand_g1_def by (intro keeps_intros)

lemma keeps_g2 [keeps_intros]: "keeps_mem (rand_g2 R a b c d)"
  unfolding rand_g2_def by (intro keeps_intros)

lemma keeps_batchHeader [keeps_intros]: "keeps_mem (randomBatchHeader R)"
  unfolding randomBatchHeader_def by (intro keeps_intros)

lemma keeps_inclusionInfo [keeps_intros]: "keeps_mem (randomInclusionInfo R c blob)"
  unfolding randomInclusionInfo_def by (intro keeps_intros)

lemma keeps_nonSigners [keeps_intros]: "keeps_mem (randomNonSigners R)"
  unfolding randomNonSigners_def Let_def by (intro keeps_intros)

lemma keeps_generateRandomCert: "keeps_mem (generateRandomCert R k h kzg blob)"
  unfolding generateRandomCert_def Let_def by (intro keeps_intros)

lemma keeps_generateRandomCertV2: "keeps_mem (generateRandomCertV2 R gc blob)"
  unfolding generateRandomCertV2_def by (intro keeps_intros)

section \<open>Generated-key stores\<close>

text \<open>
  The contract of a backend that makes its own key: after a successful \<^verbatim>\<open>Put\<close> the state holds the
  encoding of the payload under the returned key (\<open>held\<close>), \<^verbatim>\<open>Get\<close> decodes what is held, and no
  insertion, successful or not, disturbs what is held.
\<close>

locale generated_key_store =
  fixes put :: "bytes \<Rightarrow> ('s, bytes) goact"
    and get :: "bytes \<Rightarrow> ('s, bytes) goact"
    and held :: "'s \<Rightarrow> bytes \<Rightarrow> bytes \<Rightarrow> bool"
    and encode :: "bytes \<Rightarrow> go_error + bytes"
    and decode :: "bytes \<Rightarrow> go_error + bytes"
  assumes put_held: "put v s = (Ok c, s') \<Longrightarrow> \<exists>b. encode v = Inr b \<and> held s' c b"
    and get_held: "held s c b \<Longrightarrow> get c s = (fromSum (decode b), s)"
    and put_keeps: "held s c b \<Longrightarrow> put v s = (r, s') \<Longrightarrow> held s' c b"
begin

lemma puts_keep:
  "held s c b \<Longrightarrow> held (fold (\<lambda>v s. snd (put v s)) vs s) c b"
  by (induction vs arbitrary: s) (auto simp: put_keeps [OF _ surjective_pairing])

text \<open>With a codec that decodes what it encoded, a payload is read back after any later insertions.\<close>

lemma put_puts_get:
  assumes "put v s = (Ok c, s1)" and "\<And>b. encode v = Inr b \<Longrightarrow> decode b = Inr v"
    and "fold (\<lambda>v s. snd (put v s)) vs s1 = s2"
  shows "get c s2 = (Ok v, s2)"
proof -
  from assms(1) obtain b where b: "encode v = Inr b" "held s1 c b" using put_held by blast
  have "held s2 c b" using puts_keep [OF b(2), of vs] assms(3) by simp
  then show ?thesis using b(1) assms(2) by (simp add: get_held)
qed

end

lemma mem_insert_Ok:
  assumes "mem_insert nf k v s = (Ok (), s')"
  shows "store (db s') k = Some v"
    "keyStarts (db s') k = (if BlobExpiration (cfg s) > 0 then Some (clock s) else keyStarts (db s) k)"
    "store (db s) k = None" "length v \<le> unat (MaxBlobSizeBytes (cfg s))"
  using assms by (auto simp: mem_insert_def InsertEntry_Ok_iff split: prod.splits)

lemma mem_insert_keeps:
  "mem_insert nf k v s = (r, s') \<Longrightarrow> store (db s) k' = Some b \<Longrightarrow> store (db s') k' = Some b"
  by (auto simp: mem_insert_def dest: InsertEntry_never_overwrites split: prod.splits)

lemma MemV1_Put_Ok:
  assumes "MemV1_Put R nf keccak bhh kzg codec rlp v s = (Ok c, s')"
  shows "\<exists>b s1. EncodeBlob codec v = Inr b \<and> mem_of s1 = mem_of s \<and>
     mem_insert nf (keccak c) b s1 = (Ok (), s')"
  using assms keeps_memD [OF keeps_generateRandomCert [of R keccak bhh kzg]]
  by (auto simp: MemV1_Put_def run_Ok) metis

lemma MemV2_Put_Ok:
  assumes "MemV2_Put R nf keccak gc codec rlp v s = (Ok c, s')"
  shows "\<exists>b s1. EncodeBlob codec v = Inr b \<and> mem_of s1 = mem_of s \<and>
     mem_insert nf (keccak c) b s1 = (Ok (), s')"
  using assms keeps_memD [OF keeps_generateRandomCertV2 [of R gc]]
  by (auto simp: MemV2_Put_def run_Ok) metis

definition keeps_entry :: "bytes \<Rightarrow> bytes \<Rightarrow> ('r mem_world, 'a) goact \<Rightarrow> bool" where
  "keeps_entry k b m \<longleftrightarrow> (\<forall>s. store (db s) k = Some b \<longrightarrow> store (db (snd (m s))) k = Some b)"

lemma keeps_entry_mem: "keeps_mem m \<Longrightarrow> keeps_entry k b m"
  by (metis keeps_entry_def keeps_mem_def mem_of_sel(2))

lemma keeps_entry_insert: "keeps_entry k b (mem_insert nf k' v)"
  using mem_insert_keeps by (metis keeps_entry_def surjective_pairing)

lemma keeps_entry_andThen:
  "keeps_entry k b m \<Longrightarrow> (\<And>a. keeps_entry k b (f a)) \<Longrightarrow> keeps_entry k b (andThen m f)"
  unfolding keeps_entry_def andThen_def by (auto split: prod.splits result.splits)

lemma keeps_entryD:
  "keeps_entry k b m \<Longrightarrow> store (db s) k = Some b \<Longrightarrow> m s = (r, s') \<Longrightarrow> store (db s') k = Some b"
  by (metis keeps_entry_def snd_conv)

lemma MemV1_Put_keeps: "keeps_entry k b (MemV1_Put R nf keccak bhh kzg codec rlp v)"
  unfolding MemV1_Put_def
  by (intro keeps_entry_andThen keeps_entry_insert keeps_entry_mem keeps_intros keeps_generateRandomCert)

lemma MemV2_Put_keeps: "keeps_entry k b (MemV2_Put R nf keccak gc codec rlp v)"
  unfolding MemV2_Put_def
  by (intro keeps_entry_andThen keeps_entry_insert keeps_entry_mem keeps_intros keeps_generateRandomCertV2)

interpretation mem_v1: generated_key_store "MemV1_Put R nf keccak bhh kzg codec rlp"
  "MemV1_Get keccak codec" "\<lambda>s c b. store (db s) (keccak c) = Some b" "EncodeBlob codec" "DecodeBlob codec"
  for R nf keccak bhh kzg codec rlp
proof unfold_locales
  show "MemV1_Put R nf keccak bhh kzg codec rlp v s = (Ok c, s') \<Longrightarrow>
      \<exists>b. EncodeBlob codec v = Inr b \<and> store (db s') (keccak c) = Some b" for v s c s'
    using MemV1_Put_Ok mem_insert_Ok(1) by blast
  show "store (db s) (keccak c) = Some b \<Longrightarrow> MemV1_Get keccak codec c s = (fromSum (DecodeBlob codec b), s)"
    for s :: "'a mem_world" and c b
    by (simp add: MemV1_Get_def mem_fetch_def FetchEntry_def act_simps)
qed (rule keeps_entryD [OF MemV1_Put_keeps])

interpretation mem_v2: generated_key_store "MemV2_Put R nf keccak gc codec rlp"
  "\<lambda>c. MemV2_Get keccak codec (NewVersionedCert c version)"
  "\<lambda>s c b. store (db s) (keccak c) = Some b" "EncodeBlob codec" "DecodeBlob codec"
  for R nf keccak gc codec rlp version
proof unfold_locales
  show "MemV2_Put R nf keccak gc codec rlp v s = (Ok c, s') \<Longrightarrow>
      \<exists>b. EncodeBlob codec v = Inr b \<and> store (db s') (keccak c) = Some b" for v s c s'
    using MemV2_Put_Ok mem_insert_Ok(1) by blast
  show "store (db s) (keccak c) = Some b \<Longrightarrow>
      MemV2_Get keccak codec (NewVersionedCert c version) s = (fromSum (DecodeBlob codec b), s)"
    for s :: "'a mem_world" and c b
    by (simp add: MemV2_Get_def NewVersionedCert_def mem_fetch_def FetchEntry_def act_simps)
qed (rule keeps_entryD [OF MemV2_Put_keeps])

section \<open>Certificates are always made\<close>

declare sequence.simps [simp del]

definition total_act :: "('s, 'a) goact \<Rightarrow> ('a \<Rightarrow> bool) \<Rightarrow> bool" where
  "total_act m P \<longleftrightarrow> (\<forall>s. \<exists>a s'. m s = (Ok a, s') \<and> P a)"

named_theorems total_intros \<open>actions that always return a value with a property\<close>

lemma total_andThen [total_intros]:
  assumes "total_act m P" and "\<And>a. P a \<Longrightarrow> total_act (f a) Q"
  shows "total_act (andThen m f) Q"
  unfolding total_act_def
proof
  fix s
  obtain a s' where a: "m s = (Ok a, s')" "P a" using assms(1) unfolding total_act_def by blast
  then obtain b s'' where "f a s' = (Ok b, s'')" "Q b" using assms(2) unfolding total_act_def by blast
  with a show "\<exists>b s''. andThen m f s = (Ok b, s'') \<and> Q b" by simp
qed

lemma total_ret [total_intros]: "P a \<Longrightarrow> total_act (ret a) P"
  by (simp add: total_act_def ret_def)

lemma total_bytes [total_intros]:
  assumes "rand_documented R"
  shows "total_act (unsafeRandomBytes R n) (\<lambda>b. length b = n)"
  unfolding total_act_def
proof
  fix s :: "'a mem_world"
  obtain err buf g where r: "randRead R n (rng s) = ((err, buf), g)" by (metis surj_pair)
  with assms have "length buf = n" unfolding rand_documented_def by (metis fst_conv snd_conv)
  with r show "\<exists>b s'. unsafeRandomBytes R n s = (Ok b, s') \<and> length b = n"
    by (simp add: unsafeRandomBytes_def)
qed

lemma total_int:
  assumes "rand_documented R" and "0 < m"
  shows "total_act (unsafeRandInt R m) (\<lambda>i. \<exists>n < m. i = Some n)"
  unfolding total_act_def
proof
  fix s :: "'a mem_world"
  obtain i g where r: "randInt R m (rng s) = (i, g)" by (metis surj_pair)
  have "case fst (randInt R m (rng s)) of None \<Rightarrow> False | Some i \<Rightarrow> i < m"
    using assms unfolding rand_documented_def by blast
  with r have "\<exists>n < m. i = Some n" by (cases i) simp_all
  with r show "\<exists>i s'. unsafeRandInt R m s = (Ok i, s') \<and> (\<exists>n < m. i = Some n)"
    by (simp add: unsafeRandInt_def)
qed

lemma total_any [total_intros]: "total_act m P \<Longrightarrow> total_act m (\<lambda>_. True)"
  by (fastforce simp: total_act_def)

lemma total_ceil32 [total_intros]:
  assumes "rand_documented R"
  shows "total_act (unsafeRandCeilAt32 R) (\<lambda>w. unat w < 32)"
  unfolding unsafeRandCeilAt32_def
  by (rule total_andThen [OF total_int [OF assms, of 32]])
     (auto simp: total_act_def liftR_def bigint_uint32_def unat_of_nat take_bit_nat_eq_self)

lemma total_sequence [total_intros]:
  "(\<And>m. m \<in> set ms \<Longrightarrow> total_act m P) \<Longrightarrow>
     total_act (sequence ms) (\<lambda>xs. length xs = length ms \<and> (\<forall>x \<in> set xs. P x))"
proof (induction ms)
  case (Cons m ms)
  have "total_act (sequence ms) (\<lambda>xs. length xs = length ms \<and> (\<forall>x \<in> set xs. P x))" using Cons by simp
  then show ?case
    unfolding sequence.simps
    by (intro total_andThen [of m P] total_andThen [of "sequence ms"
          "\<lambda>xs. length xs = length ms \<and> (\<forall>x \<in> set xs. P x)"] total_ret Cons.prems) auto
qed (simp add: total_act_def ret_def sequence.simps)

lemma total_g1: "rand_documented R \<Longrightarrow> total_act (rand_g1 R) (\<lambda>_. True)"
  unfolding rand_g1_def by (rule total_andThen [OF total_int], simp_all)+ (simp add: total_ret)

lemma total_ints2:
  "rand_documented R \<Longrightarrow> 0 < a \<Longrightarrow> 0 < b \<Longrightarrow>
     total_act (sequence [unsafeRandInt R a, unsafeRandInt R b]) (\<lambda>_. True)"
  by (rule total_any, rule total_sequence [where P = "\<lambda>_. True"]) (auto intro: total_any total_int)

lemma total_ceils:
  "rand_documented R \<Longrightarrow> set ms \<subseteq> {unsafeRandCeilAt32 R} \<Longrightarrow> total_act (sequence ms) (\<lambda>_. True)"
  by (rule total_any, rule total_sequence [where P = "\<lambda>_. True"]) (auto intro: total_any total_ceil32)

lemma total_g2:
  "rand_documented R \<Longrightarrow> 0 < a \<Longrightarrow> 0 < b \<Longrightarrow> 0 < c \<Longrightarrow> 0 < d \<Longrightarrow> total_act (rand_g2 R a b c d) (\<lambda>_. True)"
  unfolding rand_g2_def
  by (rule total_andThen [OF total_ints2], simp_all)+ (simp add: total_ret)

lemma total_inclusionInfo:
  assumes "rand_documented R"
  shows "total_act (randomInclusionInfo R xy blob) (\<lambda>info. length (v2InclusionProof info) = 128 \<and>
     v2Length (hdrV2Commitment (certHeader (BlobCertificate info))) = word_of_nat (length blob) div 32)"
  unfolding randomInclusionInfo_def
  by (rule total_andThen [OF total_g2 [OF assms]] total_andThen [OF total_bytes [OF assms]]
        total_andThen [OF total_ceils [OF assms]] total_andThen [OF total_int [OF assms]]
        total_andThen [where P = "\<lambda>_. True" and m = "liftR _"] total_ret |
      force simp: total_act_def liftR_def bigint_uint32_def)+

lemma total_batchHeader:
  assumes "rand_documented R"
  shows "total_act (randomBatchHeader R) (\<lambda>h. length (v2BatchRoot h) = 32 \<and>
     4294967200 \<le> unat (v2ReferenceBlockNumber h) \<and> unat (v2ReferenceBlockNumber h) < 4294967232)"
  unfolding randomBatchHeader_def
  by (rule total_andThen [OF total_bytes [OF assms]], rule total_andThen [OF total_ceil32 [OF assms]],
      rule total_ret) (simp add: unat_word_ariths)

lemma total_nonSigners:
  assumes "rand_documented R"
  shows "total_act (randomNonSigners R) (\<lambda>_. True)"
  unfolding randomNonSigners_def Let_def
  by (rule total_andThen [OF total_ceils [OF assms]] total_andThen [OF total_g1 [OF assms]]
        total_andThen [OF total_g2 [OF assms]] total_ret | simp)+

lemma mem_entry_stays:
  assumes "mem_insert nf k b s = (Ok (), s1)" and "BlobExpiration (cfg s) \<le> 0" and "mem_inv (mem_of s)"
    and "mem_steps nf' pd (mem_of s1) (mem_of s2)"
  shows "store (db s2) k = Some b"
proof -
  have "keyStarts (db s) k = None"
    using assms(3) mem_insert_Ok(3) [OF assms(1)] by (fastforce simp: mem_inv_def tracked_stored_def)
  with mem_insert_Ok(1,2) [OF assms(1)] assms(2) have "store (db (mem_of s1)) k = Some b"
    "keyStarts (db (mem_of s1)) k = None" by simp_all
  from mem_steps_untracked [OF assms(4) this] show ?thesis by simp
qed

lemma generateRandomCertV2_makes:
  assumes "rand_documented R" and "gc blob = Inr xy"
  shows "\<exists>cert s'. generateRandomCertV2 R gc blob s = (Ok cert, s') \<and> mem_of s' = mem_of s \<and>
     4294967200 \<le> unat (v2ReferenceBlockNumber (v3BatchHeader cert)) \<and>
     unat (v2ReferenceBlockNumber (v3BatchHeader cert)) < 4294967232 \<and>
     length (v2BatchRoot (v3BatchHeader cert)) = 32 \<and>
     length (v2InclusionProof (v3BlobInclusionInfo cert)) = 128"
proof -
  have "total_act (generateRandomCertV2 R gc blob) (\<lambda>cert.
     4294967200 \<le> unat (v2ReferenceBlockNumber (v3BatchHeader cert)) \<and>
     unat (v2ReferenceBlockNumber (v3BatchHeader cert)) < 4294967232 \<and>
     length (v2BatchRoot (v3BatchHeader cert)) = 32 \<and>
     length (v2InclusionProof (v3BlobInclusionInfo cert)) = 128)"
    unfolding generateRandomCertV2_def
    by (rule total_andThen [where P = "\<lambda>_. True" and m = "liftR _"],
        simp add: total_act_def liftR_def assms(2),
        rule total_andThen [OF total_inclusionInfo [OF assms(1)]],
        rule total_andThen [OF total_batchHeader [OF assms(1)]],
        rule total_andThen [OF total_nonSigners [OF assms(1)]],
        rule total_ret) simp
  then show ?thesis
    using keeps_memD [OF keeps_generateRandomCertV2 [of R gc blob]] unfolding total_act_def by blast
qed

lemma MemV2_Put_serialized:
  "MemV2_Put R nf keccak gc codec rlp v s = (Ok c, s1) \<Longrightarrow> \<exists>cert. rlp cert = Inr c"
  by (auto simp: MemV2_Put_def run_Ok)

lemma MemV2_payload_stays:
  assumes "MemV2_Put R nf keccak gc codec rlp v s = (Ok c, s1)"
    and "BlobExpiration (cfg s) \<le> 0" and "mem_inv (mem_of s)"
    and "mem_steps nf' pd (mem_of s1) (mem_of s2)"
  shows "\<exists>b. EncodeBlob codec v = Inr b \<and> store (db s2) (keccak c) = Some b"
proof -
  from MemV2_Put_Ok [OF assms(1)] obtain b s0 where b: "EncodeBlob codec v = Inr b"
    "mem_of s0 = mem_of s" "mem_insert nf (keccak c) b s0 = (Ok (), s1)" by blast
  have "BlobExpiration (cfg s0) \<le> 0" using assms(2) b(2) by (metis mem_of_sel(1))
  with mem_entry_stays [OF b(3) _ _ assms(4)] assms(3) b(1,2) show ?thesis by simp
qed

section \<open>Properties\<close>

text \<open>
  V2 memstore round trip. If \<^verbatim>\<open>Put\<close> of a payload returns a certificate while no expiration is
  configured, then from then on, over any interleaving of other insertions, configuration patches,
  pruning iterations and the passing of time, \<^verbatim>\<open>Get\<close> of that certificate under any version byte
  returns the payload, provided the blob codec decodes what it encoded.
\<close>

theorem MemV2_roundtrip:
  assumes "MemV2_Put R nf keccak gc codec rlp v s = (Ok c, s1)"
    and "BlobExpiration (cfg s) \<le> 0" and "mem_inv (mem_of s)"
    and "\<And>b. EncodeBlob codec v = Inr b \<Longrightarrow> DecodeBlob codec b = Inr v"
    and "mem_steps nf' pd (mem_of s1) (mem_of s2)"
  shows "MemV2_Get keccak codec (NewVersionedCert c version) s2 = (Ok v, s2)"
  using MemV2_payload_stays [OF assms(1,2,3,5)] assms(4) mem_v2.get_held by fastforce

text \<open>A generator of zeros, a trivial codec and a fixed serialization, for examples.\<close>

definition ex_rand :: "unit rand_api" where
  "ex_rand = \<lparr>randRead = (\<lambda>n g. ((None, replicate n 0), g)), randInt = (\<lambda>m g. (Some 0, g))\<rparr>"

definition ex_blob_codec :: blob_codec where
  "ex_blob_codec = \<lparr>EncodeBlob = Inr, DecodeBlob = Inr\<rparr>"

definition ex_mem :: "unit mem_world" where
  "ex_mem = \<lparr>cfg = SetBlobExpiration 0 ex_memconfig, db = DB_New (SetBlobExpiration 0 ex_memconfig),
             clock = 0, rng = ()\<rparr>"

lemma ex_rand_documented [simp]: "rand_documented ex_rand"
  by (simp add: rand_documented_def ex_rand_def)

text \<open>
  The certificates of the V2 memstore. With a random source that behaves as documented and a blob
  that can be committed to, a certificate is always made, the database is left alone, and the
  reference block number lies between 4294967200 and 4294967231: the 32-bit addition does not wrap.
\<close>

theorem generateRandomCertV2_reference_block:
  assumes "rand_documented R" and "gc blob = Inr xy"
  shows "\<exists>cert s'. generateRandomCertV2 R gc blob s = (Ok cert, s') \<and> mem_of s' = mem_of s \<and>
     4294967200 \<le> unat (v2ReferenceBlockNumber (v3BatchHeader cert)) \<and>
     unat (v2ReferenceBlockNumber (v3BatchHeader cert)) < 4294967232 \<and>
     length (v2BatchRoot (v3BatchHeader cert)) = 32 \<and>
     length (v2InclusionProof (v3BlobInclusionInfo cert)) = 128"
  using assms by (rule generateRandomCertV2_makes)

theorem generateRandomCertV2_reference_block_witness:
  "\<exists>cert s'. generateRandomCertV2 ex_rand (\<lambda>b. Inr (1, 2)) [1] ex_mem = (Ok cert, s') \<and>
     4294967200 \<le> unat (v2ReferenceBlockNumber (v3BatchHeader cert))"
  using generateRandomCertV2_reference_block [of ex_rand "\<lambda>b. Inr (1, 2)" "[1]" "(1, 2)" ex_mem]
  by auto

text \<open>
  C30: later dispersals never disturb a V1 memstore certificate. After a successful \<^verbatim>\<open>Put\<close>, and after
  any sequence of further \<^verbatim>\<open>Put\<close> calls, successful or not, \<^verbatim>\<open>Get\<close> of the first certificate returns the
  first payload, provided the blob codec decodes what it encoded.
\<close>

theorem MemV1_puts_then_get:
  assumes "MemV1_Put R nf keccak bhh kzg codec rlp v s = (Ok c, s1)"
    and "\<And>b. EncodeBlob codec v = Inr b \<Longrightarrow> DecodeBlob codec b = Inr v"
    and "fold (\<lambda>v s. snd (MemV1_Put R nf keccak bhh kzg codec rlp v s)) vs s1 = s2"
  shows "MemV1_Get keccak codec c s2 = (Ok v, s2)"
  using mem_v1.put_puts_get [OF assms] .

lemma ex_MemV1_Put:
  "\<exists>s1. MemV1_Put ex_rand id pad32 (\<lambda>r n. Inr r) ex_kzg ex_blob_codec (\<lambda>c. Inr [1]) [7] ex_mem = (Ok [1], s1)"
proof -
  have "\<exists>cert. generateRandomCert ex_rand pad32 (\<lambda>r n. Inr r) ex_kzg [7] ex_mem = (Ok cert, ex_mem)"
    by (simp add: generateRandomCert_def Let_def run_Ok rand_Read_def unsafeRandInt_def ex_rand_def ex_mem_def
        Commit_def ex_kzg_def bigint_uint32_def array32_def pad32_def)
  then obtain cert where "generateRandomCert ex_rand pad32 (\<lambda>r n. Inr r) ex_kzg [7] ex_mem = (Ok cert, ex_mem)" ..
  then show ?thesis
    by (simp add: MemV1_Put_def run_Ok ex_blob_codec_def mem_insert_def)
       (simp add: InsertEntry_def ex_mem_def DB_New_def SetBlobExpiration_def ex_memconfig_def)
qed

theorem MemV1_puts_then_get_witness:
  "\<exists>s2. MemV1_Get pad32 ex_blob_codec [1] s2 = (Ok [7], (s2 :: unit mem_world))"
proof -
  obtain s1 where s1: "MemV1_Put ex_rand id pad32 (\<lambda>r n. Inr r) ex_kzg ex_blob_codec (\<lambda>c. Inr [1]) [7] ex_mem
      = (Ok [1], s1)"
    using ex_MemV1_Put by blast
  have "MemV1_Get pad32 ex_blob_codec [1] s2 = (Ok [7], s2)"
    if "fold (\<lambda>v s. snd (MemV1_Put ex_rand id pad32 (\<lambda>r n. Inr r) ex_kzg ex_blob_codec (\<lambda>c. Inr [1]) v s))
      [[8], [9]] s1 = s2" for s2
    by (rule MemV1_puts_then_get [OF s1 _ that]) (simp add: ex_blob_codec_def)
  then show ?thesis by blast
qed

lemma ex_MemV2_Put:
  "\<exists>s0. mem_of s0 = mem_of ex_mem \<and>
     MemV2_Put ex_rand id pad32 (\<lambda>b. Inr (1, 2)) ex_blob_codec (\<lambda>c. Inr r) [7] ex_mem =
       (Ok r, s0\<lparr>db := (db s0)\<lparr>store := (store (db s0))(pad32 r \<mapsto> [7])\<rparr>\<rparr>)"
proof -
  obtain cert s0 where g: "generateRandomCertV2 ex_rand (\<lambda>b. Inr (1, 2)) [7] ex_mem = (Ok cert, s0)"
    "mem_of s0 = mem_of ex_mem"
    using generateRandomCertV2_makes [of ex_rand "\<lambda>b. Inr (1, 2)" "[7]" "(1, 2)" ex_mem] by auto
  have m: "db s0 = DB_New (SetBlobExpiration 0 ex_memconfig)" "cfg s0 = SetBlobExpiration 0 ex_memconfig"
    "clock s0 = 0"
    using g(2) by (simp_all add: mem_of_def ex_mem_def)
  have "MemV2_Put ex_rand id pad32 (\<lambda>b. Inr (1, 2)) ex_blob_codec (\<lambda>c. Inr r) [7] ex_mem =
      (Ok r, s0\<lparr>db := (db s0)\<lparr>store := (store (db s0))(pad32 r \<mapsto> [7])\<rparr>\<rparr>)"
    using g(1) by (simp add: MemV2_Put_def run_Ok ex_blob_codec_def mem_insert_def)
      (simp add: InsertEntry_def m DB_New_def SetBlobExpiration_def ex_memconfig_def Let_def)
  with g(2) show ?thesis by blast
qed

lemma ex_mem_inv: "mem_inv (mem_of ex_mem)"
  by (simp add: mem_inv_def tracked_stored_def ex_mem_def DB_New_def)

theorem MemV2_roundtrip_witness:
  "\<exists>s1. MemV2_Put ex_rand id pad32 (\<lambda>b. Inr (1, 2)) ex_blob_codec (\<lambda>c. Inr [1]) [7] ex_mem = (Ok [1], s1) \<and>
     MemV2_Get pad32 ex_blob_codec (NewVersionedCert [1] V2VersionByte) (s1\<lparr>clock := 100\<rparr>) =
       (Ok [7], s1\<lparr>clock := 100\<rparr>)"
proof -
  obtain s0 s1 where m: "mem_of s0 = mem_of ex_mem"
    and s1: "s1 = s0\<lparr>db := (db s0)\<lparr>store := (store (db s0))(pad32 [1] \<mapsto> [7])\<rparr>\<rparr>"
    and put: "MemV2_Put ex_rand id pad32 (\<lambda>b. Inr (1, 2)) ex_blob_codec (\<lambda>c. Inr [1]) [7] ex_mem = (Ok [1], s1)"
    using ex_MemV2_Put by blast
  have "clock s1 = 0" using m s1 by (simp add: mem_of_def ex_mem_def)
  then have "mem_step id (\<lambda>s. Inl (ErrorString s)) (mem_of s1) ((mem_of s1)\<lparr>clock := 100\<rparr>)"
    by (intro mem_step.tick) simp
  then have st: "mem_steps id (\<lambda>s. Inl (ErrorString s)) (mem_of s1) (mem_of (s1\<lparr>clock := 100\<rparr>))"
    by (intro mem_steps.step [OF mem_steps.refl]) (simp add: mem_of_def)
  from MemV2_roundtrip [OF put _ ex_mem_inv _ st, of V2VersionByte] put show ?thesis
    by (auto simp: ex_blob_codec_def ex_mem_def SetBlobExpiration_def)
qed

end
