(* ===== verification/Builder.thy ===== *)
theory Builder
  imports Config Manager EigenDA_V1 EigenDA_V2 MemStore
begin

text \<open>
  Building the storage manager from a configuration (\<^verbatim>\<open>store/builder/storage_manager_builder.go\<close>).

  The constructors of the client libraries are fields of \<open>builder_api\<close>; what they make is opaque (\<open>'x\<close>) apart
  from the calls the stores later make on it. They may do I/O, so they are actions on the world. A memstore lives
  in a part of the world (\<open>mem_lens\<close>); the configuration it is given may be shared with another one. Goroutines that
  \<^verbatim>\<open>BuildStoreManager\<close> starts may or may not have begun to run when it returns: \<open>scheduled\<close> says how many have.
\<close>

section \<open>What the builder calls\<close>

record ('w, 'r) mem_lens =
  getMem :: "'w \<Rightarrow> 'r mem_world"
  putMem :: "'r mem_world \<Rightarrow> 'w \<Rightarrow> 'w"

record ('w, 'x, 'o, 'c2, 'c3, 'r) builder_api =
  apiFromError :: "go_error \<Rightarrow> grpc_code option"
  apiErrorText :: "go_error \<Rightarrow> string"
  apiRpcErrorCode :: "go_error \<Rightarrow> int option"
  apiKeccak :: "bytes \<Rightarrow> bytes"
  apiOpRetryUnit :: "nat \<Rightarrow> ('w, unit) goact \<Rightarrow> ('w, unit) goact"
  apiMinioNew :: "string \<Rightarrow> credentials \<Rightarrow> bool \<Rightarrow> go_error + ('w, 'o) s3_client"
  apiRedisNew :: "RedisConfig \<Rightarrow> 'w redis_client"
  apiKzgVerifier :: "KzgConfig \<Rightarrow> ('w, kzg_api) goact"
  apiProver :: "KzgConfig \<Rightarrow> ('w, 'x) goact"
  apiSrsG1 :: "'x \<Rightarrow> 'x"
  apiDial :: "string \<Rightarrow> string + 'x"
  apiBindSvcManager :: "'x \<Rightarrow> string \<Rightarrow> go_error + 'w EthNode"
  apiReaderOf :: "'w EthNode \<Rightarrow> 'w SecurityParamReader"
  apiVerifierV1 :: "'w EthNode \<Rightarrow> string \<Rightarrow> go_error + 'w SecurityParamReader"
  apiEigenDAClient :: "EigenDAClientConfig \<Rightarrow> ('w, 'w V1Client) goact"
  apiAbi :: abi_api
  apiOpRetry :: "'w op_retry"
  apiRetryV1 :: "('w, Certificate) go_retry"
  apiCodecV1 :: v1_codec
  apiRand :: "'r rand_api"
  apiNotFound :: "go_error \<Rightarrow> go_error"
  apiBatchHeaderHash :: "bytes \<Rightarrow> nat \<Rightarrow> go_error + bytes"
  apiBlobCodec :: blob_codec
  apiRlpV1 :: "Certificate \<Rightarrow> go_error + bytes"
  apiBlobCommitment :: "'x \<Rightarrow> bytes \<Rightarrow> go_error + nat \<times> nat"
  apiRlpV3 :: "EigenDACertV3 \<Rightarrow> go_error + bytes"
  apiMem1 :: "('w, 'r) mem_lens"
  apiMem2 :: "('w, 'r) mem_lens"
  apiGethClient :: "string list \<Rightarrow> ('w, 'x) goact"
  apiChainID :: "'x \<Rightarrow> ('w, nat) goact"
  apiHexToAddress :: "string \<Rightarrow> 'x"
  apiRouterCaller :: "'x \<Rightarrow> 'x \<Rightarrow> ('w, 'x) goact"
  apiGetCertVerifierAt :: "'x \<Rightarrow> uint32 \<Rightarrow> ('w, 'x) goact"
  apiStaticProvider :: "'x \<Rightarrow> 'x"
  apiRouterProvider :: "'x \<Rightarrow> 'x \<Rightarrow> ('w, 'x) goact"
  apiEthReader :: "'x \<Rightarrow> string \<Rightarrow> string \<Rightarrow> ('w, 'x) goact"
  apiRelayRegistryAddress :: "'x \<Rightarrow> 'x"
  apiRegistryCoordinatorAddress :: "'x \<Rightarrow> 'x"
  apiCertVerifier :: "'x \<Rightarrow> 'x \<Rightarrow> ('w, 'x) goact"
  apiCheckDACert :: "'x \<Rightarrow> ('c2, 'c3) DACert \<Rightarrow> ('w, unit) goact"
  apiRelayUrlProvider :: "'x \<Rightarrow> 'x \<Rightarrow> ('w, 'x) goact"
  apiRelayClient :: "bool \<Rightarrow> uint64 \<Rightarrow> 'x \<Rightarrow> ('w, 'x) goact"
  apiRelayRetriever :: "RelayPayloadRetrieverConfig \<Rightarrow> 'x \<Rightarrow> 'x \<Rightarrow> ('w, 'x) goact"
  apiChainState :: "'x \<Rightarrow> 'x \<Rightarrow> 'x"
  apiValidatorClient :: "'x \<Rightarrow> 'x \<Rightarrow> kzg_api option \<Rightarrow> 'x"
  apiValidatorRetriever :: "ValidatorPayloadRetrieverConfig \<Rightarrow> 'x \<Rightarrow> 'x \<Rightarrow> ('w, 'x) goact"
  apiGetPayload :: "'x \<Rightarrow> ('c2, 'c3) DACert \<Rightarrow> ('w, bytes) goact"
  apiLocalSigner :: "string \<Rightarrow> go_error + 'x"
  apiPubkeyToAddress :: "'x \<Rightarrow> 'x"
  apiPendingBalanceAt :: "'x \<Rightarrow> 'x \<Rightarrow> ('w, int option) goact"
  apiDisperserClient :: "DisperserClientConfig \<Rightarrow> 'x \<Rightarrow> 'x \<Rightarrow> ('w, 'x) goact"
  apiBlockNumberMonitor :: "'x \<Rightarrow> int \<Rightarrow> ('w, 'x) goact"
  apiCertBuilder :: "'x \<Rightarrow> 'x \<Rightarrow> 'x \<Rightarrow> ('w, 'x) goact"
  apiPayloadDisperser :: "PayloadDisperserConfig \<Rightarrow> 'x \<Rightarrow> 'x \<Rightarrow> 'x \<Rightarrow> 'x \<Rightarrow> ('w, 'x) goact"
  apiSendPayload :: "'x \<Rightarrow> bytes \<Rightarrow> ('w, 'c3 SentCert) goact"
  apiRetryV2 :: "(go_error \<Rightarrow> bool) \<Rightarrow> uint64 \<Rightarrow> ('w, 'c3 SentCert) goact \<Rightarrow> ('w, 'c3 SentCert) goact"
  apiCerts :: "('c2, 'c3) cert_api"

section \<open>Secondary storage\<close>

text \<open>
  \<^verbatim>\<open>buildSecondaries\<close> takes the S3 store as an interface and is given a \<^verbatim>\<open>*s3.Store\<close>. A nil pointer there is an interface
  value that is not nil: its methods are called on a nil receiver, and those that read a field panic. The storage
  manager takes the pointer itself, which is nil without a bucket.
\<close>

definition s3_interface :: "(bytes \<Rightarrow> bytes) \<Rightarrow> ('w, 'o) S3Store option \<Rightarrow> 'w SecondaryStore" where
  "s3_interface keccak s3Store =
     (case s3Store of
        Some s \<Rightarrow> S3_store keccak s
      | None \<Rightarrow> \<lparr>scPut = (\<lambda>_ _. panic), scGet = (\<lambda>_. panic), scVerify = S3_Verify keccak, scBackendType = S3BackendType\<rparr>)"

definition s3_pointer :: "(bytes \<Rightarrow> bytes) \<Rightarrow> ('w, 'o) S3Store \<Rightarrow> 'w mgr_state SecondaryStore" where
  "s3_pointer keccak s = lift_secondary (S3_store keccak s)"

fun buildSecondaries ::
  "string list \<Rightarrow> 'w SecondaryStore option \<Rightarrow> 'w RedisStore option \<Rightarrow> 'w SecondaryStore list go" where
  "buildSecondaries [] s3Store redisStore = Ok []"
| "buildSecondaries (target # targets) s3Store redisStore =
     bindR (case StringToBackendType target of
              RedisBackendType \<Rightarrow> (case redisStore of None \<Rightarrow> Panic | Some r \<Rightarrow> Ok (Redis_store r))
            | S3BackendType \<Rightarrow> (case s3Store of None \<Rightarrow> Panic | Some s \<Rightarrow> Ok s)
            | _ \<Rightarrow> Panic) (\<lambda>st.
     bindR (buildSecondaries targets s3Store redisStore) (\<lambda>sts. Ok (st # sts)))"

section \<open>The V1 backend\<close>

definition mem_start :: "('w, 'r) mem_lens \<Rightarrow> MemConfig \<Rightarrow> ('w, unit) goact" where
  "mem_start l c = modify (\<lambda>w. putMem l ((getMem l w)\<lparr>cfg := c, db := DB_New c\<rparr>) w)"

definition mem_zoom :: "('w, 'r) mem_lens \<Rightarrow> ('r mem_world, 'a) goact \<Rightarrow> ('w, 'a) goact" where
  "mem_zoom l = zoom (getMem l) (putMem l)"

definition zoom_v1 :: "('w, 'r) mem_lens \<Rightarrow> 'r mem_world EigenDAV1Store \<Rightarrow> 'w EigenDAV1Store" where
  "zoom_v1 l st = \<lparr>v1Put = (\<lambda>v. mem_zoom l (v1Put st v)), v1Get = (\<lambda>c. mem_zoom l (v1Get st c)),
     v1Verify = (\<lambda>c v opts. mem_zoom l (v1Verify st c v opts)), v1BackendType = v1BackendType st\<rparr>"

definition zoom_v2 :: "('w, 'r) mem_lens \<Rightarrow> 'r mem_world EigenDAV2Store \<Rightarrow> 'w EigenDAV2Store" where
  "zoom_v2 l st = \<lparr>v2Put = (\<lambda>v. mem_zoom l (v2Put st v)), v2Get = (\<lambda>c. mem_zoom l (v2Get st c)),
     v2Verify = (\<lambda>c opts. mem_zoom l (v2Verify st c opts)), v2BackendType = v2BackendType st\<rparr>"

text \<open>The KZG verifier is always built when V1 is enabled, so the pointer is not nil here.\<close>

definition buildEigenDAV1Backend ::
  "('w, 'x, 'o, 'c2, 'c3, 'r) builder_api \<Rightarrow> BuilderConfig \<Rightarrow> kzg_api \<Rightarrow> ('w, 'w EigenDAV1Store) goact" where
  "buildEigenDAV1Backend api c kzg =
     andThen (mapErr (WrapError ''new verifier'')
                (NewVerifier (NewCertVerifier (apiDial api) (apiBindSvcManager api) (apiReaderOf api) (apiVerifierV1 api))
                   (bcVerifierConfigV1 c) kzg)) (\<lambda>v.
     if bcMemstoreEnabled c
     then andThen (mem_start (apiMem1 api) (bcMemstoreConfig c)) (\<lambda>_.
          ret (zoom_v1 (apiMem1 api)
                 (MemV1_store (apiRand api) (apiNotFound api) (apiKeccak api) (apiBatchHeaderHash api) (kzgVerifier v)
                    (apiBlobCodec api) (apiRlpV1 api))))
     else
       andThen (apiEigenDAClient api (EdaClientCfg (bcClientConfigV1 c))) (\<lambda>cl.
       andThen (mapErr (WrapError ''create v1 store config'') (liftR
                  (NewStoreConfig (v1MaxBlobSizeBytes (bcClientConfigV1 c))
                     (EthConfirmationDepth (bcVerifierConfigV1 c))
                     (edaStatusQueryTimeout (EdaClientCfg (bcClientConfigV1 c)))
                     (v1PutTries (bcClientConfigV1 c))))) (\<lambda>sc.
       ret (V1_store (apiFromError api) (apiKeccak api) (apiAbi api) (apiOpRetry api) (apiRetryV1 api) (apiCodecV1 api)
              \<lparr>client = cl, verifier = v, storeConfig = sc\<rparr>))))"

section \<open>The V2 backend\<close>

text \<open>
  The regular expression \<^verbatim>\<open>(?i)execution reverted|VM execution error\.?\<close> matches a text that contains one of the two
  phrases in any case.
\<close>

definition isExecutionReverted :: "('w, 'x, 'o, 'c2, 'c3, 'r) builder_api \<Rightarrow> go_error \<Rightarrow> bool" where
  "isExecutionReverted api err =
     (let t = strings_ToLower (apiErrorText api err) in
      strings_Contains t ''execution reverted'' \<or> strings_Contains t ''vm execution error'' \<or>
      apiRpcErrorCode api err = Some 3)"

definition buildEthClient ::
  "('w, 'x, 'o, 'c2, 'c3, 'r) builder_api \<Rightarrow> SecretConfigV2 \<Rightarrow> EigenDANetwork \<Rightarrow> ('w, 'x) goact" where
  "buildEthClient api secretConfigV2 expectedNetwork =
     andThen (mapErr (WrapError ''create geth client'') (apiGethClient api [EthRPCURL secretConfigV2])) (\<lambda>eth.
     andThen (mapErr (WrapError ''failed to get chain ID from ETH RPC'') (apiChainID api eth)) (\<lambda>chainID.
     if expectedNetwork \<noteq> []
     then andThen (mapErr (WrapError (''unknown chain ID '' @ decimal chainID))
                     (liftR (EigenDANetworksFromChainID (decimal chainID)))) (\<lambda>actualNetworks.
          if expectedNetwork \<notin> set actualNetworks
          then throw (ErrorString (''network mismatch: expected '' @ expectedNetwork @
                 '' (based on configuration), but ETH RPC returned chain ID '' @ decimal chainID @ '' which corresponds to '' @
                 fmt_slice actualNetworks))
          else ret eth)
     else ret eth))"

definition relayMaxGRPCMessageSize :: "ClientConfigV2 \<Rightarrow> uint64" where
  "relayMaxGRPCMessageSize c = v2MaxBlobSizeBytes c + v2MaxBlobSizeBytes c div 10"

definition buildRelayClient ::
  "('w, 'x, 'o, 'c2, 'c3, 'r) builder_api \<Rightarrow> ClientConfigV2 \<Rightarrow> 'x \<Rightarrow> 'x \<Rightarrow> ('w, 'x) goact" where
  "buildRelayClient api c eth relayRegistryAddress =
     andThen (mapErr (WrapError ''new relay url provider'') (apiRelayUrlProvider api eth relayRegistryAddress)) (\<lambda>url.
     mapErr (WrapError ''new relay client'')
       (apiRelayClient api (UseSecureGrpcFlag (DisperserClientCfg c)) (relayMaxGRPCMessageSize c) url))"

definition buildRelayPayloadRetriever ::
  "('w, 'x, 'o, 'c2, 'c3, 'r) builder_api \<Rightarrow> ClientConfigV2 \<Rightarrow> 'x \<Rightarrow> 'x \<Rightarrow> 'x \<Rightarrow> ('w, 'x) goact" where
  "buildRelayPayloadRetriever api c eth g1Srs relayRegistryAddress =
     andThen (mapErr (WrapError ''build relay client'') (buildRelayClient api c eth relayRegistryAddress)) (\<lambda>relayClient.
     mapErr (WrapError ''new relay payload retriever'')
       (apiRelayRetriever api (RelayPayloadRetrieverCfg c) relayClient g1Srs))"

definition buildValidatorPayloadRetriever ::
  "('w, 'x, 'o, 'c2, 'c3, 'r) builder_api \<Rightarrow> ClientConfigV2 \<Rightarrow> 'x \<Rightarrow> 'x \<Rightarrow> kzg_api option \<Rightarrow> 'x \<Rightarrow> ('w, 'x) goact" where
  "buildValidatorPayloadRetriever api c eth ethReader kzg g1Srs =
     (let chainState = apiChainState api ethReader eth;
          retrievalClient = apiValidatorClient api ethReader chainState kzg in
      mapErr (WrapError ''new validator payload retriever'')
        (apiValidatorRetriever api (ValidatorPayloadRetrieverCfg c) retrievalClient g1Srs))"

definition buildEthReader ::
  "('w, 'x, 'o, 'c2, 'c3, 'r) builder_api \<Rightarrow> ClientConfigV2 \<Rightarrow> 'x \<Rightarrow> ('w, 'x) goact" where
  "buildEthReader api c eth =
     mapErr (WrapError ''new reader'')
       (apiEthReader api eth (BLSOperatorStateRetrieverAddr c) (EigenDAServiceManagerAddr c))"

text \<open>The balance is only looked at for a log line: no outcome of the call is an error.\<close>

definition buildLocalSigner ::
  "('w, 'x, 'o, 'c2, 'c3, 'r) builder_api \<Rightarrow> SecretConfigV2 \<Rightarrow> 'x \<Rightarrow> ('w, 'x) goact" where
  "buildLocalSigner api secrets eth =
     andThen (mapErr (WrapError ''new local blob request signer'')
                (liftR (fromSum (apiLocalSigner api (SignerPaymentKey secrets))))) (\<lambda>signer.
     andThen (attempt (apiPendingBalanceAt api eth (apiPubkeyToAddress api signer))) (\<lambda>_. ret signer))"

definition buildPayloadDisperser ::
  "('w, 'x, 'o, 'c2, 'c3, 'r) builder_api \<Rightarrow> ClientConfigV2 \<Rightarrow> SecretConfigV2 \<Rightarrow> 'x \<Rightarrow> 'x \<Rightarrow> 'x \<Rightarrow> 'x \<Rightarrow> ('w, 'x) goact" where
  "buildPayloadDisperser api c secrets eth kzgProver certVer ethReader =
     andThen (mapErr (WrapError ''build local signer'') (buildLocalSigner api secrets eth)) (\<lambda>signer.
     andThen (mapErr (WrapError ''new disperser client'')
                (apiDisperserClient api (DisperserClientCfg c) signer kzgProver)) (\<lambda>disperserClient.
     andThen (mapErr (WrapError ''new block number monitor'')
                (apiBlockNumberMonitor api eth 1000000000)) (\<lambda>blockNumMonitor.
     andThen (mapErr (WrapError ''new cert builder'')
                (apiCertBuilder api (apiHexToAddress api (BLSOperatorStateRetrieverAddr c))
                   (apiRegistryCoordinatorAddress api ethReader) eth)) (\<lambda>certBuilder.
     mapErr (WrapError ''new payload disperser'')
       (apiPayloadDisperser api (PayloadDisperserCfg c) disperserClient blockNumMonitor certBuilder certVer)))))"

fun buildRetrievers ::
  "('w, 'x, 'o, 'c2, 'c3, 'r) builder_api \<Rightarrow> ClientConfigV2 \<Rightarrow> 'x \<Rightarrow> 'x \<Rightarrow> kzg_api option \<Rightarrow> 'x \<Rightarrow>
   RetrieverType list \<Rightarrow> ('w, 'x list) goact" where
  "buildRetrievers api c eth ethReader kzg g1Srs [] = ret []"
| "buildRetrievers api c eth ethReader kzg g1Srs (retrieverType # types) =
     andThen (if retrieverType = RelayRetrieverType
              then mapErr (WrapError ''build relay payload retriever'')
                     (buildRelayPayloadRetriever api c eth g1Srs (apiRelayRegistryAddress api ethReader))
              else if retrieverType = ValidatorRetrieverType
              then mapErr (WrapError ''build validator payload retriever'')
                     (buildValidatorPayloadRetriever api c eth ethReader kzg g1Srs)
              else throw (ErrorString (''unknown retriever type: '' @ retrieverType))) (\<lambda>r.
     andThen (buildRetrievers api c eth ethReader kzg g1Srs types) (\<lambda>rs. ret (r # rs)))"

text \<open>Whether the configured address is a router: a reverted call says it is not, any other error is final.\<close>

definition detectRouter ::
  "('w, 'x, 'o, 'c2, 'c3, 'r) builder_api \<Rightarrow> 'x \<Rightarrow> ('w, bool) goact" where
  "detectRouter api caller =
     andThen (attempt (apiGetCertVerifierAt api caller 0)) (\<lambda>res.
     case res of
       Inl err \<Rightarrow>
         if isExecutionReverted api err then ret False
         else throw (WrapError ''failed to determine whether cert verifier is immutable or deployed behind a router'' err)
     | Inr _ \<Rightarrow> ret True)"

definition buildEigenDAV2Backend ::
  "('w, 'x, 'o, 'c2, 'c3, 'r) builder_api \<Rightarrow> BuilderConfig \<Rightarrow> SecretConfigV2 \<Rightarrow> kzg_api option \<Rightarrow>
   ('w, 'w EigenDAV2Store) goact" where
  "buildEigenDAV2Backend api c secrets kzg =
     (let c2 = bcClientConfigV2 c in
     andThen (mapErr (WrapError ''new KZG prover'') (apiProver api ((bcKzgConfig c)\<lparr>LoadG2Points := True\<rparr>))) (\<lambda>kzgProver.
     let g1Srs = apiSrsG1 api kzgProver in
     if bcMemstoreEnabled c
     then andThen (mem_start (apiMem2 api) (bcMemstoreConfig c)) (\<lambda>_.
          ret (zoom_v2 (apiMem2 api)
                 (MemV2_store (apiRand api) (apiNotFound api) (apiKeccak api) (apiBlobCommitment api g1Srs)
                    (apiBlobCodec api) (apiRlpV3 api))))
     else
       andThen (mapErr (WrapError ''build eth client'') (buildEthClient api secrets (v2EigenDANetwork c2))) (\<lambda>eth.
       let addr = apiHexToAddress api (EigenDACertVerifierOrRouterAddress c2) in
       andThen (mapErr (WrapError ''new cert verifier router caller'') (apiRouterCaller api addr eth)) (\<lambda>caller.
       andThen (detectRouter api caller) (\<lambda>isRouter.
       andThen (if \<not> isRouter then ret (apiStaticProvider api addr)
                else mapErr (WrapError ''build router address provider'') (apiRouterProvider api addr eth)) (\<lambda>provider.
       andThen (mapErr (WrapError ''build eth reader'') (buildEthReader api c2 eth)) (\<lambda>ethReader.
       andThen (mapErr (WrapError ''new cert verifier'') (apiCertVerifier api eth provider)) (\<lambda>certVer.
       andThen (buildRetrievers api c2 eth ethReader kzg g1Srs (RetrieversToEnable c2)) (\<lambda>retrieverList.
       if length retrieverList = 0
       then throw (ErrorString ''no payload retrievers enabled, please enable at least one retriever type'')
       else
         andThen (mapErr (WrapError ''build payload disperser'')
                    (buildPayloadDisperser api c2 secrets eth kzgProver certVer ethReader)) (\<lambda>payloadDisperser.
         andThen (mapErr (WrapError ''create v2 store'')
                    (liftR (V2_NewStore (v2PutTries c2) (v2RBNRecencyWindowSize c2) (apiSendPayload api payloadDisperser)
                       (map (apiGetPayload api) retrieverList) (apiCheckDACert api certVer)))) (\<lambda>st.
         ret (V2_store (apiFromError api) (apiRetryV2 api) (apiCerts api) st))))))))))))"


section \<open>The storage manager\<close>

definition v1_enabled :: "BuilderConfig \<Rightarrow> bool" where
  "v1_enabled c = (V1EigenDABackend \<in> set (BackendsToEnable (bcStoreConfig c)))"

definition v2_enabled :: "BuilderConfig \<Rightarrow> bool" where
  "v2_enabled c = (V2EigenDABackend \<in> set (BackendsToEnable (bcStoreConfig c)))"

definition build_s3 ::
  "('w, 'x, 'o, 'c2, 'c3, 'r) builder_api \<Rightarrow> BuilderConfig \<Rightarrow> ('w, 'o) S3Store option go" where
  "build_s3 api c =
     (if s3Bucket (bcS3Config c) \<noteq> []
      then bindR (S3_NewStore (apiMinioNew api) (bcS3Config c)) (\<lambda>s. Ok (Some s)) else Ok None)"

definition build_redis ::
  "('w, 'x, 'o, 'c2, 'c3, 'r) builder_api \<Rightarrow> BuilderConfig \<Rightarrow> ('w, 'w RedisStore option) goact" where
  "build_redis api c =
     (if redisEndpoint (bcRedisConfig c) \<noteq> []
      then andThen (Redis_NewStore (apiRedisNew api) (bcRedisConfig c)) (\<lambda>s. ret (Some s)) else ret None)"

definition build_kzg ::
  "('w, 'x, 'o, 'c2, 'c3, 'r) builder_api \<Rightarrow> BuilderConfig \<Rightarrow> ('w, kzg_api option) goact" where
  "build_kzg api c =
     (if v1_enabled c \<or> v2_enabled c \<and> ValidatorRetrieverType \<in> set (RetrieversToEnable (bcClientConfigV2 c))
      then andThen (mapErr (WrapError ''new kzg verifier'')
                      (apiKzgVerifier api ((bcKzgConfig c)\<lparr>LoadG2Points := False\<rparr>))) (\<lambda>k. ret (Some k))
      else ret None)"

definition build_v1 ::
  "('w, 'x, 'o, 'c2, 'c3, 'r) builder_api \<Rightarrow> BuilderConfig \<Rightarrow> kzg_api option \<Rightarrow> ('w, 'w EigenDAV1Store option) goact" where
  "build_v1 api c kzg =
     (if v1_enabled c
      then (case kzg of
              None \<Rightarrow> panic
            | Some k \<Rightarrow> andThen (mapErr (WrapError ''build v1 backend'') (buildEigenDAV1Backend api c k)) (\<lambda>s. ret (Some s)))
      else ret None)"

definition build_v2 ::
  "('w, 'x, 'o, 'c2, 'c3, 'r) builder_api \<Rightarrow> BuilderConfig \<Rightarrow> SecretConfigV2 \<Rightarrow> kzg_api option \<Rightarrow>
   ('w, 'w EigenDAV2Store option) goact" where
  "build_v2 api c secrets kzg =
     (if v2_enabled c
      then andThen (mapErr (WrapError ''build v2 backend'') (buildEigenDAV2Backend api c secrets kzg)) (\<lambda>s. ret (Some s))
      else ret None)"

definition BuildStoreManager ::
  "('w, 'x, 'o, 'c2, 'c3, 'r) builder_api \<Rightarrow> nat \<Rightarrow> BuilderConfig \<Rightarrow> SecretConfigV2 \<Rightarrow> ('w mgr_state, 'w Manager) goact" where
  "BuildStoreManager api scheduled c secrets =
     (let sc = bcStoreConfig c in
     andThen (liftR (build_s3 api c)) (\<lambda>s3Store.
     andThen (on_world (build_redis api c)) (\<lambda>redisStore.
     if DispersalBackend sc = V2EigenDABackend \<and> \<not> v2_enabled c
       then throw (ErrorString ''dispersal backend is set to V2, but V2 backend is not enabled'')
     else if DispersalBackend sc = V1EigenDABackend \<and> \<not> v1_enabled c
       then throw (ErrorString ''dispersal backend is set to V1, but V1 backend is not enabled'')
     else
     andThen (on_world (build_kzg api c)) (\<lambda>kzg.
     andThen (on_world (build_v1 api c kzg)) (\<lambda>eigenDAV1Store.
     andThen (on_world (build_v2 api c secrets kzg)) (\<lambda>eigenDAV2Store.
     let s3i = Some (s3_interface (apiKeccak api) s3Store) in
     andThen (liftR (buildSecondaries (FallbackTargets sc) s3i redisStore)) (\<lambda>fallbackStores.
     andThen (liftR (buildSecondaries (CacheTargets sc) s3i redisStore)) (\<lambda>cacheStores.
     let sm = NewSecondaryManager cacheStores fallbackStores (WriteOnCacheMiss sc) in
     andThen (modify (if sm_Enabled sm then (loop_enter ^^ min scheduled (nat (AsyncPutWorkers sc))) else id)) (\<lambda>_.
     NewManager (map_option lift_v1 eigenDAV1Store) (map_option lift_v2 eigenDAV2Store)
       (map_option (s3_pointer (apiKeccak api)) s3Store) (SecondaryManager_ISecondary (apiKeccak api) (apiOpRetryUnit api) sm)
       (DispersalBackend sc))))))))))"

section \<open>Lemmas\<close>

definition buildable :: "'w RedisStore option \<Rightarrow> string \<Rightarrow> bool" where
  "buildable redisStore t \<longleftrightarrow>
     StringToBackendType t = S3BackendType \<or> StringToBackendType t = RedisBackendType \<and> redisStore \<noteq> None"

definition store_of :: "'w SecondaryStore \<Rightarrow> 'w RedisStore option \<Rightarrow> string \<Rightarrow> 'w SecondaryStore" where
  "store_of s3i redisStore t =
     (if StringToBackendType t = S3BackendType then s3i else Redis_store (the redisStore))"

text \<open>What is built for a target: the S3 store for an S3 target, the Redis store for a Redis target, nothing for another.\<close>

definition built_target :: "'w SecondaryStore \<Rightarrow> 'w RedisStore option \<Rightarrow> string \<Rightarrow> 'w SecondaryStore \<Rightarrow> bool" where
  "built_target s3i redisStore t st \<longleftrightarrow>
     StringToBackendType t = S3BackendType \<and> st = s3i \<or>
     StringToBackendType t = RedisBackendType \<and> (\<exists>r. redisStore = Some r \<and> st = Redis_store r)"

lemma built_targets:
  "\<forall>t \<in> set ts. buildable redisStore t \<Longrightarrow> list_all2 (built_target s3i redisStore) ts (map (store_of s3i redisStore) ts)"
  by (induction ts) (auto simp: built_target_def buildable_def store_of_def)

lemma buildSecondaries_outcome:
  "buildSecondaries ts (Some s3i) redisStore =
     (if \<forall>t \<in> set ts. buildable redisStore t then Ok (map (store_of s3i redisStore) ts) else Panic)"
  by (induction ts) (auto simp: buildable_def store_of_def split: BackendType.splits option.splits)

lemma on_world_Ok: "on_world m s = (Ok a, s') \<longleftrightarrow> (\<exists>w. m (world s) = (Ok a, w) \<and> s' = s\<lparr>world := w\<rparr>)"
  by (rule on_world_eq)

lemma loop_enter_pow:
  "world ((loop_enter ^^ n) s) = world s" "liveWorkers ((loop_enter ^^ n) s) = liveWorkers s + n"
  "concurrentWrites ((loop_enter ^^ n) s) \<longleftrightarrow> 0 < n \<or> concurrentWrites s"
  "verifyLock ((loop_enter ^^ n) s) = verifyLock s" "inflight ((loop_enter ^^ n) s) = inflight s"
  by (induction n) (auto simp: loop_enter_def)

lemma build_v1_Ok: "build_v1 api c kzg w = (Ok e, w') \<Longrightarrow> e \<noteq> None \<longleftrightarrow> v1_enabled c"
  by (auto simp: build_v1_def run_Ok split: if_splits option.splits)

lemma build_v2_Ok: "build_v2 api c secrets kzg w = (Ok e, w') \<Longrightarrow> e \<noteq> None \<longleftrightarrow> v2_enabled c"
  by (auto simp: build_v2_def run_Ok split: if_splits option.splits)

lemma build_s3_Ok: "build_s3 api c = Ok s \<Longrightarrow> s \<noteq> None \<longleftrightarrow> s3Bucket (bcS3Config c) \<noteq> []"
  by (auto simp: build_s3_def bindR_eq_Ok split: if_splits)

lemma build_redis_Ok: "build_redis api c w = (Ok s, w') \<Longrightarrow> s \<noteq> None \<longleftrightarrow> redisEndpoint (bcRedisConfig c) \<noteq> []"
  by (auto simp: build_redis_def run_Ok split: if_splits)

lemma modify_Ok: "modify f s = (Ok x, s') \<longleftrightarrow> s' = f s"
  by (auto simp: modify_def)

lemma NewManager_Ok:
  "NewManager e1 e2 s3 sec b s = (Ok m, s') \<longleftrightarrow>
     \<not> (b = V2EigenDABackend \<and> e2 = None) \<and> \<not> (b = V1EigenDABackend \<and> e1 = None) \<and>
     s' = SetDispersalBackend b s \<and> m = \<lparr>mgrS3 = s3, mgrEigenda = e1, mgrEigendaV2 = e2, mgrSecondary = sec\<rparr>"
  by (auto simp: NewManager_def run_Ok modify_Ok)

text \<open>The parts of a successful build.\<close>

lemma BuildStoreManager_parts:
  assumes "BuildStoreManager api scheduled c secrets s = (Ok m, s')"
  obtains s3Store redisStore kzg e1 e2 w1 w2 w3 w4 fs cs where
    "build_s3 api c = Ok s3Store" "build_redis api c (world s) = (Ok redisStore, w1)"
    "build_v1 api c kzg w2 = (Ok e1, w3)" "build_v2 api c secrets kzg w3 = (Ok e2, w4)"
    "buildSecondaries (FallbackTargets (bcStoreConfig c)) (Some (s3_interface (apiKeccak api) s3Store)) redisStore = Ok fs"
    "buildSecondaries (CacheTargets (bcStoreConfig c)) (Some (s3_interface (apiKeccak api) s3Store)) redisStore = Ok cs"
    "NewManager (map_option lift_v1 e1) (map_option lift_v2 e2)
       (map_option (s3_pointer (apiKeccak api)) s3Store)
       (SecondaryManager_ISecondary (apiKeccak api) (apiOpRetryUnit api)
          (NewSecondaryManager cs fs (WriteOnCacheMiss (bcStoreConfig c))))
       (DispersalBackend (bcStoreConfig c))
       ((if sm_Enabled (NewSecondaryManager cs fs (WriteOnCacheMiss (bcStoreConfig c)))
         then loop_enter ^^ min scheduled (nat (AsyncPutWorkers (bcStoreConfig c))) else id) (s\<lparr>world := w4\<rparr>)) = (Ok m, s')"
  using assms that by (auto simp: BuildStoreManager_def Let_def run_Ok on_world_Ok modify_Ok split: if_splits)

lemma BuildStoreManager_Ok:
  assumes "BuildStoreManager api scheduled c secrets s = (Ok m, s')"
  obtains s3Store redisStore e1 e2 sm n w where
    "build_s3 api c = Ok s3Store" "\<exists>w1. build_redis api c (world s) = (Ok redisStore, w1)"
    "e1 \<noteq> None \<longleftrightarrow> v1_enabled c" "e2 \<noteq> None \<longleftrightarrow> v2_enabled c"
    "\<forall>t \<in> set (FallbackTargets (bcStoreConfig c) @ CacheTargets (bcStoreConfig c)). buildable redisStore t"
    "sm = NewSecondaryManager
       (map (store_of (s3_interface (apiKeccak api) s3Store) redisStore) (CacheTargets (bcStoreConfig c)))
       (map (store_of (s3_interface (apiKeccak api) s3Store) redisStore) (FallbackTargets (bcStoreConfig c)))
       (WriteOnCacheMiss (bcStoreConfig c))"
    "m = \<lparr>mgrS3 = map_option (s3_pointer (apiKeccak api)) s3Store,
          mgrEigenda = map_option lift_v1 e1, mgrEigendaV2 = map_option lift_v2 e2,
          mgrSecondary = SecondaryManager_ISecondary (apiKeccak api) (apiOpRetryUnit api) sm\<rparr>"
    "\<not> (DispersalBackend (bcStoreConfig c) = V2EigenDABackend \<and> e2 = None)"
    "\<not> (DispersalBackend (bcStoreConfig c) = V1EigenDABackend \<and> e1 = None)"
    "n = (if sm_Enabled sm then min scheduled (nat (AsyncPutWorkers (bcStoreConfig c))) else 0)"
    "s' = SetDispersalBackend (DispersalBackend (bcStoreConfig c)) ((loop_enter ^^ n) (s\<lparr>world := w\<rparr>))"
proof -
  let ?sc = "bcStoreConfig c"
  obtain s3Store redisStore kzg e1 e2 w1 w2 w3 w4 fs cs where b:
    "build_s3 api c = Ok s3Store" "build_redis api c (world s) = (Ok redisStore, w1)"
    "build_v1 api c kzg w2 = (Ok e1, w3)" "build_v2 api c secrets kzg w3 = (Ok e2, w4)"
    "buildSecondaries (FallbackTargets ?sc) (Some (s3_interface (apiKeccak api) s3Store)) redisStore = Ok fs"
    "buildSecondaries (CacheTargets ?sc) (Some (s3_interface (apiKeccak api) s3Store)) redisStore = Ok cs"
    and m: "NewManager (map_option lift_v1 e1) (map_option lift_v2 e2)
       (map_option (s3_pointer (apiKeccak api)) s3Store)
       (SecondaryManager_ISecondary (apiKeccak api) (apiOpRetryUnit api) (NewSecondaryManager cs fs (WriteOnCacheMiss ?sc)))
       (DispersalBackend ?sc)
       ((if sm_Enabled (NewSecondaryManager cs fs (WriteOnCacheMiss ?sc))
         then loop_enter ^^ min scheduled (nat (AsyncPutWorkers ?sc)) else id) (s\<lparr>world := w4\<rparr>)) = (Ok m, s')"
    by (rule BuildStoreManager_parts [OF assms])
  let ?sm = "NewSecondaryManager cs fs (WriteOnCacheMiss ?sc)"
  define n where "n = (if sm_Enabled ?sm then min scheduled (nat (AsyncPutWorkers ?sc)) else 0)"
  from m have s': "s' = SetDispersalBackend (DispersalBackend ?sc) ((loop_enter ^^ n) (s\<lparr>world := w4\<rparr>))"
    by (auto simp: NewManager_Ok n_def)
  have all: "\<forall>t \<in> set (FallbackTargets ?sc @ CacheTargets ?sc). buildable redisStore t"
    and fs: "fs = map (store_of (s3_interface (apiKeccak api) s3Store) redisStore) (FallbackTargets ?sc)"
    and cs: "cs = map (store_of (s3_interface (apiKeccak api) s3Store) redisStore) (CacheTargets ?sc)"
    using b(5,6) by (auto simp: buildSecondaries_outcome split: if_splits)
  show thesis
    using b(1,2) build_v1_Ok [OF b(3)] build_v2_Ok [OF b(4)] all m s'
    by (intro that [of s3Store redisStore e1 e2 ?sm n w4]) (auto simp: NewManager_Ok n_def fs cs)
qed


lemma decimal_eqD: "decimal n = s \<Longrightarrow> parse_digits 0 s = Some n"
  using parse_digits_decimal [of n] by simp

lemma networks_of_chain:
  "EigenDANetworksFromChainID (decimal n) = Ok nets \<Longrightarrow>
     n = 17000 \<and> nets = [HoleskyTestnetEigenDANetwork, HoleskyPreprodEigenDANetwork] \<or>
     n = 11155111 \<and> nets = [SepoliaTestnetEigenDANetwork]"
  by (auto simp: EigenDANetworksFromChainID_def chainIDToNetworkMap_def digit_val_def dest!: decimal_eqD split: if_splits)

section \<open>Properties\<close>

text \<open>
  C21: what a built manager serves. When \<^verbatim>\<open>BuildStoreManager\<close> returns a manager, it has a V1 store exactly if V1 is
  enabled, a V2 store exactly if V2 is, and the S3 store for keccak commitments exactly if a bucket is configured. The
  dispersal backend is the configured one, and if that is V1 or V2 there is a store for it. Its caches and fallbacks are,
  in the order of the configured targets, the S3 store for an S3 target and the connected Redis store for a Redis target.
  With a cache or a fallback, \<^verbatim>\<open>AsyncPutWorkers\<close> write workers were started, of which \<open>scheduled\<close> many have begun to run, or
  all if there are fewer; without, none. Writes are asynchronous exactly if a worker runs.
\<close>

theorem BuildStoreManager_serves:
  assumes "BuildStoreManager api scheduled c secrets s = (Ok m, s')"
    and "DispersalBackend (bcStoreConfig c) \<in> {V1EigenDABackend, V2EigenDABackend}"
  shows "(mgrEigenda m \<noteq> None \<longleftrightarrow> V1EigenDABackend \<in> set (BackendsToEnable (bcStoreConfig c))) \<and>
     (mgrEigendaV2 m \<noteq> None \<longleftrightarrow> V2EigenDABackend \<in> set (BackendsToEnable (bcStoreConfig c))) \<and>
     (mgrS3 m \<noteq> None \<longleftrightarrow> s3Bucket (bcS3Config c) \<noteq> []) \<and>
     dispersalBackend s' = Some (DispersalBackend (bcStoreConfig c)) \<and> (\<exists>put. dispersing m s' = Some put) \<and>
     (\<exists>s3Store redisStore w1 sm n.
        build_s3 api c = Ok s3Store \<and> build_redis api c (world s) = (Ok redisStore, w1) \<and>
        mgrS3 m = map_option (s3_pointer (apiKeccak api)) s3Store \<and>
        mgrSecondary m = SecondaryManager_ISecondary (apiKeccak api) (apiOpRetryUnit api) sm \<and>
        list_all2 (built_target (s3_interface (apiKeccak api) s3Store) redisStore) (CacheTargets (bcStoreConfig c)) (caches sm) \<and>
        list_all2 (built_target (s3_interface (apiKeccak api) s3Store) redisStore) (FallbackTargets (bcStoreConfig c)) (fallbacks sm) \<and>
        writeOnCacheMiss sm = WriteOnCacheMiss (bcStoreConfig c) \<and>
        n = (if CacheTargets (bcStoreConfig c) = [] \<and> FallbackTargets (bcStoreConfig c) = [] then 0
             else min scheduled (nat (AsyncPutWorkers (bcStoreConfig c)))) \<and>
        liveWorkers s' = liveWorkers s + n \<and> (concurrentWrites s' \<longleftrightarrow> 0 < n \<or> concurrentWrites s))"
proof -
  obtain s3Store redisStore e1 e2 sm n w where b:
    "build_s3 api c = Ok s3Store" "\<exists>w1. build_redis api c (world s) = (Ok redisStore, w1)"
    "e1 \<noteq> None \<longleftrightarrow> v1_enabled c" "e2 \<noteq> None \<longleftrightarrow> v2_enabled c"
    "\<forall>t \<in> set (FallbackTargets (bcStoreConfig c) @ CacheTargets (bcStoreConfig c)). buildable redisStore t"
    "sm = NewSecondaryManager
       (map (store_of (s3_interface (apiKeccak api) s3Store) redisStore) (CacheTargets (bcStoreConfig c)))
       (map (store_of (s3_interface (apiKeccak api) s3Store) redisStore) (FallbackTargets (bcStoreConfig c)))
       (WriteOnCacheMiss (bcStoreConfig c))"
    "m = \<lparr>mgrS3 = map_option (s3_pointer (apiKeccak api)) s3Store,
          mgrEigenda = map_option lift_v1 e1, mgrEigendaV2 = map_option lift_v2 e2,
          mgrSecondary = SecondaryManager_ISecondary (apiKeccak api) (apiOpRetryUnit api) sm\<rparr>"
    "\<not> (DispersalBackend (bcStoreConfig c) = V2EigenDABackend \<and> e2 = None)"
    "\<not> (DispersalBackend (bcStoreConfig c) = V1EigenDABackend \<and> e1 = None)"
    "n = (if sm_Enabled sm then min scheduled (nat (AsyncPutWorkers (bcStoreConfig c))) else 0)"
    "s' = SetDispersalBackend (DispersalBackend (bcStoreConfig c)) ((loop_enter ^^ n) (s\<lparr>world := w\<rparr>))"
    by (rule BuildStoreManager_Ok [OF assms(1)])
  let ?s3 = "s3_interface (apiKeccak api) s3Store"
  have st: "dispersalBackend s' = Some (DispersalBackend (bcStoreConfig c))" "liveWorkers s' = liveWorkers s + n"
    "concurrentWrites s' \<longleftrightarrow> 0 < n \<or> concurrentWrites s"
    by (simp_all add: b(11) SetDispersalBackend_def loop_enter_pow)
  have put: "\<exists>put. dispersing m s' = Some put" using assms(2) b(7-9) st(1) by (auto simp: dispersing_def)
  have s3: "mgrS3 m \<noteq> None \<longleftrightarrow> s3Bucket (bcS3Config c) \<noteq> []" using b(7) build_s3_Ok [OF b(1)] by auto
  have targets: "list_all2 (built_target ?s3 redisStore) (CacheTargets (bcStoreConfig c)) (caches sm)"
    "list_all2 (built_target ?s3 redisStore) (FallbackTargets (bcStoreConfig c)) (fallbacks sm)"
    "writeOnCacheMiss sm = WriteOnCacheMiss (bcStoreConfig c)"
    using b(5) by (simp_all add: b(6) NewSecondaryManager_def built_targets)
  have n: "n = (if CacheTargets (bcStoreConfig c) = [] \<and> FallbackTargets (bcStoreConfig c) = [] then 0
      else min scheduled (nat (AsyncPutWorkers (bcStoreConfig c))))"
    using b(6,10) by (auto simp: NewSecondaryManager_def sm_Enabled_def sm_CachingEnabled_def sm_FallbackEnabled_def)
  have "mgrEigenda m \<noteq> None \<longleftrightarrow> V1EigenDABackend \<in> set (BackendsToEnable (bcStoreConfig c))"
    "mgrEigendaV2 m \<noteq> None \<longleftrightarrow> V2EigenDABackend \<in> set (BackendsToEnable (bcStoreConfig c))"
    using b(3,4,7) by (auto simp: v1_enabled_def v2_enabled_def)
  moreover obtain w1 where "build_redis api c (world s) = (Ok redisStore, w1)" using b(2) by blast
  moreover have "mgrS3 m = map_option (s3_pointer (apiKeccak api)) s3Store"
    "mgrSecondary m = SecondaryManager_ISecondary (apiKeccak api) (apiOpRetryUnit api) sm" by (simp_all add: b(7))
  ultimately show ?thesis using s3 st put b(1) targets n by blast
qed

text \<open>
  Keccak commitments without a bucket. When no S3 bucket is configured, the manager has no S3 store, and storing and
  reading keccak commitments return an error and change nothing.
\<close>

theorem keccak_without_bucket:
  assumes "BuildStoreManager api scheduled c secrets s = (Ok m, s')" and "s3Bucket (bcS3Config c) = []"
  shows "\<exists>e e'. PutOPKeccakPairInS3 m key v s1 = (Err e, s1) \<and> GetOPKeccakValueFromS3 m key s1 = (Err e', s1)"
proof -
  obtain s3Store where "build_s3 api c = Ok s3Store" "mgrS3 m = map_option (s3_pointer (apiKeccak api)) s3Store"
    by (rule BuildStoreManager_Ok [OF assms(1)]) simp
  with build_s3_Ok [OF this(1)] assms(2) have "mgrS3 m = None" by simp
  then show ?thesis by (simp add: PutOPKeccakPairInS3_def GetOPKeccakValueFromS3_def throw_def)
qed

text \<open>
  An S3 target without a bucket. The guard of \<^verbatim>\<open>buildSecondaries\<close> against a missing S3 store does not hold for the nil
  pointer that it is given, so the target is built, and every write to it and read from it panics.
\<close>

theorem s3_target_without_bucket:
  assumes "StringToBackendType t = S3BackendType" and "s3Bucket (bcS3Config c) = []" and "build_s3 api c = Ok s3Store"
  shows "\<exists>st. buildSecondaries [t] (Some (s3_interface keccak s3Store)) redisStore = Ok [st] \<and>
     scPut st k v w = (Panic, w) \<and> scGet st k w = (Panic, w)"
  using assms build_s3_Ok [OF assms(3)] by (simp add: s3_interface_def panic_def)

text \<open>
  The targets that a checked configuration can still fail on. For a configuration that passes the check, the
  secondary backends are built, one per target in order, exactly if every target names S3, or Redis with a Redis
  endpoint configured; otherwise building panics. The check accepts more: \<^verbatim>\<open>eigenda\<close>, \<^verbatim>\<open>memory_v1\<close> and the
  like, and Redis without an endpoint.
\<close>

theorem checked_targets_buildable:
  assumes "BuilderConfig_Check c = (Ok (), c')" and "build_redis api c w = (Ok redisStore, w')"
    and "ts \<in> {FallbackTargets (bcStoreConfig c), CacheTargets (bcStoreConfig c)}"
  shows "if \<forall>t \<in> set ts. StringToBackendType t = S3BackendType \<or>
            StringToBackendType t = RedisBackendType \<and> redisEndpoint (bcRedisConfig c) \<noteq> []
     then \<exists>stores. buildSecondaries ts (Some s3i) redisStore = Ok stores \<and> length stores = length ts \<and> distinct ts
     else buildSecondaries ts (Some s3i) redisStore = Panic"
proof -
  have "distinct ts" using assms(1,3) by (auto simp: BuilderConfig_Check_Ok config_ok_def targets_ok_def)
  then show ?thesis
    using build_redis_Ok [OF assms(2)] by (auto simp: buildSecondaries_outcome buildable_def)
qed

text \<open>
  The network of the Ethereum node. When a network is configured, \<^verbatim>\<open>buildEthClient\<close> returns a client only
  if the node reported a chain id of that network: 17000 for the two Holesky networks, 11155111 for Sepolia.
\<close>

theorem buildEthClient_network:
  assumes "buildEthClient api secrets net w = (Ok eth, w')" and "net \<noteq> []"
  shows "\<exists>chainID w1. apiChainID api eth w1 = (Ok chainID, w') \<and>
     (chainID = 17000 \<and> net \<in> {HoleskyTestnetEigenDANetwork, HoleskyPreprodEigenDANetwork} \<or>
      chainID = 11155111 \<and> net = SepoliaTestnetEigenDANetwork)"
proof -
  from assms obtain chainID w1 nets where "apiChainID api eth w1 = (Ok chainID, w')"
    "EigenDANetworksFromChainID (decimal chainID) = Ok nets" "net \<in> set nets"
    by (auto simp: buildEthClient_def run_Ok split: if_splits)
  with networks_of_chain [OF this(2)] show ?thesis by auto
qed

section \<open>A concrete builder\<close>

text \<open>
  Client libraries whose constructors succeed, on a Sepolia node at block 100, with the world being that of one memstore.
\<close>

definition ex_eth :: "unit mem_world EthNode" where
  "ex_eth = \<lparr>ethBlockNumber = ret 100, ethFinalizedBlock = ret 36, BatchIdToBatchMetadataHash = (\<lambda>n bid. ret ex_root)\<rparr>"

definition ex_params :: "unit mem_world SecurityParamReader" where
  "ex_params = \<lparr>QuorumAdversaryThresholdPercentages = ret [33], QuorumNumbersRequired = ret [0]\<rparr>"

definition ex_lens :: "(unit mem_world, unit) mem_lens" where
  "ex_lens = \<lparr>getMem = id, putMem = (\<lambda>m w. m)\<rparr>"

definition ex_builder_api :: "(unit mem_world, unit, unit, unit, unit, unit) builder_api" where
  "ex_builder_api =
     \<lparr>apiFromError = chain_code, apiErrorText = (\<lambda>e. []), apiRpcErrorCode = (\<lambda>e. None), apiKeccak = pad32,
      apiOpRetryUnit = (\<lambda>n m. m),
      apiMinioNew = (\<lambda>ep cr tls. Inr \<lparr>getObject = (\<lambda>b n. ret ()), readAll = (\<lambda>ob. ret []),
        putObject = (\<lambda>b n v sha. ret ()), errorCode = (\<lambda>e. [])\<rparr>),
      apiRedisNew = (\<lambda>c. \<lparr>redisGet = (\<lambda>k. ret []), redisSet = (\<lambda>k v e. ret ()), redisPing = ret (),
        redisNil = ErrorString ''redis: nil''\<rparr>),
      apiKzgVerifier = (\<lambda>c. ret ex_kzg), apiProver = (\<lambda>c. ret ()), apiSrsG1 = id, apiDial = (\<lambda>u. Inr ()),
      apiBindSvcManager = (\<lambda>x a. Inr ex_eth), apiReaderOf = (\<lambda>n. ex_params), apiVerifierV1 = (\<lambda>n a. Inr ex_params),
      apiEigenDAClient = (\<lambda>c. ret \<lparr>encodeBlob = Inr, getBlob = (\<lambda>h i. ret [1]), putBlob = (\<lambda>v. ret ex_cert)\<rparr>),
      apiAbi = ex_abi, apiOpRetry = (\<lambda>n m. m), apiRetryV1 = ex_retry, apiCodecV1 = ex_codec, apiRand = ex_rand,
      apiNotFound = id, apiBatchHeaderHash = (\<lambda>r n. Inr []), apiBlobCodec = ex_blob_codec, apiRlpV1 = (\<lambda>c. Inr [9]),
      apiBlobCommitment = (\<lambda>x b. Inr (1, 2)), apiRlpV3 = (\<lambda>c. Inr [9]), apiMem1 = ex_lens, apiMem2 = ex_lens,
      apiGethClient = (\<lambda>us. ret ()), apiChainID = (\<lambda>x. ret 11155111), apiHexToAddress = (\<lambda>a. ()),
      apiRouterCaller = (\<lambda>x y. ret ()), apiGetCertVerifierAt = (\<lambda>x n. ret ()), apiStaticProvider = id,
      apiRouterProvider = (\<lambda>x y. ret ()), apiEthReader = (\<lambda>x a b. ret ()), apiRelayRegistryAddress = id,
      apiRegistryCoordinatorAddress = id, apiCertVerifier = (\<lambda>x y. ret ()), apiCheckDACert = (\<lambda>x c. ret ()),
      apiRelayUrlProvider = (\<lambda>x y. ret ()), apiRelayClient = (\<lambda>tls n x. ret ()), apiRelayRetriever = (\<lambda>c x y. ret ()),
      apiChainState = (\<lambda>x y. ()), apiValidatorClient = (\<lambda>x y k. ()), apiValidatorRetriever = (\<lambda>c x y. ret ()),
      apiGetPayload = (\<lambda>x c. ret [1]), apiLocalSigner = (\<lambda>k. Inr ()), apiPubkeyToAddress = id,
      apiPendingBalanceAt = (\<lambda>x a. ret (Some 0)), apiDisperserClient = (\<lambda>c x y. ret ()),
      apiBlockNumberMonitor = (\<lambda>x n. ret ()), apiCertBuilder = (\<lambda>x y z. ret ()),
      apiPayloadDisperser = (\<lambda>c a b x y. ret ()), apiSendPayload = (\<lambda>x v. ret \<lparr>sentVersion = VersionThreeCert, sentV3 = Some ()\<rparr>),
      apiRetryV2 = ex_retry, apiCerts = ex_api\<rparr>"

definition ex_mgr_state :: "unit mem_world mgr_state" where
  "ex_mgr_state = \<lparr>verifyLock = False, concurrentWrites = False, liveWorkers = 0, inflight = [], recorded = [],
     world = ex_mem, dispersalBackend = None\<rparr>"

definition ex_target_config :: "string list \<Rightarrow> BuilderConfig" where
  "ex_target_config ts = ex_builder_config\<lparr>bcStoreConfig := (bcStoreConfig ex_builder_config)\<lparr>FallbackTargets := ts\<rparr>\<rparr>"

definition ex_secrets :: SecretConfigV2 where
  "ex_secrets = \<lparr>SignerPaymentKey = ''key'', EthRPCURL = ''url''\<rparr>"

lemmas ex_builder_defs = ex_builder_api_def ex_builder_config_def ex_mgr_state_def ex_target_config_def ex_secrets_def

lemma ex_target_names [simp]:
  "StringToBackendType ''redis'' = RedisBackendType" "StringToBackendType ''s3'' = S3BackendType"
  "StringToBackendType ''S3'' = S3BackendType"
  by code_simp+

lemma ex_chain_id: "EigenDANetworksFromChainID (decimal 11155111) = Ok [SepoliaTestnetEigenDANetwork]"
proof -
  have "decimal 11155111 = ''11155111''" by (simp add: decimal.simps char_of_def bit_0)
  then show ?thesis by (simp add: EigenDANetworksFromChainID_def chainIDToNetworkMap_def)
qed

lemma ex_build:
  "\<exists>m s'. BuildStoreManager ex_builder_api scheduled ex_builder_config ex_secrets ex_mgr_state = (Ok m, s')"
  by (simp add: BuildStoreManager_def ex_builder_defs build_s3_def build_redis_def build_kzg_def build_v1_def build_v2_def
      v1_enabled_def v2_enabled_def buildEigenDAV2Backend_def mem_start_def mode_simps Let_def act_simps on_world_def
      zoom_def NewManager_def)

lemma ex_build_target:
  "\<exists>m s'. BuildStoreManager ex_builder_api scheduled (ex_target_config [''S3'']) ex_secrets ex_mgr_state = (Ok m, s')"
  by (simp add: BuildStoreManager_def ex_builder_defs build_s3_def build_redis_def build_kzg_def build_v1_def build_v2_def
      v1_enabled_def v2_enabled_def buildEigenDAV2Backend_def mem_start_def mode_simps Let_def act_simps on_world_def
      zoom_def NewManager_def)

theorem BuildStoreManager_serves_witness:
  "\<exists>m s' sm. BuildStoreManager ex_builder_api 5 (ex_target_config [''S3'']) ex_secrets ex_mgr_state = (Ok m, s') \<and>
     mgrEigenda m = None \<and> mgrEigendaV2 m \<noteq> None \<and> mgrS3 m = None \<and> dispersalBackend s' = Some V2EigenDABackend \<and>
     mgrSecondary m = SecondaryManager_ISecondary pad32 (\<lambda>n m. m) sm \<and> caches sm = [] \<and>
     fallbacks sm = [s3_interface pad32 (None :: (unit mem_world, unit) S3Store option)] \<and> liveWorkers s' = 2"
proof -
  let ?c = "ex_target_config [''S3'']"
  obtain m s' where b: "BuildStoreManager ex_builder_api 5 ?c ex_secrets ex_mgr_state = (Ok m, s')"
    using ex_build_target by blast
  have "build_s3 ex_builder_api ?c = Ok s3Store \<Longrightarrow> s3Store = None" for s3Store
    by (simp add: build_s3_def ex_builder_defs)
  with b BuildStoreManager_serves [OF b] show ?thesis
    by (auto simp: ex_builder_defs built_target_def list_all2_Cons1)
qed

theorem keccak_without_bucket_witness:
  "\<exists>m s' e. BuildStoreManager ex_builder_api 1 ex_builder_config ex_secrets ex_mgr_state = (Ok m, s') \<and>
     PutOPKeccakPairInS3 m (pad32 [1]) [1] s' = (Err e, s')"
proof -
  obtain m s' where b: "BuildStoreManager ex_builder_api 1 ex_builder_config ex_secrets ex_mgr_state = (Ok m, s')"
    using ex_build by blast
  show ?thesis
    using b keccak_without_bucket [OF b, of "pad32 [1]" "[1]" s'] by (auto simp: ex_builder_config_def)
qed

theorem checked_targets_buildable_witness:
  "BuilderConfig_Check (ex_target_config [''redis'']) = (Ok (), ex_target_config [''redis'']) \<and>
   buildSecondaries [''redis''] (Some (s3_interface pad32 (None :: (unit mem_world, unit) S3Store option))) None = Panic"
proof -
  have c: "BuilderConfig_Check (ex_target_config [''redis'']) = (Ok (), ex_target_config [''redis''])"
    by (simp add: BuilderConfig_Check_Ok config_ok_def checked_config_def secondaries_ok_def targets_ok_def
        ex_builder_defs)
  have "build_redis ex_builder_api (ex_target_config [''redis'']) ex_mem = (Ok None, ex_mem)"
    by (simp add: build_redis_def ex_builder_defs act_simps)
  with c show ?thesis
    using checked_targets_buildable [OF c, of ex_builder_api ex_mem None ex_mem "[''redis'']"]
    by (simp add: ex_builder_defs)
qed

theorem buildEthClient_network_witness:
  "buildEthClient ex_builder_api ex_secrets SepoliaTestnetEigenDANetwork ex_mem = (Ok (), ex_mem) \<and>
   (\<exists>chainID w1. apiChainID ex_builder_api () w1 = (Ok chainID, ex_mem) \<and> chainID = 11155111)"
proof -
  have b: "buildEthClient ex_builder_api ex_secrets SepoliaTestnetEigenDANetwork ex_mem = (Ok (), ex_mem)"
    by (simp add: buildEthClient_def ex_builder_defs act_simps mode_simps ex_chain_id)
  show ?thesis
    using b buildEthClient_network [OF b] by (simp add: ex_builder_api_def act_simps mode_simps)
qed

end
