(* ===== verification/Flags.thy ===== *)
theory Flags
  imports Common
begin

text \<open>
  The command-line flags of the proxy: \<^verbatim>\<open>config/flags.go\<close> and the \<^verbatim>\<open>CLIFlags\<close> functions of the packages.

  A flag is its name, its default value (whose constructor is the kind of the flag), its environment variables, whether
  it is required and hidden, and its action. Usage texts and categories are left out. \<^verbatim>\<open>*cli.Context\<close> of urfave/cli
  is the type \<open>'c\<close> with the operations of \<open>cli_api\<close>; the process environment is a map. An action gets
  the context and the value of the flag, and may change the context. Durations are in nanoseconds.
\<close>

section \<open>Flags and contexts\<close>

datatype flag_value =
  StringV string | BoolV bool | IntV int | UintV nat | Uint64V nat | DurationV int |
  StringSliceV "string list" | UintSliceV "nat list"

record 'c cli_api =
  ctxString :: "'c \<Rightarrow> string \<Rightarrow> string"
  ctxBool :: "'c \<Rightarrow> string \<Rightarrow> bool"
  ctxInt :: "'c \<Rightarrow> string \<Rightarrow> int"
  ctxUint :: "'c \<Rightarrow> string \<Rightarrow> uint64"
  ctxUint64 :: "'c \<Rightarrow> string \<Rightarrow> uint64"
  ctxDuration :: "'c \<Rightarrow> string \<Rightarrow> int"
  ctxStringSlice :: "'c \<Rightarrow> string \<Rightarrow> string list"
  ctxUintSlice :: "'c \<Rightarrow> string \<Rightarrow> uint64 list"
  ctxSet :: "'c \<Rightarrow> string \<Rightarrow> string \<Rightarrow> go_error + 'c"
  PrefixFlag :: "string \<Rightarrow> string \<Rightarrow> string"
  PrefixEnvVar :: "string \<Rightarrow> string \<Rightarrow> string"

type_synonym os_env = "string \<rightharpoonup> string"
type_synonym 'c flag_action = "os_env \<Rightarrow> flag_value \<Rightarrow> ('c, unit) goact"

record 'c cli_flag =
  flagName :: string
  flagDefault :: flag_value
  flagEnvVars :: "string list"
  flagRequired :: bool
  flagHidden :: bool
  flagAction :: "'c flag_action option"

text \<open>A visible optional flag without an action, one with an action, and a hidden one whose action is an error.\<close>

definition plain_flag :: "string \<Rightarrow> flag_value \<Rightarrow> string list \<Rightarrow> 'c cli_flag" where
  "plain_flag name v envs =
     \<lparr>flagName = name, flagDefault = v, flagEnvVars = envs, flagRequired = False, flagHidden = False, flagAction = None\<rparr>"

definition action_flag :: "string \<Rightarrow> flag_value \<Rightarrow> string list \<Rightarrow> 'c flag_action \<Rightarrow> 'c cli_flag" where
  "action_flag name v envs act = (plain_flag name v envs)\<lparr>flagAction := Some act\<rparr>"

definition deprecated_flag :: "string \<Rightarrow> flag_value \<Rightarrow> string list \<Rightarrow> string \<Rightarrow> 'c cli_flag" where
  "deprecated_flag name v envs msg =
     (plain_flag name v envs)\<lparr>flagHidden := True, flagAction := Some (\<lambda>env val. throw (ErrorString msg))\<rparr>"

definition deprecated_use :: "string \<Rightarrow> string \<Rightarrow> string \<Rightarrow> string \<Rightarrow> string" where
  "deprecated_use old oldEnv new newEnv =
     ''flag --'' @ old @ '' (env var '' @ oldEnv @ '') is deprecated, use --'' @ new @ '' (env var '' @ newEnv @ '') instead''"

definition seconds :: "int \<Rightarrow> int" where "seconds n = n * 1000000000"
definition minutes :: "int \<Rightarrow> int" where "minutes n = seconds (n * 60)"

section \<open>Server, logging and metrics\<close>

definition server_CLIFlags :: "string \<Rightarrow> 'c cli_flag list" where
  "server_CLIFlags envPrefix =
     (let env = (\<lambda>s. [envPrefix @ ''_'' @ s]) in
      [plain_flag ''addr'' (StringV ''0.0.0.0'') (env ''ADDR''),
       plain_flag ''port'' (IntV 3100) (env ''PORT''),
       plain_flag ''api-enabled'' (StringSliceV []) (env ''API_ENABLED'')])"

definition logging_CLIFlags :: "'c cli_api \<Rightarrow> string \<Rightarrow> 'c cli_flag list" where
  "logging_CLIFlags api envPrefix =
     (let name = PrefixFlag api ''log''; env = (\<lambda>s. [envPrefix @ ''_LOG_'' @ s]) in
      [plain_flag (name ''level'') (StringV ''info'') (env ''LEVEL''),
       plain_flag (name ''path'') (StringV []) (env ''PATH''),
       plain_flag (name ''format'') (StringV ''text'') (env ''FORMAT''),
       deprecated_flag (name ''pid'') (BoolV False) (env ''PID'') ''flag --pid is deprecated'',
       deprecated_flag (name ''color'') (BoolV False) [PrefixEnvVar api envPrefix ''LOG_COLOR''] ''flag --color is deprecated''])"

definition metrics_CLIFlags :: "string \<Rightarrow> 'c cli_flag list" where
  "metrics_CLIFlags envPrefix =
     (let env = (\<lambda>s. [envPrefix @ ''_METRICS_'' @ s]) in
      [plain_flag ''metrics.enabled'' (BoolV False) (env ''ENABLED''),
       plain_flag ''metrics.addr'' (StringV ''0.0.0.0'') (env ''ADDR''),
       plain_flag ''metrics.port'' (IntV 7300) (env ''PORT'')])"

section \<open>EigenDA V1 client\<close>

definition validateConfirmationFlag :: "string \<Rightarrow> unit go" where
  "validateConfirmationFlag val =
     (if val = ''finalized'' then Ok ()
      else case strconv_ParseUint val of
             None \<Rightarrow> Err (ErrorString (''confirmation-depth must be either 'finalized' or a number, got: '' @ val))
           | Some depth \<Rightarrow>
               if depth \<ge> of_nat EthHappyPathFinalizationDepthBlocks
               then Err (ErrorString (''confirmation depth set to '' @ decimal (unat depth) @
                      '', which is > 2 epochs (64). Use 'finalized' instead''))
               else Ok ())"

definition parseConfirmationFlag :: "string \<Rightarrow> (bool \<times> uint64) go" where
  "parseConfirmationFlag val =
     (if val = ''finalized'' then Ok (True, 0)
      else case strconv_ParseUint val of None \<Rightarrow> Panic | Some depth \<Rightarrow> Ok (False, depth))"

definition v1_withFlagPrefix :: "string \<Rightarrow> string" where "v1_withFlagPrefix s = ''eigenda.'' @ s"
definition v1_withEnvPrefix :: "string \<Rightarrow> string \<Rightarrow> string" where "v1_withEnvPrefix p s = p @ ''_EIGENDA_'' @ s"

definition validate_action :: "'c flag_action" where
  "validate_action env v = (case v of StringV val \<Rightarrow> liftR (validateConfirmationFlag val) | _ \<Rightarrow> panic)"

definition v1_CLIFlags :: "string \<Rightarrow> 'c cli_flag list" where
  "v1_CLIFlags envPrefix =
     (let name = v1_withFlagPrefix; env = (\<lambda>s. [v1_withEnvPrefix envPrefix s]) in
      [plain_flag (name ''disperser-rpc'') (StringV []) (env ''DISPERSER_RPC''),
       plain_flag (name ''response-timeout'') (DurationV (seconds 60)) (env ''RESPONSE_TIMEOUT''),
       plain_flag (name ''confirmation-timeout'') (DurationV (minutes 15)) (env ''CONFIRMATION_TIMEOUT''),
       plain_flag (name ''status-query-timeout'') (DurationV (minutes 30)) (env ''STATUS_QUERY_TIMEOUT''),
       plain_flag (name ''status-query-retry-interval'') (DurationV (seconds 5)) (env ''STATUS_QUERY_INTERVAL''),
       plain_flag (name ''disable-tls'') (BoolV False) (env ''GRPC_DISABLE_TLS''),
       plain_flag (name ''custom-quorum-ids'') (UintSliceV []) (env ''CUSTOM_QUORUM_IDS''),
       plain_flag (name ''signer-private-key-hex'') (StringV []) (env ''SIGNER_PRIVATE_KEY_HEX''),
       plain_flag (name ''put-blob-encoding-version'') (UintV 0) (env ''PUT_BLOB_ENCODING_VERSION''),
       plain_flag (name ''disable-point-verification-mode'') (BoolV False) (env ''DISABLE_POINT_VERIFICATION_MODE''),
       action_flag (name ''confirmation-depth'') (StringV ''8'') (env ''CONFIRMATION_DEPTH'') validate_action,
       plain_flag (name ''eth-rpc'') (StringV []) (env ''ETH_RPC''),
       plain_flag (name ''svc-manager-addr'') (StringV []) (env ''SERVICE_MANAGER_ADDR''),
       plain_flag (name ''put-retries'') (IntV 3) (env ''PUT_RETRIES''),
       plain_flag (name ''max-blob-length'') (StringV ''16MiB'') (env ''MAX_BLOB_LENGTH'')])"

definition old_flag :: "string \<Rightarrow> string" where "old_flag s = ''eigenda-'' @ s"
definition old_env :: "string \<Rightarrow> string \<Rightarrow> string" where "old_env p s = p @ ''_'' @ s"

text \<open>A deprecated flag with the same suffixes as the flag that replaces it.\<close>

definition renamed :: "string \<Rightarrow> string \<Rightarrow> flag_value \<Rightarrow> string \<Rightarrow> 'c cli_flag" where
  "renamed envPrefix s v e =
     deprecated_flag (old_flag s) v [old_env envPrefix e]
       (deprecated_use (old_flag s) (old_env envPrefix e) (v1_withFlagPrefix s) (v1_withEnvPrefix envPrefix e))"

definition v1_DeprecatedCLIFlags :: "string \<Rightarrow> 'c cli_flag list" where
  "v1_DeprecatedCLIFlags envPrefix =
     [renamed envPrefix ''disperser-rpc'' (StringV []) ''DISPERSER_RPC'',
      renamed envPrefix ''status-query-timeout'' (DurationV (minutes 30)) ''STATUS_QUERY_TIMEOUT'',
      renamed envPrefix ''status-query-retry-interval'' (DurationV (seconds 5)) ''STATUS_QUERY_INTERVAL'',
      renamed envPrefix ''disable-tls'' (BoolV False) ''GRPC_DISABLE_TLS'',
      renamed envPrefix ''response-timeout'' (DurationV (seconds 60)) ''RESPONSE_TIMEOUT'',
      renamed envPrefix ''custom-quorum-ids'' (UintSliceV []) ''CUSTOM_QUORUM_IDS'',
      renamed envPrefix ''signer-private-key-hex'' (StringV []) ''SIGNER_PRIVATE_KEY_HEX'',
      renamed envPrefix ''put-blob-encoding-version'' (UintV 0) ''PUT_BLOB_ENCODING_VERSION'',
      renamed envPrefix ''disable-point-verification-mode'' (BoolV False) ''DISABLE_POINT_VERIFICATION_MODE'']"

section \<open>EigenDA V2 client\<close>

definition v2_withFlagPrefix :: "string \<Rightarrow> string" where "v2_withFlagPrefix s = ''eigenda.v2.'' @ s"
definition v2_withEnvPrefix :: "string \<Rightarrow> string \<Rightarrow> string" where "v2_withEnvPrefix p s = p @ ''_EIGENDA_V2_'' @ s"

definition v2_CLIFlags :: "string \<Rightarrow> 'c cli_flag list" where
  "v2_CLIFlags envPrefix =
     (let name = v2_withFlagPrefix; env = (\<lambda>s. [v2_withEnvPrefix envPrefix s]) in
      [plain_flag (name ''disperser-rpc'') (StringV []) (env ''DISPERSER_RPC''),
       plain_flag (name ''disable-tls'') (BoolV False) (env ''GRPC_DISABLE_TLS''),
       plain_flag (name ''signer-payment-key-hex'') (StringV []) (env ''SIGNER_PRIVATE_KEY_HEX''),
       plain_flag (name ''disable-point-evaluation'') (BoolV False) (env ''DISABLE_POINT_EVALUATION''),
       plain_flag (name ''eth-rpc'') (StringV []) (env ''ETH_RPC''),
       plain_flag (name ''put-retries'') (IntV 3) (env ''PUT_RETRIES''),
       plain_flag (name ''disperse-blob-timeout'') (DurationV (minutes 2)) (env ''DISPERSE_BLOB_TIMEOUT''),
       plain_flag (name ''blob-certified-timeout'') (DurationV (seconds 30)) (env ''CERTIFY_BLOB_TIMEOUT''),
       plain_flag (name ''cert-verifier-router-or-immutable-verifier-addr'') (StringV [])
         (env ''CERT_VERIFIER_ROUTER_OR_IMMUTABLE_VERIFIER_ADDR''),
       plain_flag (name ''service-manager-addr'') (StringV []) (env ''SERVICE_MANAGER_ADDR''),
       plain_flag (name ''bls-operator-state-retriever-addr'') (StringV []) (env ''BLS_OPERATOR_STATE_RETRIEVER_ADDR''),
       plain_flag (name ''contract-call-timeout'') (DurationV (seconds 10)) (env ''CONTRACT_CALL_TIMEOUT''),
       plain_flag (name ''relay-timeout'') (DurationV (seconds 10)) (env ''RELAY_TIMEOUT''),
       plain_flag (name ''validator-timeout'') (DurationV (minutes 2)) (env ''VALIDATOR_TIMEOUT''),
       plain_flag (name ''blob-status-poll-interval'') (DurationV (seconds 1)) (env ''BLOB_STATUS_POLL_INTERVAL''),
       plain_flag (name ''blob-version'') (UintV 0) (env ''BLOB_PARAMS_VERSION''),
       plain_flag (name ''max-blob-length'') (StringV ''16MiB'') (env ''MAX_BLOB_LENGTH''),
       plain_flag (name ''network'') (StringV []) (env ''NETWORK''),
       plain_flag (name ''rbn-recency-window-size'') (Uint64V 0) (env ''RBN_RECENCY_WINDOW_SIZE'')])"

section \<open>Storage\<close>

definition store_withFlagPrefix :: "string \<Rightarrow> string" where "store_withFlagPrefix s = ''storage.'' @ s"
definition store_withEnvPrefix :: "string \<Rightarrow> string \<Rightarrow> string list" where "store_withEnvPrefix p s = [p @ ''_STORAGE_'' @ s]"

definition store_CLIFlags :: "string \<Rightarrow> 'c cli_flag list" where
  "store_CLIFlags envPrefix =
     (let name = store_withFlagPrefix; env = store_withEnvPrefix envPrefix in
      [plain_flag (name ''backends-to-enable'') (StringSliceV [''V1'']) (env ''BACKENDS_TO_ENABLE''),
       plain_flag (name ''dispersal-backend'') (StringV ''V1'') (env ''DISPERSAL_BACKEND''),
       plain_flag (name ''fallback-targets'') (StringSliceV []) (env ''FALLBACK_TARGETS''),
       plain_flag (name ''cache-targets'') (StringSliceV []) (env ''CACHE_TARGETS''),
       plain_flag (name ''concurrent-write-routines'') (IntV 0) (env ''CONCURRENT_WRITE_THREADS''),
       plain_flag (name ''write-on-cache-miss'') (BoolV False) (env ''WRITE_ON_CACHE_MISS'')])"

text \<open>The message of the last one names the flags for cache targets. \<^verbatim>\<open>%s\<close> prints the environment variables as a slice.\<close>

definition store_DeprecatedCLIFlags :: "string \<Rightarrow> 'c cli_flag list" where
  "store_DeprecatedCLIFlags envPrefix =
     (let old = (\<lambda>s. ''routing.'' @ s); env = (\<lambda>s. envPrefix @ ''_'' @ s);
          msg = (\<lambda>s e. deprecated_use (old s) (''['' @ env e @ '']'') (store_withFlagPrefix s)
                         (''['' @ concat (store_withEnvPrefix envPrefix e) @ '']'')) in
      [deprecated_flag (old ''fallback-targets'') (StringSliceV []) [env ''FALLBACK_TARGETS'']
         (msg ''fallback-targets'' ''FALLBACK_TARGETS''),
       deprecated_flag (old ''cache-targets'') (StringSliceV []) [env ''CACHE_TARGETS'']
         (msg ''cache-targets'' ''CACHE_TARGETS''),
       deprecated_flag (old ''concurrent-write-routines'') (IntV 0) [env ''CONCURRENT_WRITE_THREADS'']
         (msg ''cache-targets'' ''CONCURRENT_WRITE_THREADS'')])"

definition redis_CLIFlags :: "string \<Rightarrow> 'c cli_flag list" where
  "redis_CLIFlags envPrefix =
     (let name = (\<lambda>s. ''redis.'' @ s); env = (\<lambda>s. [envPrefix @ ''_REDIS_'' @ s]) in
      [plain_flag (name ''endpoint'') (StringV []) (env ''ENDPOINT''),
       plain_flag (name ''password'') (StringV []) (env ''PASSWORD''),
       plain_flag (name ''db'') (IntV 0) (env ''DB''),
       plain_flag (name ''eviction'') (DurationV (minutes (24 * 60))) (env ''EVICTION'')])"

definition s3_CLIFlags :: "string \<Rightarrow> 'c cli_flag list" where
  "s3_CLIFlags envPrefix =
     (let name = (\<lambda>s. ''s3.'' @ s); env = (\<lambda>s. [envPrefix @ ''_S3_'' @ s]) in
      [plain_flag (name ''endpoint'') (StringV []) (env ''ENDPOINT''),
       plain_flag (name ''enable-tls'') (BoolV False) (env ''ENABLE_TLS''),
       plain_flag (name ''credential-type'') (StringV []) (env ''CREDENTIAL_TYPE''),
       plain_flag (name ''access-key-id'') (StringV []) (env ''ACCESS_KEY_ID''),
       plain_flag (name ''access-key-secret'') (StringV []) (env ''ACCESS_KEY_SECRET''),
       plain_flag (name ''bucket'') (StringV []) (env ''BUCKET''),
       plain_flag (name ''path'') (StringV []) (env ''PATH'')])"

section \<open>Memstore\<close>

definition CertVerificationDisabledFlagName :: string where
  "CertVerificationDisabledFlagName = v1_withFlagPrefix ''cert-verification-disabled''"

definition memstore_withFlagPrefix :: "string \<Rightarrow> string" where "memstore_withFlagPrefix s = ''memstore.'' @ s"
definition memstore_withEnvPrefix :: "string \<Rightarrow> string \<Rightarrow> string" where
  "memstore_withEnvPrefix p s = p @ ''_MEMSTORE_'' @ s"
definition memstore_oldEnv :: "string \<Rightarrow> string" where "memstore_oldEnv s = ''MEMSTORE_'' @ s"

definition deprecated_env :: "string \<Rightarrow> string \<Rightarrow> string \<Rightarrow> os_env \<Rightarrow> ('c, unit) goact" where
  "deprecated_env envPrefix e name env =
     (if env (memstore_oldEnv e) \<noteq> None
      then throw (ErrorString (''env var '' @ memstore_oldEnv e @ '' is deprecated for flag '' @ name @
             '', use '' @ memstore_withEnvPrefix envPrefix e @ '' instead''))
      else ret ())"

definition set_flag :: "'c cli_api \<Rightarrow> string \<Rightarrow> string \<Rightarrow> ('c, unit) goact" where
  "set_flag api name v c = (case ctxSet api c name v of Inl e \<Rightarrow> (Err e, c) | Inr c' \<Rightarrow> (Ok (), c'))"

definition memstore_enabled_action :: "'c cli_api \<Rightarrow> string \<Rightarrow> 'c flag_action" where
  "memstore_enabled_action api envPrefix env v =
     andThen (deprecated_env envPrefix ''ENABLED'' (memstore_withFlagPrefix ''enabled'') env) (\<lambda>_.
     case v of
       BoolV enabled \<Rightarrow>
         if enabled
         then mapErr (WrapError (''failed to set '' @ CertVerificationDisabledFlagName))
                (set_flag api CertVerificationDisabledFlagName ''true'')
         else ret ()
     | _ \<Rightarrow> panic)"

definition memstore_CLIFlags :: "'c cli_api \<Rightarrow> string \<Rightarrow> 'c cli_flag list" where
  "memstore_CLIFlags api envPrefix =
     (let name = memstore_withFlagPrefix; env = memstore_withEnvPrefix envPrefix in
      [action_flag (name ''enabled'') (BoolV False) [env ''ENABLED'', memstore_oldEnv ''ENABLED'']
         (memstore_enabled_action api envPrefix),
       action_flag (name ''expiration'') (DurationV (minutes 25)) [env ''EXPIRATION'', memstore_oldEnv ''EXPIRATION'']
         (\<lambda>e v. deprecated_env envPrefix ''EXPIRATION'' (name ''expiration'') e),
       plain_flag (name ''put-latency'') (DurationV 0) [env ''PUT_LATENCY''],
       plain_flag (name ''get-latency'') (DurationV 0) [env ''GET_LATENCY''],
       plain_flag (name ''put-returns-failover-error'') (BoolV False) [env ''PUT_RETURNS_FAILOVER_ERROR'']])"

section \<open>Certificate verification and KZG\<close>

definition VerifierCLIFlags :: "string \<Rightarrow> 'c cli_flag list" where
  "VerifierCLIFlags envPrefix =
     (let env = (\<lambda>s. [v1_withEnvPrefix envPrefix s]) in
      [plain_flag CertVerificationDisabledFlagName (BoolV False) (env ''CERT_VERIFICATION_DISABLED''),
       plain_flag (v1_withFlagPrefix ''cert-verifier-v1'') (StringV []) (env ''CERT_VERIFIER_V1'')])"

definition KZGCLIFlags :: "string \<Rightarrow> 'c cli_flag list" where
  "KZGCLIFlags envPrefix =
     (let name = v1_withFlagPrefix; env = v1_withEnvPrefix envPrefix in
      [plain_flag (name ''g1-path'') (StringV ''resources/g1.point'') [env ''TARGET_KZG_G1_PATH''],
       deprecated_flag (name ''g2-power-of-2-path'') (StringV []) [env ''TARGET_KZG_G2_POWER_OF_2_PATH'']
         (''flag --'' @ name ''g2-power-of-2-path'' @ '' (env var '' @ env ''TARGET_KZG_G2_POWER_OF_2_PATH'' @ '') is deprecated''),
       plain_flag (name ''g2-path'') (StringV ''resources/g2.point'') [env ''TARGET_KZG_G2_PATH''],
       plain_flag (name ''g2-path-trailing'') (StringV ''resources/g2.trailing.point'') [env ''TARGET_KZG_G2_TRAILING_PATH''],
       plain_flag (name ''cache-path'') (StringV ''resources/SRSTables/'') [env ''TARGET_CACHE_PATH'']])"

definition verify_DeprecatedCLIFlags :: "string \<Rightarrow> 'c cli_flag list" where
  "verify_DeprecatedCLIFlags envPrefix =
     [renamed envPrefix ''eth-rpc'' (StringV []) ''ETH_RPC'',
      renamed envPrefix ''svc-manager-addr'' (StringV []) ''SERVICE_MANAGER_ADDR'',
      deprecated_flag (old_flag ''eth-confirmation-depth'') (Uint64V 0) [old_env envPrefix ''ETH_CONFIRMATION_DEPTH'']
        (deprecated_use (old_flag ''eth-confirmation-depth'') (old_env envPrefix ''ETH_CONFIRMATION_DEPTH'')
           (v1_withFlagPrefix ''confirmation-depth'') (v1_withEnvPrefix envPrefix ''CONFIRMATION_DEPTH'')),
      renamed envPrefix ''g1-path'' (StringV ''resources/g1.point'') ''TARGET_KZG_G1_PATH'',
      deprecated_flag (old_flag ''g2-tau-path'') (StringV ''resources/g2.point.powerOf2'') [old_env envPrefix ''TARGET_G2_TAU_PATH'']
        (''flag --'' @ old_flag ''g2-tau-path'' @ '' (env var '' @ old_env envPrefix ''TARGET_G2_TAU_PATH'' @ '') is deprecated''),
      renamed envPrefix ''cache-path'' (StringV ''resources/SRSTables/'') ''TARGET_CACHE_PATH'',
      renamed envPrefix ''max-blob-length'' (StringV ''16MiB'') ''MAX_BLOB_LENGTH'']"

section \<open>All flags\<close>

definition GlobalEnvVarPrefix :: string where
  "GlobalEnvVarPrefix = ''EIGENDA_PROXY''"

definition CLI_Flags :: "'c cli_api \<Rightarrow> 'c cli_flag list" where
  "CLI_Flags api =
     (let p = GlobalEnvVarPrefix in
      server_CLIFlags p @ logging_CLIFlags api p @ metrics_CLIFlags p @ v1_CLIFlags p @ v2_CLIFlags p @
      store_CLIFlags p @ redis_CLIFlags p @ s3_CLIFlags p @ memstore_CLIFlags api p @ VerifierCLIFlags p @ KZGCLIFlags p @
      v1_DeprecatedCLIFlags p @ verify_DeprecatedCLIFlags p @ store_DeprecatedCLIFlags p)"

section \<open>Lemmas\<close>

text \<open>What the flag prefixing of the EigenDA library is documented to do.\<close>

definition prefix_documented :: "'c cli_api \<Rightarrow> bool" where
  "prefix_documented api \<longleftrightarrow>
     (\<forall>p s. PrefixFlag api p s = p @ ''.'' @ s) \<and> (\<forall>p s. PrefixEnvVar api p s = p @ ''_'' @ s)"

lemmas flag_tables = server_CLIFlags_def logging_CLIFlags_def metrics_CLIFlags_def v1_CLIFlags_def v2_CLIFlags_def
  store_CLIFlags_def redis_CLIFlags_def s3_CLIFlags_def memstore_CLIFlags_def VerifierCLIFlags_def KZGCLIFlags_def
  v1_DeprecatedCLIFlags_def verify_DeprecatedCLIFlags_def store_DeprecatedCLIFlags_def

lemmas flag_prefixes = old_flag_def old_env_def v1_withFlagPrefix_def v1_withEnvPrefix_def
  v2_withFlagPrefix_def v2_withEnvPrefix_def store_withFlagPrefix_def store_withEnvPrefix_def memstore_withFlagPrefix_def
  memstore_withEnvPrefix_def memstore_oldEnv_def CertVerificationDisabledFlagName_def GlobalEnvVarPrefix_def

lemma flag_sel [simp]:
  "flagName (plain_flag n v e) = n" "flagEnvVars (plain_flag n v e) = e" "flagDefault (plain_flag n v e) = v"
  "\<not> flagHidden (plain_flag n v e)" "flagAction (plain_flag n v e) = None" "\<not> flagRequired (plain_flag n v e)"
  "flagName (action_flag n v e a) = n" "flagEnvVars (action_flag n v e a) = e" "flagDefault (action_flag n v e a) = v"
  "\<not> flagHidden (action_flag n v e a)" "flagAction (action_flag n v e a) = Some a" "\<not> flagRequired (action_flag n v e a)"
  "flagName (deprecated_flag n v e m) = n" "flagEnvVars (deprecated_flag n v e m) = e" "flagDefault (deprecated_flag n v e m) = v"
  "flagHidden (deprecated_flag n v e m)" "flagAction (deprecated_flag n v e m) = Some (\<lambda>env val. throw (ErrorString m))"
  "\<not> flagRequired (deprecated_flag n v e m)"
  by (simp_all add: plain_flag_def action_flag_def deprecated_flag_def)

lemma flag_names_distinct:
  "prefix_documented api \<Longrightarrow> distinct (map flagName (CLI_Flags api))"
  by (simp add: CLI_Flags_def flag_tables flag_prefixes renamed_def prefix_documented_def Let_def)

lemma flag_envs_distinct:
  "prefix_documented api \<Longrightarrow> distinct (concat (map flagEnvVars (CLI_Flags api)))"
  by (simp add: CLI_Flags_def flag_tables flag_prefixes renamed_def prefix_documented_def Let_def)

definition always_fails :: "'c cli_flag \<Rightarrow> bool" where
  "always_fails f \<longleftrightarrow> (\<exists>act. flagAction f = Some act \<and> (\<forall>env v c. \<exists>e. act env v c = (Err e, c)))"

lemma deprecated_fails [simp]: "always_fails (deprecated_flag n v e m)"
  by (simp add: always_fails_def act_simps)

lemma hidden_flags_fail: "f \<in> set (CLI_Flags api) \<Longrightarrow> flagHidden f \<Longrightarrow> always_fails f"
  by (auto simp: CLI_Flags_def flag_tables renamed_def Let_def)

lemma optional_flags: "f \<in> set (CLI_Flags api) \<Longrightarrow> \<not> flagRequired f"
  by (auto simp: CLI_Flags_def flag_tables renamed_def Let_def)

lemma visible_actions:
  "f \<in> set (CLI_Flags api) \<Longrightarrow> \<not> flagHidden f \<Longrightarrow> flagAction f \<noteq> None \<Longrightarrow>
     flagName f \<in> {v1_withFlagPrefix ''confirmation-depth'', memstore_withFlagPrefix ''enabled'',
       memstore_withFlagPrefix ''expiration''}"
  by (auto simp: CLI_Flags_def flag_tables renamed_def Let_def)

section \<open>Properties\<close>

text \<open>
  C33: the flags are unambiguous. No two flags have the same name and no environment variable belongs to two
  flags; no flag is required; setting a deprecated (hidden) flag to any value makes the start fail; and of the other
  flags only the confirmation depth, \<^verbatim>\<open>memstore.enabled\<close> and \<^verbatim>\<open>memstore.expiration\<close> have an action.
\<close>

theorem flags_unambiguous:
  assumes "prefix_documented api"
  shows "distinct (map flagName (CLI_Flags api)) \<and> distinct (concat (map flagEnvVars (CLI_Flags api))) \<and>
     (\<forall>f \<in> set (CLI_Flags api). \<not> flagRequired f \<and> (flagHidden f \<longrightarrow> always_fails f) \<and>
        (\<not> flagHidden f \<and> flagAction f \<noteq> None \<longrightarrow>
           flagName f \<in> {v1_withFlagPrefix ''confirmation-depth'', memstore_withFlagPrefix ''enabled'',
             memstore_withFlagPrefix ''expiration''}))"
  using flag_names_distinct [OF assms] flag_envs_distinct [OF assms] hidden_flags_fail optional_flags visible_actions by metis

text \<open>
  C34: the confirmation depth. A value that the flag's action accepts is parsed without a panic, to waiting for
  finalization or to a depth below 64, and every depth below 64 in decimal is accepted; so is the default.
\<close>

theorem confirmation_flag:
  "(validateConfirmationFlag val = Ok () \<longleftrightarrow>
      (\<exists>fin depth. parseConfirmationFlag val = Ok (fin, depth) \<and> depth < 64 \<and> (fin \<longleftrightarrow> val = ''finalized''))) \<and>
   (\<forall>n. validateConfirmationFlag (decimal n) = Ok () \<longleftrightarrow> n < 64) \<and>
   (\<forall>n < 64. parseConfirmationFlag (decimal n) = Ok (False, of_nat n))"
proof -
  have dec: "strconv_ParseUint (decimal n) = (if n < 2 ^ 64 then Some (of_nat n) else None)" "decimal n \<noteq> ''finalized''" for n
  proof -
    show "decimal n \<noteq> ''finalized''"
      using parse_digits_decimal [of n] by (auto simp: digit_val_def)
    have "decimal n \<noteq> []" by (subst decimal.simps) simp
    then show "strconv_ParseUint (decimal n) = (if n < 2 ^ 64 then Some (of_nat n) else None)"
      by (simp add: strconv_ParseUint_def parse_digits_decimal)
  qed
  have lt: "(of_nat n :: uint64) < 64 \<longleftrightarrow> n < 64" if "n < 2 ^ 64" for n
    using that by (simp add: word_less_nat_alt unat_of_nat)
  have "validateConfirmationFlag (decimal n) = Ok () \<longleftrightarrow> n < 64" for n
    using lt [of n] by (auto simp: validateConfirmationFlag_def dec EthHappyPathFinalizationDepthBlocks_def not_le)
  moreover have "validateConfirmationFlag val = Ok () \<longleftrightarrow>
      (\<exists>fin depth. parseConfirmationFlag val = Ok (fin, depth) \<and> depth < 64 \<and> (fin \<longleftrightarrow> val = ''finalized''))"
    by (auto simp: validateConfirmationFlag_def parseConfirmationFlag_def EthHappyPathFinalizationDepthBlocks_def
        not_le split: option.splits)
  ultimately show ?thesis by (auto simp: parseConfirmationFlag_def dec)
qed

theorem confirmation_flag_witness:
  "parseConfirmationFlag (decimal 8) = Ok (False, 8) \<and> validateConfirmationFlag (decimal 8) = Ok () \<and>
   validateConfirmationFlag (decimal 64) \<noteq> Ok ()"
proof -
  have "\<forall>n. validateConfirmationFlag (decimal n) = Ok () \<longleftrightarrow> n < 64"
    "\<forall>n < 64. parseConfirmationFlag (decimal n) = Ok (False, of_nat n)"
    using confirmation_flag [of "[]"] by blast+
  from this(1) this(2) [rule_format, of 8] show ?thesis by simp
qed

text \<open>A context that holds a few values, with the defaults of Go for everything else.\<close>

definition ex_cli :: "(string \<rightharpoonup> flag_value) cli_api" where
  "ex_cli =
     \<lparr>ctxString = (\<lambda>c n. case c n of Some (StringV s) \<Rightarrow> s | _ \<Rightarrow> []),
      ctxBool = (\<lambda>c n. case c n of Some (BoolV b) \<Rightarrow> b | _ \<Rightarrow> False),
      ctxInt = (\<lambda>c n. case c n of Some (IntV i) \<Rightarrow> i | Some (UintV i) \<Rightarrow> int i | _ \<Rightarrow> 0),
      ctxUint = (\<lambda>c n. case c n of Some (UintV i) \<Rightarrow> of_nat i | _ \<Rightarrow> 0),
      ctxUint64 = (\<lambda>c n. case c n of Some (Uint64V i) \<Rightarrow> of_nat i | _ \<Rightarrow> 0),
      ctxDuration = (\<lambda>c n. case c n of Some (DurationV i) \<Rightarrow> i | _ \<Rightarrow> 0),
      ctxStringSlice = (\<lambda>c n. case c n of Some (StringSliceV xs) \<Rightarrow> xs | _ \<Rightarrow> []),
      ctxUintSlice = (\<lambda>c n. case c n of Some (UintSliceV xs) \<Rightarrow> map of_nat xs | _ \<Rightarrow> []),
      ctxSet = (\<lambda>c n v. case c n of
         Some (BoolV b) \<Rightarrow> Inr (c(n \<mapsto> BoolV (v = ''true'')))
       | _ \<Rightarrow> Inl (ErrorString (''no such flag -'' @ n))),
      PrefixFlag = (\<lambda>p s. p @ ''.'' @ s), PrefixEnvVar = (\<lambda>p s. p @ ''_'' @ s)\<rparr>"

theorem flags_unambiguous_witness:
  "prefix_documented ex_cli \<and> distinct (map flagName (CLI_Flags ex_cli)) \<and>
   (\<exists>f \<in> set (CLI_Flags ex_cli). flagName f = ''routing.fallback-targets'' \<and> always_fails f)"
proof -
  have "prefix_documented ex_cli" by (simp add: prefix_documented_def ex_cli_def)
  moreover have "\<exists>f \<in> set (CLI_Flags ex_cli). flagName f = ''routing.fallback-targets'' \<and> flagHidden f"
  proof -
    have "\<exists>f \<in> set (store_DeprecatedCLIFlags GlobalEnvVarPrefix). flagName f = ''routing.fallback-targets'' \<and> flagHidden f"
      by (simp add: store_DeprecatedCLIFlags_def deprecated_flag_def plain_flag_def Let_def)
    then show ?thesis unfolding CLI_Flags_def Let_def set_append by blast
  qed
  ultimately show ?thesis using flags_unambiguous [of ex_cli] by blast
qed

end
