(* ===== verification/Bytes_Amount.thy ===== *)
theory Bytes_Amount
  imports Complex_Main Common "HOL-Library.Log_Nat"
begin

text \<open>
  Sizes given as text: \<^verbatim>\<open>ParseBytesAmount\<close> of \<^verbatim>\<open>common/common.go\<close> and \<^verbatim>\<open>ParseMaxBlobLength\<close> of
  \<^verbatim>\<open>config/eigendaflags/cli.go\<close>.

  The code computes with \<^verbatim>\<open>float64\<close>. A finite non-negative float is the rational it stands for, and
  \<open>float_round\<close> rounds a rational to the nearest float, ties to even, with \<open>None\<close> for positive infinity. The
  conversion of a float outside the range of \<^verbatim>\<open>uint64\<close> depends on the machine; it is the argument \<open>conv\<close>.
\<close>

section \<open>Floats\<close>

definition round_half_even :: "rat \<Rightarrow> int" where
  "round_half_even x =
     (let f = \<lfloor>x\<rfloor>; r = x - of_int f in
      if r < 1 / 2 \<or> r = 1 / 2 \<and> even f then f else f + 1)"

text \<open>The exponent of the leading bit of a positive rational.\<close>

definition leading_bit :: "rat \<Rightarrow> int" where
  "leading_bit x =
     (let (p, q) = quotient_of x; d = int (floorlog 2 (nat p)) - int (floorlog 2 (nat q)) in
      if x < 2 powi d then d - 1 else d)"

definition float_round :: "rat \<Rightarrow> rat option" where
  "float_round x =
     (if x = 0 then Some 0
      else let u = 2 powi (max (leading_bit x - 52) (-1074)); y = of_int (round_half_even (x / u)) * u in
           if y < 2 ^ 1024 then Some y else None)"

definition float_mult :: "rat option \<Rightarrow> nat \<Rightarrow> rat option" where
  "float_mult a k = (case a of None \<Rightarrow> None | Some x \<Rightarrow> float_round (x * of_nat k))"

definition float_to_uint64 :: "(rat option \<Rightarrow> uint64) \<Rightarrow> rat option \<Rightarrow> uint64" where
  "float_to_uint64 conv a =
     (case a of
        Some x \<Rightarrow> if x < 2 ^ 64 then of_int \<lfloor>x\<rfloor> else conv a
      | None \<Rightarrow> conv a)"

text \<open>
  \<^verbatim>\<open>strconv.ParseFloat\<close> on a text of digits and dots: at least one digit, at most one dot, and an error too if the
  value is beyond the largest float.
\<close>

definition is_digit :: "char \<Rightarrow> bool" where
  "is_digit c = (digit_val c \<noteq> None)"

definition strconv_ParseFloat :: "string \<Rightarrow> rat go" where
  "strconv_ParseFloat s =
     (let whole = takeWhile (\<lambda>c. c \<noteq> CHR ''.'') s; frac = drop (length whole + 1) s in
      if whole @ frac = [] then Err (ErrorString ''invalid syntax'')
      else case parse_digits 0 (whole @ frac) of
             None \<Rightarrow> Err (ErrorString ''invalid syntax'')
           | Some n \<Rightarrow>
               (case float_round (of_nat n / 10 ^ length frac) of
                  None \<Rightarrow> Err (ErrorString ''value out of range'')
                | Some x \<Rightarrow> Ok x))"

section \<open>ParseBytesAmount\<close>

definition is_num_char :: "char \<Rightarrow> bool" where
  "is_num_char c = (is_digit c \<or> c = CHR ''.'')"

definition unit_factors :: "string \<rightharpoonup> nat list" where
  "unit_factors =
     [''b'' \<mapsto> [], [] \<mapsto> [], ''kib'' \<mapsto> [1024], ''kb'' \<mapsto> [1000], ''mib'' \<mapsto> [1024, 1024], ''mb'' \<mapsto> [1000, 1000],
      ''gib'' \<mapsto> [1024, 1024, 1024], ''gb'' \<mapsto> [1000, 1000, 1000],
      ''tib'' \<mapsto> [1024, 1024, 1024, 1024], ''tb'' \<mapsto> [1000, 1000, 1000, 1000]]"

definition ParseBytesAmount :: "(rat option \<Rightarrow> uint64) \<Rightarrow> string \<Rightarrow> uint64 go" where
  "ParseBytesAmount conv input =
     (let s = strings_TrimSpace input; numStr = takeWhile is_num_char s; rest = dropWhile is_num_char s in
      bindR (mapErrR (WrapError ''invalid numeric value'') (strconv_ParseFloat numStr)) (\<lambda>num.
      let unit = strings_ToLower (strings_TrimSpace rest) in
      case unit_factors unit of
        None \<Rightarrow> Err (ErrorString (''unsupported unit: '' @ unit))
      | Some ks \<Rightarrow> Ok (float_to_uint64 conv (foldl float_mult (Some num) ks))))"

section \<open>ParseMaxBlobLength\<close>

definition BytesPerSymbol :: nat where "BytesPerSymbol = 31"
definition MaxCodingRatio :: nat where "MaxCodingRatio = 8"
definition SrsOrder :: nat where "SrsOrder = 2 ^ 28"

definition MaxAllowedBlobSize :: uint64 where
  "MaxAllowedBlobSize = of_nat (SrsOrder * BytesPerSymbol div MaxCodingRatio)"

definition ParseMaxBlobLength :: "(rat option \<Rightarrow> uint64) \<Rightarrow> string \<Rightarrow> uint64 go" where
  "ParseMaxBlobLength conv input =
     bindR (mapErrR (WrapError ''failed to parse max blob length flag'') (ParseBytesAmount conv input)) (\<lambda>numBytes.
     if numBytes = 0 then Err (ErrorString ''max blob length is 0'')
     else if numBytes > MaxAllowedBlobSize
       then Err (ErrorString (''excluding disperser constraints on max blob size, SRS points constrain the maxBlobLength configuration parameter to be less than than '' @ decimal (unat MaxAllowedBlobSize) @ '' bytes''))
     else Ok numBytes)"

section \<open>Whole numbers are exact\<close>

lemma round_half_even_int [simp]: "round_half_even (of_int n) = n"
  by (simp add: round_half_even_def)

lemma leading_bit_nat:
  assumes "0 < n"
  shows "leading_bit (of_nat n) = int (floorlog 2 n) - 1"
proof -
  obtain l where l: "floorlog 2 n = Suc l" "2 ^ l \<le> n"
    using assms floorlog_bounds [of n 2] by (cases "floorlog 2 n") (auto simp: floorlog_eq_zero_iff)
  then have "(2 :: rat) ^ l \<le> of_nat n"
    by (metis of_nat_le_iff of_nat_numeral of_nat_power)
  moreover have "quotient_of (of_nat n) = (int n, 1)"
    using quotient_of_int [of "int n"] by simp
  ultimately show ?thesis
    using l by (simp add: leading_bit_def Let_def floorlog_def [of 2 "Suc 0"] not_less)
qed

lemma float_round_nat [simp]:
  assumes "n < 2 ^ 53"
  shows "float_round (of_nat n) = Some (of_nat n)"
proof (cases "n = 0")
  case False
  then have pos: "0 < n" by simp
  let ?l = "floorlog 2 n"
  have l: "?l \<le> 53"
    using assms by (intro floorlog_leI) auto
  have lb: "max (leading_bit (of_nat n) - 52) (- 1074) = - int (53 - ?l)"
    using l by (simp add: leading_bit_nat [OF pos])
  have u: "(2 :: rat) powi (- int (53 - ?l)) = 1 / 2 ^ (53 - ?l)"
    by (simp add: power_int_minus field_simps)
  have "(of_nat n :: rat) / (1 / 2 ^ (53 - ?l)) = of_int (int n * 2 ^ (53 - ?l))" by simp
  then have r: "round_half_even (of_nat n / (1 / 2 ^ (53 - ?l))) = int n * 2 ^ (53 - ?l)"
    by (simp only: round_half_even_int)
  have "(of_nat n :: rat) < 2 ^ 53"
    using assms by (metis of_nat_less_iff of_nat_numeral of_nat_power)
  also have "\<dots> \<le> 2 ^ 1024" by (rule power_increasing) simp_all
  finally have "(of_nat n :: rat) < 2 ^ 1024" .
  then show ?thesis
    using False by (simp only: float_round_def Let_def lb u r) simp
qed (simp add: float_round_def)

lemma float_mults_nat:
  assumes "n * prod_list ks < 2 ^ 53" and "0 \<notin> set ks"
  shows "foldl float_mult (Some (of_nat n)) ks = Some (of_nat (n * prod_list ks))"
  using assms
proof (induction ks arbitrary: n)
  case (Cons k ks)
  have "n * k \<le> n * k * prod_list ks"
    using Cons.prems(2) by (cases "prod_list ks") (auto simp: prod_list_zero_iff)
  then have "n * k < 2 ^ 53" using Cons.prems(1) by (simp only: prod_list.Cons mult.assoc)
  then have "float_mult (Some (of_nat n)) k = Some (of_nat (n * k))"
    using float_round_nat [of "n * k"] by (simp add: float_mult_def)
  with Cons.IH [of "n * k"] Cons.prems show ?case by (simp add: mult.assoc)
qed simp

lemma float_to_uint64_nat: "n < 2 ^ 53 \<Longrightarrow> float_to_uint64 conv (Some (of_nat n)) = of_nat n"
proof -
  assume n: "n < 2 ^ 53"
  have "(of_nat n :: rat) < 2 ^ 53" using n by (metis of_nat_less_iff of_nat_numeral of_nat_power)
  also have "\<dots> \<le> 2 ^ 64" by (rule power_increasing) simp_all
  finally have "(of_nat n :: rat) < 2 ^ 64" .
  then show ?thesis by (simp add: float_to_uint64_def)
qed

section \<open>Splitting a size\<close>

lemma decimal_digits: "c \<in> set (decimal n) \<Longrightarrow> is_digit c"
proof (induction n rule: decimal.induct)
  case (1 n)
  then show ?case by (auto simp: decimal.simps [of n] is_digit_def split: if_splits)
qed

lemma digit_not_space: "is_digit c \<Longrightarrow> \<not> is_space c"
  by (auto simp: is_digit_def digit_val_def is_space_def Let_def split: if_splits)

lemma digit_not_dot: "is_digit c \<Longrightarrow> c \<noteq> CHR ''.''"
  by (auto simp: is_digit_def digit_val_def)

lemma ParseFloat_decimal:
  assumes "n < 2 ^ 53"
  shows "strconv_ParseFloat (decimal n) = Ok (of_nat n)"
proof -
  have "takeWhile (\<lambda>c. c \<noteq> CHR ''.'') (decimal n) = decimal n"
    using decimal_digits digit_not_dot by (auto simp: takeWhile_eq_all_conv)
  then show ?thesis by (simp only: strconv_ParseFloat_def Let_def) (simp add: parse_digits_decimal float_round_nat [OF assms])
qed

lemma TrimSpace_id:
  assumes "s \<noteq> []" and "\<not> is_space (hd s)" and "\<not> is_space (last s)"
  shows "strings_TrimSpace s = s"
proof -
  have "dropWhile is_space s = s" using assms by (cases s) auto
  moreover have "dropWhile is_space (rev s) = rev s" using assms by (cases "rev s") (auto simp: hd_rev [symmetric])
  ultimately show ?thesis by (simp add: strings_TrimSpace_def)
qed

text \<open>A unit name, in any case, has letters only.\<close>

definition is_letter :: "char \<Rightarrow> bool" where
  "is_letter c = ((of_char (char_lower c) :: nat) \<in> {97..122})"

lemma letter_not_num: "is_letter c \<Longrightarrow> \<not> is_num_char c \<and> \<not> is_space c"
  by (auto simp: is_letter_def is_num_char_def is_digit_def digit_val_def char_lower_def is_space_def Let_def
      split: if_splits)

lemma unit_letters:
  assumes "unit_factors (strings_ToLower u) = Some ks"
  shows "(\<forall>c \<in> set u. is_letter c) \<and> 0 \<notin> set ks"
proof -
  have "\<forall>x \<in> set (strings_ToLower u). (of_char x :: nat) \<in> {97..122}"
    using assms by (auto simp: unit_factors_def split: if_splits)
  then have "\<forall>c \<in> set u. is_letter c" by (auto simp: is_letter_def strings_ToLower_def)
  moreover have "0 \<notin> set ks" using assms by (auto simp: unit_factors_def split: if_splits)
  ultimately show ?thesis by blast
qed

lemma ParseBytesAmount_whole:
  assumes "unit_factors (strings_ToLower u) = Some ks" and "n * prod_list ks < 2 ^ 53"
  shows "ParseBytesAmount conv (decimal n @ u) = Ok (of_nat (n * prod_list ks))"
proof -
  note letters = unit_letters [OF assms(1)]
  have ends: "strings_TrimSpace (decimal n @ u) = decimal n @ u" "strings_TrimSpace u = u"
  proof -
    have "\<not> is_space (hd (decimal n))" "\<not> is_space (last (decimal n))"
      by (rule digit_not_space, rule decimal_digits [of _ n], simp)+
    then show "strings_TrimSpace (decimal n @ u) = decimal n @ u"
      using letters letter_not_num by (intro TrimSpace_id) (auto simp: last_append)
    show "strings_TrimSpace u = u"
      using letters letter_not_num
      by (cases "u = []") (simp add: strings_TrimSpace_def, auto intro!: TrimSpace_id)
  qed
  have num: "\<forall>c \<in> set (decimal n). is_num_char c" using decimal_digits by (auto simp: is_num_char_def)
  then have split: "takeWhile is_num_char (decimal n @ u) = decimal n" "dropWhile is_num_char (decimal n @ u) = u"
    using letters letter_not_num by (cases u; auto simp: takeWhile_append2 dropWhile_append2)+
  have "n \<le> n * prod_list ks" using letters by (cases "prod_list ks") (auto simp: prod_list_zero_iff)
  with assms(2) have "strconv_ParseFloat (decimal n) = Ok (of_nat n)"
    by (intro ParseFloat_decimal) (rule le_less_trans)
  then show ?thesis
    using assms letters float_to_uint64_nat [OF assms(2), of conv]
    by (simp add: ParseBytesAmount_def Let_def ends split float_mults_nat)
qed

lemma unat_MaxAllowedBlobSize [simp]: "unat MaxAllowedBlobSize = 1040187392"
  by (simp add: MaxAllowedBlobSize_def SrsOrder_def BytesPerSymbol_def MaxCodingRatio_def)

lemma ParseMaxBlobLength_Ok:
  "ParseMaxBlobLength conv s = Ok n \<longleftrightarrow> ParseBytesAmount conv s = Ok n \<and> 0 < unat n \<and> unat n \<le> 1040187392"
  using unat_MaxAllowedBlobSize
  by (auto simp: ParseMaxBlobLength_def bindR_eq_Ok mapErrR_eq_Ok not_less word_le_nat_alt unat_gt_0)

section \<open>Properties\<close>

text \<open>
  C36: sizes in whole numbers. A decimal number followed by a unit in any case, with a product below \<^verbatim>\<open>2^53\<close>,
  is read without rounding error. As a maximal blob length it is accepted exactly if the product is between 1 and
  1040187392 bytes, whatever the machine makes of floats that do not fit in 64 bits.
\<close>

theorem ParseMaxBlobLength_whole:
  assumes "unit_factors (strings_ToLower u) = Some ks" and "n * prod_list ks < 2 ^ 53"
  shows "ParseBytesAmount conv (decimal n @ u) = Ok (of_nat (n * prod_list ks)) \<and>
     ((\<exists>len. ParseMaxBlobLength conv (decimal n @ u) = Ok len) \<longleftrightarrow> n * prod_list ks \<in> {1..1040187392}) \<and>
     (\<forall>len. ParseMaxBlobLength conv (decimal n @ u) = Ok len \<longrightarrow> unat len = n * prod_list ks)"
proof -
  have "n * prod_list ks < 2 ^ 64"
    using assms(2) by (rule less_le_trans) simp
  then have u: "unat (of_nat (n * prod_list ks) :: uint64) = n * prod_list ks"
    by (simp only: unat_of_nat) simp
  show ?thesis
    using ParseBytesAmount_whole [OF assms, of conv] u by (simp del: of_nat_mult add: ParseMaxBlobLength_Ok) auto
qed

theorem ParseMaxBlobLength_whole_witness:
  "ParseBytesAmount (\<lambda>x. 0) (decimal 16 @ ''MiB'') = Ok (of_nat (16 * prod_list [1024, 1024])) \<and>
   (\<exists>len. ParseMaxBlobLength (\<lambda>x. 0) (decimal 16 @ ''MiB'') = Ok len)"
proof -
  have "strings_ToLower ''MiB'' = ''mib''" by code_simp
  then have "unit_factors (strings_ToLower ''MiB'') = Some [1024, 1024]" by (simp add: unit_factors_def)
  from ParseMaxBlobLength_whole [OF this, of 16 "\<lambda>x. 0"] show ?thesis by simp
qed

end
