(* ===== verification/Server.thy ===== *)
theory Server
  imports Manager
begin

text \<open>
  The HTTP layer: the certificate handlers (\<^verbatim>\<open>server/handlers_cert.go\<close>), the miscellaneous handlers
  (\<^verbatim>\<open>server/handlers_misc.go\<close>), \<^verbatim>\<open>parseCertVersion\<close> (\<^verbatim>\<open>server/server.go\<close>) and the middlewares
  (\<^verbatim>\<open>server/middleware\<close>).

  The response writer keeps the first status written; \<^verbatim>\<open>Write\<close> sends 200 if none was. The status capture
  writers see every status passed to \<^verbatim>\<open>WriteHeader\<close> and start at 200; the two of them see the same
  calls, so they are one field. The request context holds the certificate version for the metrics.
  A request is a record of what the handlers read of it: the variables the router extracted, the
  query, the body, an error of reading it, and the error that writing to the connection gives, if
  any. Logging is left out. Error texts (\<^verbatim>\<open>err.Error()\<close>) come from the argument \<open>errorText\<close>.
\<close>

section \<open>Requests, responses, state\<close>

record request =
  reqMethod :: string
  reqPath :: string
  reqVars :: "string \<rightharpoonup> string"
  reqQuery :: "string \<Rightarrow> string"
  reqBody :: bytes
  reqReadError :: "go_error option"
  reqWriteError :: "go_error option"

datatype chunk = Bytes bytes | Text string | CertVerificationJSON nat string | BackendJSON string

record response =
  respStatus :: "nat option"
  respHeaders :: "(string \<times> string) list"
  respBody :: "chunk list"

record 'w srv_state =
  resp :: response
  scwStatus :: nat
  ctxCertVersion :: string
  rpcMetrics :: "(string \<times> string \<times> string \<times> string) list"
  mgrState :: "'w mgr_state"

definition newResponse :: response where
  "newResponse = \<lparr>respStatus = None, respHeaders = [], respBody = []\<rparr>"

definition WriteHeader :: "nat \<Rightarrow> 'w srv_state \<Rightarrow> 'w srv_state" where
  "WriteHeader code s =
     s\<lparr>scwStatus := code,
       resp := (resp s)\<lparr>respStatus := (case respStatus (resp s) of None \<Rightarrow> Some code | Some c \<Rightarrow> Some c)\<rparr>\<rparr>"

definition implicit_ok :: "response \<Rightarrow> response" where
  "implicit_ok r = r\<lparr>respStatus := (case respStatus r of None \<Rightarrow> Some 200 | Some c \<Rightarrow> Some c)\<rparr>"

text \<open>\<^verbatim>\<open>w.Write\<close> goes past the capture writer; the status is 200 unless one was written before.\<close>

definition write_chunk :: "request \<Rightarrow> chunk \<Rightarrow> ('w srv_state, unit) goact" where
  "write_chunk r c s =
     (let s1 = s\<lparr>resp := implicit_ok (resp s)\<rparr> in
      case reqWriteError r of
        None \<Rightarrow> (Ok (), s1\<lparr>resp := (resp s1)\<lparr>respBody := respBody (resp s1) @ [c]\<rparr>\<rparr>)
      | Some e \<Rightarrow> (Err e, s1))"

text \<open>
  \<^verbatim>\<open>w.Header().Set\<close> replaces a header; the headers are sent with the status, so it has no effect after that.
\<close>

definition set_header :: "string \<Rightarrow> string \<Rightarrow> 'w srv_state \<Rightarrow> 'w srv_state" where
  "set_header k v s =
     (if respStatus (resp s) = None
      then s\<lparr>resp := (resp s)\<lparr>respHeaders := filter (\<lambda>h. fst h \<noteq> k) (respHeaders (resp s)) @ [(k, v)]\<rparr>\<rparr> else s)"

text \<open>\<^verbatim>\<open>http.Error\<close> sets two headers, writes the text as a line and ignores the outcome of this write.\<close>

definition http_Error :: "request \<Rightarrow> string \<Rightarrow> nat \<Rightarrow> ('w srv_state, unit) goact" where
  "http_Error r msg code =
     andThen (modify (set_header ''Content-Type'' ''text/plain; charset=utf-8'')) (\<lambda>_.
     andThen (modify (set_header ''X-Content-Type-Options'' ''nosniff'')) (\<lambda>_.
     andThen (modify (WriteHeader code)) (\<lambda>_.
     onErr (write_chunk r (Text (msg @ [CHR 0x0A]))) (\<lambda>_. ret ()))))"

definition on_manager :: "('w mgr_state, 'a) goact \<Rightarrow> ('w srv_state, 'a) goact" where
  "on_manager m = zoom mgrState (\<lambda>x s. s\<lparr>mgrState := x\<rparr>) m"

section \<open>Parsing\<close>

definition maxPOSTRequestBodySize :: nat where
  "maxPOSTRequestBodySize = 1024 * 1024 * 32"

text \<open>\<^verbatim>\<open>io.ReadAll(http.MaxBytesReader(w, r.Body, limit))\<close>.\<close>

definition read_body :: "nat \<Rightarrow> request \<Rightarrow> bytes go" where
  "read_body limit r =
     (if length (reqBody r) > limit
      then Err (ReadRequestBodyError (int limit) (ErrorString ''http: request body too large''))
      else case reqReadError r of
             Some e \<Rightarrow> Err (ReadRequestBodyError (int limit) e)
           | None \<Rightarrow> Ok (reqBody r))"

definition parseCertVersion ::
  "(go_error \<Rightarrow> string) \<Rightarrow> request \<Rightarrow> ('w srv_state, byte) goact" where
  "parseCertVersion errorText r =
     (case reqVars r ''version_byte_hex'' of
        None \<Rightarrow> ret V0VersionByte
      | Some versionByteHex \<Rightarrow>
          (case hex_DecodeString versionByteHex of
             None \<Rightarrow> throw (WrapError (''decode version byte '' @ versionByteHex) (ErrorString ''encoding/hex''))
           | Some versionByte \<Rightarrow>
               if length versionByte \<noteq> 1
               then throw (ErrorString (''version byte is not a single byte: '' @ versionByteHex))
               else (case ByteToVersion (hd versionByte) of
                       Err e \<Rightarrow>
                         let err = WrapError (''unsupported version byte '' @ hex_EncodeToString versionByte) e in
                         andThen (http_Error r (errorText err) 400) (\<lambda>_. throw err)
                     | Ok v \<Rightarrow> ret v
                     | Panic \<Rightarrow> panic
                     | Blocked \<Rightarrow> block)))"

definition parseCommitmentInclusionL1BlockNumQueryParam :: "request \<Rightarrow> uint64 go" where
  "parseCommitmentInclusionL1BlockNumQueryParam r =
     (let l1BlockNumStr = reqQuery r ''l1_inclusion_block_number'' in
      if l1BlockNumStr \<noteq> []
      then (case strconv_ParseUint l1BlockNumStr of
              None \<Rightarrow> Err (L1InclusionBlockNumberParsingError l1BlockNumStr (ErrorString ''strconv.ParseUint''))
            | Some n \<Rightarrow> Ok n)
      else Ok 0)"

section \<open>Certificate handlers\<close>

definition keccak_commitment :: "request \<Rightarrow> (string \<times> bytes) go" where
  "keccak_commitment r =
     (case reqVars r ''keccak_commitment_hex'' of
        None \<Rightarrow> Err (ParsingError (ErrorString (''keccak commitment not found in path: '' @ reqPath r)))
      | Some h \<Rightarrow>
          (case hex_DecodeString h of
             None \<Rightarrow> Err (ParsingError (WrapError (''failed to decode hex keccak commitment '' @ h)
                             (ErrorString ''encoding/hex'')))
           | Some k \<Rightarrow> Ok (h, k)))"

definition handleGetOPKeccakCommitment :: "'w Manager \<Rightarrow> request \<Rightarrow> ('w srv_state, unit) goact" where
  "handleGetOPKeccakCommitment m r =
     andThen (liftR (keccak_commitment r)) (\<lambda>(keccakCommitmentHex, keccakCommitment).
     andThen (mapErr (WrapError (''GET keccakCommitment '' @ keccakCommitmentHex))
                (on_manager (GetOPKeccakValueFromS3 m keccakCommitment))) (\<lambda>payload.
     mapErr (WrapError (''failed to write response for GET keccakCommitment '' @ keccakCommitmentHex))
       (write_chunk r (Bytes payload))))"

definition SetCertVersion :: "string \<Rightarrow> 'w srv_state \<Rightarrow> 'w srv_state" where
  "SetCertVersion v s = s\<lparr>ctxCertVersion := v\<rparr>"

text \<open>\<^verbatim>\<open>string(certVersion)\<close> of a byte is the character with that code.\<close>

definition handleGetShared ::
  "(go_error \<Rightarrow> string) \<Rightarrow> 'w Manager \<Rightarrow> CommitmentMode \<Rightarrow> request \<Rightarrow> ('w srv_state, unit) goact" where
  "handleGetShared errorText m mode r =
     andThen (mapErr (\<lambda>e. ParsingError (WrapError ''parsing version byte'' e)) (parseCertVersion errorText r))
       (\<lambda>certVersion.
     andThen (modify (SetCertVersion [char_of (unat certVersion)])) (\<lambda>_.
     case reqVars r ''payload_hex'' of
       None \<Rightarrow> throw (ParsingError (ErrorString (''serializedDACert not found in path: '' @ reqPath r)))
     | Some serializedCertHex \<Rightarrow>
         (case hex_DecodeString serializedCertHex of
            None \<Rightarrow> throw (CertHexDecodingError serializedCertHex (ErrorString ''encoding/hex''))
          | Some serializedCert \<Rightarrow>
              let versionedCert = NewVersionedCert serializedCert certVersion in
              andThen (liftR (parseCommitmentInclusionL1BlockNumQueryParam r)) (\<lambda>l1InclusionBlockNum.
              andThen (mapErr (WrapError (''get request failed with serializedCert (version '' @
                           decimal (unat (Version versionedCert)) @ '') '' @ serializedCertHex))
                         (on_manager (Manager_Get m versionedCert mode
                            \<lparr>L1InclusionBlockNum = l1InclusionBlockNum\<rparr>))) (\<lambda>input.
              mapErr (WrapError (''failed to write response for GET serializedCert (version '' @
                           decimal (unat (Version versionedCert)) @ '') '' @ serializedCertHex))
                (write_chunk r (Bytes input)))))))"

definition handleGetOPGenericCommitment ::
  "(go_error \<Rightarrow> string) \<Rightarrow> 'w Manager \<Rightarrow> request \<Rightarrow> ('w srv_state, unit) goact" where
  "handleGetOPGenericCommitment errorText m r = handleGetShared errorText m OptimismGenericCommitmentMode r"

definition handleGetStdCommitment ::
  "(go_error \<Rightarrow> string) \<Rightarrow> 'w Manager \<Rightarrow> request \<Rightarrow> ('w srv_state, unit) goact" where
  "handleGetStdCommitment errorText m r = handleGetShared errorText m StandardCommitmentMode r"

definition handlePostOPKeccakCommitment :: "'w Manager \<Rightarrow> request \<Rightarrow> ('w srv_state, unit) goact" where
  "handlePostOPKeccakCommitment m r =
     andThen (liftR (keccak_commitment r)) (\<lambda>(keccakCommitmentHex, keccakCommitment).
     andThen (liftR (read_body maxPOSTRequestBodySize r)) (\<lambda>payload.
     mapErr (WrapError (''keccak POST request failed for commitment '' @ keccakCommitmentHex))
       (on_manager (PutOPKeccakPairInS3 m keccakCommitment payload))))"

text \<open>
  \<^verbatim>\<open>handlePostShared\<close> asks for the dispersal backend after \<^verbatim>\<open>Put\<close> has returned. Other requests, such as one
  to the admin endpoint, may run in between: \<open>between\<close> is what they do to the state (\<open>id\<close> if there
  are none).
\<close>

definition dispersal_version :: "EigenDABackend \<Rightarrow> byte go" where
  "dispersal_version backend =
     (if backend = V1EigenDABackend then Ok V0VersionByte
      else if backend = V2EigenDABackend then Ok V2VersionByte
      else Err (ErrorString (''unknown dispersal backend: '' @ decimal (unat backend))))"

definition handlePostShared ::
  "'w Manager \<Rightarrow> ('w mgr_state \<Rightarrow> 'w mgr_state) \<Rightarrow> CommitmentMode \<Rightarrow> request \<Rightarrow> ('w srv_state, unit) goact" where
  "handlePostShared m between mode r =
     andThen (liftR (read_body maxPOSTRequestBodySize r)) (\<lambda>payload.
     andThen (mapErr (WrapError ''post request failed'') (on_manager (Manager_Put m mode payload)))
       (\<lambda>serializedCert.
     andThen (modify (\<lambda>s. s\<lparr>mgrState := between (mgrState s)\<rparr>)) (\<lambda>_.
     andThen (\<lambda>s. (dispersal_version (GetDispersalBackend (mgrState s)), s)) (\<lambda>certVersion.
     let versionedCert = NewVersionedCert serializedCert certVersion in
     andThen (mapErr (WrapError ''failed to encode serializedCert'')
                (liftR (EncodeCommitment versionedCert mode))) (\<lambda>responseCommit.
     mapErr (WrapError (''failed to write response for POST serializedCert (version '' @
               decimal (unat (Version versionedCert)) @ '') '' @ hex_EncodeToString serializedCert))
       (write_chunk r (Bytes responseCommit)))))))"

definition handlePostStdCommitment ::
  "'w Manager \<Rightarrow> ('w mgr_state \<Rightarrow> 'w mgr_state) \<Rightarrow> request \<Rightarrow> ('w srv_state, unit) goact" where
  "handlePostStdCommitment m between r = handlePostShared m between StandardCommitmentMode r"

definition handlePostOPGenericCommitment ::
  "'w Manager \<Rightarrow> ('w mgr_state \<Rightarrow> 'w mgr_state) \<Rightarrow> request \<Rightarrow> ('w srv_state, unit) goact" where
  "handlePostOPGenericCommitment m between r = handlePostShared m between OptimismGenericCommitmentMode r"

section \<open>Middlewares\<close>

text \<open>
  The error middleware writes the response of an error and passes the error on. A failure to write the
  JSON body of a certificate verification error panics.
\<close>

definition error_response ::
  "(go_error \<Rightarrow> string) \<Rightarrow> (go_error \<Rightarrow> grpc_code option) \<Rightarrow> request \<Rightarrow> go_error \<Rightarrow> ('w srv_state, unit) goact" where
  "error_response errorText fromError r err =
     (if Is400 err then http_Error r (errorText err) 400
      else case as_CertVerificationFailed err of
        Some (code, msg) \<Rightarrow>
          andThen (modify (WriteHeader 418)) (\<lambda>_.
          andThen (attempt (write_chunk r (CertVerificationJSON code msg))) (\<lambda>res.
          case res of Inl _ \<Rightarrow> panic | Inr _ \<Rightarrow> ret ()))
      | None \<Rightarrow>
          if Is429 fromError err then http_Error r (errorText err) 429
          else if Is503 err then http_Error r (errorText err) 503
          else http_Error r (errorText err) 500)"

definition withErrorHandling ::
  "(go_error \<Rightarrow> string) \<Rightarrow> (go_error \<Rightarrow> grpc_code option) \<Rightarrow>
   (request \<Rightarrow> ('w srv_state, unit) goact) \<Rightarrow> request \<Rightarrow> ('w srv_state, unit) goact" where
  "withErrorHandling errorText fromError handleFn r =
     andThen (attempt (handleFn r)) (\<lambda>res.
     case res of
       Inr _ \<Rightarrow> ret ()
     | Inl err \<Rightarrow> andThen (error_response errorText fromError r err) (\<lambda>_. throw err))"

definition withMetrics ::
  "(request \<Rightarrow> ('w srv_state, unit) goact) \<Rightarrow> CommitmentMode \<Rightarrow> request \<Rightarrow> ('w srv_state, unit) goact" where
  "withMetrics handleFn mode r =
     andThen (modify (\<lambda>s. s\<lparr>scwStatus := 200\<rparr>)) (\<lambda>_.
     andThen (attempt (handleFn r)) (\<lambda>res.
     andThen (modify (\<lambda>s. s\<lparr>rpcMetrics := rpcMetrics s @
         [(reqMethod r, decimal (scwStatus s), mode, ctxCertVersion s)]\<rparr>)) (\<lambda>_.
     case res of Inl err \<Rightarrow> throw err | Inr _ \<Rightarrow> ret ())))"

definition withLogging ::
  "(request \<Rightarrow> ('w srv_state, unit) goact) \<Rightarrow> request \<Rightarrow> ('w srv_state, unit) goact" where
  "withLogging handleFn r = onErr (handleFn r) (\<lambda>_. ret ())"

definition withRequestContext ::
  "(request \<Rightarrow> ('w srv_state, unit) goact) \<Rightarrow> request \<Rightarrow> ('w srv_state, unit) goact" where
  "withRequestContext handleFn r = andThen (modify (SetCertVersion ''unknown'')) (\<lambda>_. handleFn r)"

definition WithCertMiddlewares ::
  "(go_error \<Rightarrow> string) \<Rightarrow> (go_error \<Rightarrow> grpc_code option) \<Rightarrow>
   (request \<Rightarrow> ('w srv_state, unit) goact) \<Rightarrow> CommitmentMode \<Rightarrow> request \<Rightarrow> ('w srv_state, unit) goact" where
  "WithCertMiddlewares errorText fromError handler mode =
     withRequestContext (withLogging (withMetrics (withErrorHandling errorText fromError handler) mode))"

section \<open>Miscellaneous handlers\<close>

definition handleHealth :: "request \<Rightarrow> ('w srv_state, unit) goact" where
  "handleHealth r = modify (WriteHeader 200)"

definition logDispersalGetError :: "request \<Rightarrow> ('w srv_state, unit) goact" where
  "logDispersalGetError r = modify (WriteHeader 405)"

text \<open>
  \<^verbatim>\<open>writeJSON\<close>: marshalling a struct of one string cannot fail. The header it sets is named
  \<^verbatim>\<open>application/json\<close>.
\<close>

definition writeJSON :: "request \<Rightarrow> string \<Rightarrow> ('w srv_state, unit) goact" where
  "writeJSON r backendString =
     andThen (modify (set_header ''application/json'' ''application/json'')) (\<lambda>_.
     andThen (modify (WriteHeader 200)) (\<lambda>_.
     onErr (write_chunk r (BackendJSON backendString)) (\<lambda>_. ret ())))"

definition handleGetEigenDADispersalBackend :: "request \<Rightarrow> ('w srv_state, unit) goact" where
  "handleGetEigenDADispersalBackend r s =
     writeJSON r (EigenDABackendToString (GetDispersalBackend (mgrState s))) s"

definition handleSetEigenDADispersalBackend ::
  "(go_error \<Rightarrow> string) \<Rightarrow> (bytes \<Rightarrow> go_error + string) \<Rightarrow> request \<Rightarrow> ('w srv_state, unit) goact" where
  "handleSetEigenDADispersalBackend errorText unmarshal r =
     andThen (attempt (liftR (read_body 1024 r))) (\<lambda>res.
     case res of
       Inl err \<Rightarrow> http_Error r (errorText err) 400
     | Inr body \<Rightarrow>
         (case unmarshal body of
            Inl _ \<Rightarrow> http_Error r (errorText (UnmarshalJSONError (ErrorString ''parsing eigenDADispersalBackend''))) 400
          | Inr str \<Rightarrow>
              andThen (attempt (liftR (StringToEigenDABackend str))) (\<lambda>conv.
              case conv of
                Inl err \<Rightarrow> http_Error r (errorText err) 400
              | Inr backend \<Rightarrow>
                  andThen (modify (\<lambda>s. s\<lparr>mgrState := SetDispersalBackend backend (mgrState s)\<rparr>)) (\<lambda>_.
                  andThen (modify (set_header ''Content-Type'' ''application/json'')) (\<lambda>_.
                  andThen (modify (WriteHeader 200)) (\<lambda>_.
                  handleGetEigenDADispersalBackend r))))))"

record ServerConfig =
  srvHost :: string
  srvPort :: int
  EnabledAPIs :: "string list"

definition IsAPIEnabled :: "ServerConfig \<Rightarrow> string \<Rightarrow> bool" where
  "IsAPIEnabled c apiType = (apiType \<in> set (EnabledAPIs c))"

text \<open>The state in which the server hands a request to its handler.\<close>

definition fresh :: "'w mgr_state \<Rightarrow> 'w srv_state" where
  "fresh ms = \<lparr>resp = newResponse, scwStatus = 200, ctxCertVersion = [], rpcMetrics = [], mgrState = ms\<rparr>"

section \<open>Lemmas\<close>

lemma respStatus_WriteHeader [simp]:
  "respStatus (resp (WriteHeader code s)) = (case respStatus (resp s) of None \<Rightarrow> Some code | Some c \<Rightarrow> Some c)"
  by (simp add: WriteHeader_def)

lemma WriteHeader_sel [simp]:
  "scwStatus (WriteHeader code s) = code" "mgrState (WriteHeader code s) = mgrState s"
  "rpcMetrics (WriteHeader code s) = rpcMetrics s" "ctxCertVersion (WriteHeader code s) = ctxCertVersion s"
  by (simp_all add: WriteHeader_def)

lemma http_Error_run:
  "\<exists>s'. http_Error r msg code s = (Ok (), s') \<and> scwStatus s' = code \<and> mgrState s' = mgrState s \<and>
     rpcMetrics s' = rpcMetrics s \<and> ctxCertVersion s' = ctxCertVersion s \<and>
     respStatus (resp s') = (case respStatus (resp s) of None \<Rightarrow> Some code | Some c \<Rightarrow> Some c)"
  by (cases "reqWriteError r"; cases "respStatus (resp s)")
     (auto simp: http_Error_def set_header_def act_simps write_chunk_def implicit_ok_def Let_def WriteHeader_def)

lemma error_response_run:
  assumes "reqWriteError r = None"
  shows "\<exists>s'. error_response errorText fromError r err s = (Ok (), s') \<and>
     scwStatus s' = error_status fromError err \<and> mgrState s' = mgrState s \<and>
     rpcMetrics s' = rpcMetrics s \<and> ctxCertVersion s' = ctxCertVersion s \<and>
     respStatus (resp s') =
       (case respStatus (resp s) of None \<Rightarrow> Some (error_status fromError err) | Some c \<Rightarrow> Some c)"
proof (cases "\<not> Is400 err \<and> Is418 err")
  case True
  with assms show ?thesis
    by (cases "respStatus (resp s)")
       (auto simp: error_response_def error_status_def Is418_def act_simps write_chunk_def implicit_ok_def
         Let_def WriteHeader_def)
next
  case False
  then have "error_response errorText fromError r err s = http_Error r (errorText err) (error_status fromError err) s"
    by (auto simp: error_response_def error_status_def Is418_def split: option.splits)
  then show ?thesis using http_Error_run [of r "errorText err" "error_status fromError err" s] by auto
qed

definition started :: "'w srv_state \<Rightarrow> 'w srv_state" where
  "started s = SetCertVersion ''unknown'' s\<lparr>scwStatus := 200\<rparr>"

lemma started_sel [simp]:
  "mgrState (started s) = mgrState s" "resp (started s) = resp s" "scwStatus (started s) = 200"
  "ctxCertVersion (started s) = ''unknown''" "rpcMetrics (started s) = rpcMetrics s"
  by (simp_all add: started_def SetCertVersion_def)

lemma middlewares_Ok:
  assumes "handler r (started s) = (Ok (), s1)"
  shows "WithCertMiddlewares errorText fromError handler mode r s =
    (Ok (), s1\<lparr>rpcMetrics := rpcMetrics s1 @ [(reqMethod r, decimal (scwStatus s1), mode, ctxCertVersion s1)]\<rparr>)"
  using assms
  by (simp add: WithCertMiddlewares_def withRequestContext_def withLogging_def withMetrics_def
      withErrorHandling_def act_simps started_def)

lemma middlewares_Err:
  assumes "handler r (started s) = (Err e, s1)"
    and "error_response errorText fromError r e s1 = (Ok (), s2)"
  shows "WithCertMiddlewares errorText fromError handler mode r s =
    (Ok (), s2\<lparr>rpcMetrics := rpcMetrics s2 @ [(reqMethod r, decimal (scwStatus s2), mode, ctxCertVersion s2)]\<rparr>)"
  using assms
  by (simp add: WithCertMiddlewares_def withRequestContext_def withLogging_def withMetrics_def
      withErrorHandling_def act_simps started_def)

lemma on_manager_eq:
  "on_manager m s = (r, s') \<longleftrightarrow> (\<exists>x. m (mgrState s) = (r, x) \<and> s' = s\<lparr>mgrState := x\<rparr>)"
  by (auto simp: on_manager_def zoom_def split: prod.splits)

lemma read_body_Ok: "read_body limit r = Ok b \<longleftrightarrow> length (reqBody r) \<le> limit \<and> reqReadError r = None \<and> b = reqBody r"
  by (auto simp: read_body_def split: option.splits)

lemma read_body_Err_400: "read_body limit r = Err e \<Longrightarrow> Is400 e"
  by (auto simp: read_body_def split: if_splits option.splits)

lemma read_body_returns [simp]: "read_body limit r \<noteq> Panic" "read_body limit r \<noteq> Blocked"
  by (auto simp: read_body_def split: option.splits)

text \<open>A request to read the certificate \<open>vc\<close>, in upper or lower case hexadecimal.\<close>

definition names_cert :: "request \<Rightarrow> VersionedCert \<Rightarrow> bool" where
  "names_cert r vc \<longleftrightarrow>
     (\<exists>vh ph. reqVars r ''version_byte_hex'' = Some vh \<and> hex_DecodeString vh = Some [Version vc] \<and>
        known_version (Version vc) \<and>
        reqVars r ''payload_hex'' = Some ph \<and> hex_DecodeString ph = Some (SerializedCert vc))"

definition answered :: "chunk \<Rightarrow> 'w srv_state \<Rightarrow> 'w srv_state" where
  "answered c s = s\<lparr>resp := (implicit_ok (resp s))\<lparr>respBody := respBody (resp s) @ [c]\<rparr>\<rparr>"

lemma write_chunk_answered: "reqWriteError r = None \<Longrightarrow> write_chunk r c s = (Ok (), answered c s)"
  by (simp add: write_chunk_def answered_def Let_def implicit_ok_def)

lemma handleGetShared_run:
  assumes "names_cert r vc" and "parseCommitmentInclusionL1BlockNumQueryParam r = Ok n"
    and "Manager_Get m vc mode \<lparr>L1InclusionBlockNum = n\<rparr> (mgrState s) = (res, ms')"
    and "reqWriteError r = None"
  defines "s1 \<equiv> (SetCertVersion [char_of (unat (Version vc))] s)\<lparr>mgrState := ms'\<rparr>"
  shows "res = Ok d \<Longrightarrow> handleGetShared errorText m mode r s = (Ok (), answered (Bytes d) s1)"
    and "res = Err e \<Longrightarrow> \<exists>ctx. handleGetShared errorText m mode r s = (Err (WrapError ctx e), s1)"
proof -
  have vc: "NewVersionedCert (SerializedCert vc) (Version vc) = vc" by (simp add: NewVersionedCert_def)
  have get: "on_manager (Manager_Get m vc mode \<lparr>L1InclusionBlockNum = n\<rparr>)
      (SetCertVersion [char_of (unat (Version vc))] s) = (res, s1)"
    using assms(3) by (simp add: on_manager_def SetCertVersion_def s1_def)
  from assms(1) obtain vh ph where v: "reqVars r ''version_byte_hex'' = Some vh" "hex_DecodeString vh = Some [Version vc]"
    "known_version (Version vc)" "reqVars r ''payload_hex'' = Some ph" "hex_DecodeString ph = Some (SerializedCert vc)"
    by (auto simp: names_cert_def)
  show "res = Ok d \<Longrightarrow> handleGetShared errorText m mode r s = (Ok (), answered (Bytes d) s1)"
    using v get assms(2) vc
    by (simp add: handleGetShared_def parseCertVersion_def act_simps write_chunk_answered [OF assms(4)])
  show "res = Err e \<Longrightarrow> \<exists>ctx. handleGetShared errorText m mode r s = (Err (WrapError ctx e), s1)"
    using v get assms(2) vc by (simp add: handleGetShared_def parseCertVersion_def act_simps)
qed

lemma get_response:
  assumes "names_cert r vc" and "parseCommitmentInclusionL1BlockNumQueryParam r = Ok n"
    and "reqWriteError r = None" and "fromError_documented fromError"
    and "Manager_Get m vc mode \<lparr>L1InclusionBlockNum = n\<rparr> ms = (res, ms')"
  shows "(\<forall>d. res = Ok d \<longrightarrow>
       (\<exists>s2. WithCertMiddlewares errorText fromError (handleGetShared errorText m mode) mode r (fresh ms) = (Ok (), s2) \<and>
          resp s2 = \<lparr>respStatus = Some 200, respHeaders = [], respBody = [Bytes d]\<rparr>)) \<and>
     (\<forall>e. res = Err e \<longrightarrow>
       (\<exists>s2. WithCertMiddlewares errorText fromError (handleGetShared errorText m mode) mode r (fresh ms) = (Ok (), s2) \<and>
          respStatus (resp s2) = Some (error_status fromError e)))"
proof -
  let ?s = "fresh ms" and ?h = "handleGetShared errorText m mode"
  let ?s1 = "(SetCertVersion [char_of (unat (Version vc))] (started ?s))\<lparr>mgrState := ms'\<rparr>"
  have get: "Manager_Get m vc mode \<lparr>L1InclusionBlockNum = n\<rparr> (mgrState (started ?s)) = (res, ms')"
    using assms(5) by (simp add: fresh_def)
  have empty: "resp ?s1 = newResponse" by (simp add: SetCertVersion_def fresh_def)
  have ok: "\<exists>s2. WithCertMiddlewares errorText fromError ?h mode r ?s = (Ok (), s2) \<and>
          resp s2 = \<lparr>respStatus = Some 200, respHeaders = [], respBody = [Bytes d]\<rparr>"
    if "res = Ok d" for d
    using middlewares_Ok [of ?h r ?s "answered (Bytes d) ?s1" errorText fromError mode] empty
      handleGetShared_run(1) [OF assms(1,2) get assms(3) that]
    by (simp add: answered_def newResponse_def implicit_ok_def)
  have err: "\<exists>s2. WithCertMiddlewares errorText fromError ?h mode r ?s = (Ok (), s2) \<and>
          respStatus (resp s2) = Some (error_status fromError e)" if res: "res = Err e" for e
  proof -
    obtain ctx where h: "?h r (started ?s) = (Err (WrapError ctx e), ?s1)"
      using handleGetShared_run(2) [OF assms(1,2) get assms(3) res] by blast
    obtain s' where run': "error_response errorText fromError r (WrapError ctx e) ?s1 = (Ok (), s')"
      "respStatus (resp s') = Some (error_status fromError e)"
      using error_response_run [OF assms(3), of errorText fromError "WrapError ctx e" ?s1] assms(4) empty
      by (auto simp: newResponse_def)
    with middlewares_Err [of ?h r ?s "WrapError ctx e" ?s1 errorText fromError s' mode] h show ?thesis by simp
  qed
  from ok err show ?thesis by blast
qed

lemma post_response:
  assumes "length (reqBody r) \<le> maxPOSTRequestBodySize" and "reqReadError r = None" and "reqWriteError r = None"
    and "fromError_documented fromError" and "cert_mode mode"
    and "Manager_Put m mode (reqBody r) ms = (res, ms')"
    and "dispersalBackend (between ms') = Some backend" and "dispersal_version backend = Ok ver"
  shows "(\<forall>c. res = Ok c \<longrightarrow>
       (\<exists>s2 bs. WithCertMiddlewares errorText fromError (handlePostShared m between mode) mode r (fresh ms) = (Ok (), s2) \<and>
          EncodeCommitment (NewVersionedCert c ver) mode = Ok bs \<and> mgrState s2 = between ms' \<and>
          resp s2 = \<lparr>respStatus = Some 200, respHeaders = [], respBody = [Bytes bs]\<rparr>)) \<and>
     (\<forall>e. res = Err e \<longrightarrow>
       (\<exists>s2. WithCertMiddlewares errorText fromError (handlePostShared m between mode) mode r (fresh ms) = (Ok (), s2) \<and>
          respStatus (resp s2) = Some (error_status fromError e)))"
proof -
  let ?h = "handlePostShared m between mode" and ?s = "fresh ms"
  have put: "on_manager (Manager_Put m mode (reqBody r)) (started ?s) = (res, (started ?s)\<lparr>mgrState := ms'\<rparr>)"
    using assms(6) by (simp add: on_manager_def fresh_def)
  have body: "read_body maxPOSTRequestBodySize r = Ok (reqBody r)" using assms(1,2) by (simp add: read_body_Ok)
  have backend: "GetDispersalBackend (between ms') = backend" using assms(7) by (simp add: GetDispersalBackend_def)
  have ok: "\<exists>s2 bs. WithCertMiddlewares errorText fromError ?h mode r ?s = (Ok (), s2) \<and>
      EncodeCommitment (NewVersionedCert c ver) mode = Ok bs \<and> mgrState s2 = between ms' \<and>
      resp s2 = \<lparr>respStatus = Some 200, respHeaders = [], respBody = [Bytes bs]\<rparr>" if "res = Ok c" for c
  proof -
    obtain bs where bs: "EncodeCommitment (NewVersionedCert c ver) mode = Ok bs"
      using assms(5) EncodeCommitment_total [of mode "NewVersionedCert c ver"] by (auto simp: cert_mode_def)
    have "?h r (started ?s) = (Ok (), answered (Bytes bs) ((started ?s)\<lparr>mgrState := between ms'\<rparr>))"
      using put body backend that bs assms(8)
      by (simp add: handlePostShared_def act_simps write_chunk_answered [OF assms(3)])
    with middlewares_Ok [where handler = ?h and r = r and s = ?s and errorText = errorText
        and fromError = fromError and mode = mode] bs show ?thesis
      by (auto simp: answered_def fresh_def newResponse_def implicit_ok_def)
  qed
  have err: "\<exists>s2. WithCertMiddlewares errorText fromError ?h mode r ?s = (Ok (), s2) \<and>
      respStatus (resp s2) = Some (error_status fromError e)" if "res = Err e" for e
  proof -
    let ?s1 = "(started ?s)\<lparr>mgrState := ms'\<rparr>" and ?e = "WrapError ''post request failed'' e"
    have h: "?h r (started ?s) = (Err ?e, ?s1)"
      using put body that by (simp add: handlePostShared_def act_simps)
    obtain s' where "error_response errorText fromError r ?e ?s1 = (Ok (), s')"
      "respStatus (resp s') = Some (error_status fromError e)"
      using error_response_run [OF assms(3), of errorText fromError ?e ?s1] assms(4)
      by (auto simp: fresh_def newResponse_def)
    with middlewares_Err [of ?h r ?s ?e ?s1 errorText fromError s' mode] h show ?thesis by simp
  qed
  from ok err show ?thesis by blast
qed

section \<open>Properties\<close>

text \<open>
  C13: the response of a failed request. If a certificate handler returns an error and has written no
  status, or already that of the error, then the middlewares answer with the status that the error
  classifies to (400, 418, 429, 503 or 500), record exactly that status in the metrics, and the
  request ends normally.
\<close>

theorem cert_error_status:
  assumes "handler r (started s) = (Err e, s1)" and "reqWriteError r = None"
    and "respStatus (resp s1) \<in> {None, Some (error_status fromError e)}"
  shows "\<exists>s2. WithCertMiddlewares errorText fromError handler mode r s = (Ok (), s2) \<and>
     respStatus (resp s2) = Some (error_status fromError e) \<and> mgrState s2 = mgrState s1 \<and>
     rpcMetrics s2 = rpcMetrics s1 @
       [(reqMethod r, decimal (error_status fromError e), mode, ctxCertVersion s1)]"
proof -
  obtain s' where run: "error_response errorText fromError r e s1 = (Ok (), s')" "scwStatus s' = error_status fromError e"
    "mgrState s' = mgrState s1" "rpcMetrics s' = rpcMetrics s1" "ctxCertVersion s' = ctxCertVersion s1"
    "respStatus (resp s') = (case respStatus (resp s1) of None \<Rightarrow> Some (error_status fromError e) | Some c \<Rightarrow> Some c)"
    using error_response_run [OF assms(2), of errorText fromError e s1] by blast
  have "respStatus (resp s') = Some (error_status fromError e)" using run(6) assms(3) by auto
  with run middlewares_Err [of handler r s e s1 errorText fromError s' mode] assms(1) show ?thesis by simp
qed

definition ex_request :: request where
  "ex_request = \<lparr>reqMethod = ''GET'', reqPath = ''/get/'', reqVars = Map.empty, reqQuery = (\<lambda>_. []),
                 reqBody = [], reqReadError = None, reqWriteError = None\<rparr>"

theorem cert_error_status_witness:
  "\<exists>s2. WithCertMiddlewares (\<lambda>e. []) chain_code (\<lambda>r. throw (CertVerificationFailedError 3 ''x'')) StandardCommitmentMode
       ex_request (fresh (mgr_init () V1EigenDABackend)) = (Ok (), s2) \<and> respStatus (resp s2) = Some 418"
  using cert_error_status [of "\<lambda>r. throw (CertVerificationFailedError 3 ''x'')" ex_request
      "fresh (mgr_init () V1EigenDABackend)" "CertVerificationFailedError 3 ''x''"
      "started (fresh (mgr_init () V1EigenDABackend))" chain_code "\<lambda>e. []" StandardCommitmentMode]
  by (auto simp: throw_def ex_request_def fresh_def newResponse_def)

text \<open>
  C11: answers of the certificate GET routes. For a request that names a certificate of a known version:
  when the manager returns a payload the response is status 200 with exactly the payload; when it
  returns an error the status is the one that error classifies to, the context added around it not
  changing it.
\<close>

theorem cert_get_response:
  assumes "names_cert r vc" and "parseCommitmentInclusionL1BlockNumQueryParam r = Ok n"
    and "reqWriteError r = None" and "fromError_documented fromError"
    and "Manager_Get m vc mode \<lparr>L1InclusionBlockNum = n\<rparr> ms = (res, ms')"
  shows "(\<forall>d. res = Ok d \<longrightarrow>
       (\<exists>s2. WithCertMiddlewares errorText fromError (handleGetShared errorText m mode) mode r (fresh ms) = (Ok (), s2) \<and>
          resp s2 = \<lparr>respStatus = Some 200, respHeaders = [], respBody = [Bytes d]\<rparr>)) \<and>
     (\<forall>e. res = Err e \<longrightarrow>
       (\<exists>s2. WithCertMiddlewares errorText fromError (handleGetShared errorText m mode) mode r (fresh ms) = (Ok (), s2) \<and>
          respStatus (resp s2) = Some (error_status fromError e)))"
  using assms by (rule get_response)

definition ex_get :: request where
  "ex_get = ex_request\<lparr>reqVars := [''version_byte_hex'' \<mapsto> ''00'', ''payload_hex'' \<mapsto> ''0107'']\<rparr>"

abbreviation ex_mgr :: "unit Manager" where
  "ex_mgr \<equiv> ex_manager (NewSecondaryManager [] [] False)"

lemma ex_Get:
  "Manager_Get ex_mgr (NewVersionedCert [1, 7] V0VersionByte) StandardCommitmentMode opts
     (mgr_init () V1EigenDABackend) = (Ok [7], mgr_init () V1EigenDABackend)"
  by (simp add: Manager_Get_def ex_manager_def getVerifyMethod_def read_cache_def NewSecondaryManager_def
      SecondaryManager_ISecondary_def sm_CachingEnabled_def NewVersionedCert_def act_simps ex_da1_def
      getFromCorrectEigenDABackend_def sm_WriteOnCacheMissEnabled_def)

lemma ex_get_names: "names_cert ex_get (NewVersionedCert [1, 7] V0VersionByte)"
  by (simp add: names_cert_def ex_get_def NewVersionedCert_def unhex_def V0VersionByte_def)
     (simp flip: V0VersionByte_def)

theorem cert_get_response_witness:
  "\<exists>s2. WithCertMiddlewares (\<lambda>e. []) chain_code (handleGetShared (\<lambda>e. []) ex_mgr StandardCommitmentMode)
       StandardCommitmentMode ex_get (fresh (mgr_init () V1EigenDABackend)) = (Ok (), s2) \<and>
     resp s2 = \<lparr>respStatus = Some 200, respHeaders = [], respBody = [Bytes [7]]\<rparr>"
proof -
  have q: "parseCommitmentInclusionL1BlockNumQueryParam ex_get = Ok 0" "reqWriteError ex_get = None"
    by (simp_all add: parseCommitmentInclusionL1BlockNumQueryParam_def ex_get_def ex_request_def)
  from cert_get_response [OF ex_get_names q(1) q(2) chain_code_documented ex_Get, of "\<lambda>e. []"] show ?thesis
    by blast
qed

text \<open>
  C15: bad requests never reach the storage manager. On the certificate GET routes, an unknown version
  byte, a payload that is not hexadecimal, or an inclusion block number that is not a 64-bit decimal
  gives status 400 and leaves the manager's state as it was.
\<close>

theorem cert_get_bad_request:
  assumes "reqWriteError r = None"
    and "reqVars r ''version_byte_hex'' = Some vh" and "hex_DecodeString vh = Some [b]"
    and "reqVars r ''payload_hex'' = Some ph"
    and "\<not> known_version b \<or> hex_DecodeString ph = None \<or>
         reqQuery r ''l1_inclusion_block_number'' \<noteq> [] \<and>
           strconv_ParseUint (reqQuery r ''l1_inclusion_block_number'') = None"
  shows "\<exists>s2. WithCertMiddlewares errorText fromError (handleGetShared errorText m mode) mode r (fresh ms) = (Ok (), s2) \<and>
     respStatus (resp s2) = Some 400 \<and> mgrState s2 = ms"
proof -
  let ?h = "handleGetShared errorText m mode"
  have "\<exists>e s1. ?h r (started (fresh ms)) = (Err e, s1) \<and> Is400 e \<and> mgrState s1 = ms \<and>
      respStatus (resp s1) \<in> {None, Some 400}"
  proof (cases "known_version b")
    case False
    then obtain e where e: "ByteToVersion b = Err e" by (auto simp: ByteToVersion_def known_version_def)
    obtain s' where "http_Error r (errorText (WrapError (''unsupported version byte '' @ hex_EncodeToString [b]) e)) 400
        (started (fresh ms)) = (Ok (), s')" "mgrState s' = ms" "respStatus (resp s') = Some 400"
      using http_Error_run [of r "errorText (WrapError (''unsupported version byte '' @ hex_EncodeToString [b]) e)" 400
          "started (fresh ms)"] by (auto simp: fresh_def newResponse_def)
    with assms(2,3) e show ?thesis
      by (simp add: handleGetShared_def parseCertVersion_def act_simps Let_def)
  next
    case True
    with assms show ?thesis
      by (auto simp: handleGetShared_def parseCertVersion_def act_simps SetCertVersion_def Let_def fresh_def
          newResponse_def parseCommitmentInclusionL1BlockNumQueryParam_def split: option.splits)
  qed
  then obtain e s1 where h: "?h r (started (fresh ms)) = (Err e, s1)" and e: "Is400 e" "mgrState s1 = ms"
    "respStatus (resp s1) \<in> {None, Some 400}" by blast
  obtain s' where "error_response errorText fromError r e s1 = (Ok (), s')"
    "respStatus (resp s') = Some 400" "mgrState s' = ms"
    using error_response_run [OF assms(1), of errorText fromError e s1] e by auto
  with middlewares_Err [of ?h r "fresh ms" e s1 errorText fromError s' mode] h show ?thesis by simp
qed

theorem cert_get_bad_request_witness:
  "\<exists>s2. WithCertMiddlewares (\<lambda>e. []) chain_code (handleGetShared (\<lambda>e. []) ex_mgr StandardCommitmentMode)
       StandardCommitmentMode (ex_get\<lparr>reqVars := [''version_byte_hex'' \<mapsto> ''09'', ''payload_hex'' \<mapsto> ''0107'']\<rparr>)
       (fresh (mgr_init () V1EigenDABackend)) = (Ok (), s2) \<and> respStatus (resp s2) = Some 400"
  using cert_get_bad_request [of "ex_get\<lparr>reqVars := [''version_byte_hex'' \<mapsto> ''09'', ''payload_hex'' \<mapsto> ''0107'']\<rparr>"
      "''09''" 9 "''0107''" "\<lambda>e. []" chain_code ex_mgr StandardCommitmentMode "mgr_init () V1EigenDABackend"]
  by (auto simp: ex_get_def ex_request_def unhex_def known_version_def mode_simps)

text \<open>
  C12: a dispersal request. For a body within 32 MiB, if the manager's \<^verbatim>\<open>Put\<close> returns a certificate and
  the dispersal backend is V1 or V2 when it is asked for, the response is status 200 and its body is the
  version byte, 0 for V1 and 2 for V2, followed by the certificate, in the generic mode after the
  commitment type byte 1 and the EigenDA layer byte 0; if \<^verbatim>\<open>Put\<close> fails the status is that of its error.
\<close>

theorem cert_post_response:
  assumes "length (reqBody r) \<le> maxPOSTRequestBodySize" and "reqReadError r = None" and "reqWriteError r = None"
    and "fromError_documented fromError" and "cert_mode mode"
    and "Manager_Put m mode (reqBody r) ms = (res, ms')"
    and "dispersalBackend (between ms') = Some backend" and "backend \<in> {V1EigenDABackend, V2EigenDABackend}"
  shows "(\<forall>c. res = Ok c \<longrightarrow>
       (\<exists>s2. WithCertMiddlewares errorText fromError (handlePostShared m between mode) mode r (fresh ms) = (Ok (), s2) \<and>
          mgrState s2 = between ms' \<and>
          resp s2 = \<lparr>respStatus = Some 200, respHeaders = [],
            respBody = [Bytes ((if mode = StandardCommitmentMode then [] else [1, 0]) @
              (if backend = V1EigenDABackend then 0 else 2) # c)]\<rparr>)) \<and>
     (\<forall>e. res = Err e \<longrightarrow>
       (\<exists>s2. WithCertMiddlewares errorText fromError (handlePostShared m between mode) mode r (fresh ms) = (Ok (), s2) \<and>
          respStatus (resp s2) = Some (error_status fromError e)))"
proof -
  let ?ver = "if backend = V1EigenDABackend then 0 else 2 :: byte"
  have ver: "dispersal_version backend = Ok ?ver"
    using assms(8) by (auto simp: dispersal_version_def V0VersionByte_def V2VersionByte_def)
  have "EncodeCommitment (NewVersionedCert c ?ver) mode =
      Ok ((if mode = StandardCommitmentMode then [] else [1, 0]) @ ?ver # c)" for c
    using assms(5) by (auto simp: cert_mode_def NewVersionedCert_def)
  with post_response [where between = between, OF assms(1-7) ver, of errorText] show ?thesis by auto
qed

definition ex_post :: request where
  "ex_post = ex_request\<lparr>reqMethod := ''POST'', reqBody := [7]\<rparr>"

definition ex_mgr2 :: "unit Manager" where
  "ex_mgr2 = ex_mgr\<lparr>mgrEigendaV2 := Some ((ex_da2 ErrProxyOversizedBlob)\<lparr>v2Put := (\<lambda>v. ret (2 # v))\<rparr>)\<rparr>"

lemma ex_Put2:
  "Manager_Put ex_mgr2 StandardCommitmentMode [7] (mgr_init () V2EigenDABackend) =
     (Ok [2, 7], mgr_init () V2EigenDABackend)"
  by (simp add: Manager_Put_def putToCorrectEigenDABackend_def ex_mgr2_def ex_manager_def NewSecondaryManager_def
      SecondaryManager_ISecondary_def sm_Enabled_def sm_CachingEnabled_def sm_FallbackEnabled_def
      mgr_init_def act_simps ex_da2_def)

theorem cert_post_response_witness:
  "\<exists>s2. WithCertMiddlewares (\<lambda>e. []) chain_code (handlePostShared ex_mgr2 id StandardCommitmentMode)
       StandardCommitmentMode ex_post (fresh (mgr_init () V2EigenDABackend)) = (Ok (), s2) \<and>
     resp s2 = \<lparr>respStatus = Some 200, respHeaders = [], respBody = [Bytes [2, 2, 7]]\<rparr>"
  using cert_post_response [of ex_post chain_code StandardCommitmentMode ex_mgr2 "mgr_init () V2EigenDABackend"
      "Ok [2, 7]" "mgr_init () V2EigenDABackend" id V2EigenDABackend "\<lambda>e. []"] ex_Put2
  by (auto simp: ex_post_def ex_request_def maxPOSTRequestBodySize_def cert_mode_def mgr_init_def)

text \<open>
  C40: the version byte of a commitment may be that of another backend. If the admin endpoint switches
  the dispersal backend between the dispersal and the question which backend it went to, the commitment
  is encoded with the version byte of the new backend: a certificate dispersed to V2 is returned as a
  version-0 certificate.
\<close>

theorem post_backend_race:
  assumes "length (reqBody r) \<le> maxPOSTRequestBodySize" and "reqReadError r = None" and "reqWriteError r = None"
    and "dispersalBackend ms = Some V2EigenDABackend"
    and "Manager_Put m StandardCommitmentMode (reqBody r) ms = (Ok c, ms')"
  shows "\<exists>s2. WithCertMiddlewares errorText fromError
       (handlePostShared m (SetDispersalBackend V1EigenDABackend) StandardCommitmentMode) StandardCommitmentMode r (fresh ms)
         = (Ok (), s2) \<and>
     resp s2 = \<lparr>respStatus = Some 200, respHeaders = [], respBody = [Bytes (V0VersionByte # c)]\<rparr>"
proof -
  let ?h = "handlePostShared m (SetDispersalBackend V1EigenDABackend) StandardCommitmentMode" and ?s = "fresh ms"
  have "?h r (started ?s) =
      (Ok (), answered (Bytes (V0VersionByte # c)) ((started ?s)\<lparr>mgrState := SetDispersalBackend V1EigenDABackend ms'\<rparr>))"
    using assms
    by (simp add: handlePostShared_def act_simps write_chunk_answered [OF assms(3)] read_body_def on_manager_def
        zoom_def fresh_def GetDispersalBackend_def SetDispersalBackend_def dispersal_version_def NewVersionedCert_def)
  with middlewares_Ok [where handler = ?h and r = r and s = ?s and errorText = errorText
      and fromError = fromError and mode = StandardCommitmentMode] show ?thesis
    by (auto simp: answered_def fresh_def newResponse_def implicit_ok_def)
qed

theorem post_backend_race_witness:
  "\<exists>s2. WithCertMiddlewares (\<lambda>e. []) chain_code
       (handlePostShared ex_mgr2 (SetDispersalBackend V1EigenDABackend) StandardCommitmentMode) StandardCommitmentMode
       ex_post (fresh (mgr_init () V2EigenDABackend)) = (Ok (), s2) \<and>
     resp s2 = \<lparr>respStatus = Some 200, respHeaders = [], respBody = [Bytes (V0VersionByte # [2, 7])]\<rparr>"
proof -
  have "Manager_Put ex_mgr2 StandardCommitmentMode (reqBody ex_post) (mgr_init () V2EigenDABackend) =
      (Ok [2, 7], mgr_init () V2EigenDABackend)"
    using ex_Put2 by (simp add: ex_post_def)
  from post_backend_race [OF _ _ _ _ this, of "\<lambda>e. []" chain_code] show ?thesis
    by (simp add: ex_post_def ex_request_def maxPOSTRequestBodySize_def mgr_init_def)
qed

text \<open>
  C38: switching the dispersal backend. The admin endpoint accepts a body of at most 1024 bytes whose
  value names V1 or V2, in any case and with surrounding white space; then that backend is set and the
  answer is status 200 with its name. Every other request is answered with status 400 and changes
  nothing.
\<close>

theorem admin_set_backend:
  assumes "reqWriteError r = None" and "handleSetEigenDADispersalBackend errorText unmarshal r (fresh ms) = (res, s2)"
  shows "res = Ok () \<and>
    (if length (reqBody r) \<le> 1024 \<and> reqReadError r = None \<and>
        (\<exists>str b. unmarshal (reqBody r) = Inr str \<and> StringToEigenDABackend str = Ok b)
     then \<exists>str b. unmarshal (reqBody r) = Inr str \<and> StringToEigenDABackend str = Ok b \<and>
        b \<in> {V1EigenDABackend, V2EigenDABackend} \<and>
        mgrState s2 = SetDispersalBackend b ms \<and> respStatus (resp s2) = Some 200 \<and>
        respBody (resp s2) = [BackendJSON (EigenDABackendToString b)]
     else mgrState s2 = ms \<and> respStatus (resp s2) = Some 400)"
proof (cases "read_body 1024 r")
  case (Ok body)
  then have body: "length (reqBody r) \<le> 1024" "reqReadError r = None" "body = reqBody r" by (auto simp: read_body_Ok)
  show ?thesis
  proof (cases "\<exists>str b. unmarshal (reqBody r) = Inr str \<and> StringToEigenDABackend str = Ok b")
    case True
    then obtain str b where sb: "unmarshal (reqBody r) = Inr str" "StringToEigenDABackend str = Ok b" by blast
    with assms Ok body have "res = Ok () \<and> mgrState s2 = SetDispersalBackend b ms \<and>
        respStatus (resp s2) = Some 200 \<and> respBody (resp s2) = [BackendJSON (EigenDABackendToString b)]"
      by (auto simp: handleSetEigenDADispersalBackend_def act_simps handleGetEigenDADispersalBackend_def writeJSON_def
          set_header_def WriteHeader_def fresh_def newResponse_def write_chunk_def implicit_ok_def Let_def
          GetDispersalBackend_def SetDispersalBackend_def)
    with sb body StringToEigenDABackend_Ok [OF sb(2)] show ?thesis by auto
  next
    case False
    then have "\<exists>msg. handleSetEigenDADispersalBackend errorText unmarshal r (fresh ms) = http_Error r msg 400 (fresh ms)"
      using Ok body StringToEigenDABackend_returns
      by (auto simp: handleSetEigenDADispersalBackend_def act_simps split: sum.splits result.splits)
    then obtain msg where "http_Error r msg 400 (fresh ms) = (res, s2)" using assms(2) by auto
    with http_Error_run [of r msg 400 "fresh ms"] False show ?thesis by (auto simp: fresh_def newResponse_def)
  qed
next
  case (Err e)
  with assms(2) have "http_Error r (errorText e) 400 (fresh ms) = (res, s2)"
    by (simp add: handleSetEigenDADispersalBackend_def act_simps)
  moreover have "\<not> (length (reqBody r) \<le> 1024 \<and> reqReadError r = None)"
    using Err by (auto simp: read_body_def split: if_splits option.splits)
  ultimately show ?thesis using http_Error_run [of r "errorText e" 400 "fresh ms"] by (auto simp: fresh_def newResponse_def)
qed auto

theorem admin_set_backend_witness:
  "\<exists>s2. handleSetEigenDADispersalBackend (\<lambda>e. []) (\<lambda>b. Inr '' v2 '') ex_post (fresh (mgr_init () V1EigenDABackend)) =
       (Ok (), s2) \<and> mgrState s2 = SetDispersalBackend V2EigenDABackend (mgr_init () V1EigenDABackend)"
proof -
  have v: "StringToEigenDABackend '' v2 '' = Ok V2EigenDABackend"
    by code_simp
  obtain res s2 where run: "handleSetEigenDADispersalBackend (\<lambda>e. []) (\<lambda>b. Inr '' v2 '') ex_post
      (fresh (mgr_init () V1EigenDABackend)) = (res, s2)" by (metis surj_pair)
  from admin_set_backend [OF _ run] run v show ?thesis by (simp add: ex_post_def ex_request_def)
qed

end
