(* ===== verification/App_Config.thy ===== *)
theory App_Config
  imports Builder Flags Bytes_Amount Server
begin

text \<open>
  Reading the configuration from the flags and checking it: \<^verbatim>\<open>config/app_config.go\<close>, the \<^verbatim>\<open>ReadConfig\<close>
  functions of the packages and \<^verbatim>\<open>builder.ReadConfig\<close>.

  \<open>api\<close> gives the operations of the context \<open>c\<close>, \<open>conv\<close> the machine's conversion of large floats and \<open>procs\<close> what
  \<^verbatim>\<open>runtime.GOMAXPROCS(0)\<close> returns.
\<close>

section \<open>Network addresses\<close>

definition index_of :: "char \<Rightarrow> string \<Rightarrow> nat option" where
  "index_of ch s = (let n = length (takeWhile (\<lambda>x. x \<noteq> ch) s) in if n < length s then Some n else None)"

definition last_index_of :: "char \<Rightarrow> string \<Rightarrow> nat option" where
  "last_index_of ch s = map_option (\<lambda>n. length s - 1 - n) (index_of ch (rev s))"

definition addr_error :: "string \<Rightarrow> string \<Rightarrow> 'a go" where
  "addr_error addr why = Err (ErrorString (''address '' @ addr @ '': '' @ why))"

text \<open>\<^verbatim>\<open>net.SplitHostPort\<close>: the port after the last colon, the host before it or in brackets.\<close>

definition net_SplitHostPort :: "string \<Rightarrow> (string \<times> string) go" where
  "net_SplitHostPort hostport =
     (case last_index_of CHR '':'' hostport of
        None \<Rightarrow> addr_error hostport ''missing port in address''
      | Some i \<Rightarrow>
          bindR (if hostport ! 0 = CHR ''[''
                 then (case index_of CHR '']'' hostport of
                         None \<Rightarrow> addr_error hostport ''missing ']' in address''
                       | Some e \<Rightarrow>
                           if e + 1 = length hostport then addr_error hostport ''missing port in address''
                           else if e + 1 = i then Ok (take (e - 1) (drop 1 hostport), 1, e + 1)
                           else if hostport ! (e + 1) = CHR '':'' then addr_error hostport ''too many colons in address''
                           else addr_error hostport ''missing port in address'')
                 else if CHR '':'' \<in> set (take i hostport) then addr_error hostport ''too many colons in address''
                 else Ok (take i hostport, 0, 0)) (\<lambda>(host, j, k).
          if CHR ''['' \<in> set (drop j hostport) then addr_error hostport ''unexpected '[' in address''
          else if CHR '']'' \<in> set (drop k hostport) then addr_error hostport ''unexpected ']' in address''
          else Ok (host, drop (i + 1) hostport)))"

section \<open>EigenDA V1 client\<close>

definition readEigenDAClientConfig :: "'c cli_api \<Rightarrow> 'c \<Rightarrow> EigenDAClientConfig go" where
  "readEigenDAClientConfig api c =
     (let name = v1_withFlagPrefix in
      bindR (parseConfirmationFlag (ctxString api c (name ''confirmation-depth''))) (\<lambda>(waitFinal, depth).
      Ok \<lparr>edaRPC = ctxString api c (name ''disperser-rpc''),
          edaResponseTimeout = ctxDuration api c (name ''response-timeout''),
          edaConfirmationTimeout = ctxDuration api c (name ''confirmation-timeout''),
          edaStatusQueryRetryInterval = ctxDuration api c (name ''status-query-retry-interval''),
          edaStatusQueryTimeout = ctxDuration api c (name ''status-query-timeout''),
          edaDisableTLS = ctxBool api c (name ''disable-tls''),
          edaCustomQuorumIDs = ctxUintSlice api c (name ''custom-quorum-ids''),
          edaSignerPrivateKeyHex = ctxString api c (name ''signer-private-key-hex''),
          edaPutBlobEncodingVersion = ucast (ctxUint api c (name ''put-blob-encoding-version'')),
          edaDisablePointVerificationMode = ctxBool api c (name ''disable-point-verification-mode''),
          edaWaitForFinalization = waitFinal, edaWaitForConfirmationDepth = depth,
          edaEthRpcUrl = ctxString api c (name ''eth-rpc''),
          edaSvcManagerAddr = ctxString api c (name ''svc-manager-addr'')\<rparr>))"

definition read_max_blob_length :: "'c cli_api \<Rightarrow> (rat option \<Rightarrow> uint64) \<Rightarrow> 'c \<Rightarrow> string \<Rightarrow> uint64 go" where
  "read_max_blob_length api conv c name =
     (let contents = ctxString api c name in
      mapErrR (WrapError (''parse max blob length flag '' @ contents)) (ParseMaxBlobLength conv contents))"

definition ReadClientConfigV1 :: "'c cli_api \<Rightarrow> (rat option \<Rightarrow> uint64) \<Rightarrow> 'c \<Rightarrow> ClientConfigV1 go" where
  "ReadClientConfigV1 api conv c =
     bindR (readEigenDAClientConfig api c) (\<lambda>eigenDAClientConfig.
     bindR (read_max_blob_length api conv c (v1_withFlagPrefix ''max-blob-length'')) (\<lambda>maxBlobLengthBytes.
     Ok \<lparr>EdaClientCfg = eigenDAClientConfig, v1MaxBlobSizeBytes = maxBlobLengthBytes,
         v1PutTries = ctxInt api c (v1_withFlagPrefix ''put-retries'')\<rparr>))"

section \<open>EigenDA V2 client\<close>

definition readPayloadClientConfig :: "'c cli_api \<Rightarrow> 'c \<Rightarrow> PayloadClientConfig" where
  "readPayloadClientConfig api c =
     \<lparr>PayloadPolynomialForm =
        (if ctxBool api c (v2_withFlagPrefix ''disable-point-evaluation'') then PolynomialFormCoeff else PolynomialFormEval),
      BlobVersion = of_int (ctxInt api c (v2_withFlagPrefix ''blob-version''))\<rparr>"

definition readPayloadDisperserCfg :: "'c cli_api \<Rightarrow> 'c \<Rightarrow> PayloadDisperserConfig" where
  "readPayloadDisperserCfg api c =
     (let name = v2_withFlagPrefix in
      \<lparr>pdPayloadClientConfig = readPayloadClientConfig api c,
       DisperseBlobTimeout = ctxDuration api c (name ''disperse-blob-timeout''),
       BlobCompleteTimeout = ctxDuration api c (name ''blob-certified-timeout''),
       BlobStatusPollInterval = ctxDuration api c (name ''blob-status-poll-interval''),
       ContractCallTimeout = ctxDuration api c (name ''contract-call-timeout'')\<rparr>)"

definition disperser_address :: "'c cli_api \<Rightarrow> 'c \<Rightarrow> string go" where
  "disperser_address api c =
     (let addr = ctxString api c (v2_withFlagPrefix ''disperser-rpc'') in
      if addr = []
      then let networkString = ctxString api c (v2_withFlagPrefix ''network'') in
           if networkString = []
           then Err (ErrorString ''either disperser address or EigenDANetwork must be specified'')
           else bindR (mapErrR (WrapError ''parse eigenDANetwork'') (EigenDANetworkFromString networkString)) (\<lambda>network.
                mapErrR (WrapError ''get disperser address'') (GetDisperserAddress network))
      else Ok addr)"

definition readDisperserCfg :: "'c cli_api \<Rightarrow> 'c \<Rightarrow> DisperserClientConfig go" where
  "readDisperserCfg api c =
     bindR (disperser_address api c) (\<lambda>addr.
     bindR (mapErrR (WrapError (''split host port '' @ addr)) (net_SplitHostPort addr)) (\<lambda>(hostStr, portStr).
     Ok \<lparr>Hostname = hostStr, dcPort = portStr,
         UseSecureGrpcFlag = (\<not> ctxBool api c (v2_withFlagPrefix ''disable-tls''))\<rparr>))"

definition readRelayRetrievalConfig :: "'c cli_api \<Rightarrow> 'c \<Rightarrow> RelayPayloadRetrieverConfig" where
  "readRelayRetrievalConfig api c =
     \<lparr>rrPayloadClientConfig = readPayloadClientConfig api c,
      RelayTimeout = ctxDuration api c (v2_withFlagPrefix ''relay-timeout'')\<rparr>"

definition readValidatorRetrievalConfig :: "'c cli_api \<Rightarrow> 'c \<Rightarrow> ValidatorPayloadRetrieverConfig" where
  "readValidatorRetrievalConfig api c =
     \<lparr>vrPayloadClientConfig = readPayloadClientConfig api c,
      RetrievalTimeout = ctxDuration api c (v2_withFlagPrefix ''validator-timeout'')\<rparr>"

text \<open>An address given by a flag, or else that of the network.\<close>

definition flag_or_network :: "string \<Rightarrow> string \<Rightarrow> string go \<Rightarrow> string go" where
  "flag_or_network msg given ofNetwork = (if given = [] then mapErrR (WrapError msg) ofNetwork else Ok given)"

definition ReadClientConfigV2 :: "'c cli_api \<Rightarrow> (rat option \<Rightarrow> uint64) \<Rightarrow> 'c \<Rightarrow> ClientConfigV2 go" where
  "ReadClientConfigV2 api conv c =
     (let name = v2_withFlagPrefix in
      bindR (mapErrR (WrapError ''read disperser config'') (readDisperserCfg api c)) (\<lambda>disperserConfig.
      bindR (read_max_blob_length api conv c (name ''max-blob-length'')) (\<lambda>maxBlobLengthBytes.
      bindR (let networkString = ctxString api c (name ''network'') in
             if networkString \<noteq> []
             then mapErrR (WrapError ''parse eigenDANetwork'') (EigenDANetworkFromString networkString)
             else Ok []) (\<lambda>eigenDANetwork.
      bindR (flag_or_network ''service manager address wasn't specified, and failed to get it from the specified network''
               (ctxString api c (name ''service-manager-addr'')) (GetServiceManagerAddress eigenDANetwork)) (\<lambda>serviceManagerAddress.
      bindR (flag_or_network ''BLS operator state retriever address wasn't specified, and failed to get it from the specified network''
               (ctxString api c (name ''bls-operator-state-retriever-addr''))
               (GetBLSOperatorStateRetrieverAddress eigenDANetwork)) (\<lambda>blsOperatorStateRetrieverAddress.
      Ok \<lparr>DisperserClientCfg = disperserConfig,
          PayloadDisperserCfg = readPayloadDisperserCfg api c,
          RelayPayloadRetrieverCfg = readRelayRetrievalConfig api c,
          ValidatorPayloadRetrieverCfg = readValidatorRetrievalConfig api c,
          v2PutTries = ctxInt api c (name ''put-retries''),
          v2MaxBlobSizeBytes = maxBlobLengthBytes,
          EigenDACertVerifierOrRouterAddress = ctxString api c (name ''cert-verifier-router-or-immutable-verifier-addr''),
          RetrieversToEnable = [RelayRetrieverType, ValidatorRetrieverType],
          BLSOperatorStateRetrieverAddr = blsOperatorStateRetrieverAddress,
          EigenDAServiceManagerAddr = serviceManagerAddress,
          v2RBNRecencyWindowSize = ctxUint64 api c (name ''rbn-recency-window-size''),
          v2EigenDANetwork = eigenDANetwork\<rparr>))))))"

definition ReadSecretConfigV2 :: "'c cli_api \<Rightarrow> 'c \<Rightarrow> SecretConfigV2" where
  "ReadSecretConfigV2 api c =
     \<lparr>SignerPaymentKey = ctxString api c (v2_withFlagPrefix ''signer-payment-key-hex''),
      EthRPCURL = ctxString api c (v2_withFlagPrefix ''eth-rpc'')\<rparr>"

section \<open>Stores, verifier, server and metrics\<close>

fun read_backends :: "string list \<Rightarrow> EigenDABackend list go" where
  "read_backends [] = Ok []"
| "read_backends (s # ss) =
     bindR (mapErrR (WrapError ''string to eigenDA backend'') (StringToEigenDABackend s)) (\<lambda>b.
     bindR (read_backends ss) (\<lambda>bs. Ok (b # bs)))"

definition store_ReadConfig :: "'c cli_api \<Rightarrow> 'c \<Rightarrow> StoreCfg go" where
  "store_ReadConfig api c =
     (let name = store_withFlagPrefix; backendStrings = ctxStringSlice api c (name ''backends-to-enable'') in
      if length backendStrings = 0 then Err (ErrorString ''backends must not be empty'')
      else
        bindR (read_backends backendStrings) (\<lambda>backends.
        bindR (mapErrR (WrapError ''string to eigenDA backend'')
                 (StringToEigenDABackend (ctxString api c (name ''dispersal-backend'')))) (\<lambda>dispersal.
        Ok \<lparr>BackendsToEnable = backends, DispersalBackend = dispersal,
            AsyncPutWorkers = ctxInt api c (name ''concurrent-write-routines''),
            FallbackTargets = ctxStringSlice api c (name ''fallback-targets''),
            CacheTargets = ctxStringSlice api c (name ''cache-targets''),
            WriteOnCacheMiss = ctxBool api c (name ''write-on-cache-miss'')\<rparr>)))"

definition ReadKzgConfig :: "'c cli_api \<Rightarrow> uint64 \<Rightarrow> 'c \<Rightarrow> uint64 \<Rightarrow> KzgConfig" where
  "ReadKzgConfig api procs c maxBlobSize =
     (let name = v1_withFlagPrefix in
      \<lparr>G1Path = ctxString api c (name ''g1-path''), G2Path = ctxString api c (name ''g2-path''),
       G2TrailingPath = ctxString api c (name ''g2-path-trailing''), CacheDir = ctxString api c (name ''cache-path''),
       SRSOrder = of_nat SrsOrder, SRSNumberToLoad = maxBlobSize div 32, NumWorker = procs, LoadG2Points = False\<rparr>)"

definition verify_ReadConfig :: "'c cli_api \<Rightarrow> 'c \<Rightarrow> ClientConfigV1 \<Rightarrow> VerifyConfig" where
  "verify_ReadConfig api c clientConfigV1 =
     (let eda = EdaClientCfg clientConfigV1 in
      \<lparr>VerifyCerts = (\<not> ctxBool api c CertVerificationDisabledFlagName), RPCURL = edaEthRpcUrl eda,
       SvcManagerAddr = edaSvcManagerAddr eda, CertVerifierV1Addr = ctxString api c (v1_withFlagPrefix ''cert-verifier-v1''),
       EthConfirmationDepth = edaWaitForConfirmationDepth eda, WaitForFinalization = edaWaitForFinalization eda,
       verifyMaxBlobSizeBytes = 0\<rparr>)"

definition memstore_ReadConfig :: "'c cli_api \<Rightarrow> 'c \<Rightarrow> uint64 \<Rightarrow> MemConfig" where
  "memstore_ReadConfig api c maxBlobSize =
     (let name = memstore_withFlagPrefix in
      \<lparr>MaxBlobSizeBytes = maxBlobSize, BlobExpiration = ctxDuration api c (name ''expiration''),
       PutLatency = ctxDuration api c (name ''put-latency''), GetLatency = ctxDuration api c (name ''get-latency''),
       PutReturnsFailoverError = ctxBool api c (name ''put-returns-failover-error'')\<rparr>)"

definition redis_ReadConfig :: "'c cli_api \<Rightarrow> 'c \<Rightarrow> RedisConfig" where
  "redis_ReadConfig api c =
     \<lparr>redisEndpoint = ctxString api c ''redis.endpoint'', redisPassword = ctxString api c ''redis.password'',
      redisDB = ctxInt api c ''redis.db'', redisEviction = ctxDuration api c ''redis.eviction''\<rparr>"

definition s3_ReadConfig :: "'c cli_api \<Rightarrow> 'c \<Rightarrow> S3Config" where
  "s3_ReadConfig api c =
     \<lparr>s3CredentialType = StringToCredentialType (ctxString api c ''s3.credential-type''),
      s3Endpoint = ctxString api c ''s3.endpoint'', s3EnableTLS = ctxBool api c ''s3.enable-tls'',
      s3AccessKeyID = ctxString api c ''s3.access-key-id'', s3AccessKeySecret = ctxString api c ''s3.access-key-secret'',
      s3Bucket = ctxString api c ''s3.bucket'', s3Path = ctxString api c ''s3.path''\<rparr>"

definition server_ReadConfig :: "'c cli_api \<Rightarrow> 'c \<Rightarrow> ServerConfig" where
  "server_ReadConfig api c =
     \<lparr>srvHost = ctxString api c ''addr'', srvPort = ctxInt api c ''port'', EnabledAPIs = ctxStringSlice api c ''api-enabled''\<rparr>"

definition metrics_ReadConfig :: "'c cli_api \<Rightarrow> 'c \<Rightarrow> MetricsConfig" where
  "metrics_ReadConfig api c =
     \<lparr>mcEnabled = ctxBool api c ''metrics.enabled'', mcHost = ctxString api c ''metrics.addr'',
      mcPort = ctxInt api c ''metrics.port''\<rparr>"

section \<open>The builder's configuration\<close>

text \<open>Structs that are not read keep the zero values of Go.\<close>

definition zero_ClientConfigV1 :: ClientConfigV1 where
  "zero_ClientConfigV1 =
     \<lparr>EdaClientCfg = \<lparr>edaRPC = [], edaResponseTimeout = 0, edaConfirmationTimeout = 0, edaStatusQueryRetryInterval = 0,
        edaStatusQueryTimeout = 0, edaDisableTLS = False, edaCustomQuorumIDs = [], edaSignerPrivateKeyHex = [],
        edaPutBlobEncodingVersion = 0, edaDisablePointVerificationMode = False, edaWaitForFinalization = False,
        edaWaitForConfirmationDepth = 0, edaEthRpcUrl = [], edaSvcManagerAddr = []\<rparr>,
      v1MaxBlobSizeBytes = 0, v1PutTries = 0\<rparr>"

definition zero_VerifyConfig :: VerifyConfig where
  "zero_VerifyConfig = \<lparr>VerifyCerts = False, RPCURL = [], SvcManagerAddr = [], CertVerifierV1Addr = [],
     EthConfirmationDepth = 0, WaitForFinalization = False, verifyMaxBlobSizeBytes = 0\<rparr>"

definition zero_ClientConfigV2 :: ClientConfigV2 where
  "zero_ClientConfigV2 =
     (let pc = \<lparr>PayloadPolynomialForm = PolynomialFormEval, BlobVersion = 0\<rparr> in
      \<lparr>DisperserClientCfg = \<lparr>Hostname = [], dcPort = [], UseSecureGrpcFlag = False\<rparr>,
       PayloadDisperserCfg = \<lparr>pdPayloadClientConfig = pc, DisperseBlobTimeout = 0, BlobCompleteTimeout = 0,
         BlobStatusPollInterval = 0, ContractCallTimeout = 0\<rparr>,
       RelayPayloadRetrieverCfg = \<lparr>rrPayloadClientConfig = pc, RelayTimeout = 0\<rparr>,
       ValidatorPayloadRetrieverCfg = \<lparr>vrPayloadClientConfig = pc, RetrievalTimeout = 0\<rparr>,
       v2PutTries = 0, v2MaxBlobSizeBytes = 0, EigenDACertVerifierOrRouterAddress = [], RetrieversToEnable = [],
       BLSOperatorStateRetrieverAddr = [], EigenDAServiceManagerAddr = [], v2RBNRecencyWindowSize = 0, v2EigenDANetwork = []\<rparr>)"

definition read_v1 :: "'c cli_api \<Rightarrow> (rat option \<Rightarrow> uint64) \<Rightarrow> 'c \<Rightarrow> StoreCfg \<Rightarrow> (ClientConfigV1 \<times> VerifyConfig) go" where
  "read_v1 api conv c sc =
     (if V1EigenDABackend \<in> set (BackendsToEnable sc)
      then bindR (mapErrR (WrapError ''read client config v1'') (ReadClientConfigV1 api conv c)) (\<lambda>c1.
           Ok (c1, verify_ReadConfig api c c1))
      else Ok (zero_ClientConfigV1, zero_VerifyConfig))"

definition read_v2 :: "'c cli_api \<Rightarrow> (rat option \<Rightarrow> uint64) \<Rightarrow> 'c \<Rightarrow> StoreCfg \<Rightarrow> ClientConfigV2 go" where
  "read_v2 api conv c sc =
     (if V2EigenDABackend \<in> set (BackendsToEnable sc)
      then mapErrR (WrapError ''read client config v2'') (ReadClientConfigV2 api conv c)
      else Ok zero_ClientConfigV2)"

definition builder_ReadConfig :: "'c cli_api \<Rightarrow> (rat option \<Rightarrow> uint64) \<Rightarrow> uint64 \<Rightarrow> 'c \<Rightarrow> BuilderConfig go" where
  "builder_ReadConfig api conv procs c =
     bindR (mapErrR (WrapError ''read storage config'') (store_ReadConfig api c)) (\<lambda>sc.
     bindR (read_v1 api conv c sc) (\<lambda>(c1, vc).
     bindR (read_v2 api conv c sc) (\<lambda>c2.
     bindR (if DispersalBackend sc = V1EigenDABackend then Ok (v1MaxBlobSizeBytes c1)
            else if DispersalBackend sc = V2EigenDABackend then Ok (v2MaxBlobSizeBytes c2)
            else Err (ErrorString (''unknown dispersal backend '' @ EigenDABackendToString (DispersalBackend sc)))) (\<lambda>maxBlobSize.
     Ok \<lparr>bcStoreConfig = sc, bcClientConfigV1 = c1, bcVerifierConfigV1 = vc,
         bcKzgConfig = ReadKzgConfig api procs c maxBlobSize, bcClientConfigV2 = c2,
         bcMemstoreConfig = memstore_ReadConfig api c maxBlobSize,
         bcMemstoreEnabled = ctxBool api c (memstore_withFlagPrefix ''enabled''),
         bcRedisConfig = redis_ReadConfig api c, bcS3Config = s3_ReadConfig api c\<rparr>))))"

section \<open>The application's configuration\<close>

record AppConfig =
  StoreBuilderConfig :: BuilderConfig
  SecretConfig :: SecretConfigV2
  acServerConfig :: ServerConfig
  MetricsServerConfig :: MetricsConfig

definition ReadAppConfig :: "'c cli_api \<Rightarrow> (rat option \<Rightarrow> uint64) \<Rightarrow> uint64 \<Rightarrow> 'c \<Rightarrow> AppConfig go" where
  "ReadAppConfig api conv procs c =
     bindR (mapErrR (WrapError ''read proxy config'') (builder_ReadConfig api conv procs c)) (\<lambda>bc.
     Ok \<lparr>StoreBuilderConfig = bc, SecretConfig = ReadSecretConfigV2 api c, acServerConfig = server_ReadConfig api c,
         MetricsServerConfig = metrics_ReadConfig api c\<rparr>)"

text \<open>The receiver is a value: what \<^verbatim>\<open>builder.Config.Check\<close> writes goes to the copy.\<close>

definition AppConfig_Check :: "AppConfig \<Rightarrow> unit go" where
  "AppConfig_Check c =
     (case BuilderConfig_Check (StoreBuilderConfig c) of (res, bc) \<Rightarrow>
        bindR (mapErrR (WrapError ''check eigenDAConfig'') res) (\<lambda>_.
        if V2EigenDABackend \<in> set (BackendsToEnable (bcStoreConfig bc)) \<and> \<not> bcMemstoreEnabled bc
        then mapErrR (WrapError ''check secret config'') (SecretConfigV2_Check (SecretConfig c))
        else Ok ()))"

section \<open>Lemmas\<close>

lemma index_of_append: "ch \<notin> set xs \<Longrightarrow> index_of ch (xs @ ch # ys) = Some (length xs)"
  by (subst index_of_def, subst takeWhile_append2) auto

lemma last_index_of_append:
  assumes "ch \<notin> set ys"
  shows "last_index_of ch (xs @ ch # ys) = Some (length xs)"
  using index_of_append [of ch "rev ys" "rev xs"] assms by (simp add: last_index_of_def)

lemma SplitHostPort_joined:
  assumes "set host \<inter> set '':[]'' = {}" and "set p \<inter> set '':[]'' = {}"
  shows "net_SplitHostPort (host @ '':'' @ p) = Ok (host, p)"
proof -
  have "last_index_of CHR '':'' (host @ '':'' @ p) = Some (length host)"
    using last_index_of_append [of "CHR '':''" p host] assms(2) by simp
  moreover have "(host @ '':'' @ p) ! 0 \<noteq> CHR ''[''" using assms(1) by (cases host) auto
  ultimately show ?thesis using assms by (auto simp: net_SplitHostPort_def)
qed

lemma network_addresses:
  assumes "EigenDANetworkFromString n = Ok m"
  shows "m = n" and "n \<noteq> []"
    and "\<exists>h. GetDisperserAddress n = Ok (h @ '':443'') \<and> h \<noteq> [] \<and> set h \<inter> set '':[]'' = {}"
    and "\<exists>a. GetServiceManagerAddress n = Ok a \<and> a \<noteq> []"
    and "\<exists>a. GetBLSOperatorStateRetrieverAddress n = Ok a \<and> a \<noteq> []"
proof -
  show "m = n" "n \<noteq> []" using assms by (auto simp: EigenDANetworkFromString_def mode_simps split: if_splits)
  show "\<exists>a. GetServiceManagerAddress n = Ok a \<and> a \<noteq> []" "\<exists>a. GetBLSOperatorStateRetrieverAddress n = Ok a \<and> a \<noteq> []"
    using assms by (auto simp: EigenDANetworkFromString_def GetServiceManagerAddress_def
        GetBLSOperatorStateRetrieverAddress_def split: if_splits)
  have "\<exists>h \<in> {''disperser-testnet-holesky.eigenda.xyz'', ''disperser-preprod-holesky.eigenda.xyz'',
       ''disperser-testnet-sepolia.eigenda.xyz''}. GetDisperserAddress n = Ok (h @ '':443'')"
    using assms by (auto simp: EigenDANetworkFromString_def GetDisperserAddress_def split: if_splits)
  then show "\<exists>h. GetDisperserAddress n = Ok (h @ '':443'') \<and> h \<noteq> [] \<and> set h \<inter> set '':[]'' = {}" by auto
qed

lemma StringToEigenDABackend_known: "StringToEigenDABackend s = Ok b \<Longrightarrow> b \<in> {V1EigenDABackend, V2EigenDABackend}"
  by (auto simp: StringToEigenDABackend_def Let_def split: if_splits)

lemma read_backends_known:
  "read_backends ss = Ok bs \<Longrightarrow> length bs = length ss \<and> set bs \<subseteq> {V1EigenDABackend, V2EigenDABackend}"
proof (induction ss arbitrary: bs)
  case (Cons s ss)
  then obtain b bs' where "StringToEigenDABackend s = Ok b" "read_backends ss = Ok bs'" "bs = b # bs'"
    by (auto simp: bindR_eq_Ok mapErrR_eq_Ok)
  with Cons.IH [of bs'] StringToEigenDABackend_known [of s b] show ?case by auto
qed simp

lemma read_max_blob_length_bounds:
  "read_max_blob_length api conv c name = Ok n \<Longrightarrow> unat n \<in> {1..1040187392}"
  by (auto simp: read_max_blob_length_def Let_def mapErrR_eq_Ok ParseMaxBlobLength_Ok)

lemma relay_size_exact:
  assumes "unat (v2MaxBlobSizeBytes c) \<le> 1040187392"
  shows "unat (relayMaxGRPCMessageSize c) = unat (v2MaxBlobSizeBytes c) + unat (v2MaxBlobSizeBytes c) div 10"
proof -
  let ?n = "v2MaxBlobSizeBytes c"
  have d: "unat (?n div 10) = unat ?n div 10" by (simp add: unat_div)
  have "unat ?n + unat (?n div 10) < 2 ^ 64" using assms by (simp add: d)
  then show ?thesis
    using unat_word_ariths(1) [of ?n "?n div 10"] by (simp add: relayMaxGRPCMessageSize_def d)
qed

lemma ReadClientConfigV1_Ok:
  "ReadClientConfigV1 api conv c = Ok c1 \<Longrightarrow> unat (v1MaxBlobSizeBytes c1) \<in> {1..1040187392}"
  using read_max_blob_length_bounds by (fastforce simp: ReadClientConfigV1_def bindR_eq_Ok)

lemma flag_or_network_Ok:
  "flag_or_network msg given (Err e) = Ok a \<longleftrightarrow> given = a \<and> a \<noteq> []"
  "flag_or_network msg given (Ok b) = Ok a \<longleftrightarrow> a = (if given = [] then b else given)"
  by (auto simp: flag_or_network_def)

definition v2_read_ok :: "ClientConfigV2 \<Rightarrow> bool" where
  "v2_read_ok c2 \<longleftrightarrow>
     unat (v2MaxBlobSizeBytes c2) \<in> {1..1040187392} \<and> RetrieversToEnable c2 = [RelayRetrieverType, ValidatorRetrieverType] \<and>
     EigenDAServiceManagerAddr c2 \<noteq> [] \<and> BLSOperatorStateRetrieverAddr c2 \<noteq> [] \<and>
     v2EigenDANetwork c2 \<in> {[], HoleskyTestnetEigenDANetwork, HoleskyPreprodEigenDANetwork, SepoliaTestnetEigenDANetwork}"

lemma service_manager_set: "flag_or_network msg given (GetServiceManagerAddress n) = Ok a \<Longrightarrow> a \<noteq> []"
  by (auto simp: flag_or_network_def mapErrR_eq_Ok GetServiceManagerAddress_def split: if_splits)

lemma bls_retriever_set: "flag_or_network msg given (GetBLSOperatorStateRetrieverAddress n) = Ok a \<Longrightarrow> a \<noteq> []"
  by (auto simp: flag_or_network_def mapErrR_eq_Ok GetBLSOperatorStateRetrieverAddress_def split: if_splits)

lemma network_known:
  "(if s \<noteq> [] then mapErrR f (EigenDANetworkFromString s) else Ok []) = Ok n \<Longrightarrow>
     n = s \<and> n \<in> {[], HoleskyTestnetEigenDANetwork, HoleskyPreprodEigenDANetwork, SepoliaTestnetEigenDANetwork}"
  by (auto simp: mapErrR_eq_Ok EigenDANetworkFromString_def split: if_splits)

lemma ReadClientConfigV2_Ok:
  assumes "ReadClientConfigV2 api conv c = Ok c2"
  shows "v2_read_ok c2"
proof -
  obtain mb net sm bls where p: "read_max_blob_length api conv c (v2_withFlagPrefix ''max-blob-length'') = Ok mb"
    "(if ctxString api c (v2_withFlagPrefix ''network'') \<noteq> []
      then mapErrR (WrapError ''parse eigenDANetwork'') (EigenDANetworkFromString (ctxString api c (v2_withFlagPrefix ''network'')))
      else Ok []) = Ok net"
    "sm \<noteq> []" "bls \<noteq> []"
    "v2MaxBlobSizeBytes c2 = mb" "v2EigenDANetwork c2 = net" "EigenDAServiceManagerAddr c2 = sm"
    "BLSOperatorStateRetrieverAddr c2 = bls" "RetrieversToEnable c2 = [RelayRetrieverType, ValidatorRetrieverType]"
    using assms
    by (auto simp only: ReadClientConfigV2_def Let_def bindR_eq_Ok mapErrR_eq_Ok result.inject ClientConfigV2.simps
        dest!: service_manager_set bls_retriever_set)
  show ?thesis
    using p(3-) read_max_blob_length_bounds [OF p(1)] network_known [OF p(2)] by (auto simp: v2_read_ok_def)
qed

lemma builder_ReadConfig_Ok:
  assumes "builder_ReadConfig api conv procs c = Ok bc"
  obtains c1 vc c2 maxBlob where
    "store_ReadConfig api c = Ok (bcStoreConfig bc)" "read_v1 api conv c (bcStoreConfig bc) = Ok (c1, vc)"
    "read_v2 api conv c (bcStoreConfig bc) = Ok c2" "bcClientConfigV1 bc = c1" "bcVerifierConfigV1 bc = vc"
    "bcClientConfigV2 bc = c2" "bcKzgConfig bc = ReadKzgConfig api procs c maxBlob"
    "bcMemstoreConfig bc = memstore_ReadConfig api c maxBlob"
    "bcMemstoreEnabled bc = ctxBool api c (memstore_withFlagPrefix ''enabled'')"
    "maxBlob = (if DispersalBackend (bcStoreConfig bc) = V1EigenDABackend then v1MaxBlobSizeBytes c1 else v2MaxBlobSizeBytes c2)"
  using assms by (auto simp: builder_ReadConfig_def bindR_eq_Ok mapErrR_eq_Ok split: if_splits)

lemma store_ReadConfig_Ok:
  assumes "store_ReadConfig api c = Ok sc"
  shows "BackendsToEnable sc \<noteq> []" and "set (BackendsToEnable sc) \<subseteq> {V1EigenDABackend, V2EigenDABackend}"
    and "DispersalBackend sc \<in> {V1EigenDABackend, V2EigenDABackend}"
proof -
  obtain ss b where p: "ss \<noteq> []" "read_backends ss = Ok (BackendsToEnable sc)" "StringToEigenDABackend b = Ok (DispersalBackend sc)"
    using assms by (auto simp: store_ReadConfig_def Let_def bindR_eq_Ok mapErrR_eq_Ok split: if_splits)
  with read_backends_known [OF p(2)] show "BackendsToEnable sc \<noteq> []" "set (BackendsToEnable sc) \<subseteq> {V1EigenDABackend, V2EigenDABackend}"
    by auto
  show "DispersalBackend sc \<in> {V1EigenDABackend, V2EigenDABackend}" by (rule StringToEigenDABackend_known [OF p(3)])
qed

lemma AppConfig_Check_Ok:
  "AppConfig_Check a = Ok () \<longleftrightarrow>
     config_ok (StoreBuilderConfig a) \<and>
     (V2EigenDABackend \<in> set (BackendsToEnable (bcStoreConfig (StoreBuilderConfig a))) \<and>
      \<not> bcMemstoreEnabled (StoreBuilderConfig a) \<longrightarrow>
        SignerPaymentKey (SecretConfig a) \<noteq> [] \<and> EthRPCURL (SecretConfig a) \<noteq> [])"
proof (cases "BuilderConfig_Check (StoreBuilderConfig a)")
  case (Pair r bc)
  have sel: "bcStoreConfig (checked_config b) = bcStoreConfig b" "bcMemstoreEnabled (checked_config b) = bcMemstoreEnabled b" for b
    by (simp_all add: checked_config_def)
  show ?thesis
  proof (cases "r = Ok ()")
    case True
    with Pair BuilderConfig_Check_Ok [of "StoreBuilderConfig a" bc]
    show ?thesis by (auto simp: AppConfig_Check_def sel mapErrR_eq_Ok SecretConfigV2_Check_def split: if_splits)
  next
    case False
    with Pair BuilderConfig_Check_Ok [of "StoreBuilderConfig a" bc]
      BuilderConfig_Check_Ok [of "StoreBuilderConfig a" "checked_config (StoreBuilderConfig a)"]
    show ?thesis by (auto simp: AppConfig_Check_def bindR_eq_Ok mapErrR_eq_Ok)
  qed
qed

lemma read_v1_unverified:
  "read_v1 api conv c sc = Ok (c1, vc) \<Longrightarrow> ctxBool api c CertVerificationDisabledFlagName \<Longrightarrow> \<not> VerifyCerts vc"
  by (auto simp: read_v1_def verify_ReadConfig_def zero_VerifyConfig_def Let_def bindR_eq_Ok split: if_splits)

section \<open>Properties\<close>

text \<open>
  C22: a configuration that was read and passed the check. The enabled backends and the dispersal backend are V1 or V2;
  the maximal blob size of an enabled backend is between 1 and 1040187392 bytes, so that the number of SRS points
  to load is below the SRS order and the message size of the relay client, with its extra tenth, does not wrap
  around. For V2 the retrievers are relay then validators, both contract addresses are set, and the network is empty
  or known; without the memstore the disperser's host and port, the signer key and the RPC URL are set too.
\<close>

theorem checked_AppConfig:
  assumes "ReadAppConfig api conv procs c = Ok a" and "AppConfig_Check a = Ok ()"
  shows "let bc = StoreBuilderConfig a; backends = set (BackendsToEnable (bcStoreConfig bc)); c2 = bcClientConfigV2 bc in
     backends \<noteq> {} \<and> backends \<subseteq> {V1EigenDABackend, V2EigenDABackend} \<and>
     DispersalBackend (bcStoreConfig bc) \<in> {V1EigenDABackend, V2EigenDABackend} \<and>
     (V1EigenDABackend \<in> backends \<longrightarrow> unat (v1MaxBlobSizeBytes (bcClientConfigV1 bc)) \<in> {1..1040187392}) \<and>
     unat (SRSNumberToLoad (bcKzgConfig bc)) < unat (SRSOrder (bcKzgConfig bc)) \<and>
     (V2EigenDABackend \<in> backends \<longrightarrow> v2_read_ok c2 \<and>
        unat (relayMaxGRPCMessageSize c2) = unat (v2MaxBlobSizeBytes c2) + unat (v2MaxBlobSizeBytes c2) div 10 \<and>
        (\<not> bcMemstoreEnabled bc \<longrightarrow> Hostname (DisperserClientCfg c2) \<noteq> [] \<and> dcPort (DisperserClientCfg c2) \<noteq> [] \<and>
           SignerPaymentKey (SecretConfig a) \<noteq> [] \<and> EthRPCURL (SecretConfig a) \<noteq> []))"
proof -
  let ?bc = "StoreBuilderConfig a"
  have "builder_ReadConfig api conv procs c = Ok ?bc" using assms(1) by (auto simp: ReadAppConfig_def bindR_eq_Ok mapErrR_eq_Ok)
  then obtain c1 vc c2 maxBlob where r: "store_ReadConfig api c = Ok (bcStoreConfig ?bc)"
    "read_v1 api conv c (bcStoreConfig ?bc) = Ok (c1, vc)" "read_v2 api conv c (bcStoreConfig ?bc) = Ok c2"
    "bcClientConfigV1 ?bc = c1" "bcClientConfigV2 ?bc = c2" "bcKzgConfig ?bc = ReadKzgConfig api procs c maxBlob"
    "maxBlob = (if DispersalBackend (bcStoreConfig ?bc) = V1EigenDABackend then v1MaxBlobSizeBytes c1 else v2MaxBlobSizeBytes c2)"
    by (rule builder_ReadConfig_Ok)
  have v1: "V1EigenDABackend \<in> set (BackendsToEnable (bcStoreConfig ?bc)) \<longrightarrow> unat (v1MaxBlobSizeBytes c1) \<in> {1..1040187392}"
    "unat (v1MaxBlobSizeBytes c1) \<le> 1040187392"
    using r(2) ReadClientConfigV1_Ok [of api conv c c1]
    by (auto simp: read_v1_def zero_ClientConfigV1_def bindR_eq_Ok mapErrR_eq_Ok split: if_splits)
  have v2: "V2EigenDABackend \<in> set (BackendsToEnable (bcStoreConfig ?bc)) \<longrightarrow> v2_read_ok c2" "unat (v2MaxBlobSizeBytes c2) \<le> 1040187392"
    using r(3) ReadClientConfigV2_Ok [of api conv c c2]
    by (auto simp: read_v2_def zero_ClientConfigV2_def Let_def mapErrR_eq_Ok v2_read_ok_def split: if_splits)
  have "unat (SRSNumberToLoad (bcKzgConfig ?bc)) < unat (SRSOrder (bcKzgConfig ?bc))"
    using v1(2) v2(2) r(6,7) by (simp add: ReadKzgConfig_def Let_def SrsOrder_def unat_div split: if_splits)
  with v1(1) v2(1) relay_size_exact [OF v2(2)] store_ReadConfig_Ok [OF r(1)] r(4,5) assms(2) show ?thesis
    by (auto simp: Let_def AppConfig_Check_Ok config_ok_def v2_client_ok_def)
qed

text \<open>
  C35: defaults of a network. When a known network is named and the maximal blob length can be read, the V2
  configuration is read; an address that is given explicitly is the one used, and one that is not is that of the
  network, with port 443 for the disperser.
\<close>

theorem network_defaults:
  assumes "EigenDANetworkFromString (ctxString api c (v2_withFlagPrefix ''network'')) = Ok net"
    and "read_max_blob_length api conv c (v2_withFlagPrefix ''max-blob-length'') = Ok len"
    and "disperser = ctxString api c (v2_withFlagPrefix ''disperser-rpc'')"
    and "disperser \<in> {[], host @ '':'' @ p}" "set (host @ p) \<inter> set '':[]'' = {}"
  shows "\<exists>c2. ReadClientConfigV2 api conv c = Ok c2 \<and> v2EigenDANetwork c2 = net \<and> v2MaxBlobSizeBytes c2 = len \<and>
     (let h = Hostname (DisperserClientCfg c2); pt = dcPort (DisperserClientCfg c2) in
      if disperser = [] then GetDisperserAddress net = Ok (h @ '':443'') \<and> pt = ''443'' else h = host \<and> pt = p) \<and>
     (let sm = ctxString api c (v2_withFlagPrefix ''service-manager-addr'') in
      if sm = [] then GetServiceManagerAddress net = Ok (EigenDAServiceManagerAddr c2) else EigenDAServiceManagerAddr c2 = sm) \<and>
     (let bls = ctxString api c (v2_withFlagPrefix ''bls-operator-state-retriever-addr'') in
      if bls = [] then GetBLSOperatorStateRetrieverAddress net = Ok (BLSOperatorStateRetrieverAddr c2)
      else BLSOperatorStateRetrieverAddr c2 = bls)"
proof -
  note net = network_addresses [OF assms(1)]
  obtain h sm bls where d: "GetDisperserAddress net = Ok (h @ '':443'')" "set h \<inter> set '':[]'' = {}"
    "GetServiceManagerAddress net = Ok sm" "GetBLSOperatorStateRetrieverAddress net = Ok bls"
    using net(1,3-5) by auto
  have "net_SplitHostPort (h @ '':'' @ ''443'') = Ok (h, ''443'')" by (rule SplitHostPort_joined) (use d(2) in auto)
  moreover have "net_SplitHostPort (host @ '':'' @ p) = Ok (host, p)" by (rule SplitHostPort_joined) (use assms(5) in auto)
  ultimately have "\<exists>dc. readDisperserCfg api c = Ok dc \<and>
      (if disperser = [] then Hostname dc = h \<and> dcPort dc = ''443'' else Hostname dc = host \<and> dcPort dc = p)"
    using assms(1,3,4) net(1,2) d(1) by (auto simp: readDisperserCfg_def disperser_address_def Let_def)
  then obtain dc where "readDisperserCfg api c = Ok dc"
    "if disperser = [] then Hostname dc = h \<and> dcPort dc = ''443'' else Hostname dc = host \<and> dcPort dc = p" by blast
  then show ?thesis
    using assms(1,2) net(1,2) d by (simp add: ReadClientConfigV2_def Let_def flag_or_network_def)
qed

text \<open>A V2 context on Sepolia.\<close>

definition ex_ctx :: "string \<rightharpoonup> flag_value" where
  "ex_ctx =
     [''storage.backends-to-enable'' \<mapsto> StringSliceV [''V2''], ''storage.dispersal-backend'' \<mapsto> StringV ''V2'',
      ''eigenda.v2.network'' \<mapsto> StringV ''sepolia_testnet'', ''eigenda.v2.max-blob-length'' \<mapsto> StringV (decimal 16 @ ''MiB''),
      ''eigenda.v2.put-retries'' \<mapsto> IntV 3, ''eigenda.v2.cert-verifier-router-or-immutable-verifier-addr'' \<mapsto> StringV ''0x1'',
      ''eigenda.v2.signer-payment-key-hex'' \<mapsto> StringV ''key'', ''eigenda.v2.eth-rpc'' \<mapsto> StringV ''url'',
      ''log.format'' \<mapsto> StringV ''text'', ''log.level'' \<mapsto> StringV ''info'']"

lemma ex_max_blob_length:
  "read_max_blob_length ex_cli (\<lambda>x. 0) ex_ctx (v2_withFlagPrefix ''max-blob-length'') = Ok 16777216"
proof -
  have "strings_ToLower ''MiB'' = ''mib''" by code_simp
  then have "unit_factors (strings_ToLower ''MiB'') = Some [1024, 1024]" by (simp add: unit_factors_def)
  from ParseBytesAmount_whole [OF this, of 16 "\<lambda>x. 0"]
  have "ParseMaxBlobLength (\<lambda>x. 0) (decimal 16 @ ''MiB'') = Ok 16777216" by (simp add: ParseMaxBlobLength_Ok)
  then show ?thesis by (simp add: read_max_blob_length_def Let_def ex_ctx_def ex_cli_def v2_withFlagPrefix_def)
qed

lemma ex_network:
  "EigenDANetworkFromString (ctxString ex_cli ex_ctx (v2_withFlagPrefix ''network'')) = Ok SepoliaTestnetEigenDANetwork"
  by (simp add: ex_ctx_def ex_cli_def v2_withFlagPrefix_def EigenDANetworkFromString_def mode_simps)

theorem network_defaults_witness:
  "\<exists>c2. ReadClientConfigV2 ex_cli (\<lambda>x. 0) ex_ctx = Ok c2 \<and> dcPort (DisperserClientCfg c2) = ''443'' \<and>
     GetServiceManagerAddress SepoliaTestnetEigenDANetwork = Ok (EigenDAServiceManagerAddr c2)"
proof -
  have "[] = ctxString ex_cli ex_ctx (v2_withFlagPrefix ''disperser-rpc'')"
    "ctxString ex_cli ex_ctx (v2_withFlagPrefix ''service-manager-addr'') = []"
    by (simp_all add: ex_ctx_def ex_cli_def v2_withFlagPrefix_def)
  with network_defaults [OF ex_network ex_max_blob_length this(1), of "[]" "[]"] show ?thesis
    by (auto simp: Let_def)
qed

lemma ex_backends: "StringToEigenDABackend ''V2'' = Ok V2EigenDABackend"
  by code_simp

lemma ex_read:
  "\<exists>a. ReadAppConfig ex_cli (\<lambda>x. 0) 1 ex_ctx = Ok a \<and> AppConfig_Check a = Ok ()"
proof -
  have ctx: "ctxStringSlice ex_cli ex_ctx ''storage.backends-to-enable'' = [''V2'']"
    "ctxString ex_cli ex_ctx ''storage.dispersal-backend'' = ''V2''" "ctxInt ex_cli ex_ctx ''storage.concurrent-write-routines'' = 0"
    "ctxStringSlice ex_cli ex_ctx ''storage.fallback-targets'' = []" "ctxStringSlice ex_cli ex_ctx ''storage.cache-targets'' = []"
    "ctxString ex_cli ex_ctx ''eigenda.v2.disperser-rpc'' = []" "ctxString ex_cli ex_ctx ''eigenda.v2.signer-payment-key-hex'' = ''key''"
    "ctxString ex_cli ex_ctx ''eigenda.v2.eth-rpc'' = ''url''" "ctxInt ex_cli ex_ctx ''eigenda.v2.put-retries'' = 3"
    "ctxString ex_cli ex_ctx ''eigenda.v2.cert-verifier-router-or-immutable-verifier-addr'' = ''0x1''"
    "ctxBool ex_cli ex_ctx ''memstore.enabled'' = False"
    "ctxString ex_cli ex_ctx ''s3.endpoint'' = []" "ctxString ex_cli ex_ctx ''redis.password'' = []"
    by (simp_all add: ex_ctx_def ex_cli_def)
  have "[] = ctxString ex_cli ex_ctx (v2_withFlagPrefix ''disperser-rpc'')" by (simp add: ctx v2_withFlagPrefix_def)
  from network_defaults [OF ex_network ex_max_blob_length this, of "[]" "[]"] obtain c2 where
    c2: "ReadClientConfigV2 ex_cli (\<lambda>x. 0) ex_ctx = Ok c2"
    "GetDisperserAddress SepoliaTestnetEigenDANetwork = Ok (Hostname (DisperserClientCfg c2) @ '':443'')"
    "dcPort (DisperserClientCfg c2) = ''443''" by (auto simp: Let_def)
  have "Hostname (DisperserClientCfg c2) \<noteq> []"
    using c2(2) by (auto simp: GetDisperserAddress_def mode_simps)
  moreover have "v2PutTries c2 = 3" "EigenDACertVerifierOrRouterAddress c2 = ''0x1''"
    using c2(1) by (auto simp: ReadClientConfigV2_def Let_def bindR_eq_Ok ctx v2_withFlagPrefix_def)
  ultimately have "v2_client_ok c2"
    using ReadClientConfigV2_Ok [OF c2(1)] c2(3) by (auto simp: v2_client_ok_def v2_read_ok_def word_gt_0 unat_eq_zero)
  then show ?thesis
    using c2(1)
    by (simp add: ReadAppConfig_def builder_ReadConfig_def store_ReadConfig_def Let_def store_withFlagPrefix_def ctx ex_backends
        read_v1_def read_v2_def mode_simps AppConfig_Check_Ok config_ok_def secondaries_ok_def targets_ok_def
        redis_ReadConfig_def s3_ReadConfig_def memstore_withFlagPrefix_def ReadSecretConfigV2_def v2_withFlagPrefix_def)
qed

theorem checked_AppConfig_witness:
  "\<exists>a. ReadAppConfig ex_cli (\<lambda>x. 0) 1 ex_ctx = Ok a \<and>
     unat (SRSNumberToLoad (bcKzgConfig (StoreBuilderConfig a))) < unat (SRSOrder (bcKzgConfig (StoreBuilderConfig a)))"
proof -
  obtain a where a: "ReadAppConfig ex_cli (\<lambda>x. 0) 1 ex_ctx = Ok a" "AppConfig_Check a = Ok ()" using ex_read by blast
  then show ?thesis using checked_AppConfig [OF a] by (auto simp: Let_def)
qed

text \<open>
  The memstore needs no other settings. Once the action of \<^verbatim>\<open>memstore.enabled\<close> has run on true, certificate
  verification is off in the configuration that is read, and the check of that configuration succeeds exactly if the
  settings of the secondary stores are consistent; no V1 or V2 client setting is looked at.
\<close>

theorem memstore_needs_no_client:
  assumes "\<forall>c n c'. ctxSet api c n ''true'' = Inr c' \<longrightarrow> ctxBool api c' n"
    and "memstore_enabled_action api envPrefix env (BoolV True) c = (Ok (), c1)"
    and "ctxBool api c1 (memstore_withFlagPrefix ''enabled'')"
    and "builder_ReadConfig api conv procs c1 = Ok bc"
  shows "\<not> VerifyCerts (bcVerifierConfigV1 bc) \<and>
     ((\<exists>bc'. BuilderConfig_Check bc = (Ok (), bc')) \<longleftrightarrow>
        secondaries_ok bc \<and> targets_ok (bcStoreConfig bc) \<and> AsyncPutWorkers (bcStoreConfig bc) < 100)"
proof -
  have "ctxBool api c1 CertVerificationDisabledFlagName"
    using assms(1,2) by (auto simp: memstore_enabled_action_def andThen_eq_Ok mapErr_eq_Ok deprecated_env_def set_flag_def
        act_simps split: if_splits sum.splits)
  moreover obtain c2 vc where "read_v1 api conv c1 (bcStoreConfig bc) = Ok (c2, vc)" "bcVerifierConfigV1 bc = vc"
    "bcMemstoreEnabled bc = ctxBool api c1 (memstore_withFlagPrefix ''enabled'')"
    by (rule builder_ReadConfig_Ok [OF assms(4)])
  ultimately have "\<not> VerifyCerts (bcVerifierConfigV1 bc)" "bcMemstoreEnabled bc"
    using assms(3) read_v1_unverified [of api conv c1 _ c2 vc] by auto
  then show ?thesis by (auto simp: BuilderConfig_Check_Ok config_ok_def v1_backend_ok_def)
qed

definition ex_mem_ctx :: "string \<rightharpoonup> flag_value" where
  "ex_mem_ctx = ex_ctx(''memstore.enabled'' \<mapsto> BoolV True, ''eigenda.cert-verification-disabled'' \<mapsto> BoolV True)"

theorem memstore_needs_no_client_witness:
  "\<exists>bc bc'. builder_ReadConfig ex_cli (\<lambda>x. 0) 1 ex_mem_ctx = Ok bc \<and> BuilderConfig_Check bc = (Ok (), bc')"
proof -
  have act: "memstore_enabled_action ex_cli ''P'' Map.empty (BoolV True) ex_mem_ctx = (Ok (), ex_mem_ctx)"
    by (simp add: memstore_enabled_action_def deprecated_env_def set_flag_def act_simps ex_cli_def ex_mem_ctx_def
        CertVerificationDisabledFlagName_def v1_withFlagPrefix_def fun_upd_idem)
  have set: "\<forall>c n c'. ctxSet ex_cli c n ''true'' = Inr c' \<longrightarrow> ctxBool ex_cli c' n"
    by (auto simp: ex_cli_def split: option.splits flag_value.splits)
  have en: "ctxBool ex_cli ex_mem_ctx (memstore_withFlagPrefix ''enabled'')"
    by (simp add: ex_cli_def ex_mem_ctx_def memstore_withFlagPrefix_def)
  have ctx: "ctxStringSlice ex_cli ex_mem_ctx ''storage.backends-to-enable'' = [''V2'']"
    "ctxString ex_cli ex_mem_ctx ''storage.dispersal-backend'' = ''V2''" "ctxInt ex_cli ex_mem_ctx ''storage.concurrent-write-routines'' = 0"
    "ctxStringSlice ex_cli ex_mem_ctx ''storage.fallback-targets'' = []" "ctxStringSlice ex_cli ex_mem_ctx ''storage.cache-targets'' = []"
    "ctxString ex_cli ex_mem_ctx ''s3.endpoint'' = []" "ctxString ex_cli ex_mem_ctx ''redis.password'' = []"
    by (simp_all add: ex_ctx_def ex_cli_def ex_mem_ctx_def)
  have v2: "ctxString ex_cli ex_mem_ctx (v2_withFlagPrefix s) = ctxString ex_cli ex_ctx (v2_withFlagPrefix s)" for s
    by (simp add: ex_cli_def ex_mem_ctx_def v2_withFlagPrefix_def)
  have n: "EigenDANetworkFromString (ctxString ex_cli ex_mem_ctx (v2_withFlagPrefix ''network'')) = Ok SepoliaTestnetEigenDANetwork"
    and m: "read_max_blob_length ex_cli (\<lambda>x. 0) ex_mem_ctx (v2_withFlagPrefix ''max-blob-length'') = Ok 16777216"
    and d: "[] = ctxString ex_cli ex_mem_ctx (v2_withFlagPrefix ''disperser-rpc'')"
    using ex_network ex_max_blob_length
    by (simp_all add: v2 read_max_blob_length_def) (simp add: ex_cli_def ex_ctx_def v2_withFlagPrefix_def)
  from network_defaults [OF n m d, of "[]" "[]"] obtain c2 where
    "ReadClientConfigV2 ex_cli (\<lambda>x. 0) ex_mem_ctx = Ok c2" by auto
  then obtain bc where bc: "builder_ReadConfig ex_cli (\<lambda>x. 0) 1 ex_mem_ctx = Ok bc"
    "secondaries_ok bc" "targets_ok (bcStoreConfig bc)" "AsyncPutWorkers (bcStoreConfig bc) < 100"
    by (simp add: builder_ReadConfig_def store_ReadConfig_def Let_def store_withFlagPrefix_def ctx ex_backends
        read_v1_def read_v2_def mode_simps secondaries_ok_def targets_ok_def redis_ReadConfig_def s3_ReadConfig_def)
  with memstore_needs_no_client [OF set act en bc(1)] show ?thesis by blast
qed

end
