(* ===== verification/Routing.thy ===== *)
theory Routing
  imports Server
begin

text \<open>
  The routes (\<^verbatim>\<open>server/routing.go\<close>) and their dispatch. \<^verbatim>\<open>RegisterRoutes\<close> is a list of routes, in the order
  in which they are registered; a path template is a list of pieces. The router itself, \<^verbatim>\<open>gorilla/mux\<close>, is
  an argument of \<open>serve\<close>: it takes the routes and the request and returns the matched route with its
  variables. \<open>first_match\<close> is what it does as documented, for the templates that occur: routes are
  tried in order, a template matches the whole path, \<^verbatim>\<open>{name}\<close> is a non-empty sequence without a
  slash, and \<^verbatim>\<open>{name:pattern}\<close> is what the pattern matches.
\<close>

section \<open>Routes\<close>

datatype piece =
    Lit string
  | OptionalPrefix
  | ExactVar string string
  | Hex2Var string
  | HexStarVar string
  | AnyVar string

datatype handler_id =
    GetStd | GetKeccak | GetGeneric | UnsupportedCommitmentType
  | PostStd | PostKeccak | PostGeneric
  | Health | PutByGet | AdminGetBackend | AdminSetBackend

record route =
  routeMethod :: string
  routeTemplate :: "piece list"
  routeQuery :: "(string \<times> string) option"
  routeMatcher :: "request \<Rightarrow> bool"
  routeHandler :: handler_id

definition notCommitmentModeStandard :: "request \<Rightarrow> bool" where
  "notCommitmentModeStandard r =
     (let commitmentMode = reqQuery r ''commitment_mode'' in
      commitmentMode = [] \<or> commitmentMode \<noteq> ''standard'')"

definition RegisterRoutes :: "ServerConfig \<Rightarrow> route list" where
  "RegisterRoutes c =
     [\<lparr>routeMethod = ''GET'',
       routeTemplate = [Lit ''/get/'', OptionalPrefix, Hex2Var ''version_byte_hex'', HexStarVar ''payload_hex''],
       routeQuery = Some (''commitment_mode'', ''standard''), routeMatcher = (\<lambda>_. True), routeHandler = GetStd\<rparr>,
      \<lparr>routeMethod = ''GET'',
       routeTemplate = [Lit ''/get/'', OptionalPrefix, ExactVar ''commit_type_byte_hex'' ''00'',
                        AnyVar ''keccak_commitment_hex''],
       routeQuery = None, routeMatcher = (\<lambda>_. True), routeHandler = GetKeccak\<rparr>,
      \<lparr>routeMethod = ''GET'',
       routeTemplate = [Lit ''/get/'', OptionalPrefix, ExactVar ''commit_type_byte_hex'' ''01'',
                        Hex2Var ''da_layer_byte'', Hex2Var ''version_byte_hex'', AnyVar ''payload_hex''],
       routeQuery = None, routeMatcher = (\<lambda>_. True), routeHandler = GetGeneric\<rparr>,
      \<lparr>routeMethod = ''GET'',
       routeTemplate = [Lit ''/get/'', OptionalPrefix, Hex2Var ''commit_type_byte_hex''],
       routeQuery = None, routeMatcher = notCommitmentModeStandard, routeHandler = UnsupportedCommitmentType\<rparr>,
      \<lparr>routeMethod = ''POST'', routeTemplate = [Lit ''/put''],
       routeQuery = Some (''commitment_mode'', ''standard''), routeMatcher = (\<lambda>_. True), routeHandler = PostStd\<rparr>,
      \<lparr>routeMethod = ''POST'',
       routeTemplate = [Lit ''/put/'', OptionalPrefix, ExactVar ''commit_type_byte_hex'' ''00'',
                        AnyVar ''keccak_commitment_hex''],
       routeQuery = None, routeMatcher = (\<lambda>_. True), routeHandler = PostKeccak\<rparr>,
      \<lparr>routeMethod = ''POST'', routeTemplate = [Lit ''/put''],
       routeQuery = None, routeMatcher = (\<lambda>_. True), routeHandler = PostGeneric\<rparr>,
      \<lparr>routeMethod = ''POST'', routeTemplate = [Lit ''/put/''],
       routeQuery = None, routeMatcher = (\<lambda>_. True), routeHandler = PostGeneric\<rparr>,
      \<lparr>routeMethod = ''GET'', routeTemplate = [Lit ''/health''],
       routeQuery = None, routeMatcher = (\<lambda>_. True), routeHandler = Health\<rparr>,
      \<lparr>routeMethod = ''GET'', routeTemplate = [Lit ''/put''],
       routeQuery = None, routeMatcher = (\<lambda>_. True), routeHandler = PutByGet\<rparr>] @
     (if IsAPIEnabled c ''admin'' then
        [\<lparr>routeMethod = ''GET'', routeTemplate = [Lit ''/admin/eigenda-dispersal-backend''],
          routeQuery = None, routeMatcher = (\<lambda>_. True), routeHandler = AdminGetBackend\<rparr>,
         \<lparr>routeMethod = ''PUT'', routeTemplate = [Lit ''/admin/eigenda-dispersal-backend''],
          routeQuery = None, routeMatcher = (\<lambda>_. True), routeHandler = AdminSetBackend\<rparr>]
      else [])"

section \<open>Matching, as the router documents it\<close>

definition is_hex :: "char \<Rightarrow> bool" where
  "is_hex c = (unhex c \<noteq> None)"

fun match_pieces :: "piece list \<Rightarrow> string \<Rightarrow> (string \<times> string) list option" where
  "match_pieces [] s = (if s = [] then Some [] else None)"
| "match_pieces (Lit l # ps) s =
     (if take (length l) s = l then match_pieces ps (drop (length l) s) else None)"
| "match_pieces (OptionalPrefix # ps) s =
     (case (if take 2 s = ''0x'' then match_pieces ps (drop 2 s) else None) of
        Some vs \<Rightarrow> Some ((''optional_prefix'', ''0x'') # vs)
      | None \<Rightarrow> map_option (Cons (''optional_prefix'', [])) (match_pieces ps s))"
| "match_pieces (ExactVar n l # ps) s =
     (if take (length l) s = l then map_option (Cons (n, l)) (match_pieces ps (drop (length l) s)) else None)"
| "match_pieces (Hex2Var n # ps) s =
     (case s of
        c # d # cs \<Rightarrow> if is_hex c \<and> is_hex d then map_option (Cons (n, [c, d])) (match_pieces ps cs) else None
      | _ \<Rightarrow> None)"
| "match_pieces (HexStarVar n # ps) s =
     (if list_all is_hex s then map_option (Cons (n, s)) (match_pieces ps []) else None)"
| "match_pieces (AnyVar n # ps) s =
     (if s \<noteq> [] \<and> CHR ''/'' \<notin> set s then map_option (Cons (n, s)) (match_pieces ps []) else None)"

definition route_matches :: "route \<Rightarrow> request \<Rightarrow> (string \<times> string) list option" where
  "route_matches rt r =
     (if routeMethod rt = reqMethod r \<and>
         (case routeQuery rt of None \<Rightarrow> True | Some (k, v) \<Rightarrow> reqQuery r k = v) \<and>
         routeMatcher rt r
      then match_pieces (routeTemplate rt) (reqPath r) else None)"

fun first_match :: "route list \<Rightarrow> request \<Rightarrow> (handler_id \<times> (string \<rightharpoonup> string)) option" where
  "first_match [] r = None"
| "first_match (rt # rts) r =
     (case route_matches rt r of
        Some vs \<Rightarrow> Some (routeHandler rt, map_of vs)
      | None \<Rightarrow> first_match rts r)"

type_synonym router = "route list \<Rightarrow> request \<Rightarrow> (handler_id \<times> (string \<rightharpoonup> string)) option"

text \<open>What the server relies on in the router, for clean paths.\<close>

definition mux_documented :: "router \<Rightarrow> bool" where
  "mux_documented mux \<longleftrightarrow> (\<forall>routes r. mux routes r = first_match routes r)"

section \<open>Dispatch\<close>

text \<open>The route for an unrecognized commitment type answers 400 itself.\<close>

definition unsupportedCommitmentType :: "request \<Rightarrow> ('w srv_state, unit) goact" where
  "unsupportedCommitmentType r =
     http_Error r (''unsupported commitment type '' @
       (case reqVars r ''commit_type_byte_hex'' of None \<Rightarrow> [] | Some t \<Rightarrow> t)) 400"

record srv_env =
  envErrorText :: "go_error \<Rightarrow> string"
  envFromError :: "go_error \<Rightarrow> grpc_code option"
  envUnmarshal :: "bytes \<Rightarrow> go_error + string"

definition handle ::
  "srv_env \<Rightarrow> 'w Manager \<Rightarrow> ('w mgr_state \<Rightarrow> 'w mgr_state) \<Rightarrow> handler_id \<Rightarrow> request \<Rightarrow> ('w srv_state, unit) goact" where
  "handle env m between h =
     (let t = envErrorText env; mw = WithCertMiddlewares t (envFromError env) in
      case h of
        GetStd \<Rightarrow> mw (handleGetStdCommitment t m) StandardCommitmentMode
      | GetKeccak \<Rightarrow> mw (handleGetOPKeccakCommitment m) OptimismKeccakCommitmentMode
      | GetGeneric \<Rightarrow> mw (handleGetOPGenericCommitment t m) OptimismGenericCommitmentMode
      | UnsupportedCommitmentType \<Rightarrow> unsupportedCommitmentType
      | PostStd \<Rightarrow> mw (handlePostStdCommitment m between) StandardCommitmentMode
      | PostKeccak \<Rightarrow> mw (handlePostOPKeccakCommitment m) OptimismKeccakCommitmentMode
      | PostGeneric \<Rightarrow> mw (handlePostOPGenericCommitment m between) OptimismGenericCommitmentMode
      | Health \<Rightarrow> handleHealth
      | PutByGet \<Rightarrow> logDispersalGetError
      | AdminGetBackend \<Rightarrow> handleGetEigenDADispersalBackend
      | AdminSetBackend \<Rightarrow> handleSetEigenDADispersalBackend t (envUnmarshal env))"

text \<open>One request, from a fresh response; \<open>None\<close> is the router's own answer when no route matches.\<close>

definition serve ::
  "router \<Rightarrow> srv_env \<Rightarrow> ServerConfig \<Rightarrow> 'w Manager \<Rightarrow> ('w mgr_state \<Rightarrow> 'w mgr_state) \<Rightarrow> request \<Rightarrow>
   'w mgr_state \<Rightarrow> (unit go \<times> 'w srv_state) option" where
  "serve mux env c m between r ms =
     (case mux (RegisterRoutes c) r of
        None \<Rightarrow> None
      | Some (h, vars) \<Rightarrow> Some (handle env m between h (r\<lparr>reqVars := vars\<rparr>) (fresh ms)))"

section \<open>Lemmas\<close>

lemma is_hex_byte: "c \<in> set (byte_hex b) \<Longrightarrow> is_hex c"
  using unat_byte_bound [of b] by (auto simp: byte_hex_def is_hex_def)

lemma is_hex_string: "list_all is_hex (hex_EncodeToString bs)"
  by (induction bs) (auto simp: hex_EncodeToString_def list_all_iff intro: is_hex_byte)

lemma hex_no_slash: "CHR ''/'' \<notin> set (hex_EncodeToString bs)"
  using hex_chars [of bs] by auto

lemma x_not_hex: "\<not> is_hex (CHR ''x'')"
  by (simp add: is_hex_def unhex_def)

lemma hex_not_0x: "take 2 (hex_EncodeToString bs @ rest) \<noteq> ''0x'' \<or> bs = []"
proof (cases bs)
  case (Cons b bs')
  have "is_hex (byte_hex b ! 1)" by (intro is_hex_byte [of _ b]) (simp add: byte_hex_def)
  then show ?thesis using Cons x_not_hex by (auto simp: hex_EncodeToString_Cons byte_hex_def)
qed simp

lemma byte_hex_decode: "hex_DecodeString (byte_hex b) = Some [b]"
  using hex_roundtrip [of "[b]"] by (simp add: hex_EncodeToString_def)

lemma match_Hex2_byte:
  "match_pieces (Hex2Var n # ps) (byte_hex b @ s) = map_option (Cons (n, byte_hex b)) (match_pieces ps s)"
  using is_hex_byte [of _ b] by (simp add: byte_hex_def)

text \<open>A path that begins with a byte in hexadecimal does not begin with the prefix.\<close>

lemma match_OptionalPrefix_byte:
  "match_pieces (OptionalPrefix # ps) (byte_hex b @ s) =
     map_option (Cons (''optional_prefix'', [])) (match_pieces ps (byte_hex b @ s))"
proof -
  have "take 2 (byte_hex b @ s) \<noteq> ''0x''"
    using hex_not_0x [of "[b]" s] by (simp add: hex_EncodeToString_def)
  then show ?thesis by simp
qed

lemma match_OptionalPrefix_0x:
  assumes "match_pieces ps s = Some vs"
  shows "match_pieces (OptionalPrefix # ps) (''0x'' @ s) = Some ((''optional_prefix'', ''0x'') # vs)"
  using assms by simp

lemma match_prefixed:
  assumes "pre \<in> {[], ''0x''}" and "match_pieces ps (byte_hex b @ s) = Some vs"
  shows "match_pieces (OptionalPrefix # ps) (pre @ byte_hex b @ s) = Some ((''optional_prefix'', pre) # vs)"
proof (cases "pre = []")
  case True
  with assms(2) show ?thesis by (simp only: match_OptionalPrefix_byte append_Nil) simp
next
  case False
  with assms(1) have "pre = ''0x''" by simp
  with match_OptionalPrefix_0x [OF assms(2)] show ?thesis by simp
qed

lemma match_prefixed_None:
  assumes "pre \<in> {[], ''0x''}" and "match_pieces ps (byte_hex b @ s) = None"
    and "pre = ''0x'' \<Longrightarrow> match_pieces ps (''0x'' @ byte_hex b @ s) = None"
  shows "match_pieces (OptionalPrefix # ps) (pre @ byte_hex b @ s) = None"
proof (cases "pre = []")
  case True
  with assms(2) show ?thesis by (simp only: match_OptionalPrefix_byte append_Nil) simp
next
  case False
  with assms show ?thesis by auto
qed

lemma match_Lit: "match_pieces (Lit l # ps) (l @ s) = match_pieces ps s"
  by simp

lemma match_hex_star:
  "match_pieces [HexStarVar n] (hex_EncodeToString bs) = Some [(n, hex_EncodeToString bs)]"
  by (simp add: is_hex_string)

lemma match_hex_any:
  "bs \<noteq> [] \<Longrightarrow> match_pieces [AnyVar n] (hex_EncodeToString bs) = Some [(n, hex_EncodeToString bs)]"
  using hex_no_slash [of bs] by (cases bs) (auto simp: hex_EncodeToString_Cons byte_hex_def)

lemma byte_hex_inj: "byte_hex a = byte_hex b \<longleftrightarrow> a = b"
  by (metis byte_hex_decode list.inject option.inject)

lemma length_byte_hex: "length (byte_hex b) = 2"
  by (simp add: byte_hex_def)

lemma match_Exact_byte:
  "match_pieces (ExactVar n (byte_hex a) # ps) (byte_hex b @ s) =
     (if a = b then map_option (Cons (n, byte_hex b)) (match_pieces ps s) else None)"
  using byte_hex_inj [of b a] by (auto simp: length_byte_hex)

lemma byte_hex_0_1: "''00'' = byte_hex 0" "''01'' = byte_hex 1"
  by (simp_all add: byte_hex_def hexdigit_def)

text \<open>A template that asks for two hexadecimal digits does not match the prefix itself.\<close>

lemma match_on_0x:
  "match_pieces (ExactVar n (byte_hex b) # ps) (''0x'' @ s) = None"
  "match_pieces (Hex2Var n # ps) (''0x'' @ s) = None"
proof -
  have "byte_hex b \<noteq> ''0x''"
    using is_hex_byte [of "CHR ''x''" b] x_not_hex by auto
  then show "match_pieces (ExactVar n (byte_hex b) # ps) (''0x'' @ s) = None"
    by (auto simp: length_byte_hex)
  show "match_pieces (Hex2Var n # ps) (''0x'' @ s) = None"
    using x_not_hex by simp
qed


section \<open>The paths of commitments\<close>

definition get_path :: "string \<Rightarrow> bytes \<Rightarrow> string" where
  "get_path pre bs = ''/get/'' @ pre @ hex_EncodeToString bs"

lemma hex_Cons: "hex_EncodeToString (b # bs) = byte_hex b @ hex_EncodeToString bs"
  by (simp add: hex_EncodeToString_def)

lemma path_std:
  assumes "pre \<in> {[], ''0x''}"
  shows "match_pieces [Lit ''/get/'', OptionalPrefix, Hex2Var ''version_byte_hex'', HexStarVar ''payload_hex'']
      (get_path pre (v # cert)) =
    Some [(''optional_prefix'', pre), (''version_byte_hex'', byte_hex v), (''payload_hex'', hex_EncodeToString cert)]"
  unfolding get_path_def hex_Cons match_Lit
  by (rule match_prefixed [OF assms]) (simp only: match_Hex2_byte match_hex_star option.map)

lemma path_keccak:
  assumes "pre \<in> {[], ''0x''}" and "k \<noteq> []"
  shows "match_pieces [Lit ''/get/'', OptionalPrefix, ExactVar ''commit_type_byte_hex'' ''00'', AnyVar ''keccak_commitment_hex'']
      (get_path pre (t # k)) =
    (if t = 0 then Some [(''optional_prefix'', pre), (''commit_type_byte_hex'', byte_hex 0),
                         (''keccak_commitment_hex'', hex_EncodeToString k)] else None)"
proof (cases "t = 0")
  case True
  have "match_pieces [ExactVar ''commit_type_byte_hex'' ''00'', AnyVar ''keccak_commitment_hex'']
      (byte_hex 0 @ hex_EncodeToString k) =
    Some [(''commit_type_byte_hex'', byte_hex 0), (''keccak_commitment_hex'', hex_EncodeToString k)]"
    unfolding byte_hex_0_1 match_Exact_byte by (simp only: match_hex_any [OF assms(2)] option.map if_True refl)
  from match_prefixed [OF assms(1) this] True show ?thesis
    unfolding get_path_def hex_Cons match_Lit by simp
next
  case False
  then have "match_pieces [OptionalPrefix, ExactVar ''commit_type_byte_hex'' ''00'', AnyVar ''keccak_commitment_hex'']
      (pre @ byte_hex t @ hex_EncodeToString k) = None"
    unfolding byte_hex_0_1
    by (intro match_prefixed_None [OF assms(1)] match_on_0x) (simp add: match_Exact_byte del: match_pieces.simps)
  with False show ?thesis unfolding get_path_def hex_Cons match_Lit by (simp only: if_False)
qed

lemma path_generic:
  assumes "pre \<in> {[], ''0x''}" and "cert \<noteq> []"
  shows "match_pieces [Lit ''/get/'', OptionalPrefix, ExactVar ''commit_type_byte_hex'' ''01'', Hex2Var ''da_layer_byte'',
        Hex2Var ''version_byte_hex'', AnyVar ''payload_hex''] (get_path pre (1 # d # v # cert)) =
    Some [(''optional_prefix'', pre), (''commit_type_byte_hex'', byte_hex 1), (''da_layer_byte'', byte_hex d),
          (''version_byte_hex'', byte_hex v), (''payload_hex'', hex_EncodeToString cert)]"
  unfolding get_path_def hex_Cons match_Lit byte_hex_0_1
  by (rule match_prefixed [OF assms(1)])
     (simp only: match_Exact_byte match_Hex2_byte match_hex_any [OF assms(2)] option.map if_True refl)


text \<open>The path of a commitment leads to the handler of its mode, which finds the certificate in it.\<close>

lemma route_get_std:
  assumes "pre \<in> {[], ''0x''}" and "known_version (Version vc)" and "reqMethod r = ''GET''"
    and "reqPath r = get_path pre (Version vc # SerializedCert vc)" and "reqQuery r ''commitment_mode'' = ''standard''"
  shows "\<exists>vars. first_match (RegisterRoutes c) r = Some (GetStd, vars) \<and> names_cert (r\<lparr>reqVars := vars\<rparr>) vc"
  using assms
  by (simp add: RegisterRoutes_def route_matches_def path_std names_cert_def byte_hex_decode del: match_pieces.simps)

lemma route_get_generic:
  assumes "pre \<in> {[], ''0x''}" and "known_version (Version vc)" and "SerializedCert vc \<noteq> []" and "reqMethod r = ''GET''"
    and "reqPath r = get_path pre (1 # 0 # Version vc # SerializedCert vc)" and "reqQuery r ''commitment_mode'' \<noteq> ''standard''"
  shows "\<exists>vars. first_match (RegisterRoutes c) r = Some (GetGeneric, vars) \<and> names_cert (r\<lparr>reqVars := vars\<rparr>) vc"
  using assms
  by (simp add: RegisterRoutes_def route_matches_def path_keccak path_generic names_cert_def byte_hex_decode del: match_pieces.simps)

lemma route_get_keccak:
  assumes "pre \<in> {[], ''0x''}" and "k \<noteq> []" and "reqMethod r = ''GET''"
    and "reqPath r = get_path pre (0 # k)" and "reqQuery r ''commitment_mode'' \<noteq> ''standard''"
  shows "\<exists>vars. first_match (RegisterRoutes c) r = Some (GetKeccak, vars) \<and>
    vars ''keccak_commitment_hex'' = Some (hex_EncodeToString k)"
  using assms by (simp add: RegisterRoutes_def route_matches_def path_keccak del: match_pieces.simps)

lemma route_post:
  assumes "reqMethod r = ''POST''" and "reqPath r = ''/put''"
  shows "\<exists>vars. first_match (RegisterRoutes c) r =
    Some (if reqQuery r ''commitment_mode'' = ''standard'' then PostStd else PostGeneric, vars)"
  using assms by (simp add: RegisterRoutes_def route_matches_def)

lemma cert_handlers:
  "handleGetStdCommitment t m = handleGetShared t m StandardCommitmentMode"
  "handleGetOPGenericCommitment t m = handleGetShared t m OptimismGenericCommitmentMode"
  "handlePostStdCommitment m between = handlePostShared m between StandardCommitmentMode"
  "handlePostOPGenericCommitment m between = handlePostShared m between OptimismGenericCommitmentMode"
  by (simp_all add: fun_eq_iff handleGetStdCommitment_def handleGetOPGenericCommitment_def
      handlePostStdCommitment_def handlePostOPGenericCommitment_def)

lemma serve_get:
  assumes "mux_documented mux" and "pre \<in> {[], ''0x''}" and "known_version (Version vc)" and "SerializedCert vc \<noteq> []"
    and "cert_mode mode" and "EncodeCommitment vc mode = Ok bs" and "reqMethod r = ''GET''" and "reqPath r = get_path pre bs"
    and "(reqQuery r ''commitment_mode'' = ''standard'') \<longleftrightarrow> mode = StandardCommitmentMode"
  shows "\<exists>vars. names_cert (r\<lparr>reqVars := vars\<rparr>) vc \<and>
    serve mux env c m between r ms =
      Some (WithCertMiddlewares (envErrorText env) (envFromError env) (handleGetShared (envErrorText env) m mode) mode
              (r\<lparr>reqVars := vars\<rparr>) (fresh ms))"
proof (cases "mode = StandardCommitmentMode")
  case True
  with assms obtain vars where "first_match (RegisterRoutes c) r = Some (GetStd, vars)" "names_cert (r\<lparr>reqVars := vars\<rparr>) vc"
    using route_get_std [of pre vc r c] by auto
  with assms(1) True show ?thesis
    by (intro exI [of _ vars]) (simp add: serve_def mux_documented_def handle_def cert_handlers Let_def)
next
  case False
  with assms(5) have g: "mode = OptimismGenericCommitmentMode" by (simp add: cert_mode_def)
  with assms obtain vars where "first_match (RegisterRoutes c) r = Some (GetGeneric, vars)"
    "names_cert (r\<lparr>reqVars := vars\<rparr>) vc"
    using route_get_generic [of pre vc r c] by auto
  with assms(1) g show ?thesis
    by (intro exI [of _ vars]) (simp add: serve_def mux_documented_def handle_def cert_handlers Let_def)
qed

lemma serve_post:
  assumes "mux_documented mux" and "cert_mode mode" and "reqMethod r = ''POST''" and "reqPath r = ''/put''"
    and "(reqQuery r ''commitment_mode'' = ''standard'') \<longleftrightarrow> mode = StandardCommitmentMode"
  shows "\<exists>vars. serve mux env c m between r ms =
      Some (WithCertMiddlewares (envErrorText env) (envFromError env) (handlePostShared m between mode) mode
              (r\<lparr>reqVars := vars\<rparr>) (fresh ms))"
proof -
  obtain vars where "first_match (RegisterRoutes c) r =
      Some (if mode = StandardCommitmentMode then PostStd else PostGeneric, vars)"
    using route_post [OF assms(3,4), of c] assms(5) by auto
  moreover have "mode = StandardCommitmentMode \<or> mode = OptimismGenericCommitmentMode"
    using assms(2) by (auto simp: cert_mode_def)
  ultimately show ?thesis using assms(1)
    by (intro exI [of _ vars]) (auto simp: serve_def mux_documented_def handle_def cert_handlers Let_def)
qed


section \<open>Properties\<close>

text \<open>
  C10: the URL of a commitment reaches its certificate. Take a certificate of a known version with
  non-empty bytes, encoded in the standard or the generic mode. Whatever APIs are enabled, a GET request
  for \<^verbatim>\<open>/get/\<close> and the hexadecimal commitment, with or without \<^verbatim>\<open>0x\<close>, whose query says
  \<^verbatim>\<open>commitment_mode=standard\<close> exactly in the standard mode, is served by the certificate GET handler of that
  mode inside its middlewares, and the variables the handler reads decode to exactly this certificate.
\<close>

theorem commitment_get_routed:
  assumes "mux_documented mux" and "pre \<in> {[], ''0x''}" and "known_version (Version vc)" and "SerializedCert vc \<noteq> []"
    and "cert_mode mode" and "EncodeCommitment vc mode = Ok bs" and "reqMethod r = ''GET''" and "reqPath r = get_path pre bs"
    and "(reqQuery r ''commitment_mode'' = ''standard'') \<longleftrightarrow> mode = StandardCommitmentMode"
  shows "\<exists>vars. names_cert (r\<lparr>reqVars := vars\<rparr>) vc \<and>
    serve mux env c m between r ms =
      Some (WithCertMiddlewares (envErrorText env) (envFromError env) (handleGetShared (envErrorText env) m mode) mode
              (r\<lparr>reqVars := vars\<rparr>) (fresh ms))"
  using assms by (rule serve_get)

definition ex_env :: srv_env where
  "ex_env = \<lparr>envErrorText = (\<lambda>e. []), envFromError = chain_code, envUnmarshal = (\<lambda>b. Inr [])\<rparr>"

definition ex_config :: ServerConfig where
  "ex_config = \<lparr>srvHost = [], srvPort = 0, EnabledAPIs = []\<rparr>"

lemma mux_first_match: "mux_documented first_match"
  by (simp add: mux_documented_def)

theorem commitment_get_routed_witness:
  "\<exists>vars. names_cert (ex_request\<lparr>reqPath := ''/get/010002ab'', reqVars := vars\<rparr>) (NewVersionedCert [0xab] V2VersionByte) \<and>
     serve first_match ex_env ex_config ex_mgr id (ex_request\<lparr>reqPath := ''/get/010002ab''\<rparr>)
       (mgr_init () V1EigenDABackend) =
     Some (WithCertMiddlewares (\<lambda>e. []) chain_code (handleGetShared (\<lambda>e. []) ex_mgr OptimismGenericCommitmentMode)
       OptimismGenericCommitmentMode (ex_request\<lparr>reqPath := ''/get/010002ab'', reqVars := vars\<rparr>)
       (fresh (mgr_init () V1EigenDABackend)))"
proof -
  have p: "''/get/010002ab'' = get_path [] [1, 0, 2, 0xab]"
    by (simp add: get_path_def hex_EncodeToString_def byte_hex_def hexdigit_def)
  have e: "EncodeCommitment (NewVersionedCert [0xab] V2VersionByte) OptimismGenericCommitmentMode = Ok [1, 0, 2, 0xab]"
    by (simp add: NewVersionedCert_def V2VersionByte_def)
  from commitment_get_routed [OF mux_first_match _ _ _ _ e, of "[]" "ex_request\<lparr>reqPath := ''/get/010002ab''\<rparr>"
      ex_env ex_config ex_mgr id "mgr_init () V1EigenDABackend"] p
  show ?thesis by (simp add: NewVersionedCert_def cert_mode_def ex_request_def ex_env_def)
qed

end
