(* ===== verification/Startup.thy ===== *)
theory Startup
  imports App_Config Routing
begin

text \<open>
  Starting the proxy: \<^verbatim>\<open>cmd/server/entrypoint.go\<close>, \<^verbatim>\<open>logging/logging.go\<close> and \<^verbatim>\<open>NewServer\<close>,
  \<^verbatim>\<open>Start\<close> and \<^verbatim>\<open>Stop\<close> of \<^verbatim>\<open>server/server.go\<close>.

  The state is that of the manager together with the list of what the process did to the outside: the
  configuration it logged, the servers it started and stopped, and the cancellation of the context of the
  background work. What the operating system and the HTTP libraries answer is given by \<open>startup_api\<close>. A deferred
  function runs when its function returns or panics, not when it blocks.
\<close>

section \<open>The logger\<close>

type_synonym LogFormat = string

definition JSONLogFormat :: LogFormat where "JSONLogFormat = ''json''"
definition TextLogFormat :: LogFormat where "TextLogFormat = ''text''"

datatype logger_kind = JsonSLogger | TextSLogger

record LoggerConfig =
  logFormat :: LogFormat
  logFiles :: "string list"
  logAddSource :: bool
  logLevel :: int
  logNoColor :: bool

definition DefaultLoggerConfig :: LoggerConfig where
  "DefaultLoggerConfig = \<lparr>logFormat = JSONLogFormat, logFiles = [], logAddSource = True, logLevel = -4, logNoColor = True\<rparr>"

definition DefaultTextLoggerConfig :: LoggerConfig where
  "DefaultTextLoggerConfig = \<lparr>logFormat = TextLogFormat, logFiles = [], logAddSource = True, logLevel = -4, logNoColor = True\<rparr>"

definition DefaultConsoleLoggerConfig :: LoggerConfig where
  "DefaultConsoleLoggerConfig = \<lparr>logFormat = TextLogFormat, logFiles = [], logAddSource = True, logLevel = -4, logNoColor = False\<rparr>"

text \<open>\<^verbatim>\<open>strconv.Atoi\<close> of a sign and digits.\<close>

definition atoi_signed :: "string \<Rightarrow> int option" where
  "atoi_signed s =
     (let ds = tl s in
      if ds = [] then None
      else case parse_digits 0 ds of
             None \<Rightarrow> None
           | Some n \<Rightarrow>
               if hd s = CHR ''-'' then (if n \<le> 2 ^ 63 then Some (- int n) else None)
               else (if n < 2 ^ 63 then Some (int n) else None))"

text \<open>\<^verbatim>\<open>slog.Level.UnmarshalText\<close>: a name in any case, and an offset with its sign.\<close>

definition parse_level :: "string \<Rightarrow> int option" where
  "parse_level s =
     (let sign = (\<lambda>ch. ch = CHR ''+'' \<or> ch = CHR ''-''); name = takeWhile (\<lambda>ch. \<not> sign ch) s;
          rest = dropWhile (\<lambda>ch. \<not> sign ch) s; base = strings_ToUpper name in
      case (if rest = [] then Some 0 else atoi_signed rest) of
        None \<Rightarrow> None
      | Some offset \<Rightarrow>
          if base = ''DEBUG'' then Some (-4 + offset) else if base = ''INFO'' then Some offset
          else if base = ''WARN'' then Some (4 + offset) else if base = ''ERROR'' then Some (8 + offset) else None)"

definition ReadLoggerCLIConfig ::
  "'c cli_api \<Rightarrow> (string \<Rightarrow> go_error option) \<Rightarrow> 'c \<Rightarrow> LoggerConfig go" where
  "ReadLoggerCLIConfig api openFile c =
     (let name = PrefixFlag api ''log''; lcfg = DefaultLoggerConfig; format = ctxString api c (name ''format'') in
      bindR (if format = ''json'' then Ok (lcfg\<lparr>logFormat := JSONLogFormat\<rparr>)
             else if format = ''text'' then Ok (lcfg\<lparr>logFormat := TextLogFormat\<rparr>)
             else Err (ErrorString (''invalid log file format '' @ format))) (\<lambda>lcfg.
      bindR (let path = ctxString api c (name ''path'') in
             if path \<noteq> []
             then (case openFile path of Some err \<Rightarrow> Err err | None \<Rightarrow> Ok (lcfg\<lparr>logFiles := [path]\<rparr>))
             else Ok lcfg) (\<lambda>lcfg.
      case parse_level (ctxString api c (name ''level'')) of
        None \<Rightarrow> Panic
      | Some level \<Rightarrow> Ok (lcfg\<lparr>logLevel := level\<rparr>))))"

definition NewLogger :: "LoggerConfig \<Rightarrow> logger_kind go" where
  "NewLogger lcfg =
     (if logFormat lcfg = JSONLogFormat then Ok JsonSLogger
      else if logFormat lcfg = TextLogFormat then Ok TextSLogger
      else Err (ErrorString (''unknown log format: '' @ logFormat lcfg)))"

section \<open>The HTTP server\<close>

datatype event =
    LoggedConfig string
  | Serving string "route list" "MemConfig option"
  | ServerStopped
  | MetricsServing string
  | RecordUp
  | MetricsStopped
  | ContextCancelled

record startup_api =
  suOpenFile :: "string \<Rightarrow> go_error option"
  suMarshal :: "BuilderConfig \<Rightarrow> go_error + string"
  suListen :: "string \<Rightarrow> go_error + string"
  suServe :: "go_error option"
  suShutdown :: "go_error option"
  suMetricsServer :: "string \<Rightarrow> go_error + string"
  suWait :: "unit go"

record 'w process =
  procMgr :: "'w mgr_state"
  procEvents :: "event list"

definition emit :: "event \<Rightarrow> 'w process \<Rightarrow> 'w process" where
  "emit ev s = s\<lparr>procEvents := procEvents s @ [ev]\<rparr>"

definition deferred :: "('s \<Rightarrow> 's) \<Rightarrow> ('s, 'a) goact \<Rightarrow> ('s, 'a) goact" where
  "deferred d m s = (case m s of (r, s') \<Rightarrow> (r, if r = Blocked then s' else d s'))"

definition strconv_Itoa :: "int \<Rightarrow> string" where
  "strconv_Itoa n = (if n < 0 then ''-'' @ decimal (nat (- n)) else decimal (nat n))"

definition net_JoinHostPort :: "string \<Rightarrow> string \<Rightarrow> string" where
  "net_JoinHostPort host p = (if CHR '':'' \<in> set host then ''['' @ host @ '']:'' @ p else host @ '':'' @ p)"

definition NewServer_endpoint :: "ServerConfig \<Rightarrow> string" where
  "NewServer_endpoint c = net_JoinHostPort (srvHost c) (strconv_Itoa (srvPort c))"

text \<open>
  \<^verbatim>\<open>Port\<close> reads the port back from the address of the listener and ignores errors: what \<^verbatim>\<open>strconv.Atoi\<close> returns next
  to an error is 0 for a text that is no number, and the nearest number for one out of range.
\<close>

definition atoi_value :: "string \<Rightarrow> int" where
  "atoi_value s =
     (let neg = (s \<noteq> [] \<and> hd s = CHR ''-''); signed = (neg \<or> s \<noteq> [] \<and> hd s = CHR ''+'');
          ds = (if signed then tl s else s) in
      if ds = [] then 0
      else case parse_digits 0 ds of
             None \<Rightarrow> 0
           | Some n \<Rightarrow> if neg then - int (min n (2 ^ 63)) else int (min n (2 ^ 63 - 1)))"

definition Server_Port :: "string \<Rightarrow> int" where
  "Server_Port addr = (case net_SplitHostPort addr of Ok (_, portStr) \<Rightarrow> atoi_value portStr | _ \<Rightarrow> 0)"

text \<open>Serving is checked for 10 ms: \<open>suServe\<close> is the error it had by then, if any.\<close>

definition Server_Start ::
  "startup_api \<Rightarrow> ServerConfig \<Rightarrow> MemConfig option \<Rightarrow> ('w process, unit) goact" where
  "Server_Start su c memstoreHandlers =
     andThen (mapErr (WrapError ''failed to listen'') (liftR (fromSum (suListen su (NewServer_endpoint c))))) (\<lambda>addr.
     case suServe su of
       Some err \<Rightarrow> throw (WrapError ''http server failed'' err)
     | None \<Rightarrow> modify (emit (Serving addr (RegisterRoutes c) memstoreHandlers)))"

definition on_mgr :: "('w mgr_state, 'a) goact \<Rightarrow> ('w process, 'a) goact" where
  "on_mgr m = zoom procMgr (\<lambda>ms s. s\<lparr>procMgr := ms\<rparr>) m"

text \<open>Stopping shuts the HTTP server down; \<open>suShutdown\<close> is the error of that, if any. The entry point only logs it.\<close>

definition Server_Stop :: "startup_api \<Rightarrow> ('w process, unit) goact" where
  "Server_Stop su =
     andThen (modify (emit ServerStopped)) (\<lambda>_. case suShutdown su of Some err \<Rightarrow> throw err | None \<Rightarrow> ret ())"

lemma snd_Server_Stop [simp]: "snd (Server_Stop su s) = emit ServerStopped s"
  by (simp add: Server_Stop_def act_simps split: option.splits)

section \<open>The entry point\<close>

definition metrics_StartServer :: "startup_api \<Rightarrow> string \<Rightarrow> int \<Rightarrow> ('w process, unit) goact" where
  "metrics_StartServer su host p =
     andThen (mapErr (WrapError ''failed to start HTTP server'')
                (liftR (fromSum (suMetricsServer su (net_JoinHostPort host (strconv_Itoa p)))))) (\<lambda>addr.
     modify (emit (MetricsServing addr)))"

definition run_servers :: "startup_api \<Rightarrow> AppConfig \<Rightarrow> ('w process, unit) goact" where
  "run_servers su acfg =
     (let bc = StoreBuilderConfig acfg; mc = MetricsServerConfig acfg in
      andThen (mapErr (WrapError ''start proxy server'')
                 (Server_Start su (acServerConfig acfg)
                    (if bcMemstoreEnabled bc then Some (bcMemstoreConfig bc) else None))) (\<lambda>_.
      deferred (\<lambda>s. snd (Server_Stop su s))
        (if mcEnabled mc
         then andThen (mapErr (WrapError ''failed to start metrics server'')
                         (metrics_StartServer su (mcHost mc) (mcPort mc))) (\<lambda>_.
              deferred (emit MetricsStopped)
                (andThen (modify (emit RecordUp)) (\<lambda>_. liftR (suWait su))))
         else liftR (suWait su))))"

definition StartProxySvr ::
  "'c cli_api \<Rightarrow> (rat option \<Rightarrow> uint64) \<Rightarrow> uint64 \<Rightarrow> startup_api \<Rightarrow> ('w, 'x, 'o, 'c2, 'c3, 'r) builder_api \<Rightarrow> nat \<Rightarrow>
   'c \<Rightarrow> ('w process, unit) goact" where
  "StartProxySvr api conv procs su bapi scheduled c =
     andThen (liftR (ReadLoggerCLIConfig api (suOpenFile su) c)) (\<lambda>logCfg.
     andThen (liftR (NewLogger logCfg)) (\<lambda>_.
     andThen (mapErr (WrapError ''read cli config'') (liftR (ReadAppConfig api conv procs c))) (\<lambda>acfg.
     andThen (liftR (AppConfig_Check acfg)) (\<lambda>_.
     andThen (mapErr (WrapError ''convert config json to string'')
                (liftR (BuilderConfig_ToString (suMarshal su) (StoreBuilderConfig acfg)))) (\<lambda>configString.
     andThen (modify (emit (LoggedConfig configString))) (\<lambda>_.
     deferred (emit ContextCancelled)
       (andThen (mapErr (WrapError ''build storage manager'')
                   (on_mgr (BuildStoreManager bapi scheduled (StoreBuilderConfig acfg) (SecretConfig acfg)))) (\<lambda>_.
        run_servers su acfg))))))))"

section \<open>Addresses\<close>

lemma split_joined:
  assumes "set host \<inter> {CHR ''['', CHR '']''} = {}" and "set p \<inter> {CHR '':'', CHR ''['', CHR '']''} = {}"
  shows "net_SplitHostPort (net_JoinHostPort host p) = Ok (host, p)"
proof (cases "CHR '':'' \<in> set host")
  case True
  let ?s = "(CHR ''['' # host) @ CHR '']'' # CHR '':'' # p"
  have "last_index_of CHR '':'' ?s = Some (length host + 2)"
    using last_index_of_append [of "CHR '':''" p "CHR ''['' # host @ [CHR '']'']"] assms(2) by simp
  moreover have "index_of CHR '']'' ?s = Some (length host + 1)"
    using index_of_append [of "CHR '']''" "CHR ''['' # host" "CHR '':'' # p"] assms(1) by simp
  ultimately have "net_SplitHostPort ?s = Ok (host, p)"
    using assms by (simp add: net_SplitHostPort_def)
  with True show ?thesis by (simp add: net_JoinHostPort_def)
next
  case False
  with assms have "net_SplitHostPort (host @ '':'' @ p) = Ok (host, p)" by (intro SplitHostPort_joined) auto
  with False show ?thesis by (simp add: net_JoinHostPort_def)
qed

lemma not_digits: "\<not> is_digit CHR '':''" "\<not> is_digit CHR ''[''" "\<not> is_digit CHR '']''" "\<not> is_digit CHR ''+''" "\<not> is_digit CHR ''-''"
  by code_simp+

text \<open>
  The port the server reports is the configured one, if the listener has the address it was asked for. This holds for host
  names, IPv4 and IPv6 addresses alike.
\<close>

theorem Server_Port_configured:
  assumes "set (srvHost c) \<inter> {CHR ''['', CHR '']''} = {}" and "0 \<le> srvPort c" and "srvPort c < 2 ^ 63"
  shows "Server_Port (NewServer_endpoint c) = srvPort c"
proof -
  let ?p = "decimal (nat (srvPort c))"
  have d: "ch \<notin> set ?p" if "\<not> is_digit ch" for ch using decimal_digits that by blast
  have "set ?p \<inter> {CHR '':'', CHR ''['', CHR '']''} = {}" using d not_digits by auto
  from split_joined [OF assms(1) this]
  have "net_SplitHostPort (NewServer_endpoint c) = Ok (srvHost c, ?p)"
    using assms(2) by (simp add: NewServer_endpoint_def strconv_Itoa_def)
  moreover have "hd ?p \<in> set ?p" using decimal_nonempty by simp
  then have "hd ?p \<noteq> CHR ''-''" "hd ?p \<noteq> CHR ''+''" using d not_digits by metis+
  then have "atoi_value ?p = srvPort c"
    using assms(2,3) decimal_nonempty [of "nat (srvPort c)"] parse_digits_decimal [of "nat (srvPort c)"]
    by (simp add: atoi_value_def Let_def min_def) linarith
  ultimately show ?thesis by (simp add: Server_Port_def)
qed

section \<open>Traces\<close>

definition closing :: "unit go \<Rightarrow> event \<Rightarrow> event list" where
  "closing r ev = (if r = Blocked then [] else [ev])"

text \<open>
  What the servers of a configuration leave in the trace of a run with result \<open>r\<close>: nothing if the proxy server did
  not start; otherwise it is stopped last, and within that the metrics server, if enabled and started.
\<close>

definition metrics_part :: "unit go \<Rightarrow> AppConfig \<Rightarrow> event list \<Rightarrow> bool" where
  "metrics_part r acfg evs \<longleftrightarrow>
     (if mcEnabled (MetricsServerConfig acfg)
      then (\<exists>addr. evs = [MetricsServing addr, RecordUp] @ closing r MetricsStopped) \<or> evs = [] \<and> (\<exists>e. r = Err e)
      else evs = [])"

definition server_part :: "unit go \<Rightarrow> AppConfig \<Rightarrow> event list \<Rightarrow> bool" where
  "server_part r acfg evs \<longleftrightarrow>
     evs = [] \<and> (\<exists>e. r = Err e) \<or>
     (\<exists>addr inner. metrics_part r acfg inner \<and>
        evs = Serving addr (RegisterRoutes (acServerConfig acfg))
                (if bcMemstoreEnabled (StoreBuilderConfig acfg) then Some (bcMemstoreConfig (StoreBuilderConfig acfg)) else None)
              # inner @ closing r ServerStopped)"

lemma run_servers_trace:
  assumes "run_servers su acfg s = (r, s')"
  shows "\<exists>evs. procEvents s' = procEvents s @ evs \<and> procMgr s' = procMgr s \<and> server_part r acfg evs"
proof (cases "suListen su (NewServer_endpoint (acServerConfig acfg))")
  case (Inl e)
  with assms show ?thesis by (auto simp: run_servers_def Server_Start_def Let_def act_simps server_part_def)
next
  case addr: (Inr addr)
  show ?thesis
  proof (cases "suServe su")
    case (Some e)
    with addr assms show ?thesis by (auto simp: run_servers_def Server_Start_def Let_def act_simps server_part_def)
  next
    case None
    note started = addr None
    let ?mc = "MetricsServerConfig acfg"
    show ?thesis
    proof (cases "mcEnabled ?mc")
      case False
      with started assms show ?thesis
        by (auto simp: run_servers_def Server_Start_def Let_def act_simps server_part_def metrics_part_def deferred_def
            emit_def closing_def)
    next
      case True
      with started assms show ?thesis
        by (cases "suMetricsServer su (net_JoinHostPort (mcHost ?mc) (strconv_Itoa (mcPort ?mc)))")
          (auto simp: run_servers_def Server_Start_def metrics_StartServer_def Let_def act_simps server_part_def
            metrics_part_def deferred_def emit_def closing_def)
    qed
  qed
qed

lemma on_mgr_result: "on_mgr m s = (case m (procMgr s) of (r, ms) \<Rightarrow> (r, s\<lparr>procMgr := ms\<rparr>))"
  by (simp add: on_mgr_def zoom_def)

text \<open>The result of a start, read off its steps.\<close>

definition build_run ::
  "startup_api \<Rightarrow> ('w, 'x, 'o, 'c2, 'c3, 'r) builder_api \<Rightarrow> nat \<Rightarrow> AppConfig \<Rightarrow> ('w process, unit) goact" where
  "build_run su bapi scheduled acfg =
     andThen (mapErr (WrapError ''build storage manager'')
       (on_mgr (BuildStoreManager bapi scheduled (StoreBuilderConfig acfg) (SecretConfig acfg)))) (\<lambda>_. run_servers su acfg)"

lemma build_run_trace:
  assumes "build_run su bapi scheduled acfg s = (r, s')"
  shows "\<exists>evs. procEvents s' = procEvents s @ evs \<and>
     (evs = [] \<and> r \<noteq> Ok () \<or>
      (\<exists>m ms. BuildStoreManager bapi scheduled (StoreBuilderConfig acfg) (SecretConfig acfg) (procMgr s) = (Ok m, ms) \<and>
         server_part r acfg evs))"
proof (cases "BuildStoreManager bapi scheduled (StoreBuilderConfig acfg) (SecretConfig acfg) (procMgr s)")
  case b: (Pair res ms)
  show ?thesis
  proof (cases res)
    case (Ok m)
    with b assms have "run_servers su acfg (s\<lparr>procMgr := ms\<rparr>) = (r, s')"
      by (simp add: build_run_def act_simps on_mgr_result)
    from run_servers_trace [OF this] b Ok show ?thesis by auto
  qed (use b assms in \<open>auto simp: build_run_def act_simps on_mgr_result\<close>)
qed

lemma StartProxySvr_cases:
  assumes "StartProxySvr api conv procs su bapi scheduled c s = (r, s')"
  obtains (early) "procEvents s' = procEvents s" "r \<noteq> Ok ()"
  | (logged) acfg t s1 where "ReadAppConfig api conv procs c = Ok acfg" "AppConfig_Check acfg = Ok ()"
      "BuilderConfig_ToString (suMarshal su) (StoreBuilderConfig acfg) = Ok t"
      "build_run su bapi scheduled acfg (emit (LoggedConfig t) s) = (r, s1)"
      "s' = (if r = Blocked then s1 else emit ContextCancelled s1)"
proof (cases "ReadLoggerCLIConfig api (suOpenFile su) c")
  case (Ok lcfg)
  note log = this
  show thesis
  proof (cases "NewLogger lcfg")
    case (Ok k)
    note log = log this
    show thesis
    proof (cases "ReadAppConfig api conv procs c")
      case acfg: (Ok acfg)
      show thesis
      proof (cases "AppConfig_Check acfg = Ok ()")
        case chk: True
        show thesis
        proof (cases "BuilderConfig_ToString (suMarshal su) (StoreBuilderConfig acfg)")
          case t: (Ok t)
          have "deferred (emit ContextCancelled) (build_run su bapi scheduled acfg) (emit (LoggedConfig t) s) = (r, s')"
            using assms log acfg chk t by (simp add: StartProxySvr_def build_run_def act_simps)
          then obtain s1 where "build_run su bapi scheduled acfg (emit (LoggedConfig t) s) = (r, s1)"
            "s' = (if r = Blocked then s1 else emit ContextCancelled s1)"
            by (cases "build_run su bapi scheduled acfg (emit (LoggedConfig t) s)") (auto simp: deferred_def)
          with acfg chk t show thesis by (intro logged [of acfg t s1]) simp_all
        qed (use assms log acfg chk early in \<open>auto simp: StartProxySvr_def act_simps\<close>)
      next
        case False
        with assms log acfg have "r = AppConfig_Check acfg" "s' = s"
          by (auto simp: StartProxySvr_def act_simps split: result.splits)
        with False early show thesis by simp
      qed
    qed (use assms log early in \<open>auto simp: StartProxySvr_def act_simps\<close>)
  qed (use assms log early in \<open>auto simp: StartProxySvr_def act_simps\<close>)
qed (use assms early in \<open>auto simp: StartProxySvr_def act_simps\<close>)

section \<open>Properties\<close>

text \<open>
  C23: starting and stopping. A start either fails before it logged anything, or logs the configuration once. The
  proxy serves only with a configuration that was read and checked and a manager that was built from it, and with the
  memstore endpoints only if the memstore is enabled. Every server that was started is stopped when the entry point
  returns or panics, the metrics server first, and the context of the background work is cancelled last.
\<close>

theorem StartProxySvr_trace:
  assumes "StartProxySvr api conv procs su bapi scheduled c s = (r, s')"
  shows "\<exists>evs. procEvents s' = procEvents s @ evs \<and>
     (evs = [] \<and> r \<noteq> Ok () \<or>
      (\<exists>acfg t mid. ReadAppConfig api conv procs c = Ok acfg \<and> AppConfig_Check acfg = Ok () \<and>
         evs = LoggedConfig t # mid @ closing r ContextCancelled \<and>
         (mid = [] \<and> r \<noteq> Ok () \<or>
          (\<exists>m ms. BuildStoreManager bapi scheduled (StoreBuilderConfig acfg) (SecretConfig acfg) (procMgr s) = (Ok m, ms) \<and>
             server_part r acfg mid))))"
  using assms
proof (cases rule: StartProxySvr_cases)
  case early
  then show ?thesis by auto
next
  case (logged acfg t s1)
  obtain mid where "procEvents s1 = procEvents (emit (LoggedConfig t) s) @ mid"
    "mid = [] \<and> r \<noteq> Ok () \<or>
      (\<exists>m ms. BuildStoreManager bapi scheduled (StoreBuilderConfig acfg) (SecretConfig acfg)
         (procMgr (emit (LoggedConfig t) s)) = (Ok m, ms) \<and> server_part r acfg mid)"
    using build_run_trace [OF logged(4)] by blast
  then show ?thesis
    using logged(1,2,5)
    by (intro exI [of _ "LoggedConfig t # mid @ closing r ContextCancelled"]) (auto simp: emit_def closing_def)
qed

definition ex_startup :: startup_api where
  "ex_startup = \<lparr>suOpenFile = (\<lambda>p. None), suMarshal = (\<lambda>c. Inr ''config''), suListen = Inr, suServe = None, suShutdown = None,
     suMetricsServer = Inr, suWait = Ok ()\<rparr>"

definition ex_process :: "unit mem_world process" where
  "ex_process = \<lparr>procMgr = ex_mgr_state, procEvents = []\<rparr>"

lemma ex_logger: "\<exists>lcfg k. ReadLoggerCLIConfig ex_cli (suOpenFile ex_startup) ex_ctx = Ok lcfg \<and> NewLogger lcfg = Ok k"
proof -
  have "parse_level ''info'' = Some 0" by code_simp
  then show ?thesis
    by (simp add: ReadLoggerCLIConfig_def ex_cli_def ex_ctx_def Let_def NewLogger_def TextLogFormat_def JSONLogFormat_def)
qed

theorem StartProxySvr_trace_witness:
  "\<exists>t rest. procEvents (snd (StartProxySvr ex_cli (\<lambda>x. 0) 1 ex_startup ex_builder_api 1 ex_ctx ex_process)) = LoggedConfig t # rest"
proof -
  obtain a where a: "ReadAppConfig ex_cli (\<lambda>x. 0) 1 ex_ctx = Ok a" "AppConfig_Check a = Ok ()" using ex_read by blast
  obtain lcfg k where l: "ReadLoggerCLIConfig ex_cli (suOpenFile ex_startup) ex_ctx = Ok lcfg" "NewLogger lcfg = Ok k"
    using ex_logger by blast
  have t: "BuilderConfig_ToString (suMarshal ex_startup) (StoreBuilderConfig a) = Ok ''config''"
    by (simp add: BuilderConfig_ToString_def ex_startup_def)
  obtain r s' where run: "StartProxySvr ex_cli (\<lambda>x. 0) 1 ex_startup ex_builder_api 1 ex_ctx ex_process = (r, s')"
    by (cases "StartProxySvr ex_cli (\<lambda>x. 0) 1 ex_startup ex_builder_api 1 ex_ctx ex_process")
  obtain s1 where "build_run ex_startup ex_builder_api 1 a (emit (LoggedConfig ''config'') ex_process) = (r, s1)"
    "s' = (if r = Blocked then s1 else emit ContextCancelled s1)"
    using run a l t
    by (cases "build_run ex_startup ex_builder_api 1 a (emit (LoggedConfig ''config'') ex_process)")
      (auto simp: StartProxySvr_def build_run_def deferred_def act_simps)
  with build_run_trace [OF this(1)] have "procEvents s' \<noteq> []" by (auto simp: emit_def)
  with StartProxySvr_trace [OF run] run show ?thesis by (auto simp: ex_process_def)
qed

end
