(* ===== verification/Clients.thy ===== *)
theory Clients
  imports Routing Ephemeral_DB
begin

text \<open>
  The Go clients of the proxy: \<^verbatim>\<open>clients/standard_client/client.go\<close> and
  \<^verbatim>\<open>clients/memconfig_client/client.go\<close>.

  A transport is what \<^verbatim>\<open>Do\<close> of an HTTP client does with a request; reading the body of the response may fail.
  \<open>newRequest\<close> is the error of \<^verbatim>\<open>http.NewRequestWithContext\<close> for a method and a URL, if any.
\<close>

section \<open>HTTP as the clients see it\<close>

record http_request =
  hrMethod :: string
  hrURL :: string
  hrHeaders :: "(string \<times> string) list"
  hrBody :: bytes

record http_response =
  rsStatus :: nat
  rsBody :: "go_error + bytes"

type_synonym 'w transport = "http_request \<Rightarrow> ('w, http_response) goact"
type_synonym new_request = "string \<Rightarrow> string \<Rightarrow> go_error option"

definition check_request :: "new_request \<Rightarrow> string \<Rightarrow> string \<Rightarrow> ('w, unit) goact" where
  "check_request newRequest meth url = (case newRequest meth url of Some e \<Rightarrow> throw e | None \<Rightarrow> ret ())"

section \<open>The standard client\<close>

record 'w StdClient =
  stdURL :: string
  httpClient :: "'w transport"

definition WithHTTPClient :: "'w transport \<Rightarrow> 'w StdClient \<Rightarrow> 'w StdClient" where
  "WithHTTPClient t cl = cl\<lparr>httpClient := t\<rparr>"

definition std_New :: "'w transport \<Rightarrow> string \<Rightarrow> ('w StdClient \<Rightarrow> 'w StdClient) list \<Rightarrow> 'w StdClient" where
  "std_New defaultClient url opts = fold (\<lambda>opt cl. opt cl) opts \<lparr>stdURL = url, httpClient = defaultClient\<rparr>"

definition ErrServiceUnavailable :: go_error where
  "ErrServiceUnavailable = ErrorString ''eigenda service is temporarily unavailable''"

definition std_Health :: "new_request \<Rightarrow> 'w StdClient \<Rightarrow> ('w, unit) goact" where
  "std_Health newRequest cl =
     (let url = stdURL cl @ ''/health'' in
      andThen (check_request newRequest ''GET'' url) (\<lambda>_.
      andThen (httpClient cl \<lparr>hrMethod = ''GET'', hrURL = url, hrHeaders = [], hrBody = []\<rparr>) (\<lambda>res.
      if rsStatus res \<noteq> 200 then throw (ErrorString (''received bad status code: '' @ decimal (rsStatus res))) else ret ())))"

definition octet_stream :: "(string \<times> string) list" where
  "octet_stream = [(''Content-Type'', ''application/octet-stream'')]"

definition standard_query :: string where
  "standard_query = ''?commitment_mode=standard''"

definition get_url :: "string \<Rightarrow> bytes \<Rightarrow> string" where
  "get_url base comm = base @ ''/get/0x'' @ hex_EncodeToString comm @ standard_query"

text \<open>The body of an error response is part of the message; \<open>asText\<close> is the conversion of bytes to a string.\<close>

definition std_GetData :: "(bytes \<Rightarrow> string) \<Rightarrow> new_request \<Rightarrow> 'w StdClient \<Rightarrow> bytes \<Rightarrow> ('w, bytes) goact" where
  "std_GetData asText newRequest cl comm =
     (let url = get_url (stdURL cl) comm in
      andThen (mapErr (WrapError ''failed to construct http request'') (check_request newRequest ''GET'' url)) (\<lambda>_.
      andThen (httpClient cl \<lparr>hrMethod = ''GET'', hrURL = url, hrHeaders = octet_stream, hrBody = []\<rparr>) (\<lambda>res.
      andThen (liftR (fromSum (rsBody res))) (\<lambda>b.
      if rsStatus res \<noteq> 200
      then throw (ErrorString (''received error response when reading from eigenda-proxy, code='' @ decimal (rsStatus res) @
             '', msg = '' @ asText b))
      else ret b))))"

definition put_url :: "string \<Rightarrow> string" where
  "put_url base = base @ ''/put'' @ standard_query"

text \<open>The request is sent with \<^verbatim>\<open>http.DefaultClient\<close>, whatever client was configured.\<close>

definition std_SetData ::
  "(bytes \<Rightarrow> string) \<Rightarrow> new_request \<Rightarrow> 'w transport \<Rightarrow> 'w StdClient \<Rightarrow> bytes \<Rightarrow> ('w, bytes) goact" where
  "std_SetData asText newRequest defaultClient cl v =
     (let url = put_url (stdURL cl) in
      andThen (mapErr (WrapError ''failed to create HTTP request'') (check_request newRequest ''POST'' url)) (\<lambda>_.
      andThen (defaultClient \<lparr>hrMethod = ''POST'', hrURL = url, hrHeaders = octet_stream, hrBody = v\<rparr>) (\<lambda>res.
      andThen (liftR (fromSum (rsBody res))) (\<lambda>b.
      if rsStatus res = 503 then throw ErrServiceUnavailable
      else if rsStatus res \<noteq> 200
      then throw (ErrorString (''received error response when dispersing to eigenda-proxy, code='' @ decimal (rsStatus res) @
             '', err = '' @ asText b))
      else if length b = 0 then throw (ErrorString ''received an empty certificate'')
      else ret b))))"

section \<open>The memconfig client\<close>

record intermediaryCfg =
  icMaxBlobSizeBytes :: uint64
  icBlobExpiration :: string
  icPutLatency :: string
  icGetLatency :: string
  icPutReturnsFailoverError :: bool

definition IntoMemConfig :: "(string \<Rightarrow> go_error + int) \<Rightarrow> intermediaryCfg \<Rightarrow> MemConfig go" where
  "IntoMemConfig parseDuration ic =
     bindR (mapErrR (WrapError ''failed to parse getLatency'') (fromSum (parseDuration (icGetLatency ic)))) (\<lambda>getLatency.
     bindR (mapErrR (WrapError ''failed to parse putLatency'') (fromSum (parseDuration (icPutLatency ic)))) (\<lambda>putLatency.
     bindR (mapErrR (WrapError ''failed to parse blobExpiration'') (fromSum (parseDuration (icBlobExpiration ic)))) (\<lambda>blobExpiration.
     Ok \<lparr>MaxBlobSizeBytes = icMaxBlobSizeBytes ic, BlobExpiration = blobExpiration, PutLatency = putLatency,
         GetLatency = getLatency, PutReturnsFailoverError = icPutReturnsFailoverError ic\<rparr>)))"

record 'w MemClient =
  mcURL :: string
  memHttpClient :: "'w transport"

definition mem_New :: "'w transport \<Rightarrow> string \<Rightarrow> 'w MemClient" where
  "mem_New defaultClient url = \<lparr>mcURL = url @ ''/memstore/config'', memHttpClient = defaultClient\<rparr>"

definition decodeResponseToMemCfg ::
  "(bytes \<Rightarrow> go_error + intermediaryCfg) \<Rightarrow> (string \<Rightarrow> go_error + int) \<Rightarrow> http_response \<Rightarrow> MemConfig go" where
  "decodeResponseToMemCfg decode parseDuration res =
     bindR (mapErrR (WrapError ''could not decode response body to intermediary cfg'')
              (bindR (fromSum (rsBody res)) (\<lambda>b. fromSum (decode b)))) (IntoMemConfig parseDuration)"

definition mem_GetConfig ::
  "(bytes \<Rightarrow> go_error + intermediaryCfg) \<Rightarrow> (string \<Rightarrow> go_error + int) \<Rightarrow> new_request \<Rightarrow> 'w MemClient \<Rightarrow> ('w, MemConfig) goact" where
  "mem_GetConfig decode parseDuration newRequest cl =
     andThen (check_request newRequest ''GET'' (mcURL cl)) (\<lambda>_.
     andThen (mapErr (WrapError ''failed to execute request'')
                (memHttpClient cl \<lparr>hrMethod = ''GET'', hrURL = mcURL cl, hrHeaders = [], hrBody = []\<rparr>)) (\<lambda>res.
     if rsStatus res \<noteq> 200
     then throw (ErrorString (''failed to read config. expected status code 200, got: '' @ decimal (rsStatus res)))
     else liftR (decodeResponseToMemCfg decode parseDuration res)))"

definition mem_UpdateConfig ::
  "(MemConfig \<Rightarrow> go_error + bytes) \<Rightarrow> (bytes \<Rightarrow> go_error + intermediaryCfg) \<Rightarrow> (string \<Rightarrow> go_error + int) \<Rightarrow> new_request \<Rightarrow>
   'w MemClient \<Rightarrow> MemConfig \<Rightarrow> ('w, MemConfig) goact" where
  "mem_UpdateConfig marshal decode parseDuration newRequest cl update =
     andThen (mapErr (WrapError ''failed to marshal config update to json bytes'') (liftR (fromSum (marshal update)))) (\<lambda>body.
     andThen (mapErr (WrapError ''failed to create request'') (check_request newRequest ''PATCH'' (mcURL cl))) (\<lambda>_.
     andThen (mapErr (WrapError ''failed to do request'')
                (memHttpClient cl \<lparr>hrMethod = ''PATCH'', hrURL = mcURL cl, hrHeaders = [], hrBody = body\<rparr>)) (\<lambda>res.
     if rsStatus res \<noteq> 200 then throw (ErrorString (''failed to update config, status code: '' @ decimal (rsStatus res)))
     else liftR (decodeResponseToMemCfg decode parseDuration res))))"

section \<open>A client connected to a proxy\<close>

text \<open>The request as the proxy's router gets it: the path, and the query that the standard client always sends.\<close>

definition standard_request :: "string \<Rightarrow> string \<Rightarrow> bytes \<Rightarrow> request" where
  "standard_request meth path body =
     \<lparr>reqMethod = meth, reqPath = path, reqVars = Map.empty,
      reqQuery = (\<lambda>k. if k = ''commitment_mode'' then ''standard'' else []), reqBody = body,
      reqReadError = None, reqWriteError = None\<rparr>"

text \<open>
  What the clients rely on in the network and in \<^verbatim>\<open>net/http\<close> on both sides: when the proxy's handler returns, the
  client gets the status (200 if none was set) and the bytes that were written; and when a request that has a route
  gets an answer at all, its handler has returned.
\<close>

definition received :: "(chunk \<Rightarrow> bytes) \<Rightarrow> response \<Rightarrow> http_response" where
  "received render r =
     \<lparr>rsStatus = (case respStatus r of Some code \<Rightarrow> code | None \<Rightarrow> 200), rsBody = Inr (concat (map render (respBody r)))\<rparr>"

definition connected ::
  "'w mgr_state transport \<Rightarrow> string \<Rightarrow> (chunk \<Rightarrow> bytes) \<Rightarrow>
   (request \<Rightarrow> 'w mgr_state \<Rightarrow> (unit go \<times> 'w srv_state) option) \<Rightarrow> bool" where
  "connected t base render srv \<longleftrightarrow>
     (\<forall>b. render (Bytes b) = b) \<and>
     (\<forall>meth path hdrs body ms s. srv (standard_request meth path body) ms = Some (Ok (), s) \<longrightarrow>
        t \<lparr>hrMethod = meth, hrURL = base @ path @ standard_query, hrHeaders = hdrs, hrBody = body\<rparr> ms =
          (Ok (received render (resp s)), mgrState s)) \<and>
     (\<forall>meth path hdrs body ms r ms'.
        t \<lparr>hrMethod = meth, hrURL = base @ path @ standard_query, hrHeaders = hdrs, hrBody = body\<rparr> ms = (Ok r, ms') \<longrightarrow>
        srv (standard_request meth path body) ms \<noteq> None \<longrightarrow>
        (\<exists>s. srv (standard_request meth path body) ms = Some (Ok (), s)))"

lemma connectedD:
  assumes "connected t base render srv" and "srv (standard_request meth path body) ms = Some (Ok (), s)"
  shows "t \<lparr>hrMethod = meth, hrURL = base @ path @ standard_query, hrHeaders = hdrs, hrBody = body\<rparr> ms =
     (Ok (received render (resp s)), mgrState s)"
  using assms by (simp add: connected_def)

lemma connected_SetData:
  assumes "connected t base render srv" and "srv (standard_request ''POST'' ''/put'' v) ms = Some (Ok (), s)"
    and "\<forall>m u. newRequest m u = None" and "stdURL cl = base"
  shows "std_SetData asText newRequest t cl v ms =
     (let r = received render (resp s); b = concat (map render (respBody (resp s))) in
      (if rsStatus r = 503 then Err ErrServiceUnavailable
       else if rsStatus r \<noteq> 200
       then Err (ErrorString (''received error response when dispersing to eigenda-proxy, code='' @ decimal (rsStatus r) @
              '', err = '' @ asText b))
       else if b = [] then Err (ErrorString ''received an empty certificate'') else Ok b, mgrState s))"
  using connectedD [OF assms(1,2), of octet_stream] assms(3,4)
  by (simp add: std_SetData_def put_url_def check_request_def received_def Let_def act_simps)

lemma SetData_served:
  assumes "connected t base render srv" and "std_SetData asText newRequest t cl v ms = (Ok comm, ms')"
    and "srv (standard_request ''POST'' ''/put'' v) ms \<noteq> None" and "stdURL cl = base"
  shows "\<exists>s. srv (standard_request ''POST'' ''/put'' v) ms = Some (Ok (), s)"
proof -
  obtain r ms1 where "t \<lparr>hrMethod = ''POST'', hrURL = base @ ''/put'' @ standard_query, hrHeaders = octet_stream, hrBody = v\<rparr> ms = (Ok r, ms1)"
    using assms(2,4) by (auto simp: std_SetData_def put_url_def Let_def andThen_eq_Ok mapErr_eq_Ok check_request_def ret_def
        split: option.splits)
  with assms(1,3) show ?thesis unfolding connected_def by metis
qed

lemma connected_GetData:
  assumes "connected (httpClient cl) base render srv"
    and "srv (standard_request ''GET'' (get_path ''0x'' comm) []) ms = Some (Ok (), s)"
    and "respStatus (resp s) = Some 200" and "\<forall>m u. newRequest m u = None" and "stdURL cl = base"
  shows "std_GetData asText newRequest cl comm ms = (Ok (concat (map render (respBody (resp s)))), mgrState s)"
  using connectedD [OF assms(1,2), of octet_stream] assms(3-5)
  by (simp add: std_GetData_def get_url_def get_path_def check_request_def received_def Let_def act_simps)

text \<open>A transport that serves every URL of a base with the given handler.\<close>

definition ex_transport ::
  "string \<Rightarrow> (chunk \<Rightarrow> bytes) \<Rightarrow> (request \<Rightarrow> 'w mgr_state \<Rightarrow> (unit go \<times> 'w srv_state) option) \<Rightarrow> 'w mgr_state transport" where
  "ex_transport base render srv r ms =
     (let tail = drop (length base) (hrURL r); path = take (length tail - length standard_query) tail in
      case srv (standard_request (hrMethod r) path (hrBody r)) ms of
        Some (Ok _, s) \<Rightarrow>
          (Ok (received render (resp s)), mgrState s)
      | _ \<Rightarrow> (Err (ErrorString ''EOF''), ms))"

definition ex_render :: "chunk \<Rightarrow> bytes" where
  "ex_render ch = (case ch of Bytes b \<Rightarrow> b | _ \<Rightarrow> [])"

lemma ex_transport_connected: "connected (ex_transport base ex_render srv) base ex_render srv"
  by (auto simp: connected_def ex_transport_def ex_render_def Let_def split: option.splits prod.splits result.splits)

section \<open>The memconfig client and its endpoint\<close>

text \<open>
  What the clients rely on for the configuration endpoint: JSON texts that decode to what was encoded, and the answers
  of the two handlers.
\<close>

definition intermediary :: "(int \<Rightarrow> string) \<Rightarrow> MemConfig \<Rightarrow> intermediaryCfg" where
  "intermediary durationString c =
     \<lparr>icMaxBlobSizeBytes = MaxBlobSizeBytes c, icBlobExpiration = durationString (BlobExpiration c),
      icPutLatency = durationString (PutLatency c), icGetLatency = durationString (GetLatency c),
      icPutReturnsFailoverError = PutReturnsFailoverError c\<rparr>"

definition config_answer :: "(MemConfig \<Rightarrow> go_error + bytes) \<Rightarrow> config_response \<Rightarrow> http_response" where
  "config_answer marshal r =
     (case r of ConfigJSON c \<Rightarrow> \<lparr>rsStatus = 200, rsBody = marshal c\<rparr>
      | ConfigError code e \<Rightarrow> \<lparr>rsStatus = code, rsBody = Inr []\<rparr>)"

definition config_connected ::
  "MemConfig transport \<Rightarrow> string \<Rightarrow> (int \<Rightarrow> string) \<Rightarrow> (string \<Rightarrow> go_error + int) \<Rightarrow> (MemConfig \<Rightarrow> go_error + bytes) \<Rightarrow>
   (bytes \<Rightarrow> go_error + intermediaryCfg) \<Rightarrow> bool" where
  "config_connected t url durationString parseDuration marshal decode \<longleftrightarrow>
     (\<forall>d. parseDuration (durationString d) = Inr d) \<and>
     (\<forall>c. \<exists>body. marshal c = Inr body \<and> decode body = Inr (intermediary durationString c)) \<and>
     (\<forall>c hdrs. t \<lparr>hrMethod = ''GET'', hrURL = url @ ''/memstore/config'', hrHeaders = hdrs, hrBody = []\<rparr> c =
        (Ok (config_answer marshal (handleGetConfig c)), c)) \<and>
     (\<forall>c c0 hdrs body. marshal c = Inr body \<longrightarrow>
        t \<lparr>hrMethod = ''PATCH'', hrURL = url @ ''/memstore/config'', hrHeaders = hdrs, hrBody = body\<rparr> c0 =
        (case handleUpdateConfig parseDuration (Inr (client_MarshalJSON durationString c)) c0 of
           (r, c1) \<Rightarrow> (Ok (config_answer marshal r), c1)))"

lemma IntoMemConfig_intermediary:
  "\<forall>d. parseDuration (durationString d) = Inr d \<Longrightarrow> IntoMemConfig parseDuration (intermediary durationString c) = Ok c"
  by (cases c) (simp add: IntoMemConfig_def intermediary_def)

lemma client_update:
  assumes "\<forall>d. parseDuration (durationString d) = Inr d"
  shows "handleUpdateConfig parseDuration (Inr (client_MarshalJSON durationString c)) c0 = (ConfigJSON c, c)"
  using client_update_fields [of parseDuration durationString c c0] assms by (simp add: handleUpdateConfig_def)

lemma decode_marshalled:
  assumes "config_connected t url durationString parseDuration marshal decode"
  shows "decodeResponseToMemCfg decode parseDuration \<lparr>rsStatus = n, rsBody = marshal c\<rparr> = Ok c"
proof -
  have p: "\<forall>d. parseDuration (durationString d) = Inr d" using assms by (simp add: config_connected_def)
  obtain body where "marshal c = Inr body" "decode body = Inr (intermediary durationString c)"
    using assms unfolding config_connected_def by meson
  with IntoMemConfig_intermediary [OF p] show ?thesis by (simp add: decodeResponseToMemCfg_def)
qed

section \<open>Properties\<close>

text \<open>
  C31: driving the memstore from a test. Whatever the configuration was, after \<^verbatim>\<open>UpdateConfig\<close> of the memconfig
  client the memstore's configuration is the one that was sent, the client is told so, and \<^verbatim>\<open>GetConfig\<close> returns it.
\<close>

theorem memconfig_client_updates:
  assumes "config_connected t url durationString parseDuration marshal decode" and "\<forall>m u. newRequest m u = None"
  shows "mem_UpdateConfig marshal decode parseDuration newRequest (mem_New t url) c c0 = (Ok c, c) \<and>
     mem_GetConfig decode parseDuration newRequest (mem_New t url) c = (Ok c, c)"
proof -
  have p: "\<forall>d. parseDuration (durationString d) = Inr d" using assms(1) by (auto simp: config_connected_def)
  obtain body where body: "marshal c = Inr body" using assms(1) unfolding config_connected_def by meson
  have get: "t \<lparr>hrMethod = ''GET'', hrURL = url @ ''/memstore/config'', hrHeaders = hdrs, hrBody = []\<rparr> c =
      (Ok \<lparr>rsStatus = 200, rsBody = marshal c\<rparr>, c)" for hdrs
    using assms(1) by (simp add: config_connected_def config_answer_def handleGetConfig_def)
  have patch: "t \<lparr>hrMethod = ''PATCH'', hrURL = url @ ''/memstore/config'', hrHeaders = hdrs, hrBody = body\<rparr> c0 =
      (Ok \<lparr>rsStatus = 200, rsBody = marshal c\<rparr>, c)" for hdrs
    using assms(1) body client_update [OF p, of c c0] by (simp add: config_connected_def config_answer_def)
  have dec: "decodeResponseToMemCfg decode parseDuration \<lparr>rsStatus = 200, rsBody = marshal c\<rparr> = Ok c"
    by (rule decode_marshalled [OF assms(1)])
  show ?thesis
    using assms(2) body get patch dec
    by (simp add: mem_UpdateConfig_def mem_GetConfig_def mem_New_def check_request_def act_simps)
qed

text \<open>Texts of five fields separated by commas, and a transport for them.\<close>

definition ex_field :: "string \<Rightarrow> bytes" where
  "ex_field s = map (\<lambda>ch. of_nat (of_char ch)) s @ [44]"

definition ex_marshal :: "MemConfig \<Rightarrow> go_error + bytes" where
  "ex_marshal c = Inr (concat (map ex_field [decimal (unat (MaxBlobSizeBytes c)), ex_printDuration (BlobExpiration c),
     ex_printDuration (PutLatency c), ex_printDuration (GetLatency c), if PutReturnsFailoverError c then ''t'' else ''f'']))"

definition ex_next :: "bytes \<Rightarrow> string \<times> bytes" where
  "ex_next bs = (map (\<lambda>b. char_of (unat b)) (takeWhile (\<lambda>b. b \<noteq> 44) bs), tl (dropWhile (\<lambda>b. b \<noteq> 44) bs))"

definition ex_decode :: "bytes \<Rightarrow> go_error + intermediaryCfg" where
  "ex_decode bs =
     (let (a, r) = ex_next bs; (b, r) = ex_next r; (c, r) = ex_next r; (d, r) = ex_next r; (e, r) = ex_next r in
      case parse_digits 0 a of
        None \<Rightarrow> Inl (ErrorString ''json'')
      | Some n \<Rightarrow> Inr \<lparr>icMaxBlobSizeBytes = of_nat n, icBlobExpiration = b, icPutLatency = c, icGetLatency = d,
                       icPutReturnsFailoverError = (e = ''t'')\<rparr>)"

lemma ex_next_field: "CHR '','' \<notin> set s \<Longrightarrow> ex_next (ex_field s @ r) = (s, r)"
proof -
  assume s: "CHR '','' \<notin> set s"
  have small: "of_char ch < (256 :: nat)" for ch :: char by (metis nat_of_char_less_256)
  have ne: "(of_nat (of_char ch) :: byte) \<noteq> 44" if "ch \<in> set s" for ch
  proof
    assume "(of_nat (of_char ch) :: byte) = 44"
    then have "unat (of_nat (of_char ch) :: byte) = 44" by simp
    then have "of_char ch = (44 :: nat)" using small [of ch] by (simp add: unat_of_nat)
    then have "ch = char_of (44 :: nat)" by (metis char_of_char)
    moreover have "char_of (44 :: nat) = CHR '',''" by code_simp
    ultimately show False using s that by simp
  qed
  let ?bs = "map (\<lambda>ch. of_nat (of_char ch)) s :: bytes"
  have "takeWhile (\<lambda>b. b \<noteq> 44) (?bs @ 44 # r) = ?bs" "dropWhile (\<lambda>b. b \<noteq> 44) (?bs @ 44 # r) = 44 # r"
    using ne by (subst takeWhile_append2 dropWhile_append2; auto)+
  moreover have "map (\<lambda>b. char_of (unat b)) ?bs = s"
    using small by (simp add: o_def unat_of_nat map_idI)
  ultimately show ?thesis by (simp add: ex_next_def ex_field_def)
qed

lemma digit_val_comma: "digit_val CHR '','' = None"
  by code_simp

lemma decimal_no_comma: "CHR '','' \<notin> set (decimal n)"
proof (induction n rule: decimal.induct)
  case (1 n)
  have "char_of (48 + d) \<noteq> CHR '',''" if "d < 10" for d :: nat
    using digit_val_char [OF that] by (metis digit_val_comma option.distinct(1))
  then have "CHR '','' \<noteq> char_of (48 + d)" if "d < 10" for d :: nat using that by metis
  with 1 show ?case by (subst decimal.simps) simp
qed

lemma ex_config_connected:
  "\<exists>t. config_connected t [] ex_printDuration ex_parseDuration ex_marshal ex_decode"
proof -
  have d: "CHR '','' \<notin> set (ex_printDuration n)" for n
    using decimal_no_comma by (simp add: ex_printDuration_def)
  have dec: "ex_decode b = Inr (intermediary ex_printDuration c)" if "ex_marshal c = Inr b" for b c
    using that decimal_no_comma d ex_next_field [of _ "[]"]
    by (auto simp: ex_marshal_def ex_decode_def ex_next_field parse_digits_decimal intermediary_def)
  define t :: "MemConfig transport" where "t r c0 =
    (if hrMethod r = ''GET'' then (Ok \<lparr>rsStatus = 200, rsBody = ex_marshal c0\<rparr>, c0)
     else case ex_decode (hrBody r) of
       Inr ic \<Rightarrow> (case IntoMemConfig ex_parseDuration ic of
           Ok c \<Rightarrow> (Ok \<lparr>rsStatus = 200, rsBody = ex_marshal c\<rparr>, c)
         | _ \<Rightarrow> (Ok \<lparr>rsStatus = 400, rsBody = Inr []\<rparr>, c0))
     | Inl e \<Rightarrow> (Ok \<lparr>rsStatus = 400, rsBody = Inr []\<rparr>, c0))" for r c0
  have p: "\<forall>d. ex_parseDuration (ex_printDuration d) = Inr d" by (simp add: ex_duration_roundtrip)
  have "\<exists>body. ex_marshal c = Inr body \<and> ex_decode body = Inr (intermediary ex_printDuration c)" for c
    using dec [of c] by (simp add: ex_marshal_def)
  then have "config_connected t [] ex_printDuration ex_parseDuration ex_marshal ex_decode"
    using dec p IntoMemConfig_intermediary [OF p] client_update [OF p]
    by (auto simp: config_connected_def t_def config_answer_def handleGetConfig_def)
  then show ?thesis by (rule exI [of _ t])
qed

theorem memconfig_client_updates_witness:
  "\<exists>t. mem_UpdateConfig ex_marshal ex_decode ex_parseDuration (\<lambda>m u. None) (mem_New t []) ex_memconfig (SetMaxBlobSizeBytes 1 ex_memconfig) =
     (Ok ex_memconfig, ex_memconfig)"
proof -
  obtain t where "config_connected t [] ex_printDuration ex_parseDuration ex_marshal ex_decode"
    using ex_config_connected by blast
  from memconfig_client_updates [OF this, of "\<lambda>m u. None"] show ?thesis by auto
qed

end
