(* ===== verification/Proxy.thy ===== *)
theory Proxy
  imports Startup Clients MemStore
begin

text \<open>
  The composition of the request path: a proxy over the V2 memstore, from the router to the database, and a client that
  is connected to a proxy.
\<close>

section \<open>A proxy over the V2 memstore\<close>

text \<open>
  A manager whose V2 store is the given one and which has no secondary storage; with a V2 memstore, its dispersals and
  reads are those of the memstore on the world.
\<close>

definition mem_served :: "'r mem_world EigenDAV2Store \<Rightarrow> 'r mem_world Manager \<Rightarrow> bool" where
  "mem_served st m \<longleftrightarrow>
     mgrEigendaV2 m = Some (lift_v2 st) \<and>
     (\<exists>keccak opRetry b. mgrSecondary m = SecondaryManager_ISecondary keccak opRetry (NewSecondaryManager [] [] b))"

lemma mem_served_Put:
  assumes "mem_served st m" and "cert_mode mode" and "dispersalBackend ms = Some V2EigenDABackend"
  shows "Manager_Put m mode v ms = on_world (v2Put st v) ms"
  using assms
  by (auto simp: Manager_Put_def mem_served_def putToCorrectEigenDABackend_def cert_mode_def lift_v2_def
      SecondaryManager_ISecondary_def NewSecondaryManager_def sm_Enabled_def sm_CachingEnabled_def
      sm_FallbackEnabled_def act_simps split: prod.splits result.splits)

lemma mem_served_Get:
  assumes "mem_served st m" and "cert_mode mode" and "Version vc = V2VersionByte"
    and "v2Verify st vc opts (world ms) = (Ok (), world ms)" and "v2Get st vc (world ms) = (Ok d, w)"
  shows "Manager_Get m vc mode opts ms = (Ok d, ms\<lparr>world := w\<rparr>)"
  using assms
  by (auto simp: Manager_Get_def mem_served_def getFromCorrectEigenDABackend_def cert_mode_def lift_v2_def
      SecondaryManager_ISecondary_def NewSecondaryManager_def sm_CachingEnabled_def sm_WriteOnCacheMissEnabled_def
      getVerifyMethod_def read_cache_def act_simps on_world_def zoom_def)

lemma error_status_not_200: "error_status fromError e \<noteq> 200"
  by (auto simp: error_status_def)

text \<open>A dispersal that panics or blocks takes its handler with it.\<close>

lemma post_stuck:
  assumes "length (reqBody r) \<le> maxPOSTRequestBodySize" and "reqReadError r = None"
    and "Manager_Put m mode (reqBody r) ms = (res, ms')" and "res \<in> {Panic, Blocked}"
  shows "WithCertMiddlewares et fromError (handlePostShared m between mode) mode r (fresh ms) \<noteq> (Ok (), s2)"
  using assms
  by (auto simp: WithCertMiddlewares_def withRequestContext_def withLogging_def withMetrics_def withErrorHandling_def
      handlePostShared_def act_simps on_manager_def zoom_def read_body_def fresh_def SetCertVersion_def)

text \<open>A dispersal request that is answered with status 200 went through.\<close>

lemma post_200:
  assumes "length (reqBody r) \<le> maxPOSTRequestBodySize" and "reqReadError r = None" and "reqWriteError r = None"
    and "fromError_documented fromError" and "cert_mode mode"
    and "WithCertMiddlewares et fromError (handlePostShared m id mode) mode r (fresh ms) = (Ok (), s2)"
    and "respStatus (resp s2) = Some 200"
    and "dispersalBackend (snd (Manager_Put m mode (reqBody r) ms)) = Some V2EigenDABackend"
  shows "\<exists>c bs. Manager_Put m mode (reqBody r) ms = (Ok c, mgrState s2) \<and>
     EncodeCommitment (NewVersionedCert c V2VersionByte) mode = Ok bs \<and> respBody (resp s2) = [Bytes bs]"
proof -
  obtain res ms' where put: "Manager_Put m mode (reqBody r) ms = (res, ms')" by fastforce
  have v: "dispersalBackend (id ms') = Some V2EigenDABackend" "dispersal_version V2EigenDABackend = Ok V2VersionByte"
    using assms(8) put by (simp_all add: dispersal_version_def)
  note out = post_response [where between = id, OF assms(1-5) put v, of et]
  show ?thesis
  proof (cases res)
    case (Ok c)
    with out assms(6,7) put show ?thesis by auto
  next
    case (Err e)
    with out assms(6,7) error_status_not_200 [of fromError e] show ?thesis by auto
  qed (use assms(6) post_stuck [OF assms(1,2) put, of et fromError id s2] in simp_all)
qed

text \<open>A payload that was posted is what a later request for its commitment is answered with.\<close>

lemma serve_roundtrip:
  assumes "mux_documented mux" and "fromError_documented (envFromError env)"
    and "\<And>v b. EncodeBlob codec v = Inr b \<Longrightarrow> DecodeBlob codec b = Inr v"
    and "\<And>cert b. rlp cert = Inr b \<Longrightarrow> b \<noteq> []"
    and "cert_mode mode" and "dispersalBackend ms = Some V2EigenDABackend"
    and "BlobExpiration (cfg (world ms)) \<le> 0" and "mem_inv (mem_of (world ms))"
    and "reqMethod post = ''POST''" and "reqPath post = ''/put''"
    and "(reqQuery post ''commitment_mode'' = ''standard'') \<longleftrightarrow> mode = StandardCommitmentMode"
    and "length (reqBody post) \<le> maxPOSTRequestBodySize" and "reqReadError post = None" and "reqWriteError post = None"
    and "mem_served (MemV2_store R nf keccak gc codec rlp) m"
    and "serve mux env c m id post ms = Some (Ok (), s1)" and "respStatus (resp s1) = Some 200"
  shows "\<exists>bs. respBody (resp s1) = [Bytes bs] \<and>
    (\<forall>pre get n ms2 nf' pd.
       pre \<in> {[], ''0x''} \<and> reqMethod get = ''GET'' \<and> reqPath get = get_path pre bs \<and>
       ((reqQuery get ''commitment_mode'' = ''standard'') \<longleftrightarrow> mode = StandardCommitmentMode) \<and>
       parseCommitmentInclusionL1BlockNumQueryParam get = Ok n \<and> reqWriteError get = None \<and>
       mem_steps nf' pd (mem_of (world (mgrState s1))) (mem_of (world ms2)) \<longrightarrow>
       (\<exists>s2. serve mux env c m id get ms2 = Some (Ok (), s2) \<and>
          resp s2 = \<lparr>respStatus = Some 200, respHeaders = [], respBody = [Bytes (reqBody post)]\<rparr>))"
proof -
  let ?st = "MemV2_store R nf keccak gc codec rlp"
  from serve_post [OF assms(1) assms(5) assms(9-11), of env c m id ms] assms(16)
  obtain vars where w: "WithCertMiddlewares (envErrorText env) (envFromError env) (handlePostShared m id mode) mode
      (post\<lparr>reqVars := vars\<rparr>) (fresh ms) = (Ok (), s1)" by auto
  have put: "Manager_Put m mode v ms = on_world (v2Put ?st v) ms" for v
    by (rule mem_served_Put [OF assms(15,5,6)])
  have same: "dispersalBackend (snd (Manager_Put m mode v ms)) = Some V2EigenDABackend" for v
    using put assms(6) by (simp add: on_world_def zoom_def split: prod.splits)
  obtain cert bs where cert: "Manager_Put m mode (reqBody post) ms = (Ok cert, mgrState s1)"
    and bs: "EncodeCommitment (NewVersionedCert cert V2VersionByte) mode = Ok bs" "respBody (resp s1) = [Bytes bs]"
    using post_200 [OF _ _ _ assms(2,5) w assms(17)] same assms(12-14) by auto
  have mem: "MemV2_Put R nf keccak gc codec rlp (reqBody post) (world ms) = (Ok cert, world (mgrState s1))"
    using cert put by (auto simp: on_world_eq MemV2_store_def)
  have ne: "cert \<noteq> []" using MemV2_Put_serialized [OF mem] assms(4) by blast
  let ?vc = "NewVersionedCert cert V2VersionByte"
  have vc: "known_version (Version ?vc)" "SerializedCert ?vc \<noteq> []" "Version ?vc = V2VersionByte"
    using ne by (simp_all add: NewVersionedCert_def)
  have "\<exists>s2. serve mux env c m id get ms2 = Some (Ok (), s2) \<and>
      resp s2 = \<lparr>respStatus = Some 200, respHeaders = [], respBody = [Bytes (reqBody post)]\<rparr>"
    if g: "pre \<in> {[], ''0x''}" "reqMethod get = ''GET''" "reqPath get = get_path pre bs"
      "(reqQuery get ''commitment_mode'' = ''standard'') \<longleftrightarrow> mode = StandardCommitmentMode"
      "parseCommitmentInclusionL1BlockNumQueryParam get = Ok n" "reqWriteError get = None"
      "mem_steps nf' pd (mem_of (world (mgrState s1))) (mem_of (world ms2))"
    for pre get n ms2 nf' pd
  proof -
    obtain vars where v: "names_cert (get\<lparr>reqVars := vars\<rparr>) ?vc" "serve mux env c m id get ms2 =
        Some (WithCertMiddlewares (envErrorText env) (envFromError env) (handleGetShared (envErrorText env) m mode) mode
                (get\<lparr>reqVars := vars\<rparr>) (fresh ms2))"
      using serve_get [OF assms(1) g(1) vc(1,2) assms(5) bs(1) g(2,3,4)] by blast
    have "MemV2_Get keccak codec ?vc (world ms2) = (Ok (reqBody post), world ms2)"
      using MemV2_payload_stays [OF mem assms(7,8) g(7)] assms(3) mem_v2.get_held by fastforce
    then have get: "Manager_Get m ?vc mode \<lparr>L1InclusionBlockNum = n\<rparr> ms2 = (Ok (reqBody post), ms2)"
      using mem_served_Get [OF assms(15,5) vc(3), of "\<lparr>L1InclusionBlockNum = n\<rparr>" ms2]
      by (simp add: MemV2_store_def MemV2_Verify_def ret_def)
    have "parseCommitmentInclusionL1BlockNumQueryParam (get\<lparr>reqVars := vars\<rparr>) = Ok n"
      using g(5) by (simp add: parseCommitmentInclusionL1BlockNumQueryParam_def)
    from get_response [OF v(1) this _ assms(2) get, of "envErrorText env"] g(6) v(2) show ?thesis by simp
  qed
  with bs(2) show ?thesis by blast
qed

section \<open>Through the standard client\<close>

lemma standard_request_sel [simp]:
  "reqMethod (standard_request meth pth body) = meth" "reqPath (standard_request meth pth body) = pth"
  "reqQuery (standard_request meth pth body) ''commitment_mode'' = ''standard''"
  "reqBody (standard_request meth pth body) = body" "reqReadError (standard_request meth pth body) = None"
  "reqWriteError (standard_request meth pth body) = None"
  by (simp_all add: standard_request_def)

lemma standard_request_l1 [simp]:
  "parseCommitmentInclusionL1BlockNumQueryParam (standard_request meth pth body) = Ok 0"
  by (simp add: parseCommitmentInclusionL1BlockNumQueryParam_def standard_request_def)

lemma error_status_bound: "error_status fromError e \<in> {400, 418, 429, 500, 503}"
  by (simp add: error_status_def)

lemma error_status_503:
  "error_status fromError e = 503 \<longleftrightarrow> Is503 e \<and> \<not> Is400 e \<and> \<not> Is418 e \<and> \<not> Is429 fromError e"
  by (simp add: error_status_def)

lemma stdURL_options: "stdURL (fold (\<lambda>opt cl. opt cl) (map WithHTTPClient ts) cl) = stdURL cl"
  by (induction ts arbitrary: cl) (simp_all add: WithHTTPClient_def)

lemma stdURL_New: "stdURL (std_New t base (map WithHTTPClient ts)) = base"
  by (simp add: std_New_def stdURL_options)

lemma standard_put_handler:
  assumes "mux_documented mux"
  obtains vars where "serve mux env c m id (standard_request ''POST'' ''/put'' v) ms =
      Some (WithCertMiddlewares (envErrorText env) (envFromError env) (handlePostShared m id StandardCommitmentMode)
              StandardCommitmentMode ((standard_request ''POST'' ''/put'' v)\<lparr>reqVars := vars\<rparr>) (fresh ms))"
  using serve_post [OF assms, of StandardCommitmentMode "standard_request ''POST'' ''/put'' v" env c m id ms]
  by (auto simp: cert_mode_def)

lemma standard_put_served:
  assumes "mux_documented mux" and "fromError_documented (envFromError env)"
    and "length v \<le> maxPOSTRequestBodySize"
    and "Manager_Put m StandardCommitmentMode v ms = (res, ms')" and "res \<notin> {Panic, Blocked}"
    and "dispersalBackend ms' = Some backend" and "dispersal_version backend = Ok ver"
  shows "\<exists>s. serve mux env c m id (standard_request ''POST'' ''/put'' v) ms = Some (Ok (), s) \<and>
     (case res of
        Ok cert \<Rightarrow> \<exists>bs. EncodeCommitment (NewVersionedCert cert ver) StandardCommitmentMode = Ok bs \<and>
          resp s = \<lparr>respStatus = Some 200, respHeaders = [], respBody = [Bytes bs]\<rparr>
      | Err e \<Rightarrow> respStatus (resp s) = Some (error_status (envFromError env) e)
      | _ \<Rightarrow> False)"
proof -
  obtain vars where "serve mux env c m id (standard_request ''POST'' ''/put'' v) ms =
      Some (WithCertMiddlewares (envErrorText env) (envFromError env) (handlePostShared m id StandardCommitmentMode)
              StandardCommitmentMode ((standard_request ''POST'' ''/put'' v)\<lparr>reqVars := vars\<rparr>) (fresh ms))"
    by (rule standard_put_handler [OF assms(1)])
  with post_response [of "(standard_request ''POST'' ''/put'' v)\<lparr>reqVars := vars\<rparr>" "envFromError env"
      StandardCommitmentMode m ms res ms' id backend ver "envErrorText env"] assms(2-7)
  show ?thesis by (cases res) (auto simp: cert_mode_def)
qed

lemma standard_put_answered:
  assumes "mux_documented mux" and "length v \<le> maxPOSTRequestBodySize"
    and "serve mux env c m id (standard_request ''POST'' ''/put'' v) ms = Some (Ok (), s)"
    and "Manager_Put m StandardCommitmentMode v ms = (res, ms')"
  shows "res \<notin> {Panic, Blocked}"
proof
  assume "res \<in> {Panic, Blocked}"
  moreover obtain vars where "serve mux env c m id (standard_request ''POST'' ''/put'' v) ms =
      Some (WithCertMiddlewares (envErrorText env) (envFromError env) (handlePostShared m id StandardCommitmentMode)
              StandardCommitmentMode ((standard_request ''POST'' ''/put'' v)\<lparr>reqVars := vars\<rparr>) (fresh ms))"
    by (rule standard_put_handler [OF assms(1)])
  ultimately show False
    using post_stuck [of "(standard_request ''POST'' ''/put'' v)\<lparr>reqVars := vars\<rparr>" m StandardCommitmentMode ms res ms'
        "envErrorText env" "envFromError env" id s] assms(2-4) by simp
qed

lemma client_served_roundtrip:
  assumes "mux_documented mux" and "fromError_documented (envFromError env)"
    and "\<And>v b. EncodeBlob codec v = Inr b \<Longrightarrow> DecodeBlob codec b = Inr v"
    and "\<And>cert b. rlp cert = Inr b \<Longrightarrow> b \<noteq> []"
    and "dispersalBackend ms = Some V2EigenDABackend"
    and "BlobExpiration (cfg (world ms)) \<le> 0" and "mem_inv (mem_of (world ms))"
    and "length v \<le> maxPOSTRequestBodySize" and "\<forall>meth u. newRequest meth u = None"
    and "mem_served (MemV2_store R nf keccak gc codec rlp) m"
    and "connected t base render (serve mux env c m id)"
    and "std_SetData asText newRequest t (std_New t base []) v ms = (Ok comm, ms1)"
    and "mem_steps nf' pd (mem_of (world ms1)) (mem_of (world ms2))"
  shows "\<exists>ms3. std_GetData asText newRequest (std_New t base []) comm ms2 = (Ok v, ms3)"
proof -
  let ?cl = "std_New t base []" and ?post = "standard_request ''POST'' ''/put'' v" and ?srv = "serve mux env c m id"
  have cl: "stdURL ?cl = base" "httpClient ?cl = t" by (simp_all add: std_New_def)
  have "?srv ?post ms \<noteq> None"
    using serve_post [OF assms(1), of StandardCommitmentMode ?post env c m id ms] by (auto simp: cert_mode_def)
  then obtain s where s: "?srv ?post ms = Some (Ok (), s)"
    using SetData_served [OF assms(11,12) _ cl(1)] by blast
  have render: "\<forall>b. render (Bytes b) = b" using assms(11) by (simp add: connected_def)
  from connected_SetData [OF assms(11) s assms(9) cl(1), of asText] assms(12)
  have set: "rsStatus (received render (resp s)) = 200" "comm = concat (map render (respBody (resp s)))" "ms1 = mgrState s"
    by (auto simp: Let_def split: if_splits)
  obtain res ms' where put: "Manager_Put m StandardCommitmentMode v ms = (res, ms')" by fastforce
  have "Manager_Put m StandardCommitmentMode v ms = on_world (v2Put (MemV2_store R nf keccak gc codec rlp) v) ms"
    by (rule mem_served_Put [OF assms(10)]) (use assms(5) in \<open>simp_all add: cert_mode_def\<close>)
  with put assms(5) have "dispersalBackend ms' = Some V2EigenDABackend"
    by (auto simp: on_world_def zoom_def split: prod.splits)
  from standard_put_served [OF assms(1,2,8) put standard_put_answered [OF assms(1,8) s put] this, of V2VersionByte c] s
  have "respStatus (resp s) \<noteq> None" by (cases res) (auto simp: dispersal_version_def)
  then have ok: "respStatus (resp s) = Some 200" using set(1) by (auto simp: received_def)
  obtain bs where bs: "respBody (resp s) = [Bytes bs]"
    and get: "\<forall>pre get n ms2 nf' pd.
       pre \<in> {[], ''0x''} \<and> reqMethod get = ''GET'' \<and> reqPath get = get_path pre bs \<and>
       ((reqQuery get ''commitment_mode'' = ''standard'') \<longleftrightarrow> StandardCommitmentMode = StandardCommitmentMode) \<and>
       parseCommitmentInclusionL1BlockNumQueryParam get = Ok n \<and> reqWriteError get = None \<and>
       mem_steps nf' pd (mem_of (world (mgrState s))) (mem_of (world ms2)) \<longrightarrow>
       (\<exists>s2. ?srv get ms2 = Some (Ok (), s2) \<and>
          resp s2 = \<lparr>respStatus = Some 200, respHeaders = [], respBody = [Bytes (reqBody ?post)]\<rparr>)"
    by (rule serve_roundtrip [where mode = StandardCommitmentMode and post = ?post and c = c and env = env and mux = mux
          and m = m and ms = ms and codec = codec and rlp = rlp, THEN exE])
      ((rule assms s ok | simp add: cert_mode_def assms(8))+, blast)
  have "comm = bs" using set(2) bs render by simp
  with get [rule_format, of "''0x''" "standard_request ''GET'' (get_path ''0x'' bs) []" 0 nf' pd ms2] assms(13) set(3)
  obtain s2 where "?srv (standard_request ''GET'' (get_path ''0x'' comm) []) ms2 = Some (Ok (), s2)"
    "resp s2 = \<lparr>respStatus = Some 200, respHeaders = [], respBody = [Bytes v]\<rparr>" by auto
  with connected_GetData [of ?cl base render ?srv comm ms2 s2 newRequest asText] assms(9,11) cl render show ?thesis by simp
qed

section \<open>A proxy that was built\<close>

text \<open>
  A configuration for the V2 memstore alone, without caches and fallbacks, and a world that is the world of this memstore.
\<close>

definition v2_memstore_config :: "BuilderConfig \<Rightarrow> bool" where
  "v2_memstore_config c \<longleftrightarrow>
     bcMemstoreEnabled c \<and> v2_enabled c \<and> \<not> v1_enabled c \<and> DispersalBackend (bcStoreConfig c) = V2EigenDABackend \<and>
     CacheTargets (bcStoreConfig c) = [] \<and> FallbackTargets (bcStoreConfig c) = []"

definition own_world :: "('r mem_world, 'r) mem_lens \<Rightarrow> bool" where
  "own_world l \<longleftrightarrow> getMem l = id \<and> putMem l = (\<lambda>m w. m)"

lemma own_zoom [simp]: "own_world l \<Longrightarrow> mem_zoom l m = m"
  by (auto simp: own_world_def mem_zoom_def zoom_def split: prod.splits)

lemma own_zoom_v2 [simp]: "own_world l \<Longrightarrow> zoom_v2 l st = st"
  by (cases st) (simp add: zoom_v2_def)

lemma build_v2_memstore:
  assumes "build_v2 api c secrets kzg w = (Ok e, w')" and "v2_memstore_config c" and "own_world (apiMem2 api)"
  shows "\<exists>g1. e = Some (MemV2_store (apiRand api) (apiNotFound api) (apiKeccak api) (apiBlobCommitment api g1)
      (apiBlobCodec api) (apiRlpV3 api)) \<and> cfg w' = bcMemstoreConfig c \<and> db w' = DB_New (bcMemstoreConfig c)"
proof -
  have "bcMemstoreEnabled c" "v2_enabled c" using assms(2) by (simp_all add: v2_memstore_config_def)
  with assms(1,3) show ?thesis
    by (auto simp: build_v2_def buildEigenDAV2Backend_def Let_def run_Ok mem_start_def modify_Ok)
      (auto simp: own_world_def)
qed

lemma built_mem_served:
  assumes "BuildStoreManager api scheduled c secrets s = (Ok m, s')" and "v2_memstore_config c"
    and "own_world (apiMem2 api)"
  obtains g1 where "mem_served (MemV2_store (apiRand api) (apiNotFound api) (apiKeccak api) (apiBlobCommitment api g1)
      (apiBlobCodec api) (apiRlpV3 api)) m"
    and "dispersalBackend s' = Some V2EigenDABackend" and "cfg (world s') = bcMemstoreConfig c"
    and "mem_inv (mem_of (world s'))"
proof (rule BuildStoreManager_parts [OF assms(1)])
  fix s3Store redisStore kzg e1 e2 w1 w2 w3 w4 fs cs
  assume b: "build_v2 api c secrets kzg w3 = (Ok e2, w4)"
    "buildSecondaries (FallbackTargets (bcStoreConfig c)) (Some (s3_interface (apiKeccak api) s3Store)) redisStore = Ok fs"
    "buildSecondaries (CacheTargets (bcStoreConfig c)) (Some (s3_interface (apiKeccak api) s3Store)) redisStore = Ok cs"
    and m: "NewManager (map_option lift_v1 e1) (map_option lift_v2 e2)
       (map_option (s3_pointer (apiKeccak api)) s3Store)
       (SecondaryManager_ISecondary (apiKeccak api) (apiOpRetryUnit api)
          (NewSecondaryManager cs fs (WriteOnCacheMiss (bcStoreConfig c))))
       (DispersalBackend (bcStoreConfig c))
       ((if sm_Enabled (NewSecondaryManager cs fs (WriteOnCacheMiss (bcStoreConfig c)))
         then loop_enter ^^ min scheduled (nat (AsyncPutWorkers (bcStoreConfig c))) else id) (s\<lparr>world := w4\<rparr>)) = (Ok m, s')"
  from b(2,3) assms(2) have none: "fs = []" "cs = []" by (simp_all add: v2_memstore_config_def)
  obtain g1 where e2: "e2 = Some (MemV2_store (apiRand api) (apiNotFound api) (apiKeccak api) (apiBlobCommitment api g1)
      (apiBlobCodec api) (apiRlpV3 api))" and w4: "cfg w4 = bcMemstoreConfig c" "db w4 = DB_New (bcMemstoreConfig c)"
    using build_v2_memstore [OF b(1) assms(2,3)] by blast
  have disabled: "\<not> sm_Enabled (NewSecondaryManager cs fs b)" for b
    by (simp add: none NewSecondaryManager_def sm_Enabled_def sm_CachingEnabled_def sm_FallbackEnabled_def)
  have s': "s' = SetDispersalBackend (DispersalBackend (bcStoreConfig c)) (s\<lparr>world := w4\<rparr>)"
    using m disabled by (simp add: NewManager_Ok)
  show thesis
  proof (rule that)
    show "mem_served (MemV2_store (apiRand api) (apiNotFound api) (apiKeccak api) (apiBlobCommitment api g1)
        (apiBlobCodec api) (apiRlpV3 api)) m"
      using m by (auto simp: NewManager_Ok mem_served_def e2 none)
    show "dispersalBackend s' = Some V2EigenDABackend" "cfg (world s') = bcMemstoreConfig c"
      using assms(2) by (simp_all add: s' SetDispersalBackend_def v2_memstore_config_def w4)
    show "mem_inv (mem_of (world s'))"
      by (simp add: s' SetDispersalBackend_def w4 mem_inv_def DB_New_def tracked_stored_def)
  qed
qed

end
