(* ===== verification/Metrics.thy ===== *)
theory Metrics
  imports Secondary "HOL-Library.Multiset" "HOL-Library.List_Lexorder" "HOL-Library.Char_ord"
begin

text \<open>
  Metrics (\<^verbatim>\<open>metrics/memory.go\<close>, \<^verbatim>\<open>metrics/metrics.go\<close>): the counters kept in memory for end-to-end tests, and the
  Prometheus vectors of the running proxy.

  \<^verbatim>\<open>rlp.EncodeToBytes\<close> and \<^verbatim>\<open>crypto.Keccak256Hash\<close> are the arguments \<open>rlp\<close> and \<open>keccak\<close>. A \<^verbatim>\<open>sync.Map\<close> holds values of
  any type; \<open>OtherValue\<close> stands for one that is not a \<^verbatim>\<open>uint64\<close>. A Prometheus counter is a number per list of label
  values; the library panics on a list of the wrong length and on a name that is registered already.
\<close>

section \<open>Counters in memory\<close>

definition fingerprint :: "(string list \<Rightarrow> go_error + bytes) \<Rightarrow> (bytes \<Rightarrow> bytes) \<Rightarrow> string list \<Rightarrow> bytes go" where
  "fingerprint rlp keccak labels = bindR (fromSum (rlp (sort labels))) (\<lambda>encodedBytes. Ok (keccak encodedBytes))"

datatype any_value = UInt64 uint64 | OtherValue

type_synonym CountMap = "string \<rightharpoonup> any_value"

definition NewCountMap :: CountMap where
  "NewCountMap = Map.empty"

definition Hash_Hex :: "bytes \<Rightarrow> string" where
  "Hash_Hex h = ''0x'' @ hex_EncodeToString h"

definition CountMap_insert ::
  "(string list \<Rightarrow> go_error + bytes) \<Rightarrow> (bytes \<Rightarrow> bytes) \<Rightarrow> string list \<Rightarrow> (CountMap, unit) goact" where
  "CountMap_insert rlp keccak labels =
     andThen (liftR (fingerprint rlp keccak labels)) (\<lambda>key cm.
       case cm (Hash_Hex key) of
         None \<Rightarrow> (Ok (), cm(Hash_Hex key \<mapsto> UInt64 1))
       | Some OtherValue \<Rightarrow> (Err (ErrorString ''could not read uint64 from sync map''), cm)
       | Some (UInt64 n) \<Rightarrow> (Ok (), cm(Hash_Hex key \<mapsto> UInt64 (n + 1))))"

definition CountMap_Get ::
  "(string list \<Rightarrow> go_error + bytes) \<Rightarrow> (bytes \<Rightarrow> bytes) \<Rightarrow> CountMap \<Rightarrow> string list \<Rightarrow> uint64 go" where
  "CountMap_Get rlp keccak cm labels =
     bindR (fingerprint rlp keccak labels) (\<lambda>key.
       case cm (Hash_Hex key) of
         None \<Rightarrow> Err (ErrorString (''value doesn't exist for key '' @ Hash_Hex key))
       | Some OtherValue \<Rightarrow> Err (ErrorString ''could not read uint64 from sync map'')
       | Some (UInt64 n) \<Rightarrow> Ok n)"

record EmulatedMetricer =
  emHTTPServerRequestsTotal :: CountMap
  emSecondaryRequestsTotal :: CountMap

definition NewEmulatedMetricer :: EmulatedMetricer where
  "NewEmulatedMetricer = \<lparr>emHTTPServerRequestsTotal = NewCountMap, emSecondaryRequestsTotal = NewCountMap\<rparr>"

text \<open>The functions that the recorders return; they panic when the insertion fails.\<close>

definition em_RecordRPCServerRequest ::
  "(string list \<Rightarrow> go_error + bytes) \<Rightarrow> (bytes \<Rightarrow> bytes) \<Rightarrow> string \<Rightarrow> string \<Rightarrow> string \<Rightarrow> string \<Rightarrow>
   (EmulatedMetricer, unit) goact" where
  "em_RecordRPCServerRequest rlp keccak meth status mode ver =
     onErr (zoom emHTTPServerRequestsTotal (\<lambda>cm em. em\<lparr>emHTTPServerRequestsTotal := cm\<rparr>)
              (CountMap_insert rlp keccak [meth, mode])) (\<lambda>_. panic)"

definition em_RecordSecondaryRequest ::
  "(string list \<Rightarrow> go_error + bytes) \<Rightarrow> (bytes \<Rightarrow> bytes) \<Rightarrow> string \<Rightarrow> string \<Rightarrow> string \<Rightarrow>
   (EmulatedMetricer, unit) goact" where
  "em_RecordSecondaryRequest rlp keccak x y z =
     onErr (zoom emSecondaryRequestsTotal (\<lambda>cm em. em\<lparr>emSecondaryRequestsTotal := cm\<rparr>)
              (CountMap_insert rlp keccak [x, y, z])) (\<lambda>_. panic)"

section \<open>What the counters count\<close>

text \<open>
  What the counters rely on: the label lists in use have an RLP encoding, and their hashes differ.
\<close>

definition labels_ok :: "(string list \<Rightarrow> go_error + bytes) \<Rightarrow> (bytes \<Rightarrow> bytes) \<Rightarrow> string list set \<Rightarrow> bool" where
  "labels_ok rlp keccak A \<longleftrightarrow>
     (\<forall>ls \<in> A. \<exists>b. rlp (sort ls) = Inr b) \<and>
     (\<forall>ls \<in> A. \<forall>ls' \<in> A. \<forall>b b'. rlp (sort ls) = Inr b \<longrightarrow> rlp (sort ls') = Inr b' \<longrightarrow> keccak b = keccak b' \<longrightarrow>
        sort ls = sort ls')"

text \<open>The abstract state is the multiset of the label multisets inserted so far.\<close>

definition tallies ::
  "(string list \<Rightarrow> go_error + bytes) \<Rightarrow> (bytes \<Rightarrow> bytes) \<Rightarrow> string list set \<Rightarrow> string multiset multiset \<Rightarrow> CountMap \<Rightarrow> bool" where
  "tallies rlp keccak A M cm \<longleftrightarrow>
     (\<forall>ls \<in> A. \<forall>key. fingerprint rlp keccak ls = Ok key \<longrightarrow>
        cm (Hash_Hex key) =
          (let n = count M (mset ls) in if n = 0 then None else Some (UInt64 (of_nat n))))"

lemma sort_eq_mset: "sort xs = sort ys \<longleftrightarrow> mset xs = mset (ys :: 'a :: linorder list)"
  by (metis mset_sort properties_for_sort sorted_sort)

lemma Hash_Hex_inj [simp]: "Hash_Hex a = Hash_Hex b \<longleftrightarrow> a = b"
  by (simp add: Hash_Hex_def hex_inj)

lemma fingerprint_ok:
  assumes "labels_ok rlp keccak A" and "ls \<in> A"
  obtains key where "fingerprint rlp keccak ls = Ok key"
  using assms by (fastforce simp: labels_ok_def fingerprint_def)

lemma fingerprint_eq:
  assumes "labels_ok rlp keccak A" and "ls \<in> A" and "ls' \<in> A"
    and "fingerprint rlp keccak ls = Ok key" and "fingerprint rlp keccak ls' = Ok key'"
  shows "key = key' \<longleftrightarrow> mset ls = mset ls'"
proof -
  obtain b b' where "rlp (sort ls) = Inr b" "keccak b = key" "rlp (sort ls') = Inr b'" "keccak b' = key'"
    using assms(4,5) by (cases "rlp (sort ls)"; cases "rlp (sort ls')") (auto simp: fingerprint_def)
  with assms(1-3) show ?thesis unfolding labels_ok_def sort_eq_mset [symmetric] by (metis sum.inject(2))
qed

lemma tallies_New [simp]: "tallies rlp keccak A {#} NewCountMap"
  by (simp add: tallies_def NewCountMap_def)

lemma insert_tallies:
  assumes "labels_ok rlp keccak A" and "ls \<in> A" and "tallies rlp keccak A M cm"
  shows "\<exists>cm'. CountMap_insert rlp keccak ls cm = (Ok (), cm') \<and> tallies rlp keccak A (add_mset (mset ls) M) cm'"
proof -
  obtain key where key: "fingerprint rlp keccak ls = Ok key" using fingerprint_ok [OF assms(1,2)] .
  let ?n = "count M (mset ls)"
  have cm: "cm (Hash_Hex key) = (if ?n = 0 then None else Some (UInt64 (of_nat ?n)))"
    using assms(2,3) key by (simp add: tallies_def Let_def)
  let ?cm' = "cm(Hash_Hex key \<mapsto> UInt64 (of_nat (Suc ?n)))"
  have "CountMap_insert rlp keccak ls cm = (Ok (), ?cm')"
    using key cm by (simp add: CountMap_insert_def act_simps add.commute)
  moreover have "tallies rlp keccak A (add_mset (mset ls) M) ?cm'"
    unfolding tallies_def Let_def
  proof (intro ballI allI impI)
    fix ls' key' assume l: "ls' \<in> A" "fingerprint rlp keccak ls' = Ok key'"
    show "?cm' (Hash_Hex key') = (if count (add_mset (mset ls) M) (mset ls') = 0 then None
        else Some (UInt64 (of_nat (count (add_mset (mset ls) M) (mset ls')))))"
      using fingerprint_eq [OF assms(1,2) l(1) key l(2)] assms(3) l
      by (auto simp: tallies_def Let_def not_in_iff)
  qed
  ultimately show ?thesis by blast
qed

lemma Get_tallies:
  assumes "labels_ok rlp keccak A" and "ls \<in> A" and "tallies rlp keccak A M cm"
  shows "(\<exists>n. CountMap_Get rlp keccak cm ls = Ok n) \<longleftrightarrow> mset ls \<in># M"
    and "mset ls \<in># M \<Longrightarrow> CountMap_Get rlp keccak cm ls = Ok (of_nat (count M (mset ls)))"
proof -
  obtain key where key: "fingerprint rlp keccak ls = Ok key" using fingerprint_ok [OF assms(1,2)] .
  with assms(2,3) have "cm (Hash_Hex key) = (if mset ls \<in># M then Some (UInt64 (of_nat (count M (mset ls)))) else None)"
    by (auto simp: tallies_def Let_def not_in_iff)
  with key show "(\<exists>n. CountMap_Get rlp keccak cm ls = Ok n) \<longleftrightarrow> mset ls \<in># M"
    and "mset ls \<in># M \<Longrightarrow> CountMap_Get rlp keccak cm ls = Ok (of_nat (count M (mset ls)))"
    by (auto simp: CountMap_Get_def)
qed

section \<open>Replaying what was recorded\<close>

text \<open>The calls that the secondary manager made to its metrics, made to the emulated one.\<close>

fun replay_secondary ::
  "(string list \<Rightarrow> go_error + bytes) \<Rightarrow> (bytes \<Rightarrow> bytes) \<Rightarrow> (string \<times> string \<times> string) list \<Rightarrow> (EmulatedMetricer, unit) goact" where
  "replay_secondary rlp keccak [] = ret ()"
| "replay_secondary rlp keccak ((x, y, z) # log) =
     andThen (em_RecordSecondaryRequest rlp keccak x y z) (\<lambda>_. replay_secondary rlp keccak log)"

abbreviation labels3 :: "string \<times> string \<times> string \<Rightarrow> string list" where
  "labels3 e \<equiv> (case e of (x, y, z) \<Rightarrow> [x, y, z])"

lemma replay_tallies:
  assumes "labels_ok rlp keccak A" and "labels3 ` set log \<subseteq> A" and "tallies rlp keccak A M (emSecondaryRequestsTotal em)"
  shows "\<exists>em'. replay_secondary rlp keccak log em = (Ok (), em') \<and>
     tallies rlp keccak A (mset (map (\<lambda>e. mset (labels3 e)) log) + M) (emSecondaryRequestsTotal em')"
  using assms(2,3)
proof (induction log arbitrary: M em)
  case Nil
  then show ?case by (simp add: ret_def)
next
  case (Cons e log)
  obtain x y z where e: "e = (x, y, z)" by (cases e)
  with Cons.prems(1) have "[x, y, z] \<in> A" by simp
  from insert_tallies [OF assms(1) this Cons.prems(2)]
  obtain cm' where ins: "CountMap_insert rlp keccak [x, y, z] (emSecondaryRequestsTotal em) = (Ok (), cm')"
    and t: "tallies rlp keccak A (add_mset (mset [x, y, z]) M) cm'" by blast
  let ?em = "em\<lparr>emSecondaryRequestsTotal := cm'\<rparr>"
  have "em_RecordSecondaryRequest rlp keccak x y z em = (Ok (), ?em)"
    using ins by (simp add: em_RecordSecondaryRequest_def zoom_def onErr_def)
  moreover have "tallies rlp keccak A (add_mset (mset [x, y, z]) M) (emSecondaryRequestsTotal ?em)" using t by simp
  from Cons.IH [OF _ this] Cons.prems(1) obtain em' where "replay_secondary rlp keccak log ?em = (Ok (), em')"
    "tallies rlp keccak A (mset (map (\<lambda>e. mset (labels3 e)) log) + add_mset (mset [x, y, z]) M) (emSecondaryRequestsTotal em')"
    by auto
  ultimately show ?case by (auto simp: e act_simps)
qed

text \<open>
  Backend names, verbs and statuses are different words, so sorting the labels of a request loses nothing.
\<close>

lemma UNIV_BackendType:
  "UNIV = {EigenDABackendType, EigenDAV2BackendType, MemstoreV1BackendType, MemstoreV2BackendType, S3BackendType,
     RedisBackendType, UnknownBackendType}"
  using BackendType.exhaust by blast

lemma backend_words:
  "range BackendType_String \<inter> {''PUT'', ''GET''} = {}"
  "range BackendType_String \<inter> {''miss'', ''success'', ''failed''} = {}"
  by (simp_all add: UNIV_BackendType)

lemma BackendType_String_inj [simp]: "BackendType_String b = BackendType_String b' \<longleftrightarrow> b = b'"
  by (cases b; cases b') simp_all

definition request_labels :: "(string \<times> string \<times> string) set" where
  "request_labels = range BackendType_String \<times> {''PUT'', ''GET''} \<times> {Miss, Success, Failed}"

lemma three_classes:
  assumes "{x, y, z} = {x', y', z'}" and "{x, x'} \<subseteq> X" and "{y, y'} \<subseteq> Y" and "{z, z'} \<subseteq> Z"
    and "X \<inter> Y = {}" and "X \<inter> Z = {}" and "Y \<inter> Z = {}"
  shows "x = x' \<and> y = y' \<and> z = z'"
proof -
  have "x \<noteq> y'" "x \<noteq> z'" "y \<noteq> x'" "y \<noteq> z'" "z \<noteq> x'" "z \<noteq> y'" using assms(2-7) by auto
  moreover have "x \<in> {x', y', z'}" "y \<in> {x', y', z'}" "z \<in> {x', y', z'}" unfolding assms(1) [symmetric] by simp_all
  ultimately show ?thesis by simp
qed

lemma request_labels_mset:
  assumes "e \<in> request_labels" and "e' \<in> request_labels"
  shows "mset (labels3 e) = mset (labels3 e') \<longleftrightarrow> e = e'"
proof
  assume "mset (labels3 e) = mset (labels3 e')"
  then have eq: "set (labels3 e) = set (labels3 e')" by (metis set_mset_mset)
  let ?V = "{''PUT'', ''GET''}" and ?S = "{''miss'', ''success'', ''failed''}"
  obtain b v st b' v' st' where e: "e = (BackendType_String b, v, st)" "e' = (BackendType_String b', v', st')"
    "{v, v'} \<subseteq> ?V" "{st, st'} \<subseteq> ?S"
    using assms by (auto simp: request_labels_def Miss_def Success_def Failed_def)
  have "?V \<inter> ?S = {}" by simp
  then show "e = e'"
    using three_classes [of "BackendType_String b" v st "BackendType_String b'" v' st' "range BackendType_String" ?V ?S] eq e backend_words
    by simp
qed simp

lemma count_labels:
  assumes "set log \<subseteq> request_labels" and "e \<in> request_labels"
  shows "count (mset (map (\<lambda>e. mset (labels3 e)) log)) (mset (labels3 e)) = count_list log e"
  using assms(1) by (induction log) (auto simp: request_labels_mset [OF _ assms(2)])

text \<open>The value of a counter, 0 if it was never inserted.\<close>

definition counter_value ::
  "(string list \<Rightarrow> go_error + bytes) \<Rightarrow> (bytes \<Rightarrow> bytes) \<Rightarrow> EmulatedMetricer \<Rightarrow> string \<times> string \<times> string \<Rightarrow> nat" where
  "counter_value rlp keccak em e =
     (case CountMap_Get rlp keccak (emSecondaryRequestsTotal em) (labels3 e) of Ok n \<Rightarrow> unat n | _ \<Rightarrow> 0)"

lemma replay_counts:
  assumes "labels_ok rlp keccak (labels3 ` request_labels)" and "set log \<subseteq> request_labels"
  obtains em where "replay_secondary rlp keccak log NewEmulatedMetricer = (Ok (), em)"
    and "\<And>e. e \<in> request_labels \<Longrightarrow>
      (\<exists>n. CountMap_Get rlp keccak (emSecondaryRequestsTotal em) (labels3 e) = Ok n) \<longleftrightarrow> e \<in> set log"
    and "\<And>e. e \<in> set log \<Longrightarrow>
      CountMap_Get rlp keccak (emSecondaryRequestsTotal em) (labels3 e) = Ok (of_nat (count_list log e))"
proof -
  let ?A = "labels3 ` request_labels" and ?M = "mset (map (\<lambda>e. mset (labels3 e)) log)"
  obtain em where run: "replay_secondary rlp keccak log NewEmulatedMetricer = (Ok (), em)"
    and t: "tallies rlp keccak ?A ?M (emSecondaryRequestsTotal em)"
    using replay_tallies [OF assms(1), of log "{#}" NewEmulatedMetricer] assms(2) by (auto simp: NewEmulatedMetricer_def)
  have mem: "mset (labels3 e) \<in># ?M \<longleftrightarrow> e \<in> set log" if "e \<in> request_labels" for e
    using count_labels [OF assms(2) that] by (metis count_list_0_iff count_eq_zero_iff)
  show ?thesis
  proof
    show "replay_secondary rlp keccak log NewEmulatedMetricer = (Ok (), em)" by (rule run)
    fix e
    show "(\<exists>n. CountMap_Get rlp keccak (emSecondaryRequestsTotal em) (labels3 e) = Ok n) \<longleftrightarrow> e \<in> set log"
      if "e \<in> request_labels"
      using Get_tallies(1) [OF assms(1) _ t, of "labels3 e"] mem [OF that] that by simp
    show "CountMap_Get rlp keccak (emSecondaryRequestsTotal em) (labels3 e) = Ok (of_nat (count_list log e))"
      if "e \<in> set log"
    proof -
      from that assms(2) have e: "e \<in> request_labels" by blast
      with Get_tallies(2) [OF assms(1) _ t, of "labels3 e"] mem [OF e] count_labels [OF assms(2) e] that show ?thesis by simp
    qed
  qed
qed

lemma counter_value_count:
  assumes "\<And>e. e \<in> request_labels \<Longrightarrow>
      (\<exists>n. CountMap_Get rlp keccak (emSecondaryRequestsTotal em) (labels3 e) = Ok n) \<longleftrightarrow> e \<in> set log"
    and "\<And>e. e \<in> set log \<Longrightarrow>
      CountMap_Get rlp keccak (emSecondaryRequestsTotal em) (labels3 e) = Ok (of_nat (count_list log e))"
    and "length log < 2 ^ 64" and "e \<in> request_labels"
  shows "counter_value rlp keccak em e = count_list log e"
proof (cases "e \<in> set log")
  case True
  have "count_list log e < 2 ^ 64" using count_le_length [of log e] assms(3) by linarith
  with True assms(2) show ?thesis by (simp add: counter_value_def unat_of_nat take_bit_nat_eq_self)
next
  case False
  with assms(1) [OF assms(4)] show ?thesis
    by (auto simp: counter_value_def count_list_0_iff split: result.splits)
qed

text \<open>The writes to sources of a type with the given outcome.\<close>

definition outcomes :: "BackendType \<Rightarrow> bool \<Rightarrow> 'w SecondaryStore list \<Rightarrow> bool list \<Rightarrow> nat" where
  "outcomes b ok srcs sts = length (filter (\<lambda>(src, st). scBackendType src = b \<and> st = ok) (zip srcs sts))"

lemma write_log_counts:
  assumes "length srcs = length sts"
    and "log = map2 (\<lambda>src ok. (BackendType_String (scBackendType src), ''PUT'', if ok then Success else Failed)) srcs sts"
  shows "count_list log (BackendType_String b, ''PUT'', Success) = outcomes b True srcs sts"
    and "count_list log (BackendType_String b, ''PUT'', Failed) = outcomes b False srcs sts"
    and "set log \<subseteq> request_labels"
proof -
  have "Success \<noteq> Failed" by (simp add: Success_def Failed_def)
  with assms show "count_list log (BackendType_String b, ''PUT'', Success) = outcomes b True srcs sts"
    by (induction srcs sts arbitrary: log rule: list_induct2) (auto simp: outcomes_def)
  from assms \<open>Success \<noteq> Failed\<close> show "count_list log (BackendType_String b, ''PUT'', Failed) = outcomes b False srcs sts"
    by (induction srcs sts arbitrary: log rule: list_induct2) (auto simp: outcomes_def)
  from assms show "set log \<subseteq> request_labels"
    by (induction srcs sts arbitrary: log rule: list_induct2) (auto simp: request_labels_def)
qed

section \<open>Prometheus\<close>

text \<open>
  A vector has a full name, label names, and a number per list of label values: the value of a counter or gauge, the
  number of observations of a histogram. \<^verbatim>\<open>WithLabelValues\<close> panics on the wrong number of values. It also panics on a value
  that is not valid UTF-8; label values are texts here, since the proxy passes methods, status codes, modes, versions and
  backend names only.
\<close>

record metric_vec =
  vecName :: string
  vecLabels :: "string list"
  vecValues :: "string list \<Rightarrow> nat"

definition update_vec :: "(nat \<Rightarrow> nat) \<Rightarrow> string list \<Rightarrow> (metric_vec, unit) goact" where
  "update_vec f ls v =
     (if length ls = length (vecLabels v)
      then (Ok (), v\<lparr>vecValues := (vecValues v)(ls := f (vecValues v ls))\<rparr>) else (Panic, v))"

definition BuildFQName :: "string \<Rightarrow> string \<Rightarrow> string \<Rightarrow> string" where
  "BuildFQName ns subsystem name =
     (if name = [] then []
      else if ns \<noteq> [] \<and> subsystem \<noteq> [] then ns @ ''_'' @ subsystem @ ''_'' @ name
      else if ns \<noteq> [] then ns @ ''_'' @ name
      else if subsystem \<noteq> [] then subsystem @ ''_'' @ name
      else name)"

text \<open>The registry is the set of the names in it; registering one twice, or one that is not a metric name, panics.\<close>

definition name_char :: "char \<Rightarrow> bool" where
  "name_char ch =
     (let n = of_char ch :: nat in
      48 \<le> n \<and> n \<le> 57 \<or> 65 \<le> n \<and> n \<le> 90 \<or> 97 \<le> n \<and> n \<le> 122 \<or> ch = CHR ''_'' \<or> ch = CHR '':'')"

definition is_metric_name :: "string \<Rightarrow> bool" where
  "is_metric_name s = (s \<noteq> [] \<and> list_all name_char s \<and> \<not> (48 \<le> (of_char (hd s) :: nat) \<and> (of_char (hd s) :: nat) \<le> 57))"

definition new_vec :: "string \<Rightarrow> string \<Rightarrow> string list \<Rightarrow> (string set, metric_vec) goact" where
  "new_vec subsystem name labels reg =
     (let fq = BuildFQName ''eigenda_proxy'' subsystem name in
      if is_metric_name fq \<and> fq \<notin> reg
      then (Ok \<lparr>vecName = fq, vecLabels = labels, vecValues = (\<lambda>_. 0)\<rparr>, insert fq reg) else (Panic, reg))"

record Metrics =
  mInfo :: metric_vec
  mUp :: metric_vec
  mHTTPServerRequestsTotal :: metric_vec
  mHTTPServerBadRequestHeader :: metric_vec
  mHTTPServerRequestDurationSeconds :: metric_vec
  mSecondaryRequestsTotal :: metric_vec
  mSecondaryRequestDurationSec :: metric_vec

text \<open>The registry already has the names of the process and Go collectors.\<close>

definition NewMetrics :: "string \<Rightarrow> (string set, Metrics) goact" where
  "NewMetrics subsystem0 =
     (let subsystem = (if subsystem0 = [] then ''default'' else subsystem0);
          http = ''http_server''; secondary = ''secondary'' in
      andThen (new_vec subsystem ''up'' []) (\<lambda>up.
      andThen (new_vec subsystem ''info'' [''version'']) (\<lambda>info.
      andThen (new_vec http ''requests_total'' [''method'', ''status'', ''commitment_mode'', ''cert_version'']) (\<lambda>requests.
      andThen (new_vec http ''requests_bad_header_total'' [''method'', ''error_type'']) (\<lambda>bad.
      andThen (new_vec http ''request_duration_seconds'' [''method'']) (\<lambda>duration.
      andThen (new_vec secondary ''requests_total'' [''backend_type'', ''method'', ''status'']) (\<lambda>srequests.
      andThen (new_vec secondary ''request_duration_seconds'' [''backend_type'']) (\<lambda>sduration.
      ret \<lparr>mInfo = info, mUp = up, mHTTPServerRequestsTotal = requests, mHTTPServerBadRequestHeader = bad,
           mHTTPServerRequestDurationSeconds = duration, mSecondaryRequestsTotal = srequests,
           mSecondaryRequestDurationSec = sduration\<rparr>))))))))"

definition RecordInfo :: "string \<Rightarrow> (Metrics, unit) goact" where
  "RecordInfo version = zoom mInfo (\<lambda>v m. m\<lparr>mInfo := v\<rparr>) (update_vec (\<lambda>_. 1) [version])"

definition RecordUp_metric :: "(Metrics, unit) goact" where
  "RecordUp_metric = zoom mUp (\<lambda>v m. m\<lparr>mUp := v\<rparr>) (update_vec (\<lambda>_. 1) [])"

text \<open>
  The recorders look up the histogram of their labels first and return a function that counts the request and
  observes the duration.
\<close>

definition RecordRPCServerRequest ::
  "string \<Rightarrow> (Metrics, string \<Rightarrow> string \<Rightarrow> string \<Rightarrow> (Metrics, unit) goact) goact" where
  "RecordRPCServerRequest meth =
     andThen (zoom mHTTPServerRequestDurationSeconds (\<lambda>v m. m\<lparr>mHTTPServerRequestDurationSeconds := v\<rparr>)
                (update_vec id [meth])) (\<lambda>_.
     ret (\<lambda>status mode ver.
       andThen (zoom mHTTPServerRequestsTotal (\<lambda>v m. m\<lparr>mHTTPServerRequestsTotal := v\<rparr>)
                  (update_vec Suc [meth, status, mode, ver])) (\<lambda>_.
       zoom mHTTPServerRequestDurationSeconds (\<lambda>v m. m\<lparr>mHTTPServerRequestDurationSeconds := v\<rparr>)
         (update_vec Suc [meth]))))"

definition RecordSecondaryRequest :: "string \<Rightarrow> string \<Rightarrow> (Metrics, string \<Rightarrow> (Metrics, unit) goact) goact" where
  "RecordSecondaryRequest bt meth =
     andThen (zoom mSecondaryRequestDurationSec (\<lambda>v m. m\<lparr>mSecondaryRequestDurationSec := v\<rparr>) (update_vec id [bt])) (\<lambda>_.
     ret (\<lambda>status.
       andThen (zoom mSecondaryRequestsTotal (\<lambda>v m. m\<lparr>mSecondaryRequestsTotal := v\<rparr>)
                  (update_vec Suc [bt, meth, status])) (\<lambda>_.
       zoom mSecondaryRequestDurationSec (\<lambda>v m. m\<lparr>mSecondaryRequestDurationSec := v\<rparr>) (update_vec Suc [bt]))))"

definition noop_RecordRPCServerRequest :: "string \<Rightarrow> (unit, string \<Rightarrow> string \<Rightarrow> string \<Rightarrow> (unit, unit) goact) goact" where
  "noop_RecordRPCServerRequest meth = ret (\<lambda>status mode ver. ret ())"

definition noop_RecordSecondaryRequest :: "string \<Rightarrow> string \<Rightarrow> (unit, string \<Rightarrow> (unit, unit) goact) goact" where
  "noop_RecordSecondaryRequest bt meth = ret (\<lambda>status. ret ())"

section \<open>The metrics interface\<close>

datatype metric_call =
    RPCCall string string string string
  | SecondaryCall string string string

fun run_calls ::
  "(string \<Rightarrow> ('s, string \<Rightarrow> string \<Rightarrow> string \<Rightarrow> ('s, unit) goact) goact) \<Rightarrow>
   (string \<Rightarrow> string \<Rightarrow> ('s, string \<Rightarrow> ('s, unit) goact) goact) \<Rightarrow> metric_call list \<Rightarrow> ('s, unit) goact" where
  "run_calls rpc sec [] = ret ()"
| "run_calls rpc sec (RPCCall meth status mode ver # calls) =
     andThen (rpc meth) (\<lambda>k. andThen (k status mode ver) (\<lambda>_. run_calls rpc sec calls))"
| "run_calls rpc sec (SecondaryCall bt meth status # calls) =
     andThen (sec bt meth) (\<lambda>k. andThen (k status) (\<lambda>_. run_calls rpc sec calls))"

text \<open>
  The contract of \<^verbatim>\<open>Metricer\<close> that handlers and stores rely on: recording returns, and keeps what recording needs.
\<close>

locale metricer =
  fixes ready :: "'s \<Rightarrow> bool"
    and rpc :: "string \<Rightarrow> ('s, string \<Rightarrow> string \<Rightarrow> string \<Rightarrow> ('s, unit) goact) goact"
    and sec :: "string \<Rightarrow> string \<Rightarrow> ('s, string \<Rightarrow> ('s, unit) goact) goact"
  assumes rpc_returns: "ready s \<Longrightarrow> \<exists>k s1. rpc meth s = (Ok k, s1) \<and> ready s1 \<and>
      (\<forall>status mode ver s2. ready s2 \<longrightarrow> (\<exists>s3. k status mode ver s2 = (Ok (), s3) \<and> ready s3))"
    and sec_returns: "ready s \<Longrightarrow> \<exists>k s1. sec bt meth s = (Ok k, s1) \<and> ready s1 \<and>
      (\<forall>status s2. ready s2 \<longrightarrow> (\<exists>s3. k status s2 = (Ok (), s3) \<and> ready s3))"
begin

lemma calls_return: "ready s \<Longrightarrow> \<exists>s'. run_calls rpc sec calls s = (Ok (), s') \<and> ready s'"
proof (induction calls arbitrary: s)
  case Nil
  then show ?case by (simp add: ret_def)
next
  case (Cons c calls)
  show ?case
  proof (cases c)
    case (RPCCall meth status mode ver)
    obtain k s1 s2 where "rpc meth s = (Ok k, s1)" "k status mode ver s1 = (Ok (), s2)" "ready s2"
      using rpc_returns [OF Cons.prems, of meth] by blast
    with RPCCall Cons.IH [of s2] show ?thesis by simp
  next
    case (SecondaryCall bt meth status)
    obtain k s1 s2 where "sec bt meth s = (Ok k, s1)" "k status s1 = (Ok (), s2)" "ready s2"
      using sec_returns [OF Cons.prems, of bt meth] by blast
    with SecondaryCall Cons.IH [of s2] show ?thesis by simp
  qed
qed

end

definition metrics_wf :: "Metrics \<Rightarrow> bool" where
  "metrics_wf m \<longleftrightarrow>
     map (length \<circ> vecLabels) [mUp m, mInfo m, mHTTPServerRequestsTotal m, mHTTPServerBadRequestHeader m,
       mHTTPServerRequestDurationSeconds m, mSecondaryRequestsTotal m, mSecondaryRequestDurationSec m] = [0, 1, 4, 2, 1, 3, 1]"

lemmas recorder_defs = RecordRPCServerRequest_def RecordSecondaryRequest_def zoom_def update_vec_def act_simps

interpretation prometheus: metricer metrics_wf RecordRPCServerRequest RecordSecondaryRequest
  by unfold_locales (auto simp: metrics_wf_def recorder_defs)

interpretation noop: metricer "\<lambda>_. True" noop_RecordRPCServerRequest noop_RecordSecondaryRequest
  by unfold_locales (simp_all add: noop_RecordRPCServerRequest_def noop_RecordSecondaryRequest_def act_simps)

lemma rpc_call:
  assumes "metrics_wf m"
  obtains m1 where "metrics_wf m1"
    and "run_calls RecordRPCServerRequest RecordSecondaryRequest (RPCCall meth status mode ver # calls) m =
      run_calls RecordRPCServerRequest RecordSecondaryRequest calls m1"
    and "vecValues (mHTTPServerRequestsTotal m1) = (vecValues (mHTTPServerRequestsTotal m))
      ([meth, status, mode, ver] := Suc (vecValues (mHTTPServerRequestsTotal m) [meth, status, mode, ver]))"
    and "mSecondaryRequestsTotal m1 = mSecondaryRequestsTotal m"
  by (rule that [of "m\<lparr>mHTTPServerRequestsTotal := snd (update_vec Suc [meth, status, mode, ver] (mHTTPServerRequestsTotal m)),
          mHTTPServerRequestDurationSeconds := snd (update_vec Suc [meth] (mHTTPServerRequestDurationSeconds m))\<rparr>"])
     (use assms in \<open>simp_all add: metrics_wf_def recorder_defs\<close>)

lemma secondary_call:
  assumes "metrics_wf m"
  obtains m1 where "metrics_wf m1"
    and "run_calls RecordRPCServerRequest RecordSecondaryRequest (SecondaryCall bt meth status # calls) m =
      run_calls RecordRPCServerRequest RecordSecondaryRequest calls m1"
    and "vecValues (mSecondaryRequestsTotal m1) = (vecValues (mSecondaryRequestsTotal m))
      ([bt, meth, status] := Suc (vecValues (mSecondaryRequestsTotal m) [bt, meth, status]))"
    and "mHTTPServerRequestsTotal m1 = mHTTPServerRequestsTotal m"
  by (rule that [of "m\<lparr>mSecondaryRequestsTotal := snd (update_vec Suc [bt, meth, status] (mSecondaryRequestsTotal m)),
          mSecondaryRequestDurationSec := snd (update_vec Suc [bt] (mSecondaryRequestDurationSec m))\<rparr>"])
     (use assms in \<open>simp_all add: metrics_wf_def recorder_defs\<close>)

lemma run_calls_counts:
  assumes "metrics_wf m" and "run_calls RecordRPCServerRequest RecordSecondaryRequest calls m = (Ok (), m')"
  shows "vecValues (mSecondaryRequestsTotal m') [bt, meth, status] =
      vecValues (mSecondaryRequestsTotal m) [bt, meth, status] + count_list calls (SecondaryCall bt meth status) \<and>
    vecValues (mHTTPServerRequestsTotal m') [meth, status, mode, ver] =
      vecValues (mHTTPServerRequestsTotal m) [meth, status, mode, ver] + count_list calls (RPCCall meth status mode ver)"
  using assms
proof (induction calls arbitrary: m)
  case Nil
  then show ?case by (simp add: ret_def)
next
  case (Cons c calls)
  show ?case
  proof (cases c)
    case (RPCCall a b e d)
    obtain m1 where "metrics_wf m1" "run_calls RecordRPCServerRequest RecordSecondaryRequest calls m1 = (Ok (), m')"
      "vecValues (mHTTPServerRequestsTotal m1) = (vecValues (mHTTPServerRequestsTotal m))
        ([a, b, e, d] := Suc (vecValues (mHTTPServerRequestsTotal m) [a, b, e, d]))"
      "mSecondaryRequestsTotal m1 = mSecondaryRequestsTotal m"
      using rpc_call [OF Cons.prems(1), of a b e d calls] Cons.prems(2) RPCCall by metis
    with Cons.IH [of m1] RPCCall show ?thesis by auto
  next
    case (SecondaryCall a b e)
    obtain m1 where "metrics_wf m1" "run_calls RecordRPCServerRequest RecordSecondaryRequest calls m1 = (Ok (), m')"
      "vecValues (mSecondaryRequestsTotal m1) = (vecValues (mSecondaryRequestsTotal m))
        ([a, b, e] := Suc (vecValues (mSecondaryRequestsTotal m) [a, b, e]))"
      "mHTTPServerRequestsTotal m1 = mHTTPServerRequestsTotal m"
      using secondary_call [OF Cons.prems(1), of a b e calls] Cons.prems(2) SecondaryCall by metis
    with Cons.IH [of m1] SecondaryCall show ?thesis by auto
  qed
qed

text \<open>Registration: the seven names are valid and different for every subsystem, and none is a name of a collector.\<close>

definition proxy_names :: "string \<Rightarrow> string list" where
  "proxy_names subsystem =
     [''eigenda_proxy_'' @ subsystem @ ''_up'', ''eigenda_proxy_'' @ subsystem @ ''_info'',
      ''eigenda_proxy_http_server_requests_total'', ''eigenda_proxy_http_server_requests_bad_header_total'',
      ''eigenda_proxy_http_server_request_duration_seconds'', ''eigenda_proxy_secondary_requests_total'',
      ''eigenda_proxy_secondary_request_duration_seconds'']"

lemma proxy_names_distinct: "distinct (proxy_names subsystem)"
proof -
  obtain u i ns where n: "proxy_names subsystem = u # i # ns" "last u = CHR ''p''" "last i = CHR ''o''" "u \<noteq> i"
    "ns = drop 2 (proxy_names subsystem)"
    by (simp add: proxy_names_def)
  then have ns: "set (map last ns) \<subseteq> {CHR ''l'', CHR ''s''}" "distinct ns" by (simp_all add: proxy_names_def)
  from ns(1) n(2,3) have "u \<notin> set ns" "i \<notin> set ns" by auto
  with n(1,4) ns(2) show ?thesis by simp
qed

lemma proxy_names_valid:
  assumes "list_all name_char subsystem"
  shows "list_all is_metric_name (proxy_names subsystem)"
  using assms by (simp add: proxy_names_def is_metric_name_def name_char_def)

lemma NewMetrics_Ok:
  assumes "list_all name_char subsystem" and "\<forall>n \<in> reg. take 14 n \<noteq> ''eigenda_proxy_''"
  obtains m reg' where "NewMetrics subsystem reg = (Ok m, reg')" and "metrics_wf m"
    and "\<forall>ls. vecValues (mHTTPServerRequestsTotal m) ls = 0" and "\<forall>ls. vecValues (mSecondaryRequestsTotal m) ls = 0"
proof -
  let ?sub = "if subsystem = [] then ''default'' else subsystem"
  have "list_all name_char ''default''" by (simp add: name_char_def)
  with assms(1) have valid: "list_all is_metric_name (proxy_names ?sub)" by (intro proxy_names_valid) simp
  have fresh: "set (proxy_names ?sub) \<inter> reg = {}"
    using assms(2) by (auto simp: proxy_names_def)
  obtain n1 n2 n3 n4 n5 n6 n7 where p: "proxy_names ?sub = [n1, n2, n3, n4, n5, n6, n7]"
    and fq: "BuildFQName ''eigenda_proxy'' ?sub ''up'' = n1" "BuildFQName ''eigenda_proxy'' ?sub ''info'' = n2"
      "BuildFQName ''eigenda_proxy'' ''http_server'' ''requests_total'' = n3"
      "BuildFQName ''eigenda_proxy'' ''http_server'' ''requests_bad_header_total'' = n4"
      "BuildFQName ''eigenda_proxy'' ''http_server'' ''request_duration_seconds'' = n5"
      "BuildFQName ''eigenda_proxy'' ''secondary'' ''requests_total'' = n6"
      "BuildFQName ''eigenda_proxy'' ''secondary'' ''request_duration_seconds'' = n7"
    by (simp add: proxy_names_def BuildFQName_def)
  from valid fresh proxy_names_distinct [of ?sub] have
    "\<exists>m reg'. NewMetrics subsystem reg = (Ok m, reg') \<and> metrics_wf m \<and>
       (\<forall>ls. vecValues (mHTTPServerRequestsTotal m) ls = 0) \<and> (\<forall>ls. vecValues (mSecondaryRequestsTotal m) ls = 0)"
    unfolding p by (auto simp: NewMetrics_def new_vec_def Let_def fq act_simps metrics_wf_def)
  with that show ?thesis by blast
qed

section \<open>Properties\<close>

text \<open>
  C32: the metrics of the proxy cannot panic. For a subsystem of valid characters, and a registry that has no name of
  the proxy yet, all vectors are registered; after that, every sequence of recorded requests, with any labels, runs
  through, and the two request counters hold for each combination of labels exactly the number of its requests.
\<close>

theorem metrics_count_requests:
  assumes "list_all name_char subsystem" and "\<forall>n \<in> reg. take 14 n \<noteq> ''eigenda_proxy_''"
  shows "\<exists>m reg'. NewMetrics subsystem reg = (Ok m, reg') \<and>
     (\<forall>calls. \<exists>m'. run_calls RecordRPCServerRequest RecordSecondaryRequest calls m = (Ok (), m') \<and> metrics_wf m' \<and>
        (\<forall>meth status mode ver. vecValues (mHTTPServerRequestsTotal m') [meth, status, mode, ver] =
           count_list calls (RPCCall meth status mode ver)) \<and>
        (\<forall>bt meth status. vecValues (mSecondaryRequestsTotal m') [bt, meth, status] =
           count_list calls (SecondaryCall bt meth status)))"
proof -
  obtain m reg' where m: "NewMetrics subsystem reg = (Ok m, reg')" "metrics_wf m"
    "\<forall>ls. vecValues (mHTTPServerRequestsTotal m) ls = 0" "\<forall>ls. vecValues (mSecondaryRequestsTotal m) ls = 0"
    using NewMetrics_Ok [OF assms] .
  have "\<exists>m'. run_calls RecordRPCServerRequest RecordSecondaryRequest calls m = (Ok (), m') \<and> metrics_wf m' \<and>
        (\<forall>meth status mode ver. vecValues (mHTTPServerRequestsTotal m') [meth, status, mode, ver] =
           count_list calls (RPCCall meth status mode ver)) \<and>
        (\<forall>bt meth status. vecValues (mSecondaryRequestsTotal m') [bt, meth, status] =
           count_list calls (SecondaryCall bt meth status))" for calls
    using prometheus.calls_return [OF m(2), of calls] run_calls_counts [OF m(2), of calls] m(3,4) by fastforce
  with m(1) show ?thesis by blast
qed

theorem metrics_count_requests_witness:
  "\<exists>m reg' m'. NewMetrics ''default'' {''go_goroutines''} = (Ok m, reg') \<and>
     run_calls RecordRPCServerRequest RecordSecondaryRequest [SecondaryCall ''S3'' ''PUT'' ''success''] m = (Ok (), m') \<and>
     vecValues (mSecondaryRequestsTotal m') [''S3'', ''PUT'', ''success''] = 1"
proof -
  have d: "list_all name_char ''default''" by (simp add: name_char_def)
  have g: "\<forall>n \<in> {''go_goroutines''}. take 14 n \<noteq> ''eigenda_proxy_''" by simp
  from metrics_count_requests [OF d g] show ?thesis
    by (elim exE conjE) (drule spec [of _ "[SecondaryCall ''S3'' ''PUT'' ''success'']"], auto simp del: run_calls.simps)
qed

text \<open>
  C18: what a redundant write leaves in the counters. When \<^verbatim>\<open>HandleRedundantWrites\<close> returns, it has run the retried
  \<^verbatim>\<open>Put\<close> of every cache and fallback, one after the other, with the keccak hash of the commitment as the key. When its
  recorded requests are given to an \<^verbatim>\<open>EmulatedMetricer\<close>, none of the recordings panics, and read back through \<^verbatim>\<open>Get\<close>,
  the counter of successful writes of a backend type is the number of those writes to backends of the type that
  succeeded, and the counter of failed writes that of those that failed; the write returned no error exactly when one
  of them succeeded. That the labels of a request are sorted and hashed loses nothing, as long as the hashes of
  the label lists differ.
\<close>

theorem write_counters:
  assumes "labels_ok rlp keccak' (labels3 ` request_labels)"
    and "sm_HandleRedundantWrites keccak opRetry sm c v s = (r, s')" and "r \<noteq> Panic" and "r \<noteq> Blocked"
    and "recorded s = []" and "length (caches sm @ fallbacks sm) < 2 ^ 64"
  shows "\<exists>em ws sts. replay_secondary rlp keccak' (recorded s') NewEmulatedMetricer = (Ok (), em) \<and>
     writes_ran opRetry (keccak c) v (caches sm @ fallbacks sm) ws sts \<and> hd ws = world s \<and> last ws = world s' \<and>
     (\<forall>b. counter_value rlp keccak' em (BackendType_String b, ''PUT'', Success) =
            outcomes b True (caches sm @ fallbacks sm) sts \<and>
          counter_value rlp keccak' em (BackendType_String b, ''PUT'', Failed) =
            outcomes b False (caches sm @ fallbacks sm) sts) \<and>
     (r = Ok () \<longleftrightarrow> True \<in> set sts)"
proof -
  obtain ws sts where ran: "writes_ran opRetry (keccak c) v (caches sm @ fallbacks sm) ws sts"
      "hd ws = world s" "last ws = world s'"
    and sts: "recorded s' = map2 (\<lambda>src ok. (BackendType_String (scBackendType src), ''PUT'', if ok then Success else Failed))
       (caches sm @ fallbacks sm) sts" "r = Ok () \<longleftrightarrow> True \<in> set sts"
    using redundant_write_recorded [OF assms(2-4)] unfolding assms(5) append_Nil by metis
  have len: "length (caches sm @ fallbacks sm) = length sts" using ran(1) by (simp add: writes_ran_def)
  note log = write_log_counts [OF len sts(1)]
  obtain em where run: "replay_secondary rlp keccak' (recorded s') NewEmulatedMetricer = (Ok (), em)"
    and num: "\<And>e. e \<in> request_labels \<Longrightarrow> counter_value rlp keccak' em e = count_list (recorded s') e"
  proof (rule replay_counts [OF assms(1) log(3)])
    fix em assume em: "replay_secondary rlp keccak' (recorded s') NewEmulatedMetricer = (Ok (), em)"
      "\<And>e. e \<in> request_labels \<Longrightarrow>
        (\<exists>n. CountMap_Get rlp keccak' (emSecondaryRequestsTotal em) (labels3 e) = Ok n) \<longleftrightarrow> e \<in> set (recorded s')"
      "\<And>e. e \<in> set (recorded s') \<Longrightarrow>
        CountMap_Get rlp keccak' (emSecondaryRequestsTotal em) (labels3 e) = Ok (of_nat (count_list (recorded s') e))"
    have "length (recorded s') < 2 ^ 64" using assms(6) len sts(1) by simp
    from that [OF em(1)] counter_value_count [OF em(2,3) this] show thesis by blast
  qed
  have "(BackendType_String b, ''PUT'', st) \<in> request_labels" if "st \<in> {Success, Failed}" for b st
    using that by (auto simp: request_labels_def)
  with num log(1,2) have "\<forall>b. counter_value rlp keccak' em (BackendType_String b, ''PUT'', Success) =
        outcomes b True (caches sm @ fallbacks sm) sts \<and>
      counter_value rlp keccak' em (BackendType_String b, ''PUT'', Failed) =
        outcomes b False (caches sm @ fallbacks sm) sts" by simp
  with ran sts(2) run show ?thesis by blast
qed

text \<open>An encoding of label lists in which every character is preceded by 1 and every label is ended by 0.\<close>

fun ex_label :: "string \<Rightarrow> bytes" where
  "ex_label [] = [0]"
| "ex_label (ch # s) = 1 # of_nat (of_char ch) # ex_label s"

definition ex_rlp :: "string list \<Rightarrow> go_error + bytes" where
  "ex_rlp ls = Inr (concat (map ex_label ls))"

lemma byte_of_char_inj: "(of_nat (of_char c) :: byte) = of_nat (of_char d) \<longleftrightarrow> c = d"
proof
  assume "(of_nat (of_char c) :: byte) = of_nat (of_char d)"
  then have "unat (of_nat (of_char c) :: byte) = unat (of_nat (of_char d) :: byte)" by simp
  then have "(of_char c :: nat) = of_char d"
    using nat_of_char_less_256 [of c] nat_of_char_less_256 [of d] by (simp add: unat_of_nat)
  then show "c = d" by simp
qed simp

lemma ex_label_append: "ex_label s @ r = ex_label s' @ r' \<longleftrightarrow> s = s' \<and> r = r'"
proof (induction s arbitrary: s')
  case Nil
  then show ?case by (cases s') auto
next
  case (Cons ch s)
  then show ?case by (cases s') (auto simp: byte_of_char_inj)
qed

lemma ex_rlp_inj: "concat (map ex_label xs) = concat (map ex_label ys) \<longleftrightarrow> xs = ys"
proof (induction xs arbitrary: ys)
  case Nil
  have "ex_label y \<noteq> []" for y by (cases y) simp_all
  then show ?case by (cases ys) auto
next
  case (Cons x xs)
  have "ex_label x \<noteq> []" by (cases x) simp_all
  with Cons show ?case by (cases ys) (auto simp: ex_label_append)
qed

lemma ex_sm_statuses:
  assumes "writes_ran (\<lambda>n m. m) key v (caches ex_sm @ fallbacks ex_sm) ws sts"
  shows "sts = [False, True]"
proof -
  have "length sts = 2" using assms by (simp add: writes_ran_def ex_sm_def NewSecondaryManager_def)
  then obtain a b where sts: "sts = [a, b]" by (auto simp: numeral_2_eq_2 length_Suc_conv)
  have "\<forall>i < 2. if sts ! i then scPut ([down_store RedisBackendType, map_store S3BackendType] ! i) key v (ws ! i) = (Ok (), ws ! Suc i)
      else \<exists>e. scPut ([down_store RedisBackendType, map_store S3BackendType] ! i) key v (ws ! i) = (Err e, ws ! Suc i)"
    using assms by (simp add: writes_ran_def ex_sm_def NewSecondaryManager_def)
  from this [rule_format, of 0] this [rule_format, of 1] show ?thesis
    by (auto simp: sts down_store_def map_store_def throw_def split: if_splits)
qed

theorem write_counters_witness:
  "\<exists>s' em. sm_HandleRedundantWrites id (\<lambda>n m. m) ex_sm [1] [7] (sm_init Map.empty) = (Ok (), s') \<and>
     replay_secondary ex_rlp id (recorded s') NewEmulatedMetricer = (Ok (), em) \<and>
     counter_value ex_rlp id em (''S3'', ''PUT'', Success) = 1 \<and> counter_value ex_rlp id em (''S3'', ''PUT'', Failed) = 0 \<and>
     counter_value ex_rlp id em (''Redis'', ''PUT'', Success) = 0 \<and> counter_value ex_rlp id em (''Redis'', ''PUT'', Failed) = 1"
proof -
  obtain s' where run: "sm_HandleRedundantWrites id (\<lambda>n m. m) ex_sm [1] [7] (sm_init Map.empty) = (Ok (), s')"
    by (simp add: sm_HandleRedundantWrites_def ex_sm_def NewSecondaryManager_def down_store_def map_store_def
        act_simps on_world_def zoom_def record_request_def)
  have ok: "labels_ok ex_rlp id (labels3 ` request_labels)"
    by (auto simp: labels_ok_def ex_rlp_def ex_rlp_inj)
  have "length (caches ex_sm @ fallbacks ex_sm) < 2 ^ 64" by (simp add: ex_sm_def NewSecondaryManager_def)
  from write_counters [OF ok run _ _ _ this] obtain em ws sts
    where em: "replay_secondary ex_rlp id (recorded s') NewEmulatedMetricer = (Ok (), em)"
    and ran: "writes_ran (\<lambda>n m. m) [1] [7] (caches ex_sm @ fallbacks ex_sm) ws sts"
    and num: "\<forall>b. counter_value ex_rlp id em (BackendType_String b, ''PUT'', Success) =
          outcomes b True (caches ex_sm @ fallbacks ex_sm) sts \<and>
        counter_value ex_rlp id em (BackendType_String b, ''PUT'', Failed) =
          outcomes b False (caches ex_sm @ fallbacks ex_sm) sts"
    by (auto simp: sm_init_def)
  have "counter_value ex_rlp id em (''S3'', ''PUT'', Success) = 1" "counter_value ex_rlp id em (''S3'', ''PUT'', Failed) = 0"
    "counter_value ex_rlp id em (''Redis'', ''PUT'', Success) = 0" "counter_value ex_rlp id em (''Redis'', ''PUT'', Failed) = 1"
    using num [rule_format, of S3BackendType] num [rule_format, of RedisBackendType]
    by (simp_all add: ex_sm_statuses [OF ran] outcomes_def ex_sm_def NewSecondaryManager_def map_store_def down_store_def)
  with run em show ?thesis by blast
qed

end
