(* ===== verification/Async_Writes.thy ===== *)
theory Async_Writes
  imports Secondary "HOL-Library.Multiset"
begin

text \<open>
  Redundant writes over time: requests that write to the secondary storage themselves or hand notifications to the topic of
  the secondary manager, interleaved with the \<^verbatim>\<open>WriteSubscriptionLoop\<close> goroutines that take and write them
  (\<^verbatim>\<open>store/secondary/secondary.go\<close>), as a step relation with its reachable states.
\<close>

section \<open>What a write is\<close>

text \<open>
  An observer \<open>puts\<close> of the world that notes every write to a backend of the manager: the position of the backend among the
  caches and fallbacks, the key and the value. The writes return, with or without an error.
\<close>

type_synonym 'w observer = "'w \<Rightarrow> (nat \<times> bytes \<times> bytes) list"

definition sees_writes ::
  "'w observer \<Rightarrow> (nat \<Rightarrow> ('w, unit) goact \<Rightarrow> ('w, unit) goact) \<Rightarrow> 'w SecondaryManager \<Rightarrow> bool" where
  "sees_writes puts opRetry sm \<longleftrightarrow>
     (\<forall>i < length (caches sm @ fallbacks sm). \<forall>k v w.
        let (r, w') = opRetry 5 (scPut ((caches sm @ fallbacks sm) ! i) k v) w in
        r \<notin> {Panic, Blocked} \<and> puts w' = puts w @ [(i, k, v)])"

lemma sees_writesD:
  assumes "sees_writes puts opRetry sm" and "i < length (caches sm @ fallbacks sm)"
    and "opRetry 5 (scPut ((caches sm @ fallbacks sm) ! i) k v) w = (r, w')"
  shows "r \<notin> {Panic, Blocked}" and "puts w' = puts w @ [(i, k, v)]"
  using assms(1) [unfolded sees_writes_def, rule_format, OF assms(2), of k v w] assms(3) by simp_all

text \<open>The writes that a notification stands for: its value, under the hash of its commitment, to each backend once.\<close>

definition writes_of :: "(bytes \<Rightarrow> bytes) \<Rightarrow> 'w SecondaryManager \<Rightarrow> PutNotify \<Rightarrow> (nat \<times> bytes \<times> bytes) list" where
  "writes_of keccak sm n =
     map (\<lambda>i. (i, keccak (notifCommitment n), notifValue n)) [0..<length (caches sm @ fallbacks sm)]"

definition all_writes :: "(bytes \<Rightarrow> bytes) \<Rightarrow> 'w SecondaryManager \<Rightarrow> PutNotify list \<Rightarrow> (nat \<times> bytes \<times> bytes) multiset" where
  "all_writes keccak sm ns = mset (concat (map (writes_of keccak sm) ns))"

lemma all_writes_simps [simp]:
  "all_writes keccak sm [] = {#}"
  "all_writes keccak sm (n # ns) = mset (writes_of keccak sm n) + all_writes keccak sm ns"
  "all_writes keccak sm (ns @ ms) = all_writes keccak sm ns + all_writes keccak sm ms"
  by (simp_all add: all_writes_def)

section \<open>Steps\<close>

text \<open>Next to the state of the manager, the writes that requests have asked for so far.\<close>

record 'w async =
  asState :: "'w sm_state"
  asAsked :: "PutNotify list"

definition async_init :: "'w \<Rightarrow> 'w async" where
  "async_init w = \<lparr>asState = sm_init w, asAsked = []\<rparr>"

text \<open>
  A request asks for a write as \<^verbatim>\<open>Manager.Put\<close> does: on the topic if \<^verbatim>\<open>AsyncWriteEntry\<close> holds, else by calling
  \<^verbatim>\<open>HandleRedundantWrites\<close>. The topic is unbuffered: a send goes through when a worker is at its \<^verbatim>\<open>select\<close>, that is, when
  fewer notifications are being written than there are workers; likewise a worker leaves only from its \<^verbatim>\<open>select\<close>. A turn is
  what a worker does with a notification that it took. Anything else, such as reads, may change the backends, the mutex and
  the metrics, but not the workers, and writes nothing to the secondary storage.
\<close>

definition keeps_workers :: "'w sm_state \<Rightarrow> 'w sm_state \<Rightarrow> bool" where
  "keeps_workers s s' \<longleftrightarrow>
     inflight s' = inflight s \<and> liveWorkers s' = liveWorkers s \<and> concurrentWrites s' = concurrentWrites s"

inductive async_step ::
  "'w observer \<Rightarrow> (bytes \<Rightarrow> bytes) \<Rightarrow> (nat \<Rightarrow> ('w, unit) goact \<Rightarrow> ('w, unit) goact) \<Rightarrow> 'w SecondaryManager \<Rightarrow>
   'w async \<Rightarrow> 'w async \<Rightarrow> bool"
  for puts keccak opRetry sm where
  send: "sm_AsyncWriteEntry (asState a) \<Longrightarrow> length (inflight (asState a)) < liveWorkers (asState a) \<Longrightarrow>
    sm_TopicSend n (asState a) = (Ok (), s') \<Longrightarrow>
    async_step puts keccak opRetry sm a (a\<lparr>asState := s', asAsked := asAsked a @ [n]\<rparr>)"
| sync: "\<not> sm_AsyncWriteEntry (asState a) \<Longrightarrow>
    sm_HandleRedundantWrites keccak opRetry sm (notifCommitment n) (notifValue n) (asState a) = (r, s') \<Longrightarrow>
    async_step puts keccak opRetry sm a (a\<lparr>asState := s', asAsked := asAsked a @ [n]\<rparr>)"
| turn: "i < length (inflight (asState a)) \<Longrightarrow> loop_turn keccak opRetry sm i (asState a) = (r, s') \<Longrightarrow>
    async_step puts keccak opRetry sm a (a\<lparr>asState := s'\<rparr>)"
| enter: "async_step puts keccak opRetry sm a (a\<lparr>asState := loop_enter (asState a)\<rparr>)"
| leave: "length (inflight (asState a)) < liveWorkers (asState a) \<Longrightarrow>
    async_step puts keccak opRetry sm a (a\<lparr>asState := loop_leave (asState a)\<rparr>)"
| other: "keeps_workers (asState a) s' \<Longrightarrow> puts (world s') = puts (world (asState a)) \<Longrightarrow>
    async_step puts keccak opRetry sm a (a\<lparr>asState := s'\<rparr>)"

inductive async_reachable ::
  "'w observer \<Rightarrow> (bytes \<Rightarrow> bytes) \<Rightarrow> (nat \<Rightarrow> ('w, unit) goact \<Rightarrow> ('w, unit) goact) \<Rightarrow> 'w SecondaryManager \<Rightarrow> 'w \<Rightarrow>
   'w async \<Rightarrow> bool"
  for puts keccak opRetry sm w where
  init: "async_reachable puts keccak opRetry sm w (async_init w)"
| step: "async_reachable puts keccak opRetry sm w a \<Longrightarrow> async_step puts keccak opRetry sm a a' \<Longrightarrow>
    async_reachable puts keccak opRetry sm w a'"

inductive_cases async_stepE: "async_step puts keccak opRetry sm a a'"

section \<open>Writes leave the workers alone\<close>

lemma keeps_workers_refl [simp]: "keeps_workers s s"
  by (simp add: keeps_workers_def)

lemma keeps_workers_trans: "keeps_workers s s1 \<Longrightarrow> keeps_workers s1 s2 \<Longrightarrow> keeps_workers s s2"
  by (simp add: keeps_workers_def)

lemma write_sources_keeps:
  "write_sources opRetry key v srcs n s = (r, s') \<Longrightarrow> keeps_workers s s'"
proof (induction srcs arbitrary: n s)
  case Nil
  then show ?case by (simp add: ret_def)
next
  case (Cons src srcs)
  have upd: "keeps_workers s (s\<lparr>world := w\<rparr>)" "keeps_workers s (s\<lparr>world := w, recorded := l\<rparr>)" for w l
    by (simp_all add: keeps_workers_def)
  from Cons.prems show ?case
    by (auto simp: act_simps on_world_def zoom_def record_request_def upd
        split: prod.splits result.splits intro: keeps_workers_trans [OF upd(2) Cons.IH])
qed

lemma HandleRedundantWrites_keeps:
  "sm_HandleRedundantWrites keccak opRetry sm c v s = (r, s') \<Longrightarrow> keeps_workers s s'"
  by (auto simp: sm_HandleRedundantWrites_def act_simps split: prod.splits result.splits if_splits
      dest: write_sources_keeps)

section \<open>Writes reach the backends\<close>

lemma write_sources_return:
  assumes "\<forall>src \<in> set srcs. \<forall>w. fst (opRetry 5 (scPut src key v) w) \<notin> {Panic, Blocked}"
  shows "\<exists>m s'. write_sources opRetry key v srcs n s = (Ok m, s')"
  using assms
proof (induction srcs arbitrary: n s)
  case Nil
  then show ?case by (simp add: ret_def)
next
  case (Cons src srcs)
  obtain r w where p: "opRetry 5 (scPut src key v) (world s) = (r, w)" by fastforce
  with Cons.prems have "r \<notin> {Panic, Blocked}" by (metis fst_conv list.set_intros(1))
  with p Cons show ?case
    by (cases r) (auto simp: act_simps on_world_def zoom_def record_request_def)
qed

lemma hd_last_nth:
  assumes "length xs = Suc n"
  shows "last xs = xs ! n \<and> hd xs = xs ! 0"
proof -
  have "xs \<noteq> []" using assms by auto
  then show ?thesis using assms by (simp add: last_conv_nth hd_conv_nth)
qed

lemma writes_ran_puts:
  assumes "writes_ran opRetry key v (caches sm @ fallbacks sm) ws sts" and "sees_writes puts opRetry sm"
  shows "puts (last ws) = puts (hd ws) @ map (\<lambda>i. (i, key, v)) [0..<length (caches sm @ fallbacks sm)]"
proof -
  let ?srcs = "caches sm @ fallbacks sm"
  have "puts (ws ! j) = puts (ws ! 0) @ map (\<lambda>i. (i, key, v)) [0..<j]" if "j \<le> length ?srcs" for j
    using that
  proof (induction j)
    case (Suc j)
    have j: "j < length ?srcs" using Suc.prems by simp
    obtain r where "opRetry 5 (scPut (?srcs ! j) key v) (ws ! j) = (r, ws ! Suc j)"
      using assms(1) j unfolding writes_ran_def by metis
    then have "puts (ws ! Suc j) = puts (ws ! j) @ [(j, key, v)]" by (rule sees_writesD(2) [OF assms(2) j])
    with Suc show ?case by simp
  qed simp
  from this [OF order.refl] have "puts (ws ! length ?srcs) = puts (ws ! 0) @ map (\<lambda>i. (i, key, v)) [0..<length ?srcs]" .
  moreover have "length ws = Suc (length ?srcs)" using assms(1) by (simp only: writes_ran_def)
  from hd_last_nth [OF this] have "last ws = ws ! length ?srcs" "hd ws = ws ! 0" by blast+
  ultimately show ?thesis by (simp only:)
qed

lemma HandleRedundantWrites_puts:
  assumes "sees_writes puts opRetry sm"
  shows "\<exists>r s'. sm_HandleRedundantWrites keccak opRetry sm (notifCommitment n) (notifValue n) s = (r, s') \<and>
     r \<notin> {Panic, Blocked} \<and> puts (world s') = puts (world s) @ writes_of keccak sm n"
proof -
  let ?srcs = "caches sm @ fallbacks sm" and ?k = "keccak (notifCommitment n)" and ?v = "notifValue n"
  have "\<forall>src \<in> set ?srcs. \<forall>w. fst (opRetry 5 (scPut src ?k ?v) w) \<notin> {Panic, Blocked}"
  proof (intro ballI allI)
    fix src w assume "src \<in> set ?srcs"
    then obtain i where "i < length ?srcs" "?srcs ! i = src" unfolding in_set_conv_nth by blast
    with sees_writesD(1) [OF assms] show "fst (opRetry 5 (scPut src ?k ?v) w) \<notin> {Panic, Blocked}" by (metis surjective_pairing)
  qed
  from write_sources_return [where opRetry = opRetry and key = ?k and v = ?v and srcs = ?srcs, OF this]
  obtain m s' where w: "write_sources opRetry ?k ?v ?srcs 0 s = (Ok m, s')" by blast
  from write_sources_recorded [OF w] obtain ws sts where "writes_ran opRetry ?k ?v ?srcs ws sts"
    "hd ws = world s" "last ws = world s'" by blast
  with writes_ran_puts [OF _ assms] have "puts (world s') = puts (world s) @ writes_of keccak sm n"
    unfolding writes_of_def by metis
  with w show ?thesis by (simp add: sm_HandleRedundantWrites_def act_simps)
qed

lemma loop_turn_writes:
  fixes s :: "'w sm_state"
  assumes "sees_writes puts opRetry sm" and "i < length (inflight s)"
  shows "\<exists>s'. loop_turn keccak opRetry sm i s = (Ok (), s') \<and>
    inflight s' = take i (inflight s) @ drop (Suc i) (inflight s) \<and> liveWorkers s' = liveWorkers s \<and>
    concurrentWrites s' = concurrentWrites s \<and> puts (world s') = puts (world s) @ writes_of keccak sm (inflight s ! i)"
proof -
  let ?s = "s\<lparr>inflight := take i (inflight s) @ drop (Suc i) (inflight s)\<rparr>" and ?n = "inflight s ! i"
  obtain r1 s1 where w: "sm_HandleRedundantWrites keccak opRetry sm (notifCommitment ?n) (notifValue ?n) ?s = (r1, s1)"
    "r1 \<notin> {Panic, Blocked}" "puts (world s1) = puts (world ?s) @ writes_of keccak sm ?n"
    using HandleRedundantWrites_puts [OF assms(1), of keccak ?n ?s] by blast
  have "loop_turn keccak opRetry sm i s = (Ok (), s1)"
    using w(1,2) assms(2) by (cases r1) (auto simp: loop_turn_def onErr_def ret_def)
  with w(3) HandleRedundantWrites_keeps [OF w(1)] show ?thesis by (simp add: keeps_workers_def)
qed

lemma all_writes_take_drop:
  assumes "i < length ns"
  shows "all_writes keccak sm ns = mset (writes_of keccak sm (ns ! i)) + all_writes keccak sm (take i ns @ drop (Suc i) ns)"
  using arg_cong [OF id_take_nth_drop [OF assms], of "all_writes keccak sm"] by simp

section \<open>Invariant\<close>

definition async_inv :: "'w observer \<Rightarrow> (bytes \<Rightarrow> bytes) \<Rightarrow> 'w SecondaryManager \<Rightarrow> 'w \<Rightarrow> 'w async \<Rightarrow> bool" where
  "async_inv puts keccak sm w a \<longleftrightarrow>
     mset (puts (world (asState a))) + all_writes keccak sm (inflight (asState a)) =
       mset (puts w) + all_writes keccak sm (asAsked a) \<and>
     length (inflight (asState a)) \<le> liveWorkers (asState a) \<and>
     (0 < liveWorkers (asState a) \<longrightarrow> sm_AsyncWriteEntry (asState a))"

lemma async_inv_init: "async_inv puts keccak sm w (async_init w)"
  by (simp add: async_inv_def async_init_def sm_init_def)

lemma async_inv_step:
  assumes "async_step puts keccak opRetry sm a a'" and "sees_writes puts opRetry sm" and "async_inv puts keccak sm w a"
  shows "async_inv puts keccak sm w a'"
  using assms(1)
proof cases
  case (send n s')
  with assms(3) show ?thesis
    by (auto simp: async_inv_def sm_TopicSend_def sm_AsyncWriteEntry_def add.assoc [symmetric] split: if_splits)
next
  case (sync n r s')
  have "puts (world s') = puts (world (asState a)) @ writes_of keccak sm n" "keeps_workers (asState a) s'"
    using HandleRedundantWrites_puts [OF assms(2), of keccak n "asState a"] HandleRedundantWrites_keeps sync(3) by auto
  with assms(3) sync(1) show ?thesis
    by (auto simp: async_inv_def sm_AsyncWriteEntry_def keeps_workers_def ac_simps)
next
  case (turn i r s')
  from loop_turn_writes [OF assms(2) turn(2), of keccak] turn(3)
  have "inflight s' = take i (inflight (asState a)) @ drop (Suc i) (inflight (asState a))"
    "liveWorkers s' = liveWorkers (asState a)" "concurrentWrites s' = concurrentWrites (asState a)"
    "puts (world s') = puts (world (asState a)) @ writes_of keccak sm (inflight (asState a) ! i)" by auto
  with assms(3) all_writes_take_drop [OF turn(2), of keccak sm] turn(1,2) show ?thesis
    by (auto simp: async_inv_def sm_AsyncWriteEntry_def ac_simps)
qed (use assms(3) in \<open>auto simp: async_inv_def loop_enter_def loop_leave_def keeps_workers_def sm_AsyncWriteEntry_def\<close>)

lemma async_inv_reachable:
  assumes "async_reachable puts keccak opRetry sm w a" and "sees_writes puts opRetry sm"
  shows "async_inv puts keccak sm w a"
  using assms(1)
  by (induction rule: async_reachable.induct) (auto intro: async_inv_init async_inv_step [OF _ assms(2)])

section \<open>Progress\<close>

lemma drain:
  assumes "sees_writes puts opRetry sm"
  shows "\<exists>a'. (async_step puts keccak opRetry sm)\<^sup>*\<^sup>* a a' \<and> inflight (asState a') = [] \<and> asAsked a' = asAsked a"
proof (induction "length (inflight (asState a))" arbitrary: a)
  case 0
  then show ?case by (intro exI [of _ a]) simp
next
  case (Suc n)
  have "0 < length (inflight (asState a))" unfolding Suc.hyps(2) [symmetric] by simp
  from loop_turn_writes [OF assms this, of keccak] obtain s' where
    t: "loop_turn keccak opRetry sm 0 (asState a) = (Ok (), s')" "inflight s' = drop 1 (inflight (asState a))" by auto
  let ?a = "a\<lparr>asState := s'\<rparr>"
  have "async_step puts keccak opRetry sm a ?a" using async_step.turn [OF \<open>0 < _\<close> t(1)] .
  moreover obtain a' where "(async_step puts keccak opRetry sm)\<^sup>*\<^sup>* ?a a'" "inflight (asState a') = []"
    "asAsked a' = asAsked ?a"
    using Suc.hyps(1) [of ?a] Suc.hyps(2) [symmetric] t(2) by auto
  ultimately show ?case by (intro exI [of _ a']) (simp add: converse_rtranclp_into_rtranclp [of _ a ?a])
qed

section \<open>Properties\<close>

text \<open>
  C17: every redundant write that was asked for reaches every backend exactly once. Over any interleaving of requests that
  write themselves or send to the workers, worker turns, workers that start and stop, and other requests, in every reachable
  state: the writes that the backends have seen, together with those of the notifications that workers hold, are the
  writes seen before and, for each one asked for, one write of its value under the hash of its commitment to each cache and
  fallback; a worker holds at most one notification; and requests are asynchronous while a worker lives. The workers get
  from there to a state in which they hold nothing and the backends have seen all the writes that were asked for.
\<close>

theorem accepted_writes_finish:
  assumes "async_reachable puts keccak opRetry sm w a" and "sees_writes puts opRetry sm"
  shows "mset (puts (world (asState a))) + all_writes keccak sm (inflight (asState a)) =
       mset (puts w) + all_writes keccak sm (asAsked a) \<and>
     length (inflight (asState a)) \<le> liveWorkers (asState a) \<and>
     (0 < liveWorkers (asState a) \<longrightarrow> sm_AsyncWriteEntry (asState a)) \<and>
     (\<exists>a'. (async_step puts keccak opRetry sm)\<^sup>*\<^sup>* a a' \<and> asAsked a' = asAsked a \<and> inflight (asState a') = [] \<and>
        mset (puts (world (asState a'))) = mset (puts w) + all_writes keccak sm (asAsked a))"
proof -
  have inv: "async_inv puts keccak sm w a" by (rule async_inv_reachable [OF assms])
  obtain a' where a': "(async_step puts keccak opRetry sm)\<^sup>*\<^sup>* a a'" "inflight (asState a') = []" "asAsked a' = asAsked a"
    using drain [OF assms(2)] by blast
  from a'(1) assms(1) have "async_reachable puts keccak opRetry sm w a'"
    by (induction rule: rtranclp_induct) (auto intro: async_reachable.step)
  from async_inv_reachable [OF this assms(2)] a'(2,3)
  have "mset (puts (world (asState a'))) = mset (puts w) + all_writes keccak sm (asAsked a)" by (simp add: async_inv_def)
  with inv a' show ?thesis unfolding async_inv_def by blast
qed

text \<open>Two backends that keep a log of the writes to them, of which the first is down.\<close>

definition log_store :: "nat \<Rightarrow> bool \<Rightarrow> BackendType \<Rightarrow> (nat \<times> bytes \<times> bytes) list SecondaryStore" where
  "log_store i up b =
     \<lparr>scPut = (\<lambda>k v l. (if up then Ok () else Err (ErrorString ''down''), l @ [(i, k, v)])), scGet = (\<lambda>k. ret None),
      scVerify = (\<lambda>k v. ret ()), scBackendType = b\<rparr>"

definition ex_log_sm :: "(nat \<times> bytes \<times> bytes) list SecondaryManager" where
  "ex_log_sm = NewSecondaryManager [log_store 0 False RedisBackendType] [log_store 1 True S3BackendType] False"

theorem accepted_writes_finish_witness:
  "\<exists>a a'. async_reachable id id (\<lambda>n m. m) ex_log_sm [] a \<and> world (asState a) = [] \<and>
     (async_step id id (\<lambda>n m. m) ex_log_sm)\<^sup>*\<^sup>* a a' \<and>
     mset (world (asState a')) = {#(0, [1], [7]), (1, [1], [7])#}"
proof -
  let ?n = "\<lparr>notifCommitment = [1], notifValue = [7]\<rparr>" and ?step = "async_step id id (\<lambda>n m. m) ex_log_sm"
  define a1 :: "(nat \<times> bytes \<times> bytes) list async"
    where "a1 = (async_init [])\<lparr>asState := loop_enter (sm_init [])\<rparr>"
  define a where "a = a1\<lparr>asState := (asState a1)\<lparr>inflight := [?n]\<rparr>, asAsked := [?n]\<rparr>"
  have "?step (async_init []) a1"
    using async_step.enter [of id id "\<lambda>n m. m" ex_log_sm "async_init []"] by (simp add: a1_def async_init_def)
  moreover have "?step a1 a"
    using async_step.send [of a1 ?n "(asState a1)\<lparr>inflight := [?n]\<rparr>" id id "\<lambda>n m. m" ex_log_sm]
    by (simp add: a_def a1_def async_init_def loop_enter_def sm_init_def sm_TopicSend_def sm_AsyncWriteEntry_def)
  ultimately have r: "async_reachable id id (\<lambda>n m. m) ex_log_sm [] a" by (blast intro: async_reachable.intros)
  have w: "sees_writes id (\<lambda>n m. m) ex_log_sm"
    by (auto simp: sees_writes_def ex_log_sm_def NewSecondaryManager_def log_store_def less_Suc_eq)
  from accepted_writes_finish [OF r w] obtain a' where "?step\<^sup>*\<^sup>* a a'"
    "mset (world (asState a')) = all_writes id ex_log_sm (asAsked a)" by auto
  moreover have "all_writes id ex_log_sm (asAsked a) = {#(0, [1], [7]), (1, [1], [7])#}" "world (asState a) = []"
    by (simp_all add: a_def a1_def async_init_def writes_of_def ex_log_sm_def NewSecondaryManager_def loop_enter_def sm_init_def)
  ultimately show ?thesis using r by auto
qed

end
