(* ===== verification/Spec2Isabelle.thy ===== *)
theory Spec2Isabelle
  imports Proxy Merkle Metrics Async_Writes
begin

text \<open>
  \<^bold>\<open>EigenDA proxy.\<close> The proxy is an HTTP server in front of EigenDA: a rollup POSTs a payload and gets back a
  commitment; later it GETs the payload under this commitment. At start-up the command line is read into a
  configuration (\<^verbatim>\<open>config/\<close>, the \<^verbatim>\<open>cli.go\<close> files), which is checked and from which the stores and the storage manager
  are built (\<^verbatim>\<open>store/builder\<close>). A request passes the router, four middlewares and a handler (\<^verbatim>\<open>server/\<close>), which calls
  the storage manager (\<^verbatim>\<open>store/manager.go\<close>). The manager disperses to and reads from the EigenDA V1 or V2 store
  (\<^verbatim>\<open>store/generated_key\<close>), or an in-memory store that stands in for it, keeps redundant copies in caches and
  fallbacks through the secondary manager (\<^verbatim>\<open>store/secondary\<close>), which may write them in the background, and stores
  keccak commitments in S3. An admin endpoint switches the dispersal backend while the server runs; metrics count
  requests (\<^verbatim>\<open>metrics/\<close>). Go clients for the proxy and for the configuration of the memstore are in \<^verbatim>\<open>clients/\<close>.

  \<^bold>\<open>How the code is modelled.\<close> A Go function that reads or changes state is an action, a function from a
  state to a result and a state; a result is \<open>Ok\<close>, \<open>Err\<close>, \<open>Panic\<close>, or \<open>Blocked\<close> for a call that never
  returns (a lock that is held, a send nobody receives). \<open>andThen\<close>, \<open>mapErr\<close>, \<open>attempt\<close> and \<open>onErr\<close> are
  the ways the code looks at an error; \<open>zoom\<close> runs an action on a part of the state. Structs are records,
  enumerations are words or strings as in the code, \<^verbatim>\<open>[]byte\<close> is a list of 8-bit words, a nil interface is \<open>None\<close>,
  goroutines are step relations. Code outside the repository (the disperser and its retrievers, the Ethereum node and
  contracts, ABI and RLP encoding, the KZG library, the Redis and S3 clients, \<^verbatim>\<open>gorilla/mux\<close>, \<^verbatim>\<open>urfave/cli\<close>,
  \<^verbatim>\<open>retry-go\<close>, the random source, the network between client and server) is an argument; where a theorem needs
  something of it, that is a named hypothesis (\<open>mux_documented\<close>, \<open>retry_documented\<close>, \<open>rand_documented\<close>,
  \<open>fromError_documented\<close>, \<open>prefix_documented\<close>, \<open>connected\<close>, \<open>config_connected\<close>, \<open>labels_ok\<close>, \<open>sees_writes\<close>).

  \<^bold>\<open>Theories.\<close>
  \<^item> \<open>Prelude\<close>: machine types, actions, hexadecimal and decimal text. \<open>Go_Errors\<close>: error values, \<^verbatim>\<open>errors.Is\<close> and
    \<^verbatim>\<open>errors.As\<close>, the HTTP status of an error (\<^verbatim>\<open>common/proxyerrors\<close>).
  \<^item> \<open>Commitments\<close>, \<open>Common\<close>, \<open>Bytes_Amount\<close>, \<open>Stores\<close>: \<^verbatim>\<open>common/\<close>, sizes such as \<^verbatim>\<open>16MiB\<close> with the rounding of
    floating-point products, the store interfaces, retries, and the key-value contracts \<open>kv_store\<close> and \<open>write_once_store\<close>.
  \<^item> \<open>Ephemeral_DB\<close>: the in-memory database, its configuration API and its pruning goroutine as the step relation
    \<open>mem_step\<close>; invariants by rule induction; it is a \<open>write_once_store\<close>.
  \<^item> \<open>MemStore\<close>: both memstores over it; both are interpretations of \<open>generated_key_store\<close>.
  \<^item> \<open>Cert_V1\<close>, \<open>Merkle\<close>, \<open>Verifier_V1\<close>, \<open>EigenDA_V1\<close>: V1 certificates, inclusion proofs against trees, certificate
    and commitment verification, the V1 store.
  \<^item> \<open>EigenDA_V2\<close>: the V2 store with the recency check on 64-bit words.
  \<^item> \<open>Secondary\<close>, \<open>Async_Writes\<close>, \<open>Secondary_Stores\<close>: redundant writes and reads, the write workers as the step relation
    \<open>async_step\<close>, Redis and S3; the secondary manager interprets \<open>redundant_storage\<close>.
  \<^item> \<open>Metrics\<close>: the Prometheus vectors and the counters kept in memory, refined to a multiset; the contract \<open>metricer\<close>.
  \<^item> \<open>Manager\<close>: the storage manager over any such storage (\<open>manager_storage\<close>).
  \<^item> \<open>Server\<close>, \<open>Routing\<close>: handlers, middlewares, the route table and dispatch.
  \<^item> \<open>Config\<close>, \<open>Flags\<close>, \<open>App_Config\<close>: the configuration records with their checks and the redaction of secrets, the
    tables of all command line flags with their actions, and the readers from the command line.
  \<^item> \<open>Builder\<close>, \<open>Startup\<close>: the construction of the storage manager, the logger, and the entry point with the trace of its
    events.
  \<^item> \<open>Clients\<close>, \<open>Proxy\<close>: the two Go clients, and the composition of client, router, handlers, built manager and
    memstore.
  This theory holds the properties of the whole.

  \<^bold>\<open>What is shown.\<close> Safety of what is returned (certificates and payloads were verified, inclusion proofs are sound
  and complete, keccak values hash to their key), functional behaviour of the handlers on every outcome, round
  trips from a client to the database and back, exactness and wrap-around of the 64-bit recency check, invariants of
  the database and of the write workers over all interleavings and that every write asked for reaches every backend
  once, bounds on retries,
  what a checked configuration guarantees to the builder and the builder to the manager, that logs hide secrets and
  counters count; and the places where the code does something else than it means to: a panic that leaves a mutex
  locked, a version byte taken from another backend, a status lost through fallbacks, unverified cached payloads, a
  patch that is rejected and applied, a nil pointer in an interface. Where a comment or the README says something else
  than a theorem, as on the version byte of V2, the status of an unknown version byte and the deprecated flags, the
  theorem is about the code.

  \<^bold>\<open>Bounds.\<close> Loops of the code are structural recursion on the list or number they iterate over; retry loops
  recurse on the number of attempts; none needs fuel. Retrying for ever (a negative number of tries) is left to the
  retry argument. Counters of Prometheus are natural numbers; the library keeps them as floating-point numbers, which are
  exact up to \<open>2 ^ 53\<close>.

  \<^bold>\<open>Not modelled.\<close> Log lines, contexts and their cancellation, sockets, measured durations, usage texts of flags, parsing
  of the command line by the library, and the construction of third-party clients beyond its success or error; two
  redundant writes, or a configuration patch and a pruning iteration, that overlap in time: one comes after the other;
  \<^verbatim>\<open>cmd/server/main.go\<close>, which only hands over to the entry point, and the helpers of the tests.
\<close>

section \<open>Properties\<close>

text \<open>
  C2: the standard client gets back what it stored. For a client of \<^verbatim>\<open>clients/standard_client\<close> connected to a proxy
  that \<^verbatim>\<open>BuildStoreManager\<close> built from a configuration for the V2 memstore, without caches, fallbacks and expiration:
  when \<^verbatim>\<open>SetData\<close> returns a certificate, \<^verbatim>\<open>GetData\<close> of it returns the same bytes, over any interleaving of steps of
  the database in between.
\<close>

theorem client_roundtrip:
  assumes "mux_documented mux" and "fromError_documented (envFromError env)"
    and "\<And>v b. EncodeBlob (apiBlobCodec api) v = Inr b \<Longrightarrow> DecodeBlob (apiBlobCodec api) b = Inr v"
    and "\<And>cert b. apiRlpV3 api cert = Inr b \<Longrightarrow> b \<noteq> []"
    and "v2_memstore_config c" and "BlobExpiration (bcMemstoreConfig c) \<le> 0" and "own_world (apiMem2 api)"
    and "BuildStoreManager api scheduled c secrets s = (Ok m, ms)"
    and "length v \<le> maxPOSTRequestBodySize" and "\<forall>meth u. newRequest meth u = None"
    and "connected t base render (serve mux env sc m id)"
    and "std_SetData asText newRequest t (std_New t base []) v ms = (Ok comm, ms1)"
    and "mem_steps nf' pd (mem_of (world ms1)) (mem_of (world ms2))"
  shows "\<exists>ms3. std_GetData asText newRequest (std_New t base []) comm ms2 = (Ok v, ms3)"
proof (rule built_mem_served [OF assms(8,5,7)])
  fix g1
  assume b: "mem_served (MemV2_store (apiRand api) (apiNotFound api) (apiKeccak api) (apiBlobCommitment api g1)
      (apiBlobCodec api) (apiRlpV3 api)) m"
    "dispersalBackend ms = Some V2EigenDABackend" "cfg (world ms) = bcMemstoreConfig c" "mem_inv (mem_of (world ms))"
  have "BlobExpiration (cfg (world ms)) \<le> 0" using assms(6) b(3) by simp
  from client_served_roundtrip [OF assms(1-4) b(2) this b(4) assms(9,10) b(1) assms(11-13)] show ?thesis .
qed

text \<open>
  C1: the proxy returns what it was given. On a proxy over the V2 memstore without expiration, in the
  standard or the generic commitment mode: when a dispersal request is answered with status 200, its body
  is one commitment, and from then on, over any interleaving of insertions, configuration patches,
  pruning iterations and the passing of time, a request for the hexadecimal commitment, with or
  without \<^verbatim>\<open>0x\<close>, with any valid inclusion block number and whatever the admin endpoint has done to the
  dispersal backend, is answered with status 200 and exactly the payload of the first request. The
  router is assumed to match as documented, the blob codec to decode what it encoded, and the RLP
  encoding of a certificate to be non-empty.
\<close>

theorem proxy_roundtrip:
  assumes "mux_documented mux" and "fromError_documented (envFromError env)"
    and "\<And>v b. EncodeBlob codec v = Inr b \<Longrightarrow> DecodeBlob codec b = Inr v"
    and "\<And>cert b. rlp cert = Inr b \<Longrightarrow> b \<noteq> []"
    and "cert_mode mode" and "dispersalBackend ms = Some V2EigenDABackend"
    and "BlobExpiration (cfg (world ms)) \<le> 0" and "mem_inv (mem_of (world ms))"
    and "reqMethod post = ''POST''" and "reqPath post = ''/put''"
    and "(reqQuery post ''commitment_mode'' = ''standard'') \<longleftrightarrow> mode = StandardCommitmentMode"
    and "length (reqBody post) \<le> maxPOSTRequestBodySize" and "reqReadError post = None" and "reqWriteError post = None"
    and "mem_served (MemV2_store R nf keccak gc codec rlp) m"
    and "serve mux env c m id post ms = Some (Ok (), s1)" and "respStatus (resp s1) = Some 200"
  shows "\<exists>bs. respBody (resp s1) = [Bytes bs] \<and>
    (\<forall>pre get n ms2 nf' pd.
       pre \<in> {[], ''0x''} \<and> reqMethod get = ''GET'' \<and> reqPath get = get_path pre bs \<and>
       ((reqQuery get ''commitment_mode'' = ''standard'') \<longleftrightarrow> mode = StandardCommitmentMode) \<and>
       parseCommitmentInclusionL1BlockNumQueryParam get = Ok n \<and> reqWriteError get = None \<and>
       mem_steps nf' pd (mem_of (world (mgrState s1))) (mem_of (world ms2)) \<longrightarrow>
       (\<exists>s2. serve mux env c m id get ms2 = Some (Ok (), s2) \<and>
          resp s2 = \<lparr>respStatus = Some 200, respHeaders = [], respBody = [Bytes (reqBody post)]\<rparr>))"
  using assms by (rule serve_roundtrip)

abbreviation ex_proxy :: "unit mem_world Manager" where
  "ex_proxy \<equiv>
     \<lparr>mgrS3 = None, mgrEigenda = None,
      mgrEigendaV2 = Some (lift_v2 (MemV2_store ex_rand id pad32 (\<lambda>b. Inr (1, 2)) ex_blob_codec (\<lambda>c. Inr [1]))),
      mgrSecondary = SecondaryManager_ISecondary pad32 (\<lambda>n m. m) (NewSecondaryManager [] [] False)\<rparr>"

lemma ex_proxy_served: "mem_served (MemV2_store ex_rand id pad32 (\<lambda>b. Inr (1, 2)) ex_blob_codec (\<lambda>c. Inr [1])) ex_proxy"
  by (auto simp: mem_served_def)

definition ex_put :: request where
  "ex_put = ex_post\<lparr>reqPath := ''/put''\<rparr>"

lemma ex_put_served:
  "\<exists>s1. serve first_match ex_env ex_config ex_proxy id ex_put (mgr_init ex_mem V2EigenDABackend) = Some (Ok (), s1) \<and>
     resp s1 = \<lparr>respStatus = Some 200, respHeaders = [], respBody = [Bytes [1, 0, 2, 1]]\<rparr>"
proof -
  let ?ms = "mgr_init ex_mem V2EigenDABackend" and ?mode = OptimismGenericCommitmentMode
  obtain w where "MemV2_Put ex_rand id pad32 (\<lambda>b. Inr (1, 2)) ex_blob_codec (\<lambda>c. Inr [1]) [7] ex_mem = (Ok [1], w)"
    using ex_MemV2_Put by blast
  with mem_served_Put [OF ex_proxy_served, of ?mode ?ms "reqBody ex_put"]
  have put: "Manager_Put ex_proxy ?mode (reqBody ex_put) ?ms = (Ok [1], ?ms\<lparr>world := w\<rparr>)"
    by (simp add: cert_mode_def mgr_init_def on_world_def zoom_def MemV2_store_def ex_put_def ex_post_def)
  obtain vars where v: "serve first_match ex_env ex_config ex_proxy id ex_put ?ms =
      Some (WithCertMiddlewares (envErrorText ex_env) (envFromError ex_env) (handlePostShared ex_proxy id ?mode) ?mode
              (ex_put\<lparr>reqVars := vars\<rparr>) (fresh ?ms))"
    using serve_post [OF mux_first_match, of ?mode ex_put ex_env ex_config ex_proxy id ?ms]
    by (auto simp: cert_mode_def ex_put_def ex_post_def ex_request_def)
  show ?thesis
    using post_response [of "ex_put\<lparr>reqVars := vars\<rparr>" chain_code ?mode ex_proxy ?ms "Ok [1]" "?ms\<lparr>world := w\<rparr>" id
        V2EigenDABackend V2VersionByte "envErrorText ex_env"] put v
    by (auto simp: ex_put_def ex_post_def ex_request_def ex_env_def cert_mode_def mgr_init_def chain_code_documented
        dispersal_version_def maxPOSTRequestBodySize_def NewVersionedCert_def V2VersionByte_def)
qed

theorem proxy_roundtrip_witness:
  "\<exists>s1 s2. serve first_match ex_env ex_config ex_proxy id ex_put (mgr_init ex_mem V2EigenDABackend) = Some (Ok (), s1) \<and>
     respBody (resp s1) = [Bytes [1, 0, 2, 1]] \<and>
     serve first_match ex_env ex_config ex_proxy id (ex_request\<lparr>reqPath := ''/get/0x01000201''\<rparr>) (mgrState s1) =
       Some (Ok (), s2) \<and>
     resp s2 = \<lparr>respStatus = Some 200, respHeaders = [], respBody = [Bytes [7]]\<rparr>"
proof -
  let ?get = "ex_request\<lparr>reqPath := ''/get/0x01000201''\<rparr>" and ?ms = "mgr_init ex_mem V2EigenDABackend"
  obtain s1 where s1: "serve first_match ex_env ex_config ex_proxy id ex_put ?ms = Some (Ok (), s1)"
    and r: "resp s1 = \<lparr>respStatus = Some 200, respHeaders = [], respBody = [Bytes [1, 0, 2, 1]]\<rparr>"
    using ex_put_served by blast
  have path: "reqPath ?get = get_path ''0x'' [1, 0, 2, 1]"
    by (simp add: get_path_def hex_EncodeToString_def byte_hex_def hexdigit_def)
  have "mem_inv (mem_of (world ?ms))" using ex_mem_inv by (simp add: mgr_init_def)
  note rt = proxy_roundtrip [where mode = OptimismGenericCommitmentMode, OF mux_first_match _ _ _ _ _ _ this
      _ _ _ _ _ _ ex_proxy_served s1]
  obtain bs where bs: "respBody (resp s1) = [Bytes bs]"
    and get: "\<forall>pre get n ms2 nf' pd.
       pre \<in> {[], ''0x''} \<and> reqMethod get = ''GET'' \<and> reqPath get = get_path pre bs \<and>
       ((reqQuery get ''commitment_mode'' = ''standard'') \<longleftrightarrow> OptimismGenericCommitmentMode = StandardCommitmentMode) \<and>
       parseCommitmentInclusionL1BlockNumQueryParam get = Ok n \<and> reqWriteError get = None \<and>
       mem_steps nf' pd (mem_of (world (mgrState s1))) (mem_of (world ms2)) \<longrightarrow>
       (\<exists>s2. serve first_match ex_env ex_config ex_proxy id get ms2 = Some (Ok (), s2) \<and>
          resp s2 = \<lparr>respStatus = Some 200, respHeaders = [], respBody = [Bytes (reqBody ex_put)]\<rparr>)"
    by (rule rt [THEN exE])
       (use r in \<open>auto simp: ex_put_def ex_post_def ex_request_def ex_env_def ex_blob_codec_def cert_mode_def
          mgr_init_def ex_mem_def SetBlobExpiration_def maxPOSTRequestBodySize_def\<close>)
  have "\<exists>s2. serve first_match ex_env ex_config ex_proxy id ?get (mgrState s1) = Some (Ok (), s2) \<and>
      resp s2 = \<lparr>respStatus = Some 200, respHeaders = [], respBody = [Bytes (reqBody ex_put)]\<rparr>"
    by (rule get [rule_format, where pre = "''0x''" and n = 0 and nf' = id and pd = "\<lambda>s. Inl (ErrorString s)"])
       (use bs r path in \<open>simp add: mem_steps.refl ex_request_def parseCommitmentInclusionL1BlockNumQueryParam_def\<close>)
  with s1 r show ?thesis by (auto simp: ex_put_def ex_post_def)
qed

abbreviation ex_mem_config :: BuilderConfig where
  "ex_mem_config \<equiv> ex_builder_config\<lparr>bcMemstoreConfig := SetBlobExpiration 0 ex_memconfig\<rparr>"

lemma ex_mem_config_v2: "v2_memstore_config ex_mem_config"
  by (simp add: v2_memstore_config_def ex_builder_config_def v1_enabled_def v2_enabled_def)

lemma ex_mem_built:
  "\<exists>m. BuildStoreManager ex_builder_api 1 ex_mem_config ex_secrets ex_mgr_state =
     (Ok m, ex_mgr_state\<lparr>dispersalBackend := Some V2EigenDABackend\<rparr>)"
  by (simp add: BuildStoreManager_def ex_builder_defs build_s3_def build_redis_def build_kzg_def build_v1_def build_v2_def
      v1_enabled_def v2_enabled_def buildEigenDAV2Backend_def mem_start_def mode_simps Let_def act_simps on_world_def
      zoom_def NewManager_def ex_lens_def SetDispersalBackend_def NewSecondaryManager_def sm_Enabled_def
      sm_CachingEnabled_def sm_FallbackEnabled_def ex_mem_def)

lemma ex_own_world: "own_world (apiMem2 ex_builder_api)"
  by (simp add: ex_builder_api_def ex_lens_def own_world_def)

lemma ex_built_put:
  assumes "BuildStoreManager ex_builder_api 1 ex_mem_config ex_secrets ex_mgr_state = (Ok m, ms)"
    and "world ms = ex_mem"
  shows "\<exists>ms'. Manager_Put m StandardCommitmentMode [7] ms = (Ok [9], ms') \<and> dispersalBackend ms' = Some V2EigenDABackend"
proof (rule built_mem_served [OF assms(1) ex_mem_config_v2 ex_own_world])
  fix g1
  assume b: "mem_served (MemV2_store (apiRand ex_builder_api) (apiNotFound ex_builder_api) (apiKeccak ex_builder_api)
      (apiBlobCommitment ex_builder_api g1) (apiBlobCodec ex_builder_api) (apiRlpV3 ex_builder_api)) m"
    and be: "dispersalBackend ms = Some V2EigenDABackend"
  obtain w where "MemV2_Put ex_rand id pad32 (\<lambda>b. Inr (1, 2)) ex_blob_codec (\<lambda>c. Inr [9]) [7] ex_mem = (Ok [9], w)"
    using ex_MemV2_Put by blast
  with mem_served_Put [OF b _ be] be assms(2) show ?thesis
    by (simp add: cert_mode_def on_world_def zoom_def MemV2_store_def ex_builder_api_def)
qed

theorem client_roundtrip_witness:
  "\<exists>m t ms ms1 ms2. BuildStoreManager ex_builder_api 1 ex_mem_config ex_secrets ex_mgr_state = (Ok m, ms) \<and>
     std_SetData (\<lambda>b. []) (\<lambda>m u. None) t (std_New t [] []) [7] ms = (Ok [2, 9], ms1) \<and>
     std_GetData (\<lambda>b. []) (\<lambda>m u. None) (std_New t [] []) [2, 9] ms1 = (Ok [7], ms2)"
proof -
  let ?ms = "ex_mgr_state\<lparr>dispersalBackend := Some V2EigenDABackend\<rparr>"
  obtain m where build: "BuildStoreManager ex_builder_api 1 ex_mem_config ex_secrets ex_mgr_state = (Ok m, ?ms)"
    using ex_mem_built by blast
  let ?srv = "serve first_match ex_env ex_config m id"
  let ?t = "ex_transport [] ex_render ?srv"
  have conn: "connected ?t [] ex_render ?srv" by (rule ex_transport_connected)
  obtain ms' where put: "Manager_Put m StandardCommitmentMode [7] ?ms = (Ok [9], ms')"
    and be: "dispersalBackend ms' = Some V2EigenDABackend"
    using ex_built_put [OF build] by (auto simp: ex_mgr_state_def)
  have doc: "fromError_documented (envFromError ex_env)" by (simp add: ex_env_def chain_code_documented)
  have len: "length [7 :: byte] \<le> maxPOSTRequestBodySize" by (simp add: maxPOSTRequestBodySize_def)
  obtain s where s: "?srv (standard_request ''POST'' ''/put'' [7]) ?ms = Some (Ok (), s)"
    and r: "resp s = \<lparr>respStatus = Some 200, respHeaders = [], respBody = [Bytes [2, 9]]\<rparr>"
    using standard_put_served [OF mux_first_match doc len put _ be, of V2VersionByte ex_config]
    by (auto simp: dispersal_version_def EncodeCommitment_def NewVersionedCert_def VersionedCert_Encode_def
        StandardCommitment_Encode_def V2VersionByte_def cert_mode_def)
  have set: "std_SetData (\<lambda>b. []) (\<lambda>m u. None) ?t (std_New ?t [] []) [7] ?ms = (Ok [2, 9], mgrState s)"
    using connected_SetData [OF conn s, of "\<lambda>m u. None" "std_New ?t [] []"] r
    by (simp add: std_New_def received_def ex_render_def)
  have "\<exists>ms3. std_GetData (\<lambda>b. []) (\<lambda>m u. None) (std_New ?t [] []) [2, 9] (mgrState s) = (Ok [7], ms3)"
    by (rule client_roundtrip [OF mux_first_match doc _ _ ex_mem_config_v2 _ ex_own_world build len _ conn set mem_steps.refl])
       (auto simp: ex_blob_codec_def ex_builder_api_def SetBlobExpiration_def)
  with build set show ?thesis by blast
qed

text \<open>
  C14: the failover signal. When the dispersal of a payload that a client of \<^verbatim>\<open>clients/standard_client\<close> sends fails,
  \<^verbatim>\<open>SetData\<close> fails as well; it fails with \<^verbatim>\<open>ErrServiceUnavailable\<close>, which tells a rollup to post elsewhere,
  exactly when the error is one of those that the proxy classifies as unavailability of EigenDA, and with an
  error that names the status otherwise. This holds whatever HTTP clients the client was configured with, since
  \<^verbatim>\<open>SetData\<close> uses the default one.
\<close>

theorem failover_signal:
  assumes "mux_documented mux" and "fromError_documented (envFromError env)"
    and "length v \<le> maxPOSTRequestBodySize" and "\<forall>meth u. newRequest meth u = None"
    and "connected t base render (serve mux env c m id)"
    and "Manager_Put m StandardCommitmentMode v ms = (Err e, ms')"
    and "dispersalBackend ms' = Some backend" and "backend \<in> {V1EigenDABackend, V2EigenDABackend}"
  shows "\<exists>e' ms2. std_SetData asText newRequest t (std_New t base (map WithHTTPClient ts)) v ms = (Err e', ms2) \<and>
     (e' = ErrServiceUnavailable \<longleftrightarrow>
        Is503 e \<and> \<not> Is400 e \<and> \<not> Is418 e \<and> \<not> Is429 (envFromError env) e) \<and>
     (e' = ErrServiceUnavailable \<or>
      (\<exists>body. e' = ErrorString (''received error response when dispersing to eigenda-proxy, code='' @
         decimal (error_status (envFromError env) e) @ '', err = '' @ body)))"
proof -
  let ?cl = "std_New t base (map WithHTTPClient ts)" and ?code = "error_status (envFromError env) e"
  have cl: "stdURL ?cl = base" by (rule stdURL_New)
  have ver: "\<exists>ver. dispersal_version backend = Ok ver" using assms(8) by (auto simp: dispersal_version_def)
  then obtain s where s: "serve mux env c m id (standard_request ''POST'' ''/put'' v) ms = Some (Ok (), s)"
    and r: "respStatus (resp s) = Some ?code"
    using standard_put_served [OF assms(1-3,6) _ assms(7), of _ c] by fastforce
  have ne: "?code \<noteq> 200" by (rule error_status_not_200)
  let ?msg = "\<lambda>body. ErrorString (''received error response when dispersing to eigenda-proxy, code='' @ decimal ?code @
      '', err = '' @ body)"
  have noText: "?msg body \<noteq> ErrServiceUnavailable" for body by (simp add: ErrServiceUnavailable_def)
  note setData = connected_SetData [OF assms(5) s assms(4) cl, of asText]
  show ?thesis
  proof (cases "?code = 503")
    case True
    with setData r have "std_SetData asText newRequest t ?cl v ms = (Err ErrServiceUnavailable, mgrState s)"
      by (simp add: received_def)
    with True show ?thesis unfolding error_status_503 by blast
  next
    case False
    with setData r ne have "\<exists>body. std_SetData asText newRequest t ?cl v ms = (Err (?msg body), mgrState s)"
      by (auto simp: received_def Let_def)
    with False noText show ?thesis unfolding error_status_503 by blast
  qed
qed

theorem failover_signal_witness:
  "\<exists>t ms2. std_SetData (\<lambda>b. []) (\<lambda>m u. None) t (std_New t [] []) [7] (mgr_init () V2EigenDABackend) =
     (Err ErrServiceUnavailable, ms2)"
proof -
  define e where "e = ExternalError ''disperser is down'' None True None"
  define m where "m = ex_mgr\<lparr>mgrEigendaV2 := Some (ex_da2 e)\<rparr>"
  let ?srv = "serve first_match ex_env ex_config m id"
  have put: "Manager_Put m StandardCommitmentMode [7] (mgr_init () V2EigenDABackend) = (Err e, mgr_init () V2EigenDABackend)"
    by (simp add: Manager_Put_def putToCorrectEigenDABackend_def m_def mgr_init_def act_simps ex_da2_def)
  have doc: "fromError_documented (envFromError ex_env)" by (simp add: ex_env_def chain_code_documented)
  have st: "Is503 e" "\<not> Is400 e" "\<not> Is418 e" "\<not> Is429 (envFromError ex_env) e"
    by (simp_all add: e_def Is400_def Is418_def Is429_def Is503_def errors_Is_def ex_env_def)
  show ?thesis
    using failover_signal [OF mux_first_match doc _ _ ex_transport_connected [of "[]" ?srv] put,
        of "\<lambda>m u. None" V2EigenDABackend "\<lambda>b. []" "[]"] st
    by (auto simp: maxPOSTRequestBodySize_def mgr_init_def)
qed

end
